(* ===== verification/Prelude.thy ===== *)
theory Prelude
  imports Main "HOL-Library.Word"
begin

text \<open>
  What every component shares: the machine types of \<open>libcpu/types.h\<close>, run-time faults as
  values, bounds-checked array reads and writes, and the parts of C's \<open>snprintf\<close> that
  the disassemblers use. The collections \<open>res\<close> and \<open>bits\<close> hold the rewrite rules
  for the fault monad and for tests of flag bits.
\<close>

unbundle bit_operations_syntax

named_theorems res \<open>rewrite rules of the fault monad\<close>
named_theorems bits \<open>rewrite rules for flag words\<close>

section \<open>Machine types\<close>

type_synonym byte = "8 word"
type_synonym addr = "64 word"
type_synonym ram = "addr \<Rightarrow> byte"

section \<open>Faults\<close>

text \<open>
  Where the C++ has undefined behaviour or leaves the process, the model has a value:
  reading a variable that was never written, dereferencing NULL, indexing an array out of its
  bounds, writing past a buffer, overflowing a signed integer, \<open>exit(1)\<close>, a failed
  \<open>assert\<close>, and a call that never returns.
\<close>

datatype fault =
    Indeterminate
  | NullDeref
  | OutOfBounds
  | BufferOverflow
  | SignedOverflow
  | ExitFailure
  | AssertFailure
  | Diverges

type_synonym 'a res = "fault + 'a"

definition res_bind :: "'a res \<Rightarrow> ('a \<Rightarrow> 'b res) \<Rightarrow> 'b res" where
  "res_bind m f = (case m of Inl e \<Rightarrow> Inl e | Inr x \<Rightarrow> f x)"

lemma res_bind_simps [simp, res, code]:
  "res_bind (Inl e) f = Inl e"
  "res_bind (Inr x) f = f x"
  by (simp_all add: res_bind_def)

lemma res_bind_cong [fundef_cong]:
  assumes "m = m'" and "\<And>x. m' = Inr x \<Longrightarrow> f x = f' x"
  shows "res_bind m f = res_bind m' f'"
  using assms by (cases m') (auto simp: res_bind_def)

lemma res_bind_Inr_iff: "res_bind m f = Inr y \<longleftrightarrow> (\<exists>x. m = Inr x \<and> f x = Inr y)"
  by (cases m) (auto simp: res_bind_def)

lemma res_bind_InrE:
  assumes "res_bind m f = Inr y"
  obtains x where "m = Inr x" and "f x = Inr y"
  using assms by (auto simp: res_bind_Inr_iff)

text \<open>\<open>res_ok P m\<close>: the run \<open>m\<close> does not fault and its result satisfies \<open>P\<close>.\<close>

definition res_ok :: "('a \<Rightarrow> bool) \<Rightarrow> 'a res \<Rightarrow> bool" where
  "res_ok P m \<longleftrightarrow> (case m of Inl e \<Rightarrow> False | Inr x \<Rightarrow> P x)"

lemma res_ok_simps [simp, res]:
  "res_ok P (Inl e) \<longleftrightarrow> False"
  "res_ok P (Inr x) \<longleftrightarrow> P x"
  by (simp_all add: res_ok_def)

lemma res_ok_bind [res]:
  "res_ok P (res_bind m f) \<longleftrightarrow> res_ok (\<lambda>x. res_ok P (f x)) m"
  by (cases m) simp_all

lemma res_ok_mono: "res_ok P m \<Longrightarrow> (\<And>x. m = Inr x \<Longrightarrow> P x \<Longrightarrow> Q x) \<Longrightarrow> res_ok Q m"
  by (cases m) simp_all

lemma res_okE:
  assumes "res_ok P m"
  obtains x where "m = Inr x" and "P x"
  using assms by (cases m) simp_all

text \<open>Reading a local variable that may never have been written.\<close>

definition rd :: "'a option \<Rightarrow> 'a res" where
  "rd v = (case v of None \<Rightarrow> Inl Indeterminate | Some x \<Rightarrow> Inr x)"

lemma rd_simps [simp, res, code]: "rd None = Inl Indeterminate" "rd (Some x) = Inr x"
  by (simp_all add: rd_def)

lemma rd_Inr_iff [simp]: "rd v = Inr x \<longleftrightarrow> v = Some x"
  by (cases v) auto

text \<open>Reading and writing an array of known length.\<close>

definition nth_res :: "'a list \<Rightarrow> nat \<Rightarrow> 'a res" where
  "nth_res xs i = (if i < length xs then Inr (xs ! i) else Inl OutOfBounds)"

definition upd_res :: "'a list \<Rightarrow> nat \<Rightarrow> 'a \<Rightarrow> 'a list res" where
  "upd_res xs i x = (if i < length xs then Inr (xs[i := x]) else Inl OutOfBounds)"

lemma nth_res_Inr_iff: "nth_res xs i = Inr x \<longleftrightarrow> i < length xs \<and> xs ! i = x"
  by (auto simp: nth_res_def)

lemma nth_res_in [simp]: "i < length xs \<Longrightarrow> nth_res xs i = Inr (xs ! i)"
  by (simp add: nth_res_def)

lemma upd_res_Inr_iff: "upd_res xs i x = Inr ys \<longleftrightarrow> i < length xs \<and> ys = xs[i := x]"
  by (auto simp: upd_res_def)

section \<open>Flag words\<close>

text \<open>The C idiom \<open>if (v & m)\<close>.\<close>

definition has :: "'a::len word \<Rightarrow> 'a word \<Rightarrow> bool" where
  "has v m \<longleftrightarrow> v AND m \<noteq> 0"

lemma has_or [bits]: "has (v OR w) m \<longleftrightarrow> has v m \<or> has w m"
  by (simp add: has_def bit.conj_disj_distrib2 or_eq_0_iff)

lemma has_or_mask [bits]: "has v (m OR n) \<longleftrightarrow> has v m \<or> has v n"
  by (simp add: has_def bit.conj_disj_distrib or_eq_0_iff)

lemma has_numeral [bits]:
  "has (numeral m :: 'a::len word) (numeral n) \<longleftrightarrow> (numeral m :: 'a word) AND numeral n \<noteq> 0"
  "has (1 :: 'a word) (numeral n) \<longleftrightarrow> (1 :: 'a word) AND numeral n \<noteq> 0"
  "has (numeral m :: 'a word) 1 \<longleftrightarrow> (numeral m :: 'a word) AND 1 \<noteq> 0"
  by (simp_all add: has_def)

lemma has_mono:
  assumes "t AND t' = t" and "has t m"
  shows "has t' m"
proof (rule ccontr)
  assume "\<not> has t' m"
  then have "t' AND m = 0" by (simp add: has_def)
  then have "(t AND t') AND m = 0" by (simp add: and.assoc)
  then show False unfolding assms(1) using assms(2) by (simp add: has_def)
qed

lemma has_zero [bits, simp]: "\<not> has 0 m" "\<not> has v 0"
  by (simp_all add: has_def)

section \<open>Small words\<close>

text \<open>A word is below a power of two exactly if it has no higher bit.\<close>

lemma small_word_iff: "unat w < 2 ^ k \<longleftrightarrow> (\<forall>n. bit w n \<longrightarrow> n < k)" for w :: "'a::len word"
proof
  assume "unat w < 2 ^ k"
  then have "take_bit k (unat w) = unat w" by (rule take_bit_nat_eq_self)
  then have "take_bit k w = w" by (simp add: word_unat_eq_iff unsigned_take_bit_eq)
  then show "\<forall>n. bit w n \<longrightarrow> n < k" by (metis bit_take_bit_iff)
next
  assume "\<forall>n. bit w n \<longrightarrow> n < k"
  then have "take_bit k w = w" by (intro bit_word_eqI) (auto simp: bit_simps)
  then have "unat w = take_bit k (unat w)" by (metis unsigned_take_bit_eq)
  then show "unat w < 2 ^ k" by (metis take_bit_nat_less_exp)
qed

lemma byte_bit: "8 \<le> n \<Longrightarrow> \<not> bit (b :: byte) n"
  by (auto dest: bit_imp_le_length)

end
