(* ===== verification/Tags.thy ===== *)
theory Tags
  imports Prelude
begin

text \<open>
  The vocabulary that the code discovery of \<open>libcpu/tag.cpp\<close> and the frontends share
  (\<open>libcpu/tag.h\<close>): the bits of a tag, the out-parameters of a frontend's
  \<open>tag_instr\<close>, and the contract a frontend owes its callers, stated as a locale.
\<close>

type_synonym tag = "16 word"

abbreviation TAG_CONTINUE :: tag where "TAG_CONTINUE \<equiv> 0x0001"
abbreviation TAG_CALL :: tag where "TAG_CALL \<equiv> 0x0002"
abbreviation TAG_RET :: tag where "TAG_RET \<equiv> 0x0004"
abbreviation TAG_BRANCH :: tag where "TAG_BRANCH \<equiv> 0x0008"
abbreviation TAG_TRAP :: tag where "TAG_TRAP \<equiv> 0x0010"
abbreviation TAG_CONDITIONAL :: tag where "TAG_CONDITIONAL \<equiv> 0x0020"
abbreviation TAG_DELAY_SLOT :: tag where "TAG_DELAY_SLOT \<equiv> 0x0040"
abbreviation TAG_COND_BRANCH :: tag where "TAG_COND_BRANCH \<equiv> TAG_BRANCH OR TAG_CONDITIONAL"
abbreviation TAG_CODE :: tag where "TAG_CODE \<equiv> 0x0080"
abbreviation TAG_BRANCH_TARGET :: tag where "TAG_BRANCH_TARGET \<equiv> 0x0100"
abbreviation TAG_SUBROUTINE :: tag where "TAG_SUBROUTINE \<equiv> 0x0200"
abbreviation TAG_AFTER_CALL :: tag where "TAG_AFTER_CALL \<equiv> 0x0400"
abbreviation TAG_AFTER_COND :: tag where "TAG_AFTER_COND \<equiv> 0x0800"
abbreviation TAG_ENTRY :: tag where "TAG_ENTRY \<equiv> 0x1000"
abbreviation TAG_AFTER_TRAP :: tag where "TAG_AFTER_TRAP \<equiv> 0x2000"
abbreviation TAG_TRANSLATED :: tag where "TAG_TRANSLATED \<equiv> 0x4000"
abbreviation TAG_UNKNOWN :: tag where "TAG_UNKNOWN \<equiv> 0"

text \<open>The bits only the core sets; no frontend returns them.\<close>

abbreviation TAG_INTERNAL :: tag where "TAG_INTERNAL \<equiv> 0xFF80"

abbreviation NEW_PC_NONE :: addr where "NEW_PC_NONE \<equiv> - 1"

text \<open>
  \<open>int tag_instr(cpu, pc, tag_t *tag, addr_t *new_pc, addr_t *next_pc)\<close>: what the call
  returns and what it writes; a field is \<^const>\<open>None\<close> where the call leaves the variable
  as it was. The same record holds the caller's three local variables, \<^const>\<open>None\<close>
  while nothing has been written to them.
\<close>

record tag_vars =
  v_tag :: "tag option"
  v_new_pc :: "addr option"
  v_next_pc :: "addr option"

type_synonym tag_fn = "addr \<Rightarrow> (int \<times> tag_vars) res"

definition no_vars :: tag_vars where
  "no_vars = \<lparr>v_tag = None, v_new_pc = None, v_next_pc = None\<rparr>"

definition assign_outs :: "tag_vars \<Rightarrow> tag_vars \<Rightarrow> tag_vars" where
  "assign_outs out loc = \<lparr>
     v_tag = (case v_tag out of None \<Rightarrow> v_tag loc | Some t \<Rightarrow> Some t),
     v_new_pc = (case v_new_pc out of None \<Rightarrow> v_new_pc loc | Some a \<Rightarrow> Some a),
     v_next_pc = (case v_next_pc out of None \<Rightarrow> v_next_pc loc | Some a \<Rightarrow> Some a)\<rparr>"

text \<open>
  What \<open>tag_recursive\<close> and the translators read after a call: the tag and \<open>next_pc\<close>
  always, \<open>new_pc\<close> only after a call or a branch.
\<close>

definition tag_contract :: "tag_vars \<Rightarrow> bool" where
  "tag_contract v \<longleftrightarrow>
     (case v_tag v of None \<Rightarrow> False
      | Some t \<Rightarrow> \<not> has t TAG_INTERNAL \<and> v_next_pc v \<noteq> None \<and>
          (has t TAG_CALL \<or> has t TAG_BRANCH \<longrightarrow> v_new_pc v \<noteq> None))"

lemma tag_contractE:
  assumes "tag_contract v"
  obtains t np where "v_tag v = Some t" and "v_next_pc v = Some np" and "\<not> has t TAG_INTERNAL"
    and "has t TAG_CALL \<or> has t TAG_BRANCH \<longrightarrow> v_new_pc v \<noteq> None"
  using assms
  by (auto simp: tag_contract_def split: option.splits)

lemma assign_outs_contract:
  assumes "tag_contract out" and "v_tag out = Some t"
  shows "v_tag (assign_outs out loc) = Some t"
    and "v_next_pc (assign_outs out loc) = v_next_pc out"
    and "has t TAG_CALL \<or> has t TAG_BRANCH \<Longrightarrow> v_new_pc (assign_outs out loc) = v_new_pc out"
  using assms
  by (auto elim!: tag_contractE simp: assign_outs_def split: option.splits)

lemma internal_bits:
  assumes "\<not> has t TAG_INTERNAL" and "m AND TAG_INTERNAL = m"
  shows "\<not> has t m"
proof -
  have "t AND m = (t AND TAG_INTERNAL) AND m"
    using assms(2) by (metis and.assoc and.commute)
  with assms(1) show ?thesis by (simp add: has_def)
qed

section \<open>The frontend interface\<close>

text \<open>
  \<open>decodable\<close> are the addresses the frontend can decode. The core calls \<open>tag_instr\<close> and
  relies on nothing else.
\<close>

locale tag_frontend =
  fixes tag_instr :: tag_fn
    and decodable :: "addr \<Rightarrow> bool"
  assumes honours: "decodable pc \<Longrightarrow> res_ok (\<lambda>(len, v). tag_contract v) (tag_instr pc)"
begin

lemma tag_instr_written:
  assumes "decodable pc"
  obtains len v t np where "tag_instr pc = Inr (len, v)" and "v_tag v = Some t"
    and "v_next_pc v = Some np" and "\<not> has t TAG_INTERNAL" and "tag_contract v"
proof -
  from honours [OF assms] obtain len v where r: "tag_instr pc = Inr (len, v)" and c: "tag_contract v"
    by (auto elim!: res_okE)
  from c show thesis
    by (rule tag_contractE) (use r c that in blast)
qed

end

end
