(* ===== verification/Tagger.thy ===== *)
theory Tagger
  imports Tags
begin

text \<open>
  Code discovery, \<open>libcpu/tag.cpp\<close>: the depth-first search that associates every
  reachable instruction of the code area with a tag. The state is the part of \<open>cpu_t\<close>
  (\<open>libcpu/libcpu.h\<close>) the tagging reads and writes.
\<close>

section \<open>State\<close>

record cpu =
  code_start :: addr
  code_end :: addr
  flags_codegen :: "32 word"
  flags_debug :: "32 word"
  flags_hint :: "32 word"
  RAM :: ram
  tag_mem :: "tag list option"
  tags_dirty :: bool
  file_entries :: "byte list option"
  code_digest :: "byte list"

text \<open>
  \<open>tag_mem\<close> is \<open>cpu->tag\<close>: NULL until \<open>init_tagging\<close> allocates one tag per byte of the
  code area. \<open>file_entries\<close> is the entry cache opened for appending, as the bytes written
  to it so far.
\<close>

abbreviation CPU_CODEGEN_TAG_LIMIT :: "32 word" where "CPU_CODEGEN_TAG_LIMIT \<equiv> 0x4"
abbreviation CPU_DEBUG_SINGLESTEP :: "32 word" where "CPU_DEBUG_SINGLESTEP \<equiv> 0x1"
abbreviation CPU_DEBUG_SINGLESTEP_BB :: "32 word" where "CPU_DEBUG_SINGLESTEP_BB \<equiv> 0x2"
abbreviation CPU_DEBUG_INTEL_SYNTAX :: "32 word" where "CPU_DEBUG_INTEL_SYNTAX \<equiv> 0x40"
abbreviation CPU_HINT_TRAP_RETURNS :: "32 word" where "CPU_HINT_TRAP_RETURNS \<equiv> 0x1"
abbreviation CPU_HINT_TRAP_RETURNS_TWICE :: "32 word" where "CPU_HINT_TRAP_RETURNS_TWICE \<equiv> 0x2"

definition LIMIT_TAGGING_DFS :: nat where "LIMIT_TAGGING_DFS = 6"

section \<open>Access functions\<close>

definition is_inside_code_area :: "cpu \<Rightarrow> addr \<Rightarrow> bool" where
  "is_inside_code_area cpu a \<longleftrightarrow> code_start cpu \<le> a \<and> a < code_end cpu"

definition tag_index :: "cpu \<Rightarrow> addr \<Rightarrow> nat" where
  "tag_index cpu a = unat (a - code_start cpu)"

definition or_tag :: "cpu \<Rightarrow> addr \<Rightarrow> tag \<Rightarrow> cpu res" where
  "or_tag cpu a t =
     (if is_inside_code_area cpu a then
        case tag_mem cpu of None \<Rightarrow> Inl NullDeref
        | Some ts \<Rightarrow>
            res_bind (nth_res ts (tag_index cpu a)) (\<lambda>old.
            res_bind (upd_res ts (tag_index cpu a) (old OR t)) (\<lambda>ts'.
            Inr (cpu\<lparr>tag_mem := Some ts'\<rparr>)))
      else Inr cpu)"

definition get_tag :: "cpu \<Rightarrow> addr \<Rightarrow> tag res" where
  "get_tag cpu a =
     (if is_inside_code_area cpu a then
        case tag_mem cpu of None \<Rightarrow> Inl NullDeref
        | Some ts \<Rightarrow> nth_res ts (tag_index cpu a)
      else Inr TAG_UNKNOWN)"

definition is_code :: "cpu \<Rightarrow> addr \<Rightarrow> bool res" where
  "is_code cpu a = res_bind (get_tag cpu a) (\<lambda>t. Inr (has t TAG_CODE))"

lemma tag_mem_frame [simp]:
  "is_inside_code_area (c\<lparr>tag_mem := x\<rparr>) a = is_inside_code_area c a"
  "tag_index (c\<lparr>tag_mem := x\<rparr>) a = tag_index c a"
  by (simp_all add: is_inside_code_area_def tag_index_def)

section \<open>Growth of the tags\<close>

text \<open>
  \<open>grows c c'\<close>: \<open>c'\<close> differs from \<open>c\<close> in the tags only, and no tag bit of \<open>c\<close> is lost.
\<close>

definition grows :: "cpu \<Rightarrow> cpu \<Rightarrow> bool" where
  "grows c c' \<longleftrightarrow>
     (\<exists>tm. c' = c\<lparr>tag_mem := tm\<rparr> \<and>
        rel_option (list_all2 (\<lambda>t t'. t AND t' = t)) (tag_mem c) tm)"

lemma grows_refl [simp, intro]: "grows c c"
proof -
  have "c = c\<lparr>tag_mem := tag_mem c\<rparr>" by simp
  moreover have "rel_option (list_all2 (\<lambda>t t'. t AND t' = t)) (tag_mem c) (tag_mem c)"
    by (rule option.rel_refl) (rule list_all2_refl, simp)
  ultimately show ?thesis unfolding grows_def by blast
qed

lemma grows_trans [trans]:
  assumes "grows a b" and "grows b c"
  shows "grows a c"
proof -
  have and_trans: "x AND z = x" if "x AND y = x" and "y AND z = y" for x y z :: tag
    using that by (metis and.assoc)
  have list: "list_all2 (\<lambda>t t'. t AND t' = t) xs zs"
    if "list_all2 (\<lambda>t t'. t AND t' = t) xs ys" and "list_all2 (\<lambda>t t'. t AND t' = t) ys zs"
    for xs ys zs :: "tag list"
    using list_all2_trans [of "\<lambda>t t'. t AND t' = t" "\<lambda>t t'. t AND t' = t" "\<lambda>t t'. t AND t' = t"]
      and_trans that by blast
  obtain tb where b: "b = a\<lparr>tag_mem := tb\<rparr>"
      and rb: "rel_option (list_all2 (\<lambda>t t'. t AND t' = t)) (tag_mem a) tb"
    using assms(1) by (auto simp: grows_def)
  obtain tc where c: "c = b\<lparr>tag_mem := tc\<rparr>"
      and rc: "rel_option (list_all2 (\<lambda>t t'. t AND t' = t)) (tag_mem b) tc"
    using assms(2) by (auto simp: grows_def)
  have "rel_option (list_all2 (\<lambda>t t'. t AND t' = t)) (tag_mem a) tc"
    using rb rc list unfolding b by (auto simp: option_rel_Some1 option_rel_Some2 elim!: option.rel_cases)
  then show ?thesis using b c by (auto simp: grows_def)
qed

lemma grows_frame:
  assumes "grows c c'"
  shows "code_start c' = code_start c" "code_end c' = code_end c" "RAM c' = RAM c"
    "flags_codegen c' = flags_codegen c" "flags_debug c' = flags_debug c"
    "flags_hint c' = flags_hint c" "tags_dirty c' = tags_dirty c"
    "file_entries c' = file_entries c" "code_digest c' = code_digest c"
  using assms by (auto simp: grows_def)

lemma grows_inside: "grows c c' \<Longrightarrow> is_inside_code_area c' a = is_inside_code_area c a"
  by (auto simp: grows_def is_inside_code_area_def)

lemma grows_index: "grows c c' \<Longrightarrow> tag_index c' a = tag_index c a"
  by (auto simp: grows_def tag_index_def)

lemma or_tag_grows:
  assumes "or_tag c a t = Inr c'"
  shows "grows c c'"
proof (cases "is_inside_code_area c a")
  case False
  with assms show ?thesis by (simp add: or_tag_def)
next
  case True
  with assms obtain ts where ts: "tag_mem c = Some ts"
      and c': "c' = c\<lparr>tag_mem := Some (ts[tag_index c a := ts ! tag_index c a OR t])\<rparr>"
    by (auto simp: or_tag_def res_bind_Inr_iff nth_res_Inr_iff upd_res_Inr_iff split: option.splits)
  have absorb: "x AND (x OR t) = x" for x :: tag
    by (rule bit_word_eqI) (auto simp: bit_simps)
  have "ts ! i AND ts[tag_index c a := ts ! tag_index c a OR t] ! i = ts ! i"
    if "i < length ts" for i
    using that by (cases "i = tag_index c a") (simp_all add: absorb)
  then have "list_all2 (\<lambda>t t'. t AND t' = t) ts (ts[tag_index c a := ts ! tag_index c a OR t])"
    by (simp add: list_all2_conv_all_nth)
  with ts c' show ?thesis by (auto simp: grows_def)
qed

lemma get_tag_grows:
  assumes "grows c c'" and "get_tag c a = Inr t"
  obtains t' where "get_tag c' a = Inr t'" and "t AND t' = t"
  using assms
  by (auto simp: get_tag_def grows_inside nth_res_Inr_iff grows_def tag_index_def
        list_all2_conv_all_nth option_rel_Some1
        split: if_splits option.splits)

lemma get_tag_or_tag:
  assumes "or_tag c a t = Inr c'" and "get_tag c b = Inr u"
  shows "get_tag c' b = Inr (if b = a \<and> is_inside_code_area c a then u OR t else u)"
proof (cases "is_inside_code_area c a")
  case False
  with assms show ?thesis by (auto simp: or_tag_def)
next
  case True
  with assms(1) obtain ts where ts: "tag_mem c = Some ts" and len: "tag_index c a < length ts"
      and c': "c' = c\<lparr>tag_mem := Some (ts[tag_index c a := ts ! tag_index c a OR t])\<rparr>"
    by (auto simp: or_tag_def res_bind_Inr_iff nth_res_Inr_iff upd_res_Inr_iff split: option.splits)
  show ?thesis
  proof (cases "b = a")
    case True
    with assms(2) ts len show ?thesis
      by (auto simp: c' get_tag_def nth_res_def split: if_splits)
  next
    case False
    then have "tag_index c a \<noteq> tag_index c b"
      by (simp add: tag_index_def word_unat_eq_iff [symmetric])
    with False assms(2) ts show ?thesis
      by (auto simp: c' get_tag_def nth_res_def split: if_splits)
  qed
qed

section \<open>The code set\<close>

definition code_set :: "cpu \<Rightarrow> addr set" where
  "code_set c = {a. is_code c a = Inr True}"

lemma code_set_grows: "grows c c' \<Longrightarrow> code_set c \<subseteq> code_set c'"
proof
  fix a
  assume g: "grows c c'" and "a \<in> code_set c"
  then obtain t where t: "get_tag c a = Inr t" and code: "has t TAG_CODE"
    by (auto simp: code_set_def is_code_def res_bind_Inr_iff)
  from get_tag_grows [OF g t] obtain t' where t': "get_tag c' a = Inr t'" and "t AND t' = t"
    by blast
  then have "has t' TAG_CODE"
    using code by (blast intro: has_mono)
  with t' show "a \<in> code_set c'"
    by (simp add: code_set_def is_code_def)
qed

lemma code_set_inside: "a \<in> code_set c \<Longrightarrow> is_inside_code_area c a"
  by (auto simp: code_set_def is_code_def get_tag_def split: if_splits)

lemma code_set_or_tag:
  assumes "or_tag c a t = Inr c'"
  shows "code_set c' = code_set c \<union> (if has t TAG_CODE \<and> is_inside_code_area c a then {a} else {})"
proof -
  have conv: "\<exists>u. get_tag c b = Inr u" if "get_tag c' b = Inr v" for b v
    using assms that
    by (auto simp: or_tag_def get_tag_def is_inside_code_area_def tag_index_def res_bind_Inr_iff
          nth_res_Inr_iff upd_res_Inr_iff split: if_splits option.splits)
  have "b \<in> code_set c' \<longleftrightarrow> b \<in> code_set c \<or> has t TAG_CODE \<and> is_inside_code_area c a \<and> b = a" for b
  proof (cases "get_tag c b")
    case (Inl e)
    then have "\<nexists>v. get_tag c' b = Inr v" using conv by fastforce
    moreover have "\<not> (is_inside_code_area c a \<and> b = a)"
      using assms Inl
      by (auto simp: or_tag_def get_tag_def res_bind_Inr_iff nth_res_Inr_iff split: option.splits)
    ultimately show ?thesis
      using Inl by (auto simp: code_set_def is_code_def res_bind_Inr_iff)
  next
    case (Inr u)
    from get_tag_or_tag [OF assms Inr] Inr show ?thesis
      by (auto simp: code_set_def is_code_def has_or)
  qed
  then show ?thesis by auto
qed

section \<open>The search\<close>

definition limit_reached :: "cpu \<Rightarrow> nat \<Rightarrow> bool" where
  "limit_reached cpu level \<longleftrightarrow>
     has (flags_codegen cpu) CPU_CODEGEN_TAG_LIMIT \<and> level = LIMIT_TAGGING_DFS"

text \<open>\<open>if (cond) or_tag(cpu, v, t);\<close> where \<open>v\<close> is a local variable.\<close>

definition mark_if :: "bool \<Rightarrow> addr option \<Rightarrow> tag \<Rightarrow> cpu \<Rightarrow> cpu res" where
  "mark_if cond v t cpu = (if cond then res_bind (rd v) (\<lambda>a. or_tag cpu a t) else Inr cpu)"

text \<open>
  The \<open>for(;;)\<close> of \<open>tag_recursive\<close>. \<open>loc\<close> holds the local variables \<open>tag\<close>, \<open>new_pc\<close>
  and \<open>next_pc\<close>, which keep their values from one round to the next; every recursive call
  starts with variables of its own. A call's guard (the test of the level) stands before it.
\<close>

function tag_loop :: "tag_fn \<Rightarrow> nat \<Rightarrow> tag_vars \<Rightarrow> addr \<Rightarrow> cpu \<Rightarrow> cpu res" where
  "tag_loop fe level loc pc cpu =
     (if \<not> is_inside_code_area cpu pc then Inr cpu
      else res_bind (is_code cpu pc) (\<lambda>seen.
      if seen then Inr cpu
      else res_bind (fe pc) (\<lambda>(bytes, out).
      let loc = assign_outs out loc in
      res_bind (rd (v_tag loc)) (\<lambda>tag.
      res_bind (or_tag cpu pc (tag OR TAG_CODE)) (\<lambda>cpu1.
      res_bind (mark_if (has tag TAG_CONDITIONAL) (v_next_pc loc) TAG_AFTER_COND cpu1) (\<lambda>cpu2.
      if has tag TAG_TRAP \<and>
         \<not> has (flags_hint cpu2) (CPU_HINT_TRAP_RETURNS OR CPU_HINT_TRAP_RETURNS_TWICE)
      then Inr cpu2
      else res_bind (mark_if (has tag TAG_TRAP) (v_next_pc loc) TAG_AFTER_TRAP cpu2) (\<lambda>cpu3.
      res_bind
        (if has tag TAG_TRAP \<and> has (flags_hint cpu3) CPU_HINT_TRAP_RETURNS_TWICE then
           res_bind (rd (v_next_pc loc)) (\<lambda>next_pc.
           res_bind (fe next_pc) (\<lambda>(bytes2, dummies).
           let next_pc2 = next_pc + word_of_int bytes2 in
           res_bind (or_tag cpu3 next_pc2 TAG_AFTER_TRAP) (\<lambda>cpu4.
           if limit_reached cpu4 (Suc level) then Inr cpu4
           else tag_loop fe (Suc level) no_vars next_pc2 cpu4)))
         else Inr cpu3) (\<lambda>cpu5.
      res_bind
        (if has tag TAG_CALL then
           res_bind (rd (v_new_pc loc)) (\<lambda>new_pc.
           res_bind (or_tag cpu5 new_pc TAG_SUBROUTINE) (\<lambda>cpu6.
           res_bind (mark_if True (v_next_pc loc) TAG_AFTER_CALL cpu6) (\<lambda>cpu7.
           if limit_reached cpu7 (Suc level) then Inr cpu7
           else tag_loop fe (Suc level) no_vars new_pc cpu7)))
         else Inr cpu5) (\<lambda>cpu8.
      res_bind
        (if has tag TAG_BRANCH then
           res_bind (rd (v_new_pc loc)) (\<lambda>new_pc.
           res_bind (or_tag cpu8 new_pc TAG_BRANCH_TARGET) (\<lambda>cpu9.
           if limit_reached cpu9 (Suc level) then Inr cpu9
           else tag_loop fe (Suc level) no_vars new_pc cpu9))
         else Inr cpu8) (\<lambda>cpu10.
      if has tag TAG_BRANCH \<and> \<not> has tag TAG_CONDITIONAL then Inr cpu10
      else if has tag TAG_RET then Inr cpu10
      else res_bind (rd (v_next_pc loc)) (\<lambda>next_pc.
           tag_loop fe level loc next_pc cpu10)))))))))))"
  by pat_completeness auto

text \<open>
  Termination. Wherever a run returns, tags have only grown; every call on the way to the next
  one starts from a state in which one address more is code. \<open>grows_res c m\<close>: if \<open>m\<close>
  returns, its state has grown from \<open>c\<close>. The rules follow the state from one
  statement to the next.
\<close>

definition grows_res :: "cpu \<Rightarrow> cpu res \<Rightarrow> bool" where
  "grows_res c m \<longleftrightarrow> (\<forall>c'. m = Inr c' \<longrightarrow> grows c c')"

lemma grows_resI: "(\<And>c'. m = Inr c' \<Longrightarrow> grows c c') \<Longrightarrow> grows_res c m"
  by (simp add: grows_res_def)

lemma grows_resD: "grows_res c m \<Longrightarrow> m = Inr c' \<Longrightarrow> grows c c'"
  by (simp add: grows_res_def)

lemma grows_res_Inr: "grows_res c (Inr c)"
  by (simp add: grows_res_def)

lemma grows_res_or_tag: "grows_res c (or_tag c a t)"
  by (auto intro: grows_resI or_tag_grows)

lemma grows_res_mark_if: "grows_res c (mark_if b v t c)"
  by (auto intro!: grows_resI simp: mark_if_def res_bind_Inr_iff dest: or_tag_grows split: if_splits)

lemma grows_res_bind:
  assumes "grows_res c m" and "\<And>c'. m = Inr c' \<Longrightarrow> grows c c' \<Longrightarrow> grows_res c' (f c')"
  shows "grows_res c (res_bind m f)"
  using assms by (auto simp: grows_res_def res_bind_Inr_iff intro: grows_trans)

lemma grows_res_bind_value: "(\<And>x. m = Inr x \<Longrightarrow> grows_res c (f x)) \<Longrightarrow> grows_res c (res_bind m f)"
  by (auto simp: grows_res_def res_bind_Inr_iff)

lemma grows_res_if: "(b \<Longrightarrow> grows_res c m) \<Longrightarrow> (\<not> b \<Longrightarrow> grows_res c m') \<Longrightarrow> grows_res c (if b then m else m')"
  by simp

lemma grows_res_prod: "(\<And>x y. p = (x, y) \<Longrightarrow> grows_res c (f x y)) \<Longrightarrow> grows_res c (case p of (x, y) \<Rightarrow> f x y)"
  by (cases p) simp

lemmas grows_rules =
  grows_res_Inr grows_res_or_tag grows_res_mark_if grows_res_if grows_res_prod
  grows_res_bind grows_res_bind_value

lemma tag_loop_grows_dom:
  "tag_loop_dom (fe, level, loc, pc, cpu) \<Longrightarrow> grows_res cpu (tag_loop fe level loc pc cpu)"
proof (induction fe level loc pc cpu rule: tag_loop.pinduct)
  case (1 fe level loc pc cpu)
  note IH = "1.IH" [unfolded Let_def]
  show ?case
    unfolding tag_loop.psimps [OF "1.hyps"] Let_def
    apply (intro grows_rules)
       apply (rule IH(1); (assumption | simp)?)
      apply (rule IH(2); (assumption | simp)?)
     apply (rule IH(3); (assumption | simp)?)
    apply (rule IH(4); (assumption | simp)?)
    done
qed

definition uncoded :: "cpu \<Rightarrow> nat" where
  "uncoded c = card (- code_set c)"

lemma uncoded_less:
  assumes "or_tag c pc (t OR TAG_CODE) = Inr c'" and "is_inside_code_area c pc"
    and "is_code c pc = Inr False" and "grows c' d"
  shows "uncoded d < uncoded c"
proof -
  have "has (t OR TAG_CODE) TAG_CODE" by (simp add: bits)
  then have "pc \<in> code_set c'" and "code_set c \<subseteq> code_set c'"
    using code_set_or_tag [OF assms(1)] assms(2) by auto
  moreover have "pc \<notin> code_set c" using assms(3) by (simp add: code_set_def)
  ultimately have "- code_set d \<subset> - code_set c"
    using code_set_grows [OF assms(4)] by blast
  then show ?thesis unfolding uncoded_def by (rule psubset_card_mono [OF finite])
qed

lemma grows_back: "m = Inr d \<Longrightarrow> grows_res b m \<Longrightarrow> grows c b \<Longrightarrow> grows c d"
  by (blast intro: grows_trans grows_resD)

termination tag_loop
  apply (relation "measure (\<lambda>(fe, level, loc, pc, cpu). uncoded cpu)")
      apply simp
     apply (simp only: in_measure prod.case Let_def, rule uncoded_less, assumption, simp, simp,
      (rule grows_refl grows_res_Inr | erule grows_back, ((rule grows_rules)+)[1] |
        rule tag_loop_grows_dom, simp)+)+
  done

declare tag_loop.simps [simp del]

lemma tag_loop_grows: "grows_res cpu (tag_loop fe level loc pc cpu)"
proof (induction fe level loc pc cpu rule: tag_loop.induct)
  case (1 fe level loc pc cpu)
  note IH = "1.IH" [unfolded Let_def]
  show ?case
    unfolding tag_loop.simps [of fe level loc pc cpu] Let_def
    by (intro grows_rules) (rule IH; (assumption | simp)?)+
qed

definition tag_recursive :: "tag_fn \<Rightarrow> nat \<Rightarrow> addr \<Rightarrow> cpu \<Rightarrow> cpu res" where
  "tag_recursive fe level pc cpu =
     (if limit_reached cpu level then Inr cpu else tag_loop fe level no_vars pc cpu)"

section \<open>What the search computes\<close>

text \<open>
  The control flow the frontend describes: the marks an instruction at \<open>pc\<close> puts on itself and
  on its successors, and the successors the search goes on to. \<open>skip2\<close> is the second
  return address of a trap.
\<close>

definition skip2 :: "tag_fn \<Rightarrow> addr \<Rightarrow> addr" where
  "skip2 fe n = (case fe n of Inl _ \<Rightarrow> n | Inr (len, _) \<Rightarrow> n + word_of_int len)"

definition trap_stops :: "32 word \<Rightarrow> tag \<Rightarrow> bool" where
  "trap_stops hint t \<longleftrightarrow> has t TAG_TRAP \<and> \<not> has hint (CPU_HINT_TRAP_RETURNS OR CPU_HINT_TRAP_RETURNS_TWICE)"

definition trap_twice :: "32 word \<Rightarrow> tag \<Rightarrow> bool" where
  "trap_twice hint t \<longleftrightarrow> has t TAG_TRAP \<and> has hint CPU_HINT_TRAP_RETURNS_TWICE"

definition falls_through :: "tag \<Rightarrow> bool" where
  "falls_through t \<longleftrightarrow> \<not> (has t TAG_BRANCH \<and> \<not> has t TAG_CONDITIONAL) \<and> \<not> has t TAG_RET"

lemma flow_end:
  "(if falls_through t then m else m') =
     (if has t TAG_BRANCH \<and> \<not> has t TAG_CONDITIONAL then m' else if has t TAG_RET then m' else m)"
  by (simp add: falls_through_def)

definition flow_info :: "tag_fn \<Rightarrow> addr \<Rightarrow> (tag \<times> addr \<times> addr) option" where
  "flow_info fe pc =
     (case fe pc of Inl _ \<Rightarrow> None
      | Inr (_, v) \<Rightarrow>
          (case (v_tag v, v_next_pc v) of
             (Some t, Some n) \<Rightarrow> Some (t, n, case v_new_pc v of None \<Rightarrow> n | Some w \<Rightarrow> w)
           | _ \<Rightarrow> None))"

definition flow_marks :: "tag_fn \<Rightarrow> 32 word \<Rightarrow> addr \<Rightarrow> (addr \<times> tag) list" where
  "flow_marks fe hint pc =
     (case flow_info fe pc of None \<Rightarrow> []
      | Some (t, n, w) \<Rightarrow>
          (pc, t OR TAG_CODE) #
          (if has t TAG_CONDITIONAL then [(n, TAG_AFTER_COND)] else []) @
          (if trap_stops hint t then []
           else (if has t TAG_TRAP then [(n, TAG_AFTER_TRAP)] else []) @
                (if trap_twice hint t then [(skip2 fe n, TAG_AFTER_TRAP)] else []) @
                (if has t TAG_CALL then [(w, TAG_SUBROUTINE), (n, TAG_AFTER_CALL)] else []) @
                (if has t TAG_BRANCH then [(w, TAG_BRANCH_TARGET)] else [])))"

definition flow_succs :: "tag_fn \<Rightarrow> 32 word \<Rightarrow> addr \<Rightarrow> addr list" where
  "flow_succs fe hint pc =
     (case flow_info fe pc of None \<Rightarrow> []
      | Some (t, n, w) \<Rightarrow>
          if trap_stops hint t then []
          else (if trap_twice hint t then [skip2 fe n] else []) @
               (if has t TAG_CALL \<or> has t TAG_BRANCH then [w] else []) @
               (if falls_through t then [n] else []))"

text \<open>What the search needs of the frontend at an address.\<close>

definition frontend_ok :: "tag_fn \<Rightarrow> 32 word \<Rightarrow> addr \<Rightarrow> bool" where
  "frontend_ok fe hint pc \<longleftrightarrow>
     res_ok (\<lambda>(len, v). tag_contract v \<and>
       (trap_twice hint (the (v_tag v)) \<longrightarrow> res_ok (\<lambda>_. True) (fe (the (v_next_pc v))))) (fe pc)"

text \<open>The tags are allocated, one per byte of the code area.\<close>

definition wf_tags :: "cpu \<Rightarrow> bool" where
  "wf_tags c \<longleftrightarrow>
     (case tag_mem c of None \<Rightarrow> False | Some ts \<Rightarrow> length ts = unat (code_end c - code_start c))"

definition tag_at :: "cpu \<Rightarrow> addr \<Rightarrow> tag" where
  "tag_at c a = (case get_tag c a of Inl _ \<Rightarrow> TAG_UNKNOWN | Inr t \<Rightarrow> t)"

lemma inside_index:
  assumes "wf_tags c" and "is_inside_code_area c a"
  obtains ts where "tag_mem c = Some ts" and "tag_index c a < length ts"
    and "length ts = unat (code_end c - code_start c)"
proof -
  from assms(1) obtain ts where ts: "tag_mem c = Some ts"
      and len: "length ts = unat (code_end c - code_start c)"
    by (auto simp: wf_tags_def split: option.splits)
  have "a - code_start c < code_end c - code_start c"
    using assms(2) unfolding is_inside_code_area_def word_less_nat_alt word_le_nat_alt
    by (auto simp: unat_sub_if' intro!: diff_less_mono)
  with ts len that show thesis
    by (simp add: tag_index_def word_less_nat_alt)
qed

lemma get_tag_wf:
  assumes "wf_tags c"
  shows "get_tag c a = Inr (tag_at c a)"
proof (cases "is_inside_code_area c a")
  case True
  with assms show ?thesis
    by (auto elim!: inside_index simp: get_tag_def tag_at_def nth_res_def)
next
  case False
  then show ?thesis by (simp add: get_tag_def tag_at_def)
qed

lemma is_code_wf: "wf_tags c \<Longrightarrow> is_code c a = Inr (has (tag_at c a) TAG_CODE)"
  by (simp add: is_code_def get_tag_wf)

lemma code_set_wf: "wf_tags c \<Longrightarrow> a \<in> code_set c \<longleftrightarrow> has (tag_at c a) TAG_CODE"
  by (simp add: code_set_def is_code_wf)

text \<open>
  \<open>adds c d M\<close>: \<open>d\<close> is \<open>c\<close> with exactly the marks \<open>M\<close> added, at the addresses of the
  code area; a mark outside is dropped.
\<close>

definition adds :: "cpu \<Rightarrow> cpu \<Rightarrow> (addr \<times> tag) set \<Rightarrow> bool" where
  "adds c d M \<longleftrightarrow> wf_tags c \<and> wf_tags d \<and> d = c\<lparr>tag_mem := tag_mem d\<rparr> \<and>
     (\<forall>a m. is_inside_code_area c a \<longrightarrow>
        (has (tag_at d a) m \<longleftrightarrow> has (tag_at c a) m \<or> (\<exists>t. (a, t) \<in> M \<and> has t m)))"

lemma adds_refl: "wf_tags c \<Longrightarrow> adds c c {}"
  by (simp add: adds_def)

lemma adds_frame:
  assumes "adds c d M"
  shows "code_start d = code_start c" "code_end d = code_end c" "flags_codegen d = flags_codegen c"
    "flags_hint d = flags_hint c" "is_inside_code_area d a = is_inside_code_area c a"
proof -
  from assms obtain tm where "d = c\<lparr>tag_mem := tm\<rparr>" by (auto simp: adds_def)
  then show "code_start d = code_start c" "code_end d = code_end c"
    "flags_codegen d = flags_codegen c" "flags_hint d = flags_hint c"
    "is_inside_code_area d a = is_inside_code_area c a"
    by simp_all
qed

lemma adds_trans:
  assumes "adds c d M" and "adds d e N"
  shows "adds c e (M \<union> N)"
proof -
  obtain x where x: "d = c\<lparr>tag_mem := x\<rparr>" using assms(1) by (auto simp: adds_def)
  obtain y where y: "e = d\<lparr>tag_mem := y\<rparr>" using assms(2) by (auto simp: adds_def)
  have "e = c\<lparr>tag_mem := tag_mem e\<rparr>" by (simp add: x y)
  then show ?thesis
    using assms adds_frame(5) [OF assms(1)] unfolding adds_def by blast
qed

lemma adds_or_tag:
  assumes "wf_tags c"
  shows "res_ok (\<lambda>d. adds c d {(a, t)}) (or_tag c a t)"
proof (cases "is_inside_code_area c a")
  case False
  then have "or_tag c a t = Inr c" by (simp add: or_tag_def)
  moreover have "adds c c {(a, t)}"
    using assms False by (auto simp: adds_def)
  ultimately show ?thesis by simp
next
  case True
  from inside_index [OF assms True] obtain ts where ts: "tag_mem c = Some ts"
      and i: "tag_index c a < length ts" and len: "length ts = unat (code_end c - code_start c)" .
  define d where "d = c\<lparr>tag_mem := Some (ts[tag_index c a := ts ! tag_index c a OR t])\<rparr>"
  have r: "or_tag c a t = Inr d"
    using True ts i by (simp add: or_tag_def upd_res_def d_def)
  have wf: "wf_tags d" using ts len by (simp add: wf_tags_def d_def)
  have "tag_at d b = (if b = a then tag_at c b OR t else tag_at c b)"
    if "is_inside_code_area c b" for b
    using get_tag_or_tag [OF r get_tag_wf [OF assms, of b]] True
    by (simp add: get_tag_wf [OF wf])
  then have "adds c d {(a, t)}"
    using assms wf by (auto simp: adds_def has_or d_def)
  with r show ?thesis by simp
qed

lemma adds_code_set:
  assumes "adds c d M"
  shows "code_set d = code_set c \<union> {a. is_inside_code_area c a \<and> (\<exists>t. (a, t) \<in> M \<and> has t TAG_CODE)}"
proof -
  have wf: "wf_tags c" "wf_tags d" using assms by (simp_all add: adds_def)
  have "a \<in> code_set d \<longleftrightarrow>
      a \<in> code_set c \<or> is_inside_code_area c a \<and> (\<exists>t. (a, t) \<in> M \<and> has t TAG_CODE)" for a
  proof (cases "is_inside_code_area c a")
    case True
    with assms show ?thesis
      by (auto simp: code_set_wf [OF wf(1)] code_set_wf [OF wf(2)] adds_def)
  next
    case False
    then show ?thesis
      using code_set_inside [of a c] code_set_inside [of a d] adds_frame(5) [OF assms] by blast
  qed
  then show ?thesis by blast
qed

text \<open>
  The state of a search that started in \<open>c\<close> and is now in \<open>d\<close>: the instructions \<open>S\<close>
  visited on the way have put exactly their marks, \<open>M\<close> are the marks of the instruction being
  worked on, and, unless the depth is limited, the successors of everything visited and the
  addresses \<open>Q\<close> are code, as far as they are in the code area.
\<close>

definition full_search :: "cpu \<Rightarrow> bool" where
  "full_search c \<longleftrightarrow> \<not> has (flags_codegen c) CPU_CODEGEN_TAG_LIMIT"

definition search_state ::
  "tag_fn \<Rightarrow> addr set \<Rightarrow> cpu \<Rightarrow> cpu \<Rightarrow> (addr \<times> tag) set \<Rightarrow> addr set \<Rightarrow> bool" where
  "search_state fe D c d M Q \<longleftrightarrow> (\<exists>S\<subseteq>D.
     adds c d (M \<union> (\<Union>a\<in>S. set (flow_marks fe (flags_hint c) a))) \<and>
     (\<forall>a\<in>S. is_inside_code_area c a \<and> a \<notin> code_set c) \<and>
     (full_search c \<longrightarrow>
       (\<forall>b \<in> Q \<union> (\<Union>a\<in>S. set (flow_succs fe (flags_hint c) a)).
          is_inside_code_area c b \<longrightarrow> b \<in> code_set d)))"

lemma search_state_refl:
  "wf_tags c \<Longrightarrow> (\<And>b. full_search c \<Longrightarrow> b \<in> Q \<Longrightarrow> is_inside_code_area c b \<Longrightarrow> b \<in> code_set c) \<Longrightarrow>
    search_state fe D c c {} Q"
  unfolding search_state_def by (rule exI [of _ "{}"]) (simp add: adds_refl)

lemma search_state_mark:
  "wf_tags c \<Longrightarrow> res_ok (\<lambda>d. search_state fe D c d {(a, t)} {}) (or_tag c a t)"
  unfolding search_state_def
  by (rule res_ok_mono [OF adds_or_tag], assumption, rule exI [of _ "{}"]) simp

lemma search_state_wf: "search_state fe D c d M Q \<Longrightarrow> wf_tags d"
  by (auto simp: search_state_def adds_def)

lemma search_state_frame:
  assumes "search_state fe D c d M Q"
  shows "flags_hint d = flags_hint c" "flags_codegen d = flags_codegen c"
    "is_inside_code_area d a = is_inside_code_area c a" "full_search d = full_search c"
  using assms by (auto simp: search_state_def full_search_def dest: adds_frame)

lemma search_state_code: "search_state fe D c d M Q \<Longrightarrow> code_set c \<subseteq> code_set d"
  by (auto simp: search_state_def dest: adds_code_set)

lemma search_state_trans:
  assumes "search_state fe D c d M Q" and "search_state fe D d e N R"
  shows "search_state fe D c e (M \<union> N) (Q \<union> R)"
proof -
  let ?m = "\<lambda>a. set (flow_marks fe (flags_hint c) a)"
  let ?s = "\<lambda>a. set (flow_succs fe (flags_hint c) a)"
  note frame = search_state_frame [OF assms(1)]
  have cd: "code_set c \<subseteq> code_set d" and de: "code_set d \<subseteq> code_set e"
    using search_state_code [OF assms(1)] search_state_code [OF assms(2)] .
  from assms(1) obtain S where S: "S \<subseteq> D" "adds c d (M \<union> (\<Union>a\<in>S. ?m a))"
      "\<forall>a\<in>S. is_inside_code_area c a \<and> a \<notin> code_set c"
      "full_search c \<Longrightarrow> \<forall>b \<in> Q \<union> (\<Union>a\<in>S. ?s a). is_inside_code_area c b \<longrightarrow> b \<in> code_set d"
    by (auto simp: search_state_def)
  from assms(2) obtain T where T: "T \<subseteq> D" "adds d e (N \<union> (\<Union>a\<in>T. ?m a))"
      "\<forall>a\<in>T. is_inside_code_area c a \<and> a \<notin> code_set d"
      "full_search c \<Longrightarrow> \<forall>b \<in> R \<union> (\<Union>a\<in>T. ?s a). is_inside_code_area c b \<longrightarrow> b \<in> code_set e"
    by (auto simp: search_state_def frame)
  have "adds c e ((M \<union> (\<Union>a\<in>S. ?m a)) \<union> (N \<union> (\<Union>a\<in>T. ?m a)))"
    using adds_trans [OF S(2) T(2)] .
  also have "(M \<union> (\<Union>a\<in>S. ?m a)) \<union> (N \<union> (\<Union>a\<in>T. ?m a)) = (M \<union> N) \<union> (\<Union>a \<in> S \<union> T. ?m a)"
    by blast
  finally have "adds c e ((M \<union> N) \<union> (\<Union>a \<in> S \<union> T. ?m a))" .
  moreover have "\<forall>a \<in> S \<union> T. is_inside_code_area c a \<and> a \<notin> code_set c"
    using S(3) T(3) cd by blast
  moreover have "\<forall>b \<in> (Q \<union> R) \<union> (\<Union>a \<in> S \<union> T. ?s a). is_inside_code_area c b \<longrightarrow> b \<in> code_set e"
    if "full_search c"
    using S(4) [OF that] T(4) [OF that] de by blast
  moreover have "S \<union> T \<subseteq> D" using S(1) T(1) by blast
  ultimately show ?thesis unfolding search_state_def by blast
qed

lemma search_state_close:
  assumes "search_state fe D c d M Q" and "M = set (flow_marks fe (flags_hint c) pc)"
    and "set (flow_succs fe (flags_hint c) pc) \<subseteq> Q" and "pc \<in> D"
    and "is_inside_code_area c pc" and "pc \<notin> code_set c" and "flow_info fe pc = Some i"
  shows "search_state fe D c d {} {pc}"
proof -
  from assms(1) obtain S where S: "S \<subseteq> D"
      "adds c d (M \<union> (\<Union>a\<in>S. set (flow_marks fe (flags_hint c) a)))"
      "\<forall>a\<in>S. is_inside_code_area c a \<and> a \<notin> code_set c"
      "full_search c \<Longrightarrow> \<forall>b \<in> Q \<union> (\<Union>a\<in>S. set (flow_succs fe (flags_hint c) a)).
          is_inside_code_area c b \<longrightarrow> b \<in> code_set d"
    by (auto simp: search_state_def)
  have "\<exists>t. (pc, t) \<in> M \<and> has t TAG_CODE"
    using assms(2,7) by (cases i) (auto simp: flow_marks_def has_or bits)
  then have "pc \<in> code_set d"
    using adds_code_set [OF S(2)] assms(5) by blast
  then show ?thesis
    unfolding search_state_def using S assms(2-6)
    by (intro exI [of _ "insert pc S"]) auto
qed

lemma search_state_marked:
  assumes "search_state fe D c d M Q"
  shows "res_ok (\<lambda>e. search_state fe D c e (M \<union> {(a, t)}) Q) (or_tag d a t)"
  by (rule res_ok_mono [OF search_state_mark [OF search_state_wf [OF assms]]])
     (use search_state_trans [OF assms] in fastforce)

lemma search_state_marked_if:
  assumes "search_state fe D c d M Q"
  shows "res_ok (\<lambda>e. search_state fe D c e (M \<union> set (if b then [(a, t)] else [])) Q)
           (mark_if b (Some a) t d)"
  using search_state_marked [OF assms, of a t] assms by (simp add: mark_if_def)

lemma search_state_coded:
  assumes "search_state fe D c d M Q" and "(a, t OR TAG_CODE) \<in> M" and "is_inside_code_area c a"
  shows "a \<in> code_set d"
proof -
  have "has (t OR TAG_CODE) TAG_CODE" by (simp add: bits)
  with assms show ?thesis
    unfolding search_state_def by (blast dest: adds_code_set)
qed

text \<open>
  \<open>visits fe D c x rec\<close>: whenever the marks \<open>x\<close> are on, \<open>rec\<close> searches from the address it
  is given. The lemmas below take the three guarded statements of a round one by one.
\<close>

definition visits ::
  "tag_fn \<Rightarrow> addr set \<Rightarrow> cpu \<Rightarrow> addr \<times> tag \<Rightarrow> (addr \<Rightarrow> cpu \<Rightarrow> cpu res) \<Rightarrow> bool" where
  "visits fe D c x rec \<longleftrightarrow>
     (\<forall>d M Q q. search_state fe D c d M Q \<longrightarrow> x \<in> M \<longrightarrow> q \<in> D \<longrightarrow>
        res_ok (\<lambda>e. search_state fe D c e M (Q \<union> {q})) (rec q d))"

lemma visitsD:
  "visits fe D c x rec \<Longrightarrow> search_state fe D c d M Q \<Longrightarrow> x \<in> M \<Longrightarrow> q \<in> D \<Longrightarrow>
    res_ok (\<lambda>e. search_state fe D c e M (Q \<union> {q})) (rec q d)"
  by (simp add: visits_def)

lemma res_ok_bindI:
  "res_ok P m \<Longrightarrow> (\<And>x. P x \<Longrightarrow> res_ok R (f x)) \<Longrightarrow> res_ok R (res_bind m f)"
  by (cases m) simp_all

lemma trap_statement:
  assumes "search_state fe D c d M Q" and "visits fe D c x rec" and "x \<in> M"
    and "trap_twice (flags_hint c) t \<longrightarrow>
          (\<exists>len2 v2. fe n = Inr (len2, v2) \<and> skip2 fe n = n + word_of_int len2) \<and> skip2 fe n \<in> D"
  shows "res_ok (\<lambda>e. search_state fe D c e
            (M \<union> set (if trap_twice (flags_hint c) t then [(skip2 fe n, TAG_AFTER_TRAP)] else []))
            (Q \<union> set (if trap_twice (flags_hint c) t then [skip2 fe n] else [])))
          (if has t TAG_TRAP \<and> has (flags_hint d) CPU_HINT_TRAP_RETURNS_TWICE then
             res_bind (fe n) (\<lambda>(bytes2, dummies).
             res_bind (or_tag d (n + word_of_int bytes2) TAG_AFTER_TRAP)
               (\<lambda>e. rec (n + word_of_int bytes2) e))
           else Inr d)"
  using assms(1,4) search_state_frame(1) [OF assms(1)]
  by (auto simp: trap_twice_def assms(3) simp del: Un_insert_right
        intro!: res_ok_bindI [OF search_state_marked [OF assms(1)]] visitsD [OF assms(2)])

lemma call_statement:
  assumes "search_state fe D c d M Q" and "visits fe D c x rec" and "x \<in> M"
    and "has t TAG_CALL \<longrightarrow> w \<in> D"
  shows "res_ok (\<lambda>e. search_state fe D c e
            (M \<union> set (if has t TAG_CALL then [(w, TAG_SUBROUTINE), (n, TAG_AFTER_CALL)] else []))
            (Q \<union> set (if has t TAG_CALL then [w] else [])))
          (if has t TAG_CALL then
             res_bind (or_tag d w TAG_SUBROUTINE) (\<lambda>e.
             res_bind (mark_if True (Some n) TAG_AFTER_CALL e) (\<lambda>f. rec w f))
           else Inr d)"
proof (cases "has t TAG_CALL")
  case True
  have "res_ok (\<lambda>e. search_state fe D c e ((M \<union> {(w, TAG_SUBROUTINE)}) \<union> {(n, TAG_AFTER_CALL)}) (Q \<union> {w}))
      (res_bind (or_tag d w TAG_SUBROUTINE) (\<lambda>e. res_bind (or_tag e n TAG_AFTER_CALL) (\<lambda>f. rec w f)))"
    using True assms(3,4)
    by (auto simp del: Un_insert_right
        intro!: res_ok_bindI [OF search_state_marked] visitsD [OF assms(2)] assms(1))
  with True show ?thesis by (simp add: mark_if_def Un_insert_right insert_commute)
qed (simp add: assms(1))

lemma branch_statement:
  assumes "search_state fe D c d M Q" and "visits fe D c x rec" and "x \<in> M"
    and "has t TAG_BRANCH \<longrightarrow> w \<in> D"
  shows "res_ok (\<lambda>e. search_state fe D c e
            (M \<union> set (if has t TAG_BRANCH then [(w, TAG_BRANCH_TARGET)] else []))
            (Q \<union> set (if has t TAG_BRANCH then [w] else [])))
          (if has t TAG_BRANCH then
             res_bind (or_tag d w TAG_BRANCH_TARGET) (\<lambda>e. rec w e)
           else Inr d)"
  using assms
  by (auto simp del: Un_insert_right 
        intro!: res_ok_bindI [OF search_state_marked [OF assms(1)]] visitsD [OF assms(2)])

text \<open>
  \<open>D\<close>: a set of addresses the flow does not leave, on which the frontend keeps its contract.
\<close>

definition flow_closed :: "tag_fn \<Rightarrow> cpu \<Rightarrow> addr set \<Rightarrow> bool" where
  "flow_closed fe c D \<longleftrightarrow>
     (\<forall>a\<in>D. is_inside_code_area c a \<longrightarrow>
        frontend_ok fe (flags_hint c) a \<and> set (flow_succs fe (flags_hint c) a) \<subseteq> D)"

lemma flow_closed_frame: "search_state fe D c d M Q \<Longrightarrow> flow_closed fe d D = flow_closed fe c D"
  by (simp add: flow_closed_def search_state_frame)

text \<open>What an instruction the frontend can decode looks like to the search.\<close>

lemma frontend_okE:
  assumes "frontend_ok fe hint pc"
  obtains len v t n w where "fe pc = Inr (len, v)" and "v_tag (assign_outs v loc) = Some t"
    and "v_next_pc (assign_outs v loc) = Some n"
    and "has t TAG_CALL \<or> has t TAG_BRANCH \<longrightarrow> v_new_pc (assign_outs v loc) = Some w"
    and "flow_info fe pc = Some (t, n, w)" and "\<not> has t TAG_INTERNAL"
    and "trap_twice hint t \<longrightarrow> (\<exists>len2 v2. fe n = Inr (len2, v2) \<and> skip2 fe n = n + word_of_int len2)"
proof -
  from assms obtain len v where fe: "fe pc = Inr (len, v)" and con: "tag_contract v"
      and tw: "trap_twice hint (the (v_tag v)) \<Longrightarrow> res_ok (\<lambda>_. True) (fe (the (v_next_pc v)))"
    by (auto simp: frontend_ok_def elim!: res_okE)
  from con obtain t n where t: "v_tag v = Some t" and n: "v_next_pc v = Some n"
      and int: "\<not> has t TAG_INTERNAL" and w: "has t TAG_CALL \<or> has t TAG_BRANCH \<longrightarrow> v_new_pc v \<noteq> None"
    by (rule tag_contractE)
  define w' where "w' = (case v_new_pc v of None \<Rightarrow> n | Some w \<Rightarrow> w)"
  show thesis
  proof (rule that [OF fe, of t n w'])
    show "has t TAG_CALL \<or> has t TAG_BRANCH \<longrightarrow> v_new_pc (assign_outs v loc) = Some w'"
      using w by (auto simp: assign_outs_def w'_def)
    show "trap_twice hint t \<longrightarrow> (\<exists>len2 v2. fe n = Inr (len2, v2) \<and> skip2 fe n = n + word_of_int len2)"
      using tw t n by (auto simp: skip2_def elim!: res_okE)
  qed (simp_all add: assign_outs_def flow_info_def fe t n int w'_def split: option.splits)
qed

lemma visits_loop:
  assumes closed: "flow_closed fe c D" and inside: "is_inside_code_area c pc" and new: "pc \<notin> code_set c"
    and IH: "\<And>d l loc q. uncoded d < uncoded c \<Longrightarrow> flow_closed fe d D \<Longrightarrow> wf_tags d \<Longrightarrow> q \<in> D \<Longrightarrow>
      res_ok (\<lambda>e. search_state fe D d e {} {q}) (tag_loop fe l loc q d)"
  shows "visits fe D c (pc, t OR TAG_CODE) (tag_loop fe level loc)"
  unfolding visits_def
proof (intro allI impI)
  fix d M Q q
  assume R: "search_state fe D c d M Q" and x: "(pc, t OR TAG_CODE) \<in> M" and q: "q \<in> D"
  have "uncoded d < uncoded c"
    unfolding uncoded_def using search_state_coded [OF R x inside] new search_state_code [OF R]
    by (intro psubset_card_mono) auto
  from IH [OF this _ search_state_wf [OF R] q] closed flow_closed_frame [OF R]
  have "res_ok (\<lambda>e. search_state fe D d e {} {q}) (tag_loop fe level loc q d)" by simp
  then show "res_ok (\<lambda>e. search_state fe D c e M (Q \<union> {q})) (tag_loop fe level loc q d)"
    by (rule res_ok_mono) (use search_state_trans [OF R] in fastforce)
qed

lemma visits_recursive:
  assumes "visits fe D c x (tag_loop fe level no_vars)"
  shows "visits fe D c x (\<lambda>q d. if limit_reached d level then Inr d else tag_loop fe level no_vars q d)"
  unfolding visits_def
proof (intro allI impI)
  fix d M Q q
  assume R: "search_state fe D c d M Q" and x: "x \<in> M" and q: "q \<in> D"
  have "search_state fe D c d M (Q \<union> {q})" if "limit_reached d level"
    using search_state_trans [OF R search_state_refl [of d "{q}"]] search_state_wf [OF R] that
    by (auto simp: limit_reached_def full_search_def)
  with visitsD [OF assms R x q] show "res_ok (\<lambda>e. search_state fe D c e M (Q \<union> {q}))
      (if limit_reached d level then Inr d else tag_loop fe level no_vars q d)"
    by simp
qed

text \<open>One round of the loop.\<close>

lemma tag_loop_round:
  assumes closed: "flow_closed fe c D" and wf: "wf_tags c" and D: "pc \<in> D"
    and inside: "is_inside_code_area c pc" and new: "pc \<notin> code_set c"
    and visits_all: "\<And>l loc t. visits fe D c (pc, t OR TAG_CODE) (tag_loop fe l loc)"
  shows "res_ok (\<lambda>d. search_state fe D c d {} {pc}) (tag_loop fe level loc pc c)"
proof -
  have ok: "frontend_ok fe (flags_hint c) pc" and succs: "set (flow_succs fe (flags_hint c) pc) \<subseteq> D"
    using D closed inside by (auto simp: flow_closed_def)
  obtain len v t n w where fe: "fe pc = Inr (len, v)"
      and t: "v_tag (assign_outs v loc) = Some t" and n: "v_next_pc (assign_outs v loc) = Some n"
      and w: "has t TAG_CALL \<or> has t TAG_BRANCH \<longrightarrow> v_new_pc (assign_outs v loc) = Some w"
      and info: "flow_info fe pc = Some (t, n, w)" and internal: "\<not> has t TAG_INTERNAL"
      and tw: "trap_twice (flags_hint c) t \<longrightarrow>
        (\<exists>len2 v2. fe n = Inr (len2, v2) \<and> skip2 fe n = n + word_of_int len2)"
    by (rule frontend_okE [OF ok, of loc])
  let ?R = "search_state fe D c" and ?x = "(pc, t OR TAG_CODE)" and ?hint = "flags_hint c"
  note visits = visits_recursive [OF visits_all [of t "Suc level" no_vars]] and tail = visits_all [of t level]
  obtain c1 where c1: "or_tag c pc (t OR TAG_CODE) = Inr c1" and R1: "?R c1 {?x} {}"
    by (rule res_okE [OF search_state_mark [OF wf]])
  obtain c2 where c2: "mark_if (has t TAG_CONDITIONAL) (Some n) TAG_AFTER_COND c1 = Inr c2"
      and R2: "?R c2 ({?x} \<union> set (if has t TAG_CONDITIONAL then [(n, TAG_AFTER_COND)] else [])) {}"
    by (rule res_okE [OF search_state_marked_if [OF R1]])
  note simps = tag_loop.simps [of fe level loc pc c] is_code_wf code_set_wf fe t n c1 c2
  show ?thesis
  proof (cases "trap_stops ?hint t")
    case True
    then have "tag_loop fe level loc pc c = Inr c2"
      using inside new wf search_state_frame(1) [OF R2] by (simp add: simps trap_stops_def Let_def)
    moreover have "?R c2 {} {pc}"
      by (rule search_state_close [OF R2 _ _ D inside new info])
         (use True in \<open>auto simp: flow_marks_def flow_succs_def info\<close>)
    ultimately show ?thesis by simp
  next
    case False
    have D': "trap_twice ?hint t \<longrightarrow> skip2 fe n \<in> D" "has t TAG_CALL \<longrightarrow> w \<in> D"
        "has t TAG_BRANCH \<longrightarrow> w \<in> D" "falls_through t \<longrightarrow> n \<in> D"
      using succs False by (auto simp: flow_succs_def info split: if_splits)
    have new_pc:
      "(if has t TAG_CALL then res_bind (rd (v_new_pc (assign_outs v loc))) f else m) = (if has t TAG_CALL then f w else m)"
      "(if has t TAG_BRANCH then res_bind (rd (v_new_pc (assign_outs v loc))) f else m) = (if has t TAG_BRANCH then f w else m)"
      for f :: "addr \<Rightarrow> cpu res" and m
      using w by simp_all
    have go_on: "\<not> (has t TAG_TRAP \<and> \<not> has (flags_hint c2) (CPU_HINT_TRAP_RETURNS OR CPU_HINT_TRAP_RETURNS_TWICE))"
      using False search_state_frame(1) [OF R2] by (simp add: trap_stops_def)
    from inside new wf show ?thesis
      unfolding tag_loop.simps [of fe level loc pc c]
      apply (simp only: go_on simps not_not not_True_eq_False if_False if_True Let_def n t rd_simps
          res_bind_simps prod.case new_pc cong: if_cong)
      apply (rule res_ok_bindI [OF search_state_marked_if [OF R2]])
      apply (rule res_ok_bindI, rule trap_statement [OF _ visits], assumption, blast)
      using D' tw apply blast
      apply (rule res_ok_bindI, rule call_statement [OF _ visits], assumption, blast)
      using D' tw apply blast
      apply (rule res_ok_bindI, rule branch_statement [OF _ visits], assumption, blast)
      using D' tw apply blast
      apply (simp only: flow_end [symmetric])
      apply (split if_split, intro conjI impI)
       apply (rule res_ok_mono, rule visitsD [OF tail], assumption, blast)
      using D' apply blast
       apply (erule search_state_close [OF _ _ _ D inside new info];
          use False in \<open>auto simp: flow_marks_def flow_succs_def info\<close>)
      apply (simp only: res_ok_simps)
      apply (erule search_state_close [OF _ _ _ D inside new info];
          use False in \<open>auto simp: flow_marks_def flow_succs_def info\<close>)
      done
  qed
qed

lemma tag_loop_spec:
  assumes "flow_closed fe c D" and "wf_tags c" and "pc \<in> D"
  shows "res_ok (\<lambda>d. search_state fe D c d {} {pc}) (tag_loop fe level loc pc c)"
  using assms
proof (induction "uncoded c" arbitrary: c level loc pc rule: less_induct)
  case less
  note closed = \<open>flow_closed fe c D\<close> and wf = \<open>wf_tags c\<close>
  show ?case
  proof (cases "is_inside_code_area c pc \<and> \<not> has (tag_at c pc) TAG_CODE")
    case False
    then have "tag_loop fe level loc pc c = Inr c"
      by (auto simp: tag_loop.simps [of fe level loc pc c] is_code_wf [OF wf])
    moreover have "search_state fe D c c {} {pc}"
      using False by (intro search_state_refl [OF wf]) (auto simp: code_set_wf [OF wf])
    ultimately show ?thesis by simp
  next
    case True
    then have inside: "is_inside_code_area c pc" and new: "pc \<notin> code_set c"
      by (simp_all add: code_set_wf [OF wf])
    show ?thesis
      by (rule tag_loop_round [OF closed wf less.prems(3) inside new visits_loop [OF closed inside new less.hyps]])
  qed
qed

section \<open>The code set and the tags of a finished search\<close>

definition flow_edge :: "tag_fn \<Rightarrow> cpu \<Rightarrow> addr \<Rightarrow> addr \<Rightarrow> bool" where
  "flow_edge fe c a b \<longleftrightarrow> is_inside_code_area c a \<and> b \<in> set (flow_succs fe (flags_hint c) a)"

definition flow_reach :: "tag_fn \<Rightarrow> cpu \<Rightarrow> addr \<Rightarrow> addr set" where
  "flow_reach fe c pc = {a. (flow_edge fe c)\<^sup>*\<^sup>* pc a}"

text \<open>The frontend keeps its contract on the whole flow out of \<open>pc\<close>.\<close>

definition decodes_from :: "tag_fn \<Rightarrow> cpu \<Rightarrow> addr \<Rightarrow> bool" where
  "decodes_from fe c pc \<longleftrightarrow>
     (\<forall>a \<in> flow_reach fe c pc. is_inside_code_area c a \<longrightarrow> frontend_ok fe (flags_hint c) a)"

text \<open>Every successor of a code address is code, as far as it is in the code area.\<close>

definition code_closed :: "tag_fn \<Rightarrow> cpu \<Rightarrow> bool" where
  "code_closed fe c \<longleftrightarrow>
     (\<forall>a \<in> code_set c. \<forall>b \<in> set (flow_succs fe (flags_hint c) a).
        is_inside_code_area c b \<longrightarrow> b \<in> code_set c)"

lemma flow_reach_self [simp]: "pc \<in> flow_reach fe c pc"
  by (simp add: flow_reach_def)

lemma flow_reach_closed: "decodes_from fe c pc \<Longrightarrow> flow_closed fe c (flow_reach fe c pc)"
  unfolding flow_closed_def decodes_from_def flow_reach_def flow_edge_def
  by (auto intro: rtranclp.rtrancl_into_rtrancl)

lemma tag_recursive_search:
  assumes "wf_tags c" and "decodes_from fe c pc"
  shows "res_ok (\<lambda>d. search_state fe (flow_reach fe c pc) c d {} {pc}) (tag_recursive fe level pc c)"
proof (cases "limit_reached c level")
  case True
  then have "search_state fe (flow_reach fe c pc) c c {} {pc}"
    by (intro search_state_refl [OF assms(1)]) (auto simp: limit_reached_def full_search_def)
  with True show ?thesis by (simp add: tag_recursive_def)
next
  case False
  with tag_loop_spec [OF flow_reach_closed [OF assms(2)] assms(1)] show ?thesis
    by (simp add: tag_recursive_def)
qed

text \<open>Only an instruction's mark on itself has the code bit.\<close>

lemma flow_marks_code:
  assumes "frontend_ok fe hint a" and "(b, t) \<in> set (flow_marks fe hint a)" and "has t TAG_CODE"
  shows "b = a"
  using assms(2,3) by (auto simp: flow_marks_def bits split: option.splits if_splits)

lemma flow_marks_self:
  assumes "frontend_ok fe hint a"
  shows "\<exists>t. (a, t) \<in> set (flow_marks fe hint a) \<and> has t TAG_CODE"
proof -
  from assms obtain t n w where "flow_info fe a = Some (t, n, w)"
    by (rule frontend_okE [where loc = no_vars])
  then show ?thesis by (auto simp: flow_marks_def has_or bits)
qed

lemma search_state_new_code:
  assumes "search_state fe D c d {} Q" and "flow_closed fe c D"
  shows "code_set d - code_set c \<subseteq> D"
    and "adds c d (\<Union>a \<in> code_set d - code_set c. set (flow_marks fe (flags_hint c) a))"
    and "full_search c \<Longrightarrow> b \<in> Q \<union> (\<Union>a \<in> code_set d - code_set c. set (flow_succs fe (flags_hint c) a)) \<Longrightarrow>
      is_inside_code_area c b \<Longrightarrow> b \<in> code_set d"
proof -
  from assms(1) obtain S where S: "S \<subseteq> D"
      "adds c d (\<Union>a\<in>S. set (flow_marks fe (flags_hint c) a))"
      "\<forall>a\<in>S. is_inside_code_area c a \<and> a \<notin> code_set c"
      "full_search c \<longrightarrow> (\<forall>b \<in> Q \<union> (\<Union>a\<in>S. set (flow_succs fe (flags_hint c) a)).
          is_inside_code_area c b \<longrightarrow> b \<in> code_set d)"
    by (auto simp: search_state_def)
  have ok: "frontend_ok fe (flags_hint c) a" if "a \<in> S" for a
    using that S(1,3) assms(2) by (auto simp: flow_closed_def)
  have "{a. is_inside_code_area c a \<and>
      (\<exists>t. (a, t) \<in> (\<Union>a\<in>S. set (flow_marks fe (flags_hint c) a)) \<and> has t TAG_CODE)} = S" (is "?M = S")
  proof
    show "?M \<subseteq> S" using flow_marks_code [OF ok] by blast
    show "S \<subseteq> ?M" using S(3) flow_marks_self [OF ok] by blast
  qed
  then have "code_set d = code_set c \<union> S"
    by (simp only: adds_code_set [OF S(2)])
  then have new: "code_set d - code_set c = S" using S(3) by blast
  show "code_set d - code_set c \<subseteq> D" unfolding new by (rule S(1))
  show "adds c d (\<Union>a \<in> code_set d - code_set c. set (flow_marks fe (flags_hint c) a))"
    unfolding new by (rule S(2))
  show "full_search c \<Longrightarrow> b \<in> Q \<union> (\<Union>a \<in> code_set d - code_set c. set (flow_succs fe (flags_hint c) a)) \<Longrightarrow>
      is_inside_code_area c b \<Longrightarrow> b \<in> code_set d"
    unfolding new using S(4) by blast
qed

text \<open>
  The two facts every property of the search rests on: which tags it leaves, whatever the depth
  limit, and, without the limit, which addresses are code.
\<close>

lemma tag_recursive_marks:
  assumes "wf_tags c" and "decodes_from fe c pc"
  shows "res_ok (\<lambda>d. code_set d - code_set c \<subseteq> flow_reach fe c pc \<and>
           adds c d (\<Union>a \<in> code_set d - code_set c. set (flow_marks fe (flags_hint c) a)))
         (tag_recursive fe level pc c)"
  by (rule res_ok_mono [OF tag_recursive_search [OF assms]])
     (use search_state_new_code [OF _ flow_reach_closed [OF assms(2)]] in blast)

lemma tag_recursive_code:
  assumes "wf_tags c" and "decodes_from fe c pc" and "full_search c" and "code_closed fe c"
  shows "res_ok (\<lambda>d. code_set d = code_set c \<union> {a \<in> flow_reach fe c pc. is_inside_code_area c a} \<and>
           code_closed fe d) (tag_recursive fe level pc c)"
proof (rule res_ok_mono [OF tag_recursive_search [OF assms(1,2)]])
  fix d
  assume R: "search_state fe (flow_reach fe c pc) c d {} {pc}"
  note new = search_state_new_code [OF R flow_reach_closed [OF assms(2)]] and old = search_state_code [OF R]
    and frame = search_state_frame [OF R]
  have closed: "b \<in> code_set d"
    if "a \<in> code_set d" "b \<in> set (flow_succs fe (flags_hint c) a)" "is_inside_code_area c b" for a b
  proof (cases "a \<in> code_set c")
    case True
    then have "b \<in> code_set c" using that(2,3) assms(4) unfolding code_closed_def by blast
    then show ?thesis using old by blast
  next
    case False
    with that show ?thesis by (intro new(3) [OF assms(3)]) blast+
  qed
  then have "code_closed fe d" by (simp add: code_closed_def frame)
  moreover have "a \<in> code_set d" if "(flow_edge fe c)\<^sup>*\<^sup>* pc a" "is_inside_code_area c a" for a
    using that
  proof (induction rule: rtranclp_induct)
    case base
    then show ?case using new(3) [OF assms(3)] by simp
  next
    case (step a b)
    then show ?case using closed [of a b] by (simp add: flow_edge_def)
  qed
  moreover have "is_inside_code_area c a" if "a \<in> code_set d" for a
    using code_set_inside [OF that] by (simp add: frame)
  ultimately have "code_set d = code_set c \<union> {a \<in> flow_reach fe c pc. is_inside_code_area c a}"
    using new(1) old unfolding flow_reach_def by blast
  with \<open>code_closed fe d\<close> show "code_set d = code_set c \<union> {a \<in> flow_reach fe c pc. is_inside_code_area c a} \<and>
      code_closed fe d"
    by simp
qed

section \<open>Frontends\<close>

context tag_frontend
begin

lemma frontend_ok_decodable:
  assumes "decodable a"
    and "\<And>len v n. tag_instr a = Inr (len, v) \<Longrightarrow> v_next_pc v = Some n \<Longrightarrow> decodable n"
  shows "frontend_ok tag_instr hint a"
proof -
  obtain len v t n where r: "tag_instr a = Inr (len, v)" and n: "v_next_pc v = Some n" and c: "tag_contract v"
    using tag_instr_written [OF assms(1)] by metis
  from honours [OF assms(2) [OF r n]] have "res_ok (\<lambda>_. True) (tag_instr n)"
    by (rule res_ok_mono) simp
  with r n c show ?thesis by (simp add: frontend_ok_def)
qed

text \<open>A frontend that decodes every address never leaves the search without a tag.\<close>

lemma decodes_everywhere: "(\<And>a. decodable a) \<Longrightarrow> decodes_from tag_instr c pc"
  by (simp add: decodes_from_def frontend_ok_decodable)

text \<open>
  Nor does one that decodes what the code reaches, unless a trap returns to the instruction after
  the next: that one is decoded without being part of the flow.
\<close>

lemma decodes_reached:
  assumes "\<And>a. a \<in> flow_reach tag_instr c pc \<Longrightarrow> is_inside_code_area c a \<Longrightarrow> decodable a"
    and "\<not> has (flags_hint c) CPU_HINT_TRAP_RETURNS_TWICE"
  shows "decodes_from tag_instr c pc"
proof -
  have "frontend_ok tag_instr (flags_hint c) a" if "decodable a" for a
    using honours [OF that] assms(2)
    by (auto simp: frontend_ok_def trap_twice_def elim!: res_okE split: prod.splits option.splits)
  then show ?thesis using assms(1) by (simp add: decodes_from_def)
qed

end

section \<open>Properties\<close>

text \<open>A state with \<open>n\<close> bytes of code at address 0 and nothing tagged.\<close>

definition area_cpu :: "addr \<Rightarrow> ram \<Rightarrow> cpu" where
  "area_cpu n m = \<lparr>code_start = 0, code_end = n, flags_codegen = 0, flags_debug = 0, flags_hint = 0,
     RAM = m, tag_mem = Some (replicate (unat n) TAG_UNKNOWN), tags_dirty = False,
     file_entries = None, code_digest = []\<rparr>"

lemma area_cpu_simps [simp]:
  "code_start (area_cpu n m) = 0" "code_end (area_cpu n m) = n" "flags_hint (area_cpu n m) = 0"
  "flags_codegen (area_cpu n m) = 0" "flags_debug (area_cpu n m) = 0"
  "tag_mem (area_cpu n m) = Some (replicate (unat n) TAG_UNKNOWN)"
  "is_inside_code_area (area_cpu n m) a \<longleftrightarrow> a < n" "tag_index (area_cpu n m) a = unat a"
  by (simp_all add: area_cpu_def is_inside_code_area_def tag_index_def)

lemma area_cpu_wf: "wf_tags (area_cpu n m)"
  by (simp add: wf_tags_def)

lemma area_cpu_code: "code_set (area_cpu n m) = {}"
proof -
  have "tag_at (area_cpu n m) a = TAG_UNKNOWN" for a
    by (simp add: tag_at_def get_tag_def nth_res_def word_less_nat_alt)
  then show ?thesis by (auto simp: code_set_wf [OF area_cpu_wf])
qed

lemma area_cpu_closed: "code_closed fe (area_cpu n m)" "full_search (area_cpu n m)"
  by (simp_all add: code_closed_def area_cpu_code full_search_def)

text \<open>A frontend for which every byte is a return.\<close>

definition ret_frontend :: tag_fn where
  "ret_frontend pc = Inr (1, \<lparr>v_tag = Some TAG_RET, v_new_pc = None, v_next_pc = Some (pc + 1)\<rparr>)"

lemma ret_frontend_decodes: "decodes_from ret_frontend c pc"
  by (simp add: decodes_from_def frontend_ok_def ret_frontend_def tag_contract_def trap_twice_def bits)

text \<open>
  C1. Where the frontend keeps its contract on the flow out of \<open>pc\<close>, the search neither reads a
  variable that was not written nor a tag outside the array, and it changes the tags only:
  every tag bit that is set afterwards was set before or is a mark of an instruction found by
  this search, and every mark of such an instruction is there. All instructions found lie on the
  flow out of \<open>pc\<close>. This holds with and without the depth limit.
\<close>

theorem tag_recursive_exact:
  assumes "wf_tags c" and "decodes_from fe c pc"
  shows "res_ok (\<lambda>d.
      (\<exists>ts. d = c\<lparr>tag_mem := Some ts\<rparr> \<and> length ts = unat (code_end c - code_start c)) \<and>
      code_set d - code_set c \<subseteq> flow_reach fe c pc \<and>
      (\<forall>a m. is_inside_code_area c a \<longrightarrow>
         (has (tag_at d a) m \<longleftrightarrow>
            has (tag_at c a) m \<or>
            (\<exists>b \<in> code_set d - code_set c. \<exists>t. (a, t) \<in> set (flow_marks fe (flags_hint c) b) \<and> has t m))))
    (tag_recursive fe level pc c)"
proof (rule res_ok_mono [OF tag_recursive_marks [OF assms]], elim conjE, intro conjI)
  fix d
  assume A: "adds c d (\<Union>a \<in> code_set d - code_set c. set (flow_marks fe (flags_hint c) a))"
  from A have wf: "wf_tags d" and eq: "d = c\<lparr>tag_mem := tag_mem d\<rparr>" unfolding adds_def by blast+
  from wf obtain ts where ts: "tag_mem d = Some ts" "length ts = unat (code_end d - code_start d)"
    by (auto simp: wf_tags_def split: option.splits)
  have "length ts = unat (code_end c - code_start c)" using ts(2) by (simp add: adds_frame [OF A])
  then show "\<exists>ts. d = c\<lparr>tag_mem := Some ts\<rparr> \<and> length ts = unat (code_end c - code_start c)"
    using eq ts(1) by auto
  show "\<forall>a m. is_inside_code_area c a \<longrightarrow>
      (has (tag_at d a) m \<longleftrightarrow> has (tag_at c a) m \<or>
        (\<exists>b \<in> code_set d - code_set c. \<exists>t. (a, t) \<in> set (flow_marks fe (flags_hint c) b) \<and> has t m))"
    using A unfolding adds_def by blast
qed

theorem tag_recursive_exact_witness:
  "is_inside_code_area (area_cpu 4 (\<lambda>_. 0)) 2 \<and>
   res_ok (\<lambda>d. code_set d \<subseteq> flow_reach ret_frontend (area_cpu 4 (\<lambda>_. 0)) 2)
     (tag_recursive ret_frontend 0 2 (area_cpu 4 (\<lambda>_. 0)))"
  by (intro conjI res_ok_mono [OF tag_recursive_exact [OF area_cpu_wf ret_frontend_decodes]])
     (simp_all add: area_cpu_code)

text \<open>
  C2. Without the depth limit, and from a state in which the flow does not leave the tagged code,
  the search finds exactly what the flow reaches inside the code area, and again the flow does
  not leave the tagged code.
\<close>

theorem tag_recursive_code_set:
  assumes "wf_tags c" and "decodes_from fe c pc" and "full_search c" and "code_closed fe c"
  shows "res_ok (\<lambda>d. code_set d = code_set c \<union> {a \<in> flow_reach fe c pc. is_inside_code_area c a} \<and>
           code_closed fe d) (tag_recursive fe level pc c)"
  using assms by (rule tag_recursive_code)

theorem tag_recursive_code_set_witness:
  "res_ok (\<lambda>d. 2 \<in> code_set d) (tag_recursive ret_frontend 0 2 (area_cpu 4 (\<lambda>_. 0)))"
  using tag_recursive_code_set [OF area_cpu_wf ret_frontend_decodes area_cpu_closed(2,1), of 4 "\<lambda>_. 0" 2 0]
  by (rule res_ok_mono) simp

text \<open>
  C8. A frontend that returns without writing the tag leaves the search reading a variable that
  was never written: the first instruction of a search that the frontend cannot decode is
  undefined behaviour, not a skipped instruction.
\<close>

theorem tag_recursive_unwritten:
  assumes "is_inside_code_area c pc" and "is_code c pc = Inr False" and "\<not> limit_reached c level"
    and "fe pc = Inr (len, v)" and "v_tag v = None"
  shows "tag_recursive fe level pc c = Inl Indeterminate"
  using assms
  by (simp add: tag_recursive_def tag_loop.simps [of fe level no_vars pc c] assign_outs_def)
     (simp add: no_vars_def)

theorem tag_recursive_unwritten_witness:
  "tag_recursive (\<lambda>_. Inr (- 1, no_vars)) 0 2 (area_cpu 4 (\<lambda>_. 0)) = Inl Indeterminate"
  by (rule tag_recursive_unwritten [where len = "- 1" and v = no_vars])
     (simp_all add: is_code_def get_tag_def limit_reached_def no_vars_def nth_res_def)

end
