(* ===== verification/Sha1.thy ===== *)
theory Sha1
  imports Prelude
begin

text \<open>
  \<open>libcpu/sha1.cpp\<close>: the digest of the guest code that names the entry cache of
  \<open>libcpu/tag.cpp\<close>. The routine expands the message schedule in place, in a circular block
  of sixteen words; the reference below is FIPS 180-1 as its text has it, with the schedule
  of eighty words and the padding written out. A host with little-endian words is modelled
  (\<open>WORDS_BIGENDIAN\<close> unset).
\<close>

section \<open>The block transformation\<close>

definition rol :: "32 word \<Rightarrow> nat \<Rightarrow> 32 word" where
  "rol value bits = push_bit bits value OR drop_bit (32 - bits) value"

type_synonym block = "32 word list"
type_synonym working = "32 word \<times> 32 word \<times> 32 word \<times> 32 word \<times> 32 word"

text \<open>\<open>memcpy(block, buffer, 64)\<close> into the union: bytes read back as little-endian words.\<close>

definition le32 :: "byte \<Rightarrow> byte \<Rightarrow> byte \<Rightarrow> byte \<Rightarrow> 32 word" where
  "le32 b0 b1 b2 b3 =
     ucast b0 OR push_bit 8 (ucast b1) OR push_bit 16 (ucast b2) OR push_bit 24 (ucast b3)"

fun load_block :: "byte list \<Rightarrow> block" where
  "load_block (b0 # b1 # b2 # b3 # bs) = le32 b0 b1 b2 b3 # load_block bs"
| "load_block bs = []"

definition blk0 :: "block \<Rightarrow> nat \<Rightarrow> 32 word \<times> block" where
  "blk0 l i =
     (let x = (rol (l ! i) 24 AND 0xFF00FF00) OR (rol (l ! i) 8 AND 0x00FF00FF) in (x, l[i := x]))"

definition blk :: "block \<Rightarrow> nat \<Rightarrow> 32 word \<times> block" where
  "blk l i =
     (let x = rol (l ! ((i + 13) mod 16) XOR l ! ((i + 8) mod 16) XOR l ! ((i + 2) mod 16) XOR l ! (i mod 16)) 1
      in (x, l[i mod 16 := x]))"

text \<open>
  The round macros assign to \<open>z\<close> and \<open>w\<close>; the calls rotate the names of the five variables
  by one from round to round. Here the tuple rotates instead: a round turns
  \<open>(v, w, x, y, z)\<close> into \<open>(z', v, w', x, y)\<close>, and after eighty rounds each name is back in
  its place.
\<close>

definition sha_round ::
  "32 word \<Rightarrow> 32 word \<Rightarrow> 32 word \<times> block \<Rightarrow> working \<Rightarrow> working \<times> block" where
  "sha_round f k b vars = (case (b, vars) of ((x_i, l), (v, w, x, y, z)) \<Rightarrow>
     ((z + (f + x_i + k + rol v 5), v, rol w 30, x, y), l))"

definition R0 :: "nat \<Rightarrow> working \<times> block \<Rightarrow> working \<times> block" where
  "R0 i s = (case s of ((v, w, x, y, z), l) \<Rightarrow>
     sha_round ((w AND (x XOR y)) XOR y) 0x5A827999 (blk0 l i) (v, w, x, y, z))"

definition R1 :: "nat \<Rightarrow> working \<times> block \<Rightarrow> working \<times> block" where
  "R1 i s = (case s of ((v, w, x, y, z), l) \<Rightarrow>
     sha_round ((w AND (x XOR y)) XOR y) 0x5A827999 (blk l i) (v, w, x, y, z))"

definition R2 :: "nat \<Rightarrow> working \<times> block \<Rightarrow> working \<times> block" where
  "R2 i s = (case s of ((v, w, x, y, z), l) \<Rightarrow>
     sha_round (w XOR x XOR y) 0x6ED9EBA1 (blk l i) (v, w, x, y, z))"

definition R3 :: "nat \<Rightarrow> working \<times> block \<Rightarrow> working \<times> block" where
  "R3 i s = (case s of ((v, w, x, y, z), l) \<Rightarrow>
     sha_round (((w OR x) AND y) OR (w AND x)) 0x8F1BBCDC (blk l i) (v, w, x, y, z))"

definition R4 :: "nat \<Rightarrow> working \<times> block \<Rightarrow> working \<times> block" where
  "R4 i s = (case s of ((v, w, x, y, z), l) \<Rightarrow>
     sha_round (w XOR x XOR y) 0xCA62C1D6 (blk l i) (v, w, x, y, z))"

definition SHA1Transform :: "32 word list \<Rightarrow> byte list \<Rightarrow> 32 word list" where
  "SHA1Transform state buffer =
     (let s = ((state ! 0, state ! 1, state ! 2, state ! 3, state ! 4), load_block buffer);
          s = fold R0 [0..<16] s;
          s = fold R1 [16..<20] s;
          s = fold R2 [20..<40] s;
          s = fold R3 [40..<60] s;
          s = fold R4 [60..<80] s
      in case s of ((a, b, c, d, e), _) \<Rightarrow>
           [state ! 0 + a, state ! 1 + b, state ! 2 + c, state ! 3 + d, state ! 4 + e])"

section \<open>The streaming interface\<close>

record sha_ctx =
  sha_state :: "32 word list"
  count0 :: "32 word"
  count1 :: "32 word"
  buffer :: "byte list"

definition SHA1Init :: "sha_ctx \<Rightarrow> sha_ctx" where
  "SHA1Init ctx = ctx\<lparr>
     sha_state := [0x67452301, 0xEFCDAB89, 0x98BADCFE, 0x10325476, 0xC3D2E1F0],
     count0 := 0, count1 := 0\<rparr>"

text \<open>Bytes \<open>i\<close> to \<open>i + n - 1\<close> of what a caller passed, and \<open>memcpy\<close> into a buffer.\<close>

definition slice :: "byte list \<Rightarrow> nat \<Rightarrow> nat \<Rightarrow> byte list res" where
  "slice data i n = (if i + n \<le> length data then Inr (take n (drop i data)) else Inl OutOfBounds)"

definition memcpy :: "byte list \<Rightarrow> nat \<Rightarrow> byte list \<Rightarrow> byte list res" where
  "memcpy buf j src =
     (if j + length src \<le> length buf then Inr (take j buf @ src @ drop (j + length src) buf)
      else Inl BufferOverflow)"

function transform_loop :: "32 word list \<Rightarrow> byte list \<Rightarrow> 32 word \<Rightarrow> 32 word \<Rightarrow> (32 word list \<times> 32 word) res" where
  "transform_loop state data len i =
     (if i + 63 < len then
        if unat i + 64 \<le> unat len then
          res_bind (slice data (unat i) 64) (\<lambda>chunk.
          transform_loop (SHA1Transform state chunk) data len (i + 64))
        else Inl OutOfBounds
      else Inr (state, i))"
  by pat_completeness auto

lemma unat_add64:
  fixes i len :: "32 word"
  assumes "unat i + 64 \<le> unat len"
  shows "unat (i + 64) = unat i + 64"
proof -
  have "unat len < 4294967296" using unsigned_less [of len, where 'a = nat] by simp
  with assms show ?thesis by (simp add: unat_word_ariths)
qed

termination transform_loop
  by (relation "measure (\<lambda>(state, data, len, i). unat len - unat i)") (auto simp: unat_add64)

declare transform_loop.simps [simp del]

definition SHA1Update :: "sha_ctx \<Rightarrow> byte list \<Rightarrow> 32 word \<Rightarrow> sha_ctx res" where
  "SHA1Update ctx data len =
     (let j = count0 ctx;
          c0 = count0 ctx + push_bit 3 len;
          c1 = count1 ctx + (if c0 < j then 1 else 0);
          c1 = c1 + drop_bit 29 len;
          j = drop_bit 3 j AND 63
      in res_bind
           (if j + len > 63 then
              res_bind (slice data 0 (unat (64 - j))) (\<lambda>src.
              res_bind (memcpy (buffer ctx) (unat j) src) (\<lambda>buf.
              res_bind (transform_loop (SHA1Transform (sha_state ctx) buf) data len (64 - j)) (\<lambda>(st, i).
              Inr (st, buf, 0, i))))
            else Inr (sha_state ctx, buffer ctx, j, 0)) (\<lambda>(st, buf, j, i).
         res_bind (slice data (unat i) (unat (len - i))) (\<lambda>src.
         res_bind (memcpy buf (unat j) src) (\<lambda>buf.
         Inr (ctx\<lparr>sha_state := st, count0 := c0, count1 := c1, buffer := buf\<rparr>)))))"

definition finalcount :: "sha_ctx \<Rightarrow> byte list" where
  "finalcount ctx = map (\<lambda>i. ucast (drop_bit ((3 - i mod 4) * 8)
     (if i \<ge> 4 then count0 ctx else count1 ctx) AND 255)) [0..<8]"

text \<open>
  \<open>while ((context->count[0] & 504) != 448)\<close>. Each round moves the bit count on by eight, so
  the six bits the mask keeps reach 56 after at most 64 rounds.
\<close>

definition byte_count6 :: "32 word \<Rightarrow> nat" where
  "byte_count6 c = unat c div 8 mod 64"

lemma and_504: "c AND 504 = 448 \<longleftrightarrow> byte_count6 c = 56"
proof -
  have "(504 :: 32 word) = push_bit 3 (mask 6)" by (simp add: mask_eq_exp_minus_1)
  moreover have "c AND push_bit 3 (mask 6) = push_bit 3 (take_bit 6 (drop_bit 3 c))"
    by (rule bit_word_eqI) (auto simp: bit_simps)
  ultimately have "c AND 504 = push_bit 3 (take_bit 6 (drop_bit 3 c))" by simp
  moreover have "unat (push_bit 3 (take_bit 6 (drop_bit 3 c))) = 8 * byte_count6 c"
    unfolding byte_count6_def unsigned_push_bit_eq unsigned_take_bit_eq unsigned_drop_bit_eq
    using unsigned_less [of c, where 'a = nat]
    by (simp add: take_bit_eq_mod drop_bit_eq_div push_bit_eq_mult)
  ultimately show ?thesis by (simp add: word_unat_eq_iff)
qed

lemma byte_count6_add8: "byte_count6 (c + 8) = Suc (byte_count6 c) mod 64"
proof -
  have "(unat c + 8) mod (8 * 536870912) div 8 = (unat c + 8) div 8 mod 536870912"
    by (simp only: mod_mult2_eq)
  moreover have "(unat c + 8) div 8 = Suc (unat c div 8)" by simp
  ultimately have "unat (c + 8) div 8 = (Suc (unat c div 8)) mod 536870912"
    by (simp add: unat_word_ariths)
  moreover have "x mod 536870912 mod 64 = x mod 64" for x :: nat
    by (rule mod_mod_cancel) simp
  ultimately show ?thesis by (simp add: byte_count6_def mod_Suc_eq)
qed

lemma SHA1Update_count0: "SHA1Update ctx data len = Inr ctx' \<Longrightarrow> count0 ctx' = count0 ctx + push_bit 3 len"
  by (auto simp: SHA1Update_def Let_def res_bind_Inr_iff split: if_splits)

lemma pad_count:
  assumes "y \<noteq> 56" and "y < (64 :: nat)"
  shows "(120 - y) mod 64 = Suc ((120 - Suc y mod 64) mod 64)"
proof -
  consider "y < 56" | "56 < y" "y < 63" | "y = 63" using assms by linarith
  then show ?thesis
  proof cases
    case 1
    then have "(120 - y) mod 64 = 56 - y" and "(120 - Suc y) mod 64 = 55 - y"
      by (simp_all add: mod_if)
    with 1 show ?thesis by simp
  qed simp_all
qed

lemma pad_step:
  assumes "c AND 504 \<noteq> (448 :: 32 word)"
  shows "(120 - byte_count6 (c + 8)) mod 64 < (120 - byte_count6 c) mod 64"
proof -
  have "byte_count6 c < 64" by (simp add: byte_count6_def)
  with assms show ?thesis using pad_count [of "byte_count6 c"] by (simp add: and_504 byte_count6_add8)
qed

function pad_loop :: "sha_ctx \<Rightarrow> sha_ctx res" where
  "pad_loop ctx =
     (if count0 ctx AND 504 \<noteq> 448 then
        res_bind (SHA1Update ctx [0] 1) (\<lambda>ctx. pad_loop ctx)
      else Inr ctx)"
  by pat_completeness auto

termination pad_loop
  by (relation "measure (\<lambda>ctx. (120 - byte_count6 (count0 ctx)) mod 64)")
     (auto dest!: SHA1Update_count0 simp: pad_step)

declare pad_loop.simps [simp del]

definition digest_bytes :: "32 word list \<Rightarrow> byte list" where
  "digest_bytes st = map (\<lambda>i. ucast (drop_bit ((3 - i mod 4) * 8) (st ! (i div 4)) AND 255)) [0..<20]"

definition SHA1Final :: "sha_ctx \<Rightarrow> byte list res" where
  "SHA1Final ctx =
     res_bind (SHA1Update ctx [0x80] 1) (\<lambda>ctx1.
     res_bind (pad_loop ctx1) (\<lambda>ctx2.
     res_bind (SHA1Update ctx2 (finalcount ctx) 8) (\<lambda>ctx3.
     Inr (digest_bytes (sha_state ctx3)))))"

section \<open>FIPS 180-1\<close>

definition be32 :: "byte \<Rightarrow> byte \<Rightarrow> byte \<Rightarrow> byte \<Rightarrow> 32 word" where
  "be32 b0 b1 b2 b3 = le32 b3 b2 b1 b0"

fun fips_words :: "byte list \<Rightarrow> 32 word list" where
  "fips_words (b0 # b1 # b2 # b3 # bs) = be32 b0 b1 b2 b3 # fips_words bs"
| "fips_words bs = []"

fun fips_W :: "32 word list \<Rightarrow> nat \<Rightarrow> 32 word" where
  "fips_W M t =
     (if t < 16 then M ! t
      else rol (fips_W M (t - 3) XOR fips_W M (t - 8) XOR fips_W M (t - 14) XOR fips_W M (t - 16)) 1)"

declare fips_W.simps [simp del]

definition fips_f :: "nat \<Rightarrow> 32 word \<Rightarrow> 32 word \<Rightarrow> 32 word \<Rightarrow> 32 word" where
  "fips_f t b c d =
     (if t < 20 then (b AND c) OR (NOT b AND d)
      else if t < 40 then b XOR c XOR d
      else if t < 60 then (b AND c) OR (b AND d) OR (c AND d)
      else b XOR c XOR d)"

definition fips_K :: "nat \<Rightarrow> 32 word" where
  "fips_K t = (if t < 20 then 0x5A827999 else if t < 40 then 0x6ED9EBA1
               else if t < 60 then 0x8F1BBCDC else 0xCA62C1D6)"

definition fips_step :: "32 word list \<Rightarrow> nat \<Rightarrow> working \<Rightarrow> working" where
  "fips_step M t vars = (case vars of (a, b, c, d, e) \<Rightarrow>
     (rol a 5 + fips_f t b c d + e + fips_W M t + fips_K t, a, rol b 30, c, d))"

definition fips_compress :: "32 word list \<Rightarrow> byte list \<Rightarrow> 32 word list" where
  "fips_compress H chunk =
     (case fold (fips_step (fips_words chunk)) [0..<80] (H ! 0, H ! 1, H ! 2, H ! 3, H ! 4) of
        (a, b, c, d, e) \<Rightarrow> [H ! 0 + a, H ! 1 + b, H ! 2 + c, H ! 3 + d, H ! 4 + e])"

function fips_blocks :: "32 word list \<Rightarrow> byte list \<Rightarrow> 32 word list" where
  "fips_blocks H bs =
     (if length bs < 64 then H else fips_blocks (fips_compress H (take 64 bs)) (drop 64 bs))"
  by pat_completeness auto

termination fips_blocks
  by (relation "measure (\<lambda>(H, bs). length bs)") auto

declare fips_blocks.simps [simp del]

definition fips_init :: "32 word list" where
  "fips_init = [0x67452301, 0xEFCDAB89, 0x98BADCFE, 0x10325476, 0xC3D2E1F0]"

definition be_bytes :: "32 word \<Rightarrow> byte list" where
  "be_bytes w = [ucast (drop_bit 24 w), ucast (drop_bit 16 w), ucast (drop_bit 8 w), ucast w]"

definition fips_pad :: "byte list \<Rightarrow> byte list" where
  "fips_pad m = m @ [0x80] @ replicate ((119 - length m mod 64) mod 64) 0 @
     be_bytes (word_of_nat (8 * length m div 4294967296)) @ be_bytes (word_of_nat (8 * length m))"

definition fips_sha1 :: "byte list \<Rightarrow> byte list" where
  "fips_sha1 m = concat (map be_bytes (fips_blocks fips_init (fips_pad m)))"

section \<open>The transformation computes the reference schedule and rounds\<close>

lemma byte_swap: "(rol (le32 b0 b1 b2 b3) 24 AND 0xFF00FF00) OR (rol (le32 b0 b1 b2 b3) 8 AND 0x00FF00FF)
    = be32 b0 b1 b2 b3"
proof (rule bit_word_eqI)
  fix n
  assume "n < LENGTH(32)"
  then have "n \<in> set [0..<32]" by simp
  then show "bit ((rol (le32 b0 b1 b2 b3) 24 AND 0xFF00FF00) OR
      (rol (le32 b0 b1 b2 b3) 8 AND 0x00FF00FF)) n = bit (be32 b0 b1 b2 b3) n"
    by (simp del: set_upt add: upt_conv_Cons) (elim disjE; simp add: le32_def be32_def rol_def bit_simps byte_bit; (simp add: eval_nat_numeral)?)
qed

lemma fips_words_load:
  "fips_words bs = map (\<lambda>x. (rol x 24 AND 0xFF00FF00) OR (rol x 8 AND 0x00FF00FF)) (load_block bs)"
  by (induction bs rule: fips_words.induct) (simp_all add: byte_swap)

lemma length_load_block: "length (load_block bs) = length bs div 4"
  by (induction bs rule: load_block.induct) simp_all

text \<open>
  After \<open>t\<close> rounds the circular block holds the last sixteen schedule words; in the first
  sixteen rounds the words not yet reached are still as loaded.
\<close>

definition loading :: "byte list \<Rightarrow> nat \<Rightarrow> block \<Rightarrow> bool" where
  "loading bs t l \<longleftrightarrow> length l = 16 \<and>
     (\<forall>k<t. l ! k = fips_W (fips_words bs) k) \<and> (\<forall>k<16. t \<le> k \<longrightarrow> l ! k = load_block bs ! k)"

definition circular :: "32 word list \<Rightarrow> nat \<Rightarrow> block \<Rightarrow> bool" where
  "circular M t l \<longleftrightarrow> length l = 16 \<and> (\<forall>s. s < t \<longrightarrow> t \<le> s + 16 \<longrightarrow> l ! (s mod 16) = fips_W M s)"

lemma blk0_loading:
  assumes "loading bs t l" and "t < 16" and "length bs = 64"
  shows "blk0 l t = (fips_W (fips_words bs) t, l[t := fips_W (fips_words bs) t])"
    and "loading bs (Suc t) (l[t := fips_W (fips_words bs) t])"
proof -
  have "fips_W (fips_words bs) t = fips_words bs ! t"
    using assms(2) by (simp add: fips_W.simps)
  also have "\<dots> = (rol (l ! t) 24 AND 0xFF00FF00) OR (rol (l ! t) 8 AND 0x00FF00FF)"
    using assms by (simp add: fips_words_load length_load_block loading_def)
  finally show "blk0 l t = (fips_W (fips_words bs) t, l[t := fips_W (fips_words bs) t])"
    by (simp add: blk0_def Let_def)
  show "loading bs (Suc t) (l[t := fips_W (fips_words bs) t])"
    using assms by (auto simp: loading_def nth_list_update less_Suc_eq)
qed

lemma loading_circular: "loading bs 16 l \<Longrightarrow> circular (fips_words bs) 16 l"
  by (auto simp: loading_def circular_def)

lemma blk_circular:
  assumes "circular M t l" and "16 \<le> t"
  shows "blk l t = (fips_W M t, l[t mod 16 := fips_W M t])"
    and "circular M (Suc t) (l[t mod 16 := fips_W M t])"
proof -
  have prev: "l ! ((t + (16 - d)) mod 16) = fips_W M (t - d)" if "0 < d" "d \<le> 16" for d
  proof -
    have "t + (16 - d) = (t - d) + 16" using that assms(2) by simp
    then have "(t + (16 - d)) mod 16 = (t - d) mod 16" by (metis mod_add_self2)
    then show ?thesis using assms that by (simp add: circular_def)
  qed
  have "fips_W M t = rol (fips_W M (t - 3) XOR fips_W M (t - 8) XOR fips_W M (t - 14) XOR fips_W M (t - 16)) 1"
    using assms(2) by (subst fips_W.simps) simp
  also have "\<dots> = rol (l ! ((t + 13) mod 16) XOR l ! ((t + 8) mod 16) XOR l ! ((t + 2) mod 16) XOR l ! (t mod 16)) 1"
    using prev [of 3] prev [of 8] prev [of 14] prev [of 16] by simp
  finally show "blk l t = (fips_W M t, l[t mod 16 := fips_W M t])"
    by (simp add: blk_def Let_def)
  have "s mod 16 \<noteq> t mod 16" if "s < t" "Suc t \<le> s + 16" for s
  proof
    assume "s mod 16 = t mod 16"
    then have "16 dvd t - s" using that by (metis less_imp_le mod_eq_dvd_iff_nat)
    with that show False by (auto dest!: dvd_imp_le)
  qed
  then show "circular M (Suc t) (l[t mod 16 := fips_W M t])"
    using assms by (auto simp: circular_def nth_list_update less_Suc_eq; blast)
qed

lemma fold_upt_invariant:
  assumes "\<And>t s v. a \<le> t \<Longrightarrow> t < b \<Longrightarrow> I t v s \<Longrightarrow> I (Suc t) (g t v) (f t s)"
    and "I a v s" and "a \<le> b"
  shows "I b (fold g [a..<b] v) (fold f [a..<b] s)"
  using assms(3,1)
proof (induction b rule: dec_induct)
  case base
  then show ?case using assms(2) by simp
next
  case (step n)
  then have "I n (fold g [a..<n] v) (fold f [a..<n] s)" by simp
  with step show ?case by simp
qed

lemma upt_split: "a \<le> b \<Longrightarrow> b \<le> c \<Longrightarrow> [a..<c] = [a..<b] @ [b..<c]"
  using upt_add_eq_append [of a b "c - b"] by simp

lemma choose_bits: "(w AND (x XOR y)) XOR y = (w AND x) OR (NOT w AND (y :: 32 word))"
  by (rule bit_word_eqI) (auto simp: bit_simps)

lemma majority_bits: "((w OR x) AND y) OR (w AND x) = (w AND x) OR (w AND y) OR (x AND (y :: 32 word))"
  by (rule bit_word_eqI) (auto simp: bit_simps)

lemma sha_round_step:
  assumes "f = fips_f t w x y" and "k = fips_K t"
  shows "sha_round f k (fips_W M t, l) (v, w, x, y, z) = (fips_step M t (v, w, x, y, z), l)"
  using assms by (simp add: sha_round_def fips_step_def algebra_simps)

definition loading_state :: "byte list \<Rightarrow> nat \<Rightarrow> working \<Rightarrow> working \<times> block \<Rightarrow> bool" where
  "loading_state bs t v s \<longleftrightarrow> fst s = v \<and> loading bs t (snd s)"

definition circular_state :: "32 word list \<Rightarrow> nat \<Rightarrow> working \<Rightarrow> working \<times> block \<Rightarrow> bool" where
  "circular_state M t v s \<longleftrightarrow> fst s = v \<and> circular M t (snd s)"

lemma R0_step:
  "length bs = 64 \<Longrightarrow> t < 16 \<Longrightarrow> loading_state bs t v s \<Longrightarrow>
    loading_state bs (Suc t) (fips_step (fips_words bs) t v) (R0 t s)"
  by (cases s; cases v)
     (auto simp: loading_state_def R0_def blk0_loading sha_round_step choose_bits fips_f_def fips_K_def)

lemma R1_step:
  "16 \<le> t \<Longrightarrow> t < 20 \<Longrightarrow> circular_state M t v s \<Longrightarrow> circular_state M (Suc t) (fips_step M t v) (R1 t s)"
  by (cases s; cases v)
     (auto simp: circular_state_def R1_def blk_circular sha_round_step choose_bits fips_f_def fips_K_def)

lemma R2_step:
  "20 \<le> t \<Longrightarrow> t < 40 \<Longrightarrow> circular_state M t v s \<Longrightarrow> circular_state M (Suc t) (fips_step M t v) (R2 t s)"
  by (cases s; cases v)
     (auto simp: circular_state_def R2_def blk_circular sha_round_step fips_f_def fips_K_def)

lemma R3_step:
  "40 \<le> t \<Longrightarrow> t < 60 \<Longrightarrow> circular_state M t v s \<Longrightarrow> circular_state M (Suc t) (fips_step M t v) (R3 t s)"
  by (cases s; cases v)
     (auto simp: circular_state_def R3_def blk_circular sha_round_step majority_bits fips_f_def fips_K_def)

lemma R4_step:
  "60 \<le> t \<Longrightarrow> circular_state M t v s \<Longrightarrow> circular_state M (Suc t) (fips_step M t v) (R4 t s)"
  by (cases s; cases v)
     (auto simp: circular_state_def R4_def blk_circular sha_round_step fips_f_def fips_K_def)

lemma transform_compress:
  assumes "length bs = 64"
  shows "SHA1Transform st bs = fips_compress st bs"
proof -
  let ?M = "fips_words bs" and ?v = "(st ! 0, st ! 1, st ! 2, st ! 3, st ! 4)"
  let ?g = "fips_step ?M"
  define s0 where "s0 = (?v, load_block bs)"
  define s1 where "s1 = fold R0 [0..<16] s0"
  define s2 where "s2 = fold R1 [16..<20] s1"
  define s3 where "s3 = fold R2 [20..<40] s2"
  define s4 where "s4 = fold R3 [40..<60] s3"
  define s5 where "s5 = fold R4 [60..<80] s4"
  have "loading_state bs 0 ?v s0"
    using assms by (simp add: loading_state_def loading_def s0_def length_load_block)
  then have "loading_state bs 16 (fold ?g [0..<16] ?v) s1"
    unfolding s1_def by (rule fold_upt_invariant [rotated]) (simp_all add: R0_step assms)
  then have "circular_state ?M 16 (fold ?g [0..<16] ?v) s1"
    by (simp add: loading_state_def circular_state_def loading_circular)
  then have "circular_state ?M 20 (fold ?g [16..<20] (fold ?g [0..<16] ?v)) s2"
    unfolding s2_def by (rule fold_upt_invariant [rotated]) (simp_all add: R1_step)
  then have "circular_state ?M 40 (fold ?g [20..<40] (fold ?g [16..<20] (fold ?g [0..<16] ?v))) s3"
    unfolding s3_def by (rule fold_upt_invariant [rotated]) (simp_all add: R2_step)
  then have "circular_state ?M 60 (fold ?g [40..<60] (fold ?g [20..<40] (fold ?g [16..<20] (fold ?g [0..<16] ?v)))) s4"
    unfolding s4_def by (rule fold_upt_invariant [rotated]) (simp_all add: R3_step)
  then have "circular_state ?M 80 (fold ?g [60..<80] (fold ?g [40..<60] (fold ?g [20..<40]
      (fold ?g [16..<20] (fold ?g [0..<16] ?v))))) s5"
    unfolding s5_def by (rule fold_upt_invariant [rotated]) (simp_all add: R4_step)
  moreover have "[0..<80] = [0..<16] @ [16..<20] @ [20..<40] @ [40..<60] @ [60..<80]"
    using upt_split [of 0 16 80] upt_split [of 16 20 80] upt_split [of 20 40 80] upt_split [of 40 60 80]
    by (simp only: le_numeral_extra numeral_le_iff semiring_norm zero_le)
  ultimately have "fst s5 = fold ?g [0..<80] ?v"
    by (simp only: circular_state_def fold_append comp_apply)
  moreover have "SHA1Transform st bs = (case fst s5 of (a, b, c, d, e) \<Rightarrow>
      [st ! 0 + a, st ! 1 + b, st ! 2 + c, st ! 3 + d, st ! 4 + e])"
    unfolding SHA1Transform_def Let_def s5_def s4_def s3_def s2_def s1_def s0_def
    by (simp only: split_beta)
  ultimately show ?thesis
    by (simp only: fips_compress_def)
qed

section \<open>Streaming\<close>

text \<open>
  \<open>absorbed ctx m\<close>: what the context holds after the bytes \<open>m\<close> went in: the digest of the
  whole chunks, the rest in the buffer, and the bit count on two words.
\<close>

definition absorbed :: "sha_ctx \<Rightarrow> byte list \<Rightarrow> bool" where
  "absorbed ctx m \<longleftrightarrow>
     sha_state ctx = fips_blocks fips_init m \<and>
     length (buffer ctx) = 64 \<and>
     take (length m mod 64) (buffer ctx) = drop (length m div 64 * 64) m \<and>
     count0 ctx = word_of_nat (8 * length m) \<and>
     count1 ctx = word_of_nat (8 * length m div 4294967296)"

lemma fips_blocks_short: "length bs < 64 \<Longrightarrow> fips_blocks H bs = H"
  by (simp add: fips_blocks.simps)

lemma fips_blocks_append:
  "64 dvd length a \<Longrightarrow> fips_blocks H (a @ b) = fips_blocks (fips_blocks H a) b"
proof (induction H a rule: fips_blocks.induct)
  case (1 H a)
  show ?case
  proof (cases "length a < 64")
    case True
    with "1.prems" have "a = []" by (auto dest: dvd_imp_le)
    then show ?thesis by (simp add: fips_blocks_short)
  next
    case False
    then have "64 dvd length (drop 64 a)" using "1.prems" by (simp add: dvd_diff_nat)
    with False 1 show ?thesis
      by (simp add: fips_blocks.simps [of H "a @ b"] fips_blocks.simps [of H a])
  qed
qed

lemma fips_blocks_one: "length c = 64 \<Longrightarrow> fips_blocks H c = fips_compress H c"
  by (subst fips_blocks.simps) (simp add: fips_blocks_short)

lemma transform_loop_blocks:
  assumes "length data = unat len" and "unat i \<le> unat len" and "unat len + 64 < 4294967296"
  shows "transform_loop st data len i =
    Inr (fips_blocks st (drop (unat i) data), i + word_of_nat ((unat len - unat i) div 64 * 64))"
  using assms
proof (induction st data len i rule: transform_loop.induct)
  case (1 st data len i)
  have i63: "unat (i + 63) = unat i + 63" using "1.prems" by (simp add: unat_word_ariths)
  show ?case
  proof (cases "i + 63 < len")
    case False
    then have "unat len - unat i < 64" by (simp add: word_less_nat_alt i63)
    with False "1.prems" show ?thesis
      by (simp add: transform_loop.simps [of st data len i] fips_blocks_short)
  next
    case True
    then have fits: "unat i + 64 \<le> unat len" by (simp add: word_less_nat_alt i63)
    then have i64: "unat (i + 64) = unat i + 64" by (rule unat_add64)
    define chunk where "chunk = take 64 (drop (unat i) data)"
    have chunk: "length chunk = 64" "slice data (unat i) 64 = Inr chunk"
      using fits "1.prems" by (simp_all add: chunk_def slice_def)
    have split: "drop (unat i) data = chunk @ drop (unat i + 64) data"
      unfolding chunk_def by (metis append_take_drop_id drop_drop add.commute)
    have "transform_loop st data len i = transform_loop (SHA1Transform st chunk) data len (i + 64)"
      using True fits chunk by (simp add: transform_loop.simps [of st data len i])
    also have "\<dots> = Inr (fips_blocks (SHA1Transform st chunk) (drop (unat (i + 64)) data),
        (i + 64) + word_of_nat ((unat len - unat (i + 64)) div 64 * 64))"
      using "1.IH" [OF True fits chunk(2)] "1.prems" fits i64 by simp
    also have "fips_blocks (SHA1Transform st chunk) (drop (unat (i + 64)) data) = fips_blocks st (drop (unat i) data)"
      unfolding split using chunk(1)
      by (simp add: fips_blocks_append fips_blocks_one transform_compress i64)
    also have "(i + 64) + word_of_nat ((unat len - unat (i + 64)) div 64 * 64)
        = i + word_of_nat ((unat len - unat i) div 64 * 64)"
    proof -
      have "(unat len - unat i) div 64 = Suc ((unat len - (unat i + 64)) div 64)"
        using fits by (simp add: le_div_geq flip: diff_diff_left)
      then show ?thesis by (simp add: i64 algebra_simps)
    qed
    finally show ?thesis .
  qed
qed

lemma buffered:
  assumes "absorbed ctx m"
  shows "unat (drop_bit 3 (count0 ctx) AND 63) = length m mod 64"
proof -
  have "drop_bit 3 (count0 ctx) AND 63 = take_bit 6 (drop_bit 3 (count0 ctx))"
    by (simp add: take_bit_eq_mask mask_eq_exp_minus_1)
  moreover have "count0 ctx = word_of_nat (8 * length m)"
    using assms by (simp add: absorbed_def)
  moreover have "unat (take_bit 6 (drop_bit 3 (word_of_nat n :: 32 word))) = n mod 4294967296 div 8 mod 64" for n
    by (simp add: unsigned_take_bit_eq unsigned_drop_bit_eq unsigned_of_nat take_bit_eq_mod drop_bit_eq_div
        unat_div unat_mod)
  moreover have "(8 * length m) mod (8 * 536870912) div 8 = 8 * length m div 8 mod 536870912"
    by (simp only: mod_mult2_eq)
  moreover have "length m mod 536870912 mod 64 = length m mod 64"
    by (rule mod_mod_cancel) simp
  ultimately show ?thesis by (simp del: of_nat_mult)
qed

lemma carry_iff: "a + b < a \<longleftrightarrow> 4294967296 \<le> unat a + unat (b :: 32 word)"
  using unsigned_less [of a, where 'a = nat] unsigned_less [of b, where 'a = nat]
  by (auto simp: word_less_nat_alt unat_word_ariths mod_if)

lemma count_step:
  assumes "absorbed ctx m" and "length data = unat len"
  shows "count0 ctx + push_bit 3 len = word_of_nat (8 * length (m @ data))"
    and "count1 ctx + (if count0 ctx + push_bit 3 len < count0 ctx then 1 else 0) + drop_bit 29 len =
      word_of_nat (8 * length (m @ data) div 4294967296)"
proof -
  let ?W = "4294967296 :: nat" and ?N = "8 * length m" and ?L = "8 * unat len"
  have push: "push_bit 3 len = word_of_nat ?L"
    by (simp add: push_bit_eq_mult)
  show sum: "count0 ctx + push_bit 3 len = word_of_nat (8 * length (m @ data))"
    using assms by (simp add: absorbed_def push_bit_eq_mult)
  have "(?N + ?L) div ?W = ?N div ?W + ?L div ?W + (?N mod ?W + ?L mod ?W) div ?W"
    by (rule div_add1_eq)
  also have "(?N mod ?W + ?L mod ?W) div ?W = (if ?W \<le> ?N mod ?W + ?L mod ?W then 1 else 0)"
    using mod_less_divisor [of ?W ?N] mod_less_divisor [of ?W ?L] by (simp add: div_if)
  also have "?L div ?W = unat len div 536870912" by simp
  finally have total: "word_of_nat ((?N + ?L) div ?W) = (word_of_nat (?N div ?W) +
      word_of_nat (unat len div 536870912) + (if ?W \<le> ?N mod ?W + ?L mod ?W then 1 else 0) :: 32 word)"
    by simp
  have high: "drop_bit 29 len = word_of_nat (unat len div 536870912)"
    using order.strict_trans1 [OF div_le_dividend unsigned_less [of len, where 'a = nat]]
    by (simp add: drop_bit_eq_div word_unat_eq_iff unat_div unsigned_of_nat take_bit_eq_mod)
  have "unat (word_of_nat n :: 32 word) = n mod ?W" for n
    by (simp add: unsigned_of_nat take_bit_eq_mod)
  then have "unat (count0 ctx) = ?N mod ?W" "unat (push_bit 3 len) = ?L mod ?W"
    using assms(1) unfolding push absorbed_def by metis+
  then have carry: "count0 ctx + push_bit 3 len < count0 ctx \<longleftrightarrow> ?W \<le> ?N mod ?W + ?L mod ?W"
    by (simp only: carry_iff)
  have c1: "count1 ctx = word_of_nat (?N div ?W)" using assms(1) unfolding absorbed_def by blast
  have len: "8 * length (m @ data) = ?N + ?L" using assms(2) by simp
  show "count1 ctx + (if count0 ctx + push_bit 3 len < count0 ctx then 1 else 0) + drop_bit 29 len =
      word_of_nat (8 * length (m @ data) div 4294967296)"
    unfolding len total carry high c1 by (simp only: ac_simps)
qed

lemma fips_blocks_whole: "fips_blocks H m = fips_blocks H (take (length m div 64 * 64) m)"
proof -
  have "64 dvd length (take (length m div 64 * 64) m)" by simp
  then have "fips_blocks H (take (length m div 64 * 64) m @ drop (length m div 64 * 64) m) =
      fips_blocks H (take (length m div 64 * 64) m)"
    by (subst fips_blocks_append) (simp_all add: fips_blocks_short minus_div_mult_eq_mod)
  then show ?thesis by simp
qed

lemma fill_up: "n + (64 - n mod 64) = n div 64 * 64 + (64 :: nat)"
proof -
  have "n mod 64 < 64" by simp
  moreover have "n div 64 * 64 + n mod 64 = n" by (rule div_mult_mod_eq)
  ultimately show ?thesis by linarith
qed

lemma fips_blocks_fill:
  assumes "absorbed ctx m" and "length d = 64 - length m mod 64"
  shows "SHA1Transform (sha_state ctx) (take (length m mod 64) (buffer ctx) @ d) = fips_blocks fips_init (m @ d)"
    and "64 dvd length (m @ d)"
proof -
  let ?k = "length m div 64 * 64"
  have len: "length (drop ?k m @ d) = 64"
    using assms(2) by (simp add: minus_div_mult_eq_mod)
  have "length (m @ d) = ?k + 64"
    using assms(2) by (simp only: length_append fill_up)
  then show "64 dvd length (m @ d)" by simp
  have "64 dvd length (take ?k m)" by simp
  then have "fips_blocks fips_init (take ?k m @ (drop ?k m @ d)) =
      fips_blocks (fips_blocks fips_init (take ?k m)) (drop ?k m @ d)"
    by (rule fips_blocks_append)
  then have "fips_blocks fips_init (m @ d) = fips_blocks (fips_blocks fips_init m) (drop ?k m @ d)"
    by (simp flip: fips_blocks_whole append_assoc)
  with assms(1) len show "SHA1Transform (sha_state ctx) (take (length m mod 64) (buffer ctx) @ d) =
      fips_blocks fips_init (m @ d)"
    by (simp add: absorbed_def transform_compress fips_blocks_one)
qed

text \<open>The bytes handed to an update go in after the bytes already absorbed.\<close>

lemma SHA1Update_absorbs:
  assumes "absorbed ctx m" and "length data = unat len" and "unat len + 64 < 4294967296"
  shows "res_ok (\<lambda>ctx'. absorbed ctx' (m @ data)) (SHA1Update ctx data len)"
proof -
  define r where "r = length m mod 64"
  define j where "j = drop_bit 3 (count0 ctx) AND 63"
  have j: "unat j = r" unfolding j_def r_def by (rule buffered [OF assms(1)])
  have r: "r < 64" by (simp add: r_def)
  have sum: "unat (j + len) = r + unat len" using assms(3) r by (simp add: unat_word_ariths j)
  note count = count_step [OF assms(1,2)]
  have buf: "length (buffer ctx) = 64" "take r (buffer ctx) = drop (length m div 64 * 64) m"
    using assms(1) by (simp_all add: absorbed_def r_def)
  show ?thesis
  proof (cases "j + len > 63")
    case False
    then have small: "r + unat len < 64" by (simp add: word_less_nat_alt sum)
    have "length (m @ data) = (r + unat len) + length m div 64 * 64"
      using assms(2) div_mult_mod_eq [of "length m" 64] by (simp add: r_def)
    then have q: "length (m @ data) mod 64 = r + unat len" "length (m @ data) div 64 = length m div 64"
      using small by (simp_all only: div_mult_self1 mod_mult_self1) simp_all
    have "fips_blocks fips_init (m @ data) = fips_blocks fips_init (take (length m div 64 * 64) (m @ data))"
      using fips_blocks_whole [of fips_init "m @ data"] by (simp only: q)
    also have "\<dots> = fips_blocks fips_init m"
      by (subst (2) fips_blocks_whole) simp
    finally have st: "fips_blocks fips_init (m @ data) = sha_state ctx"
      using assms(1) by (simp add: absorbed_def)
    define buf' where "buf' = take r (buffer ctx) @ data @ drop (r + unat len) (buffer ctx)"
    have copy: "memcpy (buffer ctx) (unat j) data = Inr buf'"
      using small buf assms(2) by (simp add: memcpy_def j buf'_def)
    have len': "length buf' = 64"
      using small buf(1) assms(2) by (simp add: buf'_def)
    have "take (r + unat len) buf' = take r (buffer ctx) @ data"
      using small buf(1) assms(2) by (simp add: buf'_def)
    also have "\<dots> = drop (length m div 64 * 64) (m @ data)"
      by (simp add: buf(2))
    finally have "take (r + unat len) buf' = drop (length m div 64 * 64) (m @ data)" .
    with copy False st len' q count assms(2) show ?thesis
      by (simp add: SHA1Update_def Let_def j_def [symmetric] slice_def absorbed_def)
  next
    case True
    then have big: "64 \<le> r + unat len" by (simp add: word_less_nat_alt sum)
    have d: "unat (64 - j) = 64 - r" using r by (simp add: unat_sub word_le_nat_alt j)
    define first where "first = take (64 - r) data"
    have first: "length first = 64 - length m mod 64" "slice data 0 (unat (64 - j)) = Inr first"
      using big assms(2) by (simp_all add: first_def slice_def d r_def)
    define buf' where "buf' = take r (buffer ctx) @ first"
    have copy: "memcpy (buffer ctx) (unat j) first = Inr buf'" and len': "length buf' = 64"
      using first(1) buf(1) r by (simp_all add: memcpy_def j buf'_def r_def)
    define i where "i = (64 - j) + word_of_nat ((unat len - (64 - r)) div 64 * 64)"
    have "drop (64 - r) data = drop (unat (64 - j)) data" by (simp add: d)
    then have whole: "m @ data = (m @ first) @ drop (unat (64 - j)) data"
      unfolding first_def by (metis append_assoc append_take_drop_id)
    have fill: "SHA1Transform (sha_state ctx) buf' = fips_blocks fips_init (m @ first)" "64 dvd length (m @ first)"
      unfolding buf'_def r_def by (rule fips_blocks_fill [OF assms(1) first(1)])+
    have loop: "transform_loop (SHA1Transform (sha_state ctx) buf') data len (64 - j) =
        Inr (fips_blocks fips_init (m @ data), i)"
    proof -
      have "unat (64 - j) \<le> unat len" using big d by simp
      moreover have "fips_blocks (fips_blocks fips_init (m @ first)) (drop (unat (64 - j)) data) =
          fips_blocks fips_init (m @ data)"
        unfolding whole by (rule fips_blocks_append [OF fill(2), symmetric])
      ultimately show ?thesis
        unfolding fill(1) i_def by (simp only: transform_loop_blocks [OF assms(2) _ assms(3)] d)
    qed
    define k where "k = (unat len - (64 - r)) div 64 * 64"
    have k: "k \<le> unat len - (64 - r)" "unat len - (64 - r) - k < 64" "64 dvd k"
      by (simp_all add: k_def minus_div_mult_eq_mod)
    have i: "unat i = (64 - r) + k"
      using k(1) big assms(3) unfolding i_def k_def [symmetric] by (simp add: unat_word_ariths d unsigned_of_nat take_bit_eq_mod)
    have le: "unat i \<le> unat len" using i k(1) big by simp
    have "64 dvd length (m @ first) + k" by (rule dvd_add [OF fill(2) k(3)])
    then have "64 dvd length m + unat i" by (simp only: length_append first(1) r_def i add.assoc)
    then obtain n where n: "length m + unat i = 64 * n" by (rule dvdE)
    have tot: "length (m @ data) = (unat len - unat i) + n * 64"
      using n le assms(2) by simp
    have "unat len - unat i < 64" using k(2) i by simp
    then have q: "length (m @ data) div 64 * 64 = length m + unat i" "length (m @ data) mod 64 = unat len - unat i"
      unfolding tot n by simp_all
    have q3: "unat (len - i) = unat len - unat i" using le by (simp add: unat_sub word_le_nat_alt)
    define rest where "rest = drop (unat i) data"
    have rest: "slice data (unat i) (unat (len - i)) = Inr rest" "length rest = unat len - unat i"
      using q3 le assms(2) by (simp_all add: slice_def rest_def)
    define buf2 where "buf2 = rest @ drop (length rest) buf'"
    have copy2: "memcpy buf' 0 rest = Inr buf2"
      using q(2) len' rest(2) mod_less_divisor [of 64 "length (m @ data)"] by (simp add: memcpy_def buf2_def)
    have "take (length (m @ data) mod 64) buf2 = drop (length (m @ data) div 64 * 64) (m @ data)"
       unfolding q buf2_def using rest(2) by (simp add: rest_def)
    moreover have "length buf2 = 64" 
      using copy2 len' by (auto simp: memcpy_def buf2_def split: if_splits)
    ultimately show ?thesis
      using True first(2) copy loop rest(1) copy2 count
      by (simp add: SHA1Update_def Let_def j_def [symmetric] absorbed_def)
  qed
qed

lemma unat_bytes6: "unat (drop_bit 3 c AND 63) = byte_count6 (c :: 32 word)"
proof -
  have "drop_bit 3 c AND 63 = take_bit 6 (drop_bit 3 c)"
    by (simp add: take_bit_eq_mask mask_eq_exp_minus_1)
  then show ?thesis
    by (simp add: byte_count6_def take_bit_eq_mod drop_bit_eq_div unat_div unat_mod)
qed

lemma SHA1Init_absorbs: "length (buffer ctx) = 64 \<Longrightarrow> absorbed (SHA1Init ctx) []"
  by (simp add: absorbed_def SHA1Init_def fips_init_def fips_blocks_short)

lemma absorbed_byte_count6: "absorbed ctx m \<Longrightarrow> byte_count6 (count0 ctx) = length m mod 64"
  using buffered [of ctx m] by (simp add: unat_bytes6)

lemma absorbed_byte:
  assumes "absorbed ctx m"
  obtains ctx' where "SHA1Update ctx [b] 1 = Inr ctx'" and "absorbed ctx' (m @ [b])"
  using SHA1Update_absorbs [OF assms, of "[b]" 1] by (auto elim!: res_okE)

lemma pad_loop_absorbs:
  "absorbed ctx m \<Longrightarrow>
    res_ok (\<lambda>ctx'. absorbed ctx' (m @ replicate ((120 - length m mod 64) mod 64) 0)) (pad_loop ctx)"
proof (induction ctx arbitrary: m rule: pad_loop.induct)
  case (1 ctx)
  have n: "byte_count6 (count0 ctx) = length m mod 64"
    by (rule absorbed_byte_count6 [OF "1.prems"])
  show ?case
  proof (cases "length m mod 64 = 56")
    case True
    with "1.prems" n show ?thesis
      by (simp add: pad_loop.simps [of ctx] and_504)
  next
    case False
    then have go: "count0 ctx AND 504 \<noteq> 448" by (simp add: and_504 n)
    obtain ctx' where u: "SHA1Update ctx [0] 1 = Inr ctx'" and a: "absorbed ctx' (m @ [0])"
      by (rule absorbed_byte [OF "1.prems"])
    have "(120 - length m mod 64) mod 64 = Suc ((120 - length (m @ [0]) mod 64) mod 64)"
      using pad_count [OF False] by (simp add: mod_Suc_eq)
    with "1.IH" [OF go u a] go u show ?thesis
      by (simp add: pad_loop.simps [of ctx] replicate_app_Cons_same)
  qed
qed

lemma ucast_and_255: "ucast (w AND 255) = (ucast (w :: 32 word) :: byte)"
proof -
  have "ucast (w AND mask 8) = (ucast w :: byte)"
    by (rule bit_word_eqI) (auto simp: bit_simps)
  then show ?thesis by (simp add: mask_eq_exp_minus_1)
qed

lemma finalcount_bytes: "finalcount ctx = be_bytes (count1 ctx) @ be_bytes (count0 ctx)"
  by (simp add: finalcount_def be_bytes_def upt_rec ucast_and_255)

lemma digest_bytes_concat:
  assumes "length st = 5"
  shows "digest_bytes st = concat (map be_bytes st)"
proof -
  from assms obtain a b c d e where "st = [a, b, c, d, e]"
    by (auto simp: length_Suc_conv numeral_eq_Suc)
  then show ?thesis
    by (simp add: digest_bytes_def be_bytes_def upt_rec ucast_and_255)
qed

lemma length_fips_blocks: "length H = 5 \<Longrightarrow> length (fips_blocks H bs) = 5"
proof (induction H bs rule: fips_blocks.induct)
  case (1 H bs)
  have "length (fips_compress H (take 64 bs)) = 5"
    by (simp add: fips_compress_def split_beta del: upt_rec_numeral)
  with 1 show ?case by (simp add: fips_blocks.simps [of H bs])
qed

lemma SHA1Final_digest:
  assumes "absorbed ctx m"
  shows "SHA1Final ctx = Inr (fips_sha1 m)"
proof -
  let ?pad = "m @ [0x80] @ replicate ((119 - length m mod 64) mod 64) 0"
  obtain ctx1 where c1: "SHA1Update ctx [0x80] 1 = Inr ctx1" and a1: "absorbed ctx1 (m @ [0x80])"
    by (rule absorbed_byte [OF assms])
  have "(120 - length (m @ [0x80]) mod 64) mod 64 = (119 - length m mod 64) mod 64"
    by (cases "length m mod 64 = 63") (simp_all add: mod_Suc)
  with pad_loop_absorbs [OF a1] obtain ctx2 where c2: "pad_loop ctx1 = Inr ctx2" and a2: "absorbed ctx2 ?pad"
    by (auto elim!: res_okE)
  have "finalcount ctx = be_bytes (word_of_nat (8 * length m div 4294967296)) @ be_bytes (word_of_nat (8 * length m))"
    using assms unfolding finalcount_bytes absorbed_def by metis
  then have pad: "?pad @ finalcount ctx = fips_pad m"
    by (simp add: fips_pad_def)
  have "length (finalcount ctx) = unat (8 :: 32 word)" by (simp add: finalcount_def)
  from SHA1Update_absorbs [OF a2 this] obtain ctx3
    where c3: "SHA1Update ctx2 (finalcount ctx) 8 = Inr ctx3" and a3: "absorbed ctx3 (fips_pad m)"
    unfolding pad by (auto elim!: res_okE)
  have "digest_bytes (sha_state ctx3) = fips_sha1 m"
    using a3 by (simp add: absorbed_def fips_sha1_def digest_bytes_concat length_fips_blocks fips_init_def)
  with c1 c2 c3 show ?thesis by (simp add: SHA1Final_def)
qed

text \<open>
  The digest of one buffer, as \<open>init_tagging\<close> computes it, on a context that starts
  with arbitrary bytes.
\<close>

definition sha1_digest :: "sha_ctx \<Rightarrow> byte list \<Rightarrow> 32 word \<Rightarrow> byte list res" where
  "sha1_digest ctx data len = res_bind (SHA1Update (SHA1Init ctx) data len) SHA1Final"

lemma sha1_digest_fips:
  assumes "length (buffer ctx) = 64" and "length data = unat len" and "unat len + 64 < 4294967296"
  shows "sha1_digest ctx data len = Inr (fips_sha1 data)"
  using SHA1Update_absorbs [OF SHA1Init_absorbs [OF assms(1)] assms(2,3)]
  by (auto elim!: res_okE simp: sha1_digest_def SHA1Final_digest)

section \<open>Properties\<close>

definition zero_ctx :: sha_ctx where
  "zero_ctx = \<lparr>sha_state = [], count0 = 0, count1 = 0, buffer = replicate 64 0\<rparr>"

text \<open>
  C13. The digest of one buffer is the FIPS 180-1 digest, for every buffer \<open>SHA1Update\<close> can take
  in one call, whatever the context held before \<open>SHA1Init\<close>: the schedule expanded in place,
  the rotated variable names, the two-word bit count and the padding loop agree with the text of
  the standard, and no copy leaves the block buffer.
\<close>

theorem sha1_digest_correct:
  assumes "length (buffer ctx) = 64" and "length data = unat len" and "unat len + 64 < 4294967296"
  shows "sha1_digest ctx data len = Inr (fips_sha1 data)"
  using assms by (rule sha1_digest_fips)

theorem sha1_digest_correct_witness:
  "sha1_digest zero_ctx [0x61, 0x62, 0x63] 3 = Inr (fips_sha1 [0x61, 0x62, 0x63])"
  by (rule sha1_digest_correct) (simp_all add: zero_ctx_def)

text \<open>
  C14. Data may be handed over in pieces: two updates and a final give the digest of the
  concatenation.
\<close>

theorem sha1_streaming:
  assumes "length (buffer ctx) = 64"
    and "length a = unat m" and "unat m + 64 < 4294967296"
    and "length b = unat n" and "unat n + 64 < 4294967296"
  shows "res_bind (SHA1Update (SHA1Init ctx) a m) (\<lambda>ctx1. res_bind (SHA1Update ctx1 b n) SHA1Final)
    = Inr (fips_sha1 (a @ b))"
proof -
  obtain ctx1 where c1: "SHA1Update (SHA1Init ctx) a m = Inr ctx1" and a1: "absorbed ctx1 a"
    using SHA1Update_absorbs [OF SHA1Init_absorbs [OF assms(1)] assms(2,3)] by (auto elim!: res_okE)
  obtain ctx2 where c2: "SHA1Update ctx1 b n = Inr ctx2" and a2: "absorbed ctx2 (a @ b)"
    using SHA1Update_absorbs [OF a1 assms(4,5)] by (auto elim!: res_okE)
  from c1 c2 show ?thesis by (simp add: SHA1Final_digest [OF a2])
qed

theorem sha1_streaming_witness:
  "res_bind (SHA1Update (SHA1Init zero_ctx) [0x61] 1) (\<lambda>ctx1.
     res_bind (SHA1Update ctx1 [0x62, 0x63] 2) SHA1Final) = Inr (fips_sha1 [0x61, 0x62, 0x63])"
  using sha1_streaming [of zero_ctx "[0x61]" 1 "[0x62, 0x63]" 2] by (simp add: zero_ctx_def)

end
