(* ===== verification/Entry.thy ===== *)
theory Entry
  imports Tagger Sha1
begin

text \<open>
  How the client starts code discovery (\<open>tag_start\<close>, \<open>libcpu/tag.cpp\<close>): the tags are
  allocated on the first call, and the entry points of earlier sessions are read from a cache
  file named after the SHA-1 digest of the code. The host's files are parameters: what the cache
  holds, and whether it can be opened for appending.
\<close>

section \<open>The host\<close>

record host =
  cache_read :: "string \<Rightarrow> byte list option"
  cache_append :: "string \<Rightarrow> bool"
  stack_ctx :: sha_ctx

text \<open>
  \<open>stack_ctx\<close> is what the local variable \<open>SHA1_CTX ctx\<close> holds before \<open>SHA1Init\<close>: sixty-four
  bytes of buffer and anything else.
\<close>

definition wf_host :: "host \<Rightarrow> bool" where
  "wf_host h \<longleftrightarrow> length (buffer (stack_ctx h)) = 64"

definition get_temp_dir :: string where
  "get_temp_dir = ''/tmp/''"

definition hex_digit :: "nat \<Rightarrow> char" where
  "hex_digit n = (if n < 10 then char_of (48 + n) else char_of (87 + n))"

definition hex2 :: "byte \<Rightarrow> string" where
  "hex2 b = [hex_digit (unat b div 16), hex_digit (unat b mod 16)]"

definition cache_fn :: "byte list \<Rightarrow> string" where
  "cache_fn digest = get_temp_dir @ ''libcpu-'' @ concat (map hex2 digest) @ ''.entries''"

section \<open>The entry cache\<close>

text \<open>
  \<open>for (i = 0; i < 4; i++) fputc((pc >> (i*8)) & 0xFF, f)\<close>.
\<close>

definition entry_bytes :: "addr \<Rightarrow> byte list" where
  "entry_bytes pc = map (\<lambda>i. ucast (drop_bit (i * 8) pc AND 0xFF)) [0..<4]"

text \<open>
  \<open>fgetc\<close> returns the next byte or \<open>-1\<close>, and sets the end-of-file flag when it fails. The
  shifted value is an \<open>int\<close> of 32 bits; \<open>|=\<close> converts it to the 64 bits of \<open>addr_t\<close> with
  its sign.
\<close>

definition fgetc :: "byte list \<Rightarrow> 32 word \<times> byte list \<times> bool" where
  "fgetc f = (case f of [] \<Rightarrow> (- 1, [], True) | b # f' \<Rightarrow> (ucast b, f', False))"

fun read_entry :: "nat list \<Rightarrow> addr \<Rightarrow> byte list \<Rightarrow> bool \<Rightarrow> addr \<times> byte list \<times> bool" where
  "read_entry [] entry f eof = (entry, f, eof)"
| "read_entry (i # is) entry f eof =
     (case fgetc f of (c, f', failed) \<Rightarrow>
        read_entry is (entry OR scast (push_bit (i * 8) c)) f' (eof \<or> failed))"

lemma read_entry_eof: "snd (snd (read_entry is e [] True))"
  by (induction "is" arbitrary: e) (simp_all add: fgetc_def)

lemma read_entry_short: "length f < length is \<Longrightarrow> snd (snd (read_entry is e f b))"
proof (induction "is" arbitrary: e f b)
  case (Cons i "is")
  then show ?case
    by (cases f) (simp_all add: fgetc_def read_entry_eof)
qed simp

lemma read_entry_long:
  "length is \<le> length f \<Longrightarrow> \<exists>e'. read_entry is e f b = (e', drop (length is) f, b)"
proof (induction "is" arbitrary: e f b)
  case (Cons i "is")
  then show ?case
    by (cases f) (simp_all add: fgetc_def)
qed simp

text \<open>\<open>while(!feof(f)) { ... }\<close>: the entries handed to \<open>tag_start\<close>.\<close>

function read_entries :: "byte list \<Rightarrow> addr list" where
  "read_entries f =
     (case read_entry [0..<4] 0 f False of (entry, f', eof) \<Rightarrow>
        entry # (if eof then [] else read_entries f'))"
  by pat_completeness auto

termination read_entries
proof (relation "measure length", goal_cases)
  case 1
  then show ?case by simp
next
  case (2 f entry q f' eof)
  then have p: "read_entry [0..<4] 0 f False = (entry, f', eof)" and "\<not> eof" by auto
  then have "4 \<le> length f" using read_entry_short [of f "[0..<4]" 0 False] by (cases "length f < 4") auto
  with read_entry_long [of "[0..<4]" f 0 False] p show ?case by auto
qed

declare read_entries.simps [simp del]

section \<open>Starting the search\<close>

fun res_fold :: "('a \<Rightarrow> 's \<Rightarrow> 's res) \<Rightarrow> 'a list \<Rightarrow> 's \<Rightarrow> 's res" where
  "res_fold f [] s = Inr s"
| "res_fold f (x # xs) s = res_bind (f x s) (res_fold f xs)"

text \<open>
  \<open>tag_start\<close> and \<open>init_tagging\<close> call each other, but not for long: inside \<open>init_tagging\<close> the
  tags are allocated, so \<open>tag_start\<close> does not call it again. \<open>tag_start_with init\<close> is the body
  with \<open>init\<close> for the call of \<open>init_tagging\<close>.
\<close>

definition log_entry :: "addr \<Rightarrow> cpu \<Rightarrow> cpu" where
  "log_entry pc cpu =
     (if \<not> has (flags_codegen cpu) CPU_CODEGEN_TAG_LIMIT then
        (case file_entries cpu of None \<Rightarrow> cpu
         | Some f \<Rightarrow> cpu\<lparr>file_entries := Some (f @ entry_bytes pc)\<rparr>)
      else cpu)"

definition tag_start_with :: "(cpu \<Rightarrow> cpu res) \<Rightarrow> tag_fn \<Rightarrow> addr \<Rightarrow> cpu \<Rightarrow> cpu res" where
  "tag_start_with init fe pc cpu =
     (let cpu = cpu\<lparr>tags_dirty := True\<rparr> in
      if has (flags_debug cpu) (CPU_DEBUG_SINGLESTEP OR CPU_DEBUG_SINGLESTEP_BB) then Inr cpu
      else
        res_bind (case tag_mem cpu of None \<Rightarrow> init cpu | Some _ \<Rightarrow> Inr cpu) (\<lambda>cpu.
        let cpu = log_entry pc cpu in
        res_bind (or_tag cpu pc TAG_ENTRY) (\<lambda>cpu.
        tag_recursive fe 0 pc cpu)))"

definition code_bytes :: "cpu \<Rightarrow> 32 word \<Rightarrow> byte list" where
  "code_bytes cpu len = map (\<lambda>i. RAM cpu (code_start cpu + word_of_nat i)) [0..<unat len]"

definition init_tagging :: "host \<Rightarrow> tag_fn \<Rightarrow> cpu \<Rightarrow> cpu res" where
  "init_tagging h fe cpu =
     (let nitems = code_end cpu - code_start cpu;
          cpu = cpu\<lparr>tag_mem := Some (replicate (unat nitems) TAG_UNKNOWN)\<rparr> in
      if \<not> has (flags_codegen cpu) CPU_CODEGEN_TAG_LIMIT then
        res_bind (sha1_digest (stack_ctx h) (code_bytes cpu (ucast nitems)) (ucast nitems)) (\<lambda>digest.
        let cpu = cpu\<lparr>code_digest := digest, file_entries := None\<rparr> in
        res_bind
          (case cache_read h (cache_fn digest) of None \<Rightarrow> Inr cpu
           | Some f \<Rightarrow> res_fold (tag_start_with (\<lambda>_. Inl NullDeref) fe) (read_entries f) cpu) (\<lambda>cpu.
        if cache_append h (cache_fn digest) then Inr (cpu\<lparr>file_entries := Some []\<rparr>)
        else Inl ExitFailure))
      else Inr cpu)"

definition tag_start :: "host \<Rightarrow> tag_fn \<Rightarrow> addr \<Rightarrow> cpu \<Rightarrow> cpu res" where
  "tag_start h fe = tag_start_with (init_tagging h fe) fe"

section \<open>Round trip of the cache\<close>

lemma read_entries_short: "read_entries [] = [- 1]"
  by (simp add: read_entries.simps [of "[]"] fgetc_def upt_rec)

lemma shift_byte:
  assumes "k < 4" and "k = 3 \<longrightarrow> \<not> bit b 7"
  shows "scast (push_bit (k * 8) (ucast (b :: byte)) :: 32 word) = (push_bit (k * 8) (ucast b) :: addr)"
proof (rule bit_word_eqI)
  fix n
  assume n: "n < LENGTH(64)"
  have top: "\<not> bit b (m - 24)" if "k = 3" "31 \<le> m" for m
    using that assms(2) byte_bit [of "m - 24" b] by (cases "m = 31") auto
  consider "k = 0" | "k = 1" | "k = 2" | "k = 3" using assms(1) by linarith
  then show "bit (scast (push_bit (k * 8) (ucast b) :: 32 word) :: addr) n \<longleftrightarrow> bit (push_bit (k * 8) (ucast b) :: addr) n"
    using n assms(2) top by cases (auto simp: bit_simps byte_bit min_def)
qed

lemma small_addr_bits:
  fixes pc :: addr
  assumes "unat pc < 2147483648" and "bit pc n"
  shows "n < 31"
  using assms small_word_iff [of pc 31] by simp

lemma read_entry_written:
  assumes "unat pc < 2147483648"
  shows "read_entry [0..<4] 0 (entry_bytes pc @ f) False = (pc, f, False)"
proof -
  let ?b = "\<lambda>k. ucast (drop_bit (k * 8) pc AND 0xFF) :: byte"
  have high: "\<not> bit (?b 3) 7"
    using small_addr_bits [OF assms, of 31] by (auto simp: bit_simps)
  have "scast (push_bit (k * 8) (ucast (?b k)) :: 32 word) = (push_bit (k * 8) (ucast (?b k)) :: addr)" if "k < 4" for k
    by (rule shift_byte [OF that]) (use high in simp)
  from this [of 0] this [of 1] this [of 2] this [of 3]
  have "read_entry [0..<4] 0 (entry_bytes pc @ f) False =
      (push_bit 0 (ucast (?b 0)) OR push_bit 8 (ucast (?b 1)) OR push_bit 16 (ucast (?b 2)) OR push_bit 24 (ucast (?b 3)), f, False)"
    by (simp add: entry_bytes_def upt_rec fgetc_def or.assoc)
  also have "push_bit 0 (ucast (?b 0)) OR push_bit 8 (ucast (?b 1)) OR push_bit 16 (ucast (?b 2)) OR push_bit 24 (ucast (?b 3)) = pc"
  proof (rule bit_word_eqI)
    fix n
    assume "n < LENGTH(64)"
    have m: "(0xFF :: addr) = mask 8" by (simp add: mask_eq_exp_minus_1)
    consider "n < 8" | "8 \<le> n" "n < 16" | "16 \<le> n" "n < 24" | "24 \<le> n" "n < 32" | "32 \<le> n" by linarith
    then show "bit (push_bit 0 (ucast (?b 0)) OR push_bit 8 (ucast (?b 1)) OR push_bit 16 (ucast (?b 2)) OR push_bit 24 (ucast (?b 3)) :: addr) n
        \<longleftrightarrow> bit pc n"
      unfolding m using small_addr_bits [OF assms, of n] \<open>n < LENGTH(64)\<close>
      by cases (auto simp: bit_simps)
  qed
  finally show ?thesis .
qed

lemma read_entries_written:
  "(\<And>pc. pc \<in> set pcs \<Longrightarrow> unat pc < 2147483648) \<Longrightarrow>
    read_entries (concat (map entry_bytes pcs)) = pcs @ [- 1]"
proof (induction pcs)
  case Nil
  then show ?case by (simp add: read_entries_short)
next
  case (Cons pc pcs)
  then show ?case
    by (simp add: read_entries.simps [of "entry_bytes pc @ _"] read_entry_written)
qed

section \<open>What starting the search does\<close>

text \<open>The part of the state no tagging operation changes.\<close>

definition same_setup :: "cpu \<Rightarrow> cpu \<Rightarrow> bool" where
  "same_setup c d \<longleftrightarrow> code_start d = code_start c \<and> code_end d = code_end c \<and> RAM d = RAM c \<and>
     flags_codegen d = flags_codegen c \<and> flags_debug d = flags_debug c \<and> flags_hint d = flags_hint c"

lemma same_setup_refl [simp]: "same_setup c c"
  by (simp add: same_setup_def)

lemma same_setup_trans: "same_setup c d \<Longrightarrow> same_setup d e \<Longrightarrow> same_setup c e"
  by (simp add: same_setup_def)

lemma same_setup_updates [simp]:
  "same_setup c (d\<lparr>tag_mem := x\<rparr>) = same_setup c d"
  "same_setup c (d\<lparr>tags_dirty := y\<rparr>) = same_setup c d"
  "same_setup c (d\<lparr>file_entries := z\<rparr>) = same_setup c d"
  "same_setup c (d\<lparr>code_digest := w\<rparr>) = same_setup c d"
  by (simp_all add: same_setup_def)

lemma same_setup_inside: "same_setup c d \<Longrightarrow> is_inside_code_area d a = is_inside_code_area c a"
  by (simp add: same_setup_def is_inside_code_area_def)

lemma same_setup_flow:
  assumes "same_setup c d"
  shows "flow_reach fe d pc = flow_reach fe c pc" and "decodes_from fe d pc = decodes_from fe c pc"
    and "full_search d = full_search c"
proof -
  have hint: "flags_hint d = flags_hint c" using assms by (simp add: same_setup_def)
  have "flow_edge fe d = flow_edge fe c"
    by (intro ext) (simp add: flow_edge_def hint same_setup_inside [OF assms])
  then show r: "flow_reach fe d pc = flow_reach fe c pc" for pc by (simp add: flow_reach_def)
  show "decodes_from fe d pc = decodes_from fe c pc"
    by (simp add: decodes_from_def r hint same_setup_inside [OF assms])
  show "full_search d = full_search c"
    using assms by (simp add: full_search_def same_setup_def)
qed

lemma adds_setup:
  assumes "adds c d M"
  shows "same_setup c d" "file_entries d = file_entries c" "code_digest d = code_digest c"
    "tags_dirty d = tags_dirty c"
proof -
  from assms obtain tm where "d = c\<lparr>tag_mem := tm\<rparr>" by (auto simp: adds_def)
  then show "same_setup c d" "file_entries d = file_entries c" "code_digest d = code_digest c"
    "tags_dirty d = tags_dirty c" by simp_all
qed

text \<open>A state that discovers code: tags allocated, no depth limit, no single stepping.\<close>

definition discovering :: "tag_fn \<Rightarrow> cpu \<Rightarrow> bool" where
  "discovering fe c \<longleftrightarrow> wf_tags c \<and> full_search c \<and> code_closed fe c \<and>
     \<not> has (flags_debug c) (CPU_DEBUG_SINGLESTEP OR CPU_DEBUG_SINGLESTEP_BB)"

definition found :: "tag_fn \<Rightarrow> cpu \<Rightarrow> addr \<Rightarrow> addr set" where
  "found fe c pc = {a \<in> flow_reach fe c pc. is_inside_code_area c a}"

lemma found_setup: "same_setup c d \<Longrightarrow> found fe d pc = found fe c pc"
  by (simp add: found_def same_setup_flow same_setup_inside)

lemma same_tags:
  assumes "same_setup c d" and "tag_mem d = tag_mem c"
  shows "get_tag d = get_tag c" "code_set d = code_set c" "tag_at d = tag_at c" "wf_tags d = wf_tags c"
    "discovering fe d = discovering fe c"
proof -
  have i: "is_inside_code_area d = is_inside_code_area c"
    by (intro ext) (rule same_setup_inside [OF assms(1)])
  have "tag_index d = tag_index c" using assms(1) by (intro ext) (simp add: tag_index_def same_setup_def)
  then show g: "get_tag d = get_tag c" by (intro ext) (simp add: get_tag_def i assms(2) cong: option.case_cong)
  then show k: "code_set d = code_set c" "tag_at d = tag_at c"
    by (simp_all add: code_set_def is_code_def tag_at_def fun_eq_iff)
  have e: "code_end d - code_start d = code_end c - code_start c" "flags_hint d = flags_hint c"
      "flags_debug d = flags_debug c"
    using assms(1) by (simp_all add: same_setup_def)
  then show w: "wf_tags d = wf_tags c" by (simp add: wf_tags_def assms(2) cong: option.case_cong)
  show "discovering fe d = discovering fe c"
    by (simp only: discovering_def w e same_setup_flow [OF assms(1)] code_closed_def k i)
qed

lemma tags_updates [simp]:
  "code_set (c\<lparr>tags_dirty := y\<rparr>) = code_set c" "code_set (c\<lparr>file_entries := z\<rparr>) = code_set c"
  "discovering fe (c\<lparr>tags_dirty := y\<rparr>) = discovering fe c"
  "discovering fe (c\<lparr>file_entries := z\<rparr>) = discovering fe c"
  by (rule same_tags; simp)+

lemma decodes_updates [simp]:
  "decodes_from fe (c\<lparr>tags_dirty := y\<rparr>) pc = decodes_from fe c pc"
  "decodes_from fe (c\<lparr>file_entries := z\<rparr>) pc = decodes_from fe c pc"
  "found fe (c\<lparr>tags_dirty := y\<rparr>) pc = found fe c pc"
  "found fe (c\<lparr>file_entries := z\<rparr>) pc = found fe c pc"
  by (simp_all add: same_setup_flow found_setup)

definition started :: "tag_fn \<Rightarrow> cpu \<Rightarrow> addr \<Rightarrow> cpu \<Rightarrow> bool" where
  "started fe c pc d \<longleftrightarrow> same_setup c d \<and> discovering fe d \<and> code_digest d = code_digest c \<and>
     file_entries d = map_option (\<lambda>f. f @ entry_bytes pc) (file_entries c) \<and>
     code_set d = code_set c \<union> found fe c pc"

lemma entry_and_search:
  assumes "discovering fe c" and "decodes_from fe c pc"
  shows "res_ok (\<lambda>d. same_setup c d \<and> discovering fe d \<and> code_digest d = code_digest c \<and>
      file_entries d = file_entries c \<and> code_set d = code_set c \<union> found fe c pc)
    (res_bind (or_tag c pc TAG_ENTRY) (tag_recursive fe level pc))"
proof (rule res_ok_bindI)
  have "wf_tags c" using assms(1) by (simp add: discovering_def)
  then show "res_ok (\<lambda>e. adds c e {(pc, TAG_ENTRY)}) (or_tag c pc TAG_ENTRY)" by (rule adds_or_tag)
next
  fix e
  assume e: "adds c e {(pc, TAG_ENTRY)}"
  note same = adds_setup [OF e]
  have code: "code_set e = code_set c" using adds_code_set [OF e] by (simp add: bits)
  have disc: "discovering fe e"
    using assms(1) e code adds_frame [OF e] same(1)
    by (auto simp: discovering_def code_closed_def full_search_def same_setup_def adds_def)
  have dec: "decodes_from fe e pc" using assms(2) by (simp add: same_setup_flow [OF same(1)])
  have e': "wf_tags e" "full_search e" "code_closed fe e" using disc by (simp_all add: discovering_def)
  obtain d where d: "tag_recursive fe level pc e = Inr d"
      and M: "adds e d (\<Union>a \<in> code_set d - code_set e. set (flow_marks fe (flags_hint e) a))"
    by (rule res_okE [OF tag_recursive_marks [OF e'(1) dec, of level]]) blast
  have new: "code_set d = code_set e \<union> found fe e pc" "code_closed fe d"
    using tag_recursive_code [OF e'(1) dec e'(2,3), of level] by (simp_all add: d found_def)
  note same' = adds_setup [OF M]
  have "discovering fe d"
    using disc new(2) M same'(1) same_setup_flow(3) [OF same'(1)]
    by (auto simp: discovering_def adds_def same_setup_def)
  with d new(1) code same same' show "res_ok (\<lambda>d. same_setup c d \<and> discovering fe d \<and>
      code_digest d = code_digest c \<and> file_entries d = file_entries c \<and>
      code_set d = code_set c \<union> found fe c pc) (tag_recursive fe level pc e)"
    by (auto intro: same_setup_trans simp: found_setup)
qed

lemma log_and_search:
  assumes "discovering fe c" and "decodes_from fe c pc"
  shows "res_ok (started fe c pc) (res_bind (or_tag (log_entry pc c) pc TAG_ENTRY) (tag_recursive fe 0 pc))"
proof -
  have full: "\<not> has (flags_codegen c) CPU_CODEGEN_TAG_LIMIT"
    using assms(1) by (simp add: discovering_def full_search_def)
  have "discovering fe (log_entry pc c)" "decodes_from fe (log_entry pc c) pc" "same_setup c (log_entry pc c)"
      "code_set (log_entry pc c) = code_set c" "code_digest (log_entry pc c) = code_digest c"
      "found fe (log_entry pc c) pc = found fe c pc"
      "file_entries (log_entry pc c) = map_option (\<lambda>f. f @ entry_bytes pc) (file_entries c)"
    using assms full by (auto simp: log_entry_def split: option.splits)
  then show ?thesis
    using entry_and_search [of fe "log_entry pc c" pc 0]
    by (auto elim!: res_okE intro: same_setup_trans simp: started_def)
qed

lemma tag_start_with_started:
  assumes "discovering fe c" and "decodes_from fe c pc"
  shows "res_ok (started fe c pc) (tag_start_with init fe pc c)"
proof -
  have "tag_mem c \<noteq> None" using assms(1) by (auto simp: discovering_def wf_tags_def split: option.splits)
  then have "tag_start_with init fe pc c =
      res_bind (or_tag (log_entry pc (c\<lparr>tags_dirty := True\<rparr>)) pc TAG_ENTRY) (tag_recursive fe 0 pc)"
    using assms(1) by (auto simp: tag_start_with_def discovering_def)
  with log_and_search [of fe "c\<lparr>tags_dirty := True\<rparr>" pc] assms show ?thesis
    by (auto elim!: res_okE simp: started_def same_setup_def)
qed

lemma tag_start_fold:
  assumes "discovering fe c" and "\<And>pc. pc \<in> set pcs \<Longrightarrow> decodes_from fe c pc"
  shows "res_ok (\<lambda>d. same_setup c d \<and> discovering fe d \<and> code_digest d = code_digest c \<and>
      file_entries d = map_option (\<lambda>f. f @ concat (map entry_bytes pcs)) (file_entries c) \<and>
      code_set d = code_set c \<union> (\<Union>pc\<in>set pcs. found fe c pc))
    (res_fold (tag_start_with init fe) pcs c)"
  using assms
proof (induction pcs arbitrary: c)
  case Nil
  then show ?case by (simp add: option.map_ident)
next
  case (Cons pc pcs)
  from tag_start_with_started [OF Cons.prems(1), of pc init] Cons.prems(2) [of pc]
  obtain d where d: "tag_start_with init fe pc c = Inr d" and s: "started fe c pc d"
    by (auto elim!: res_okE)
  then have same: "same_setup c d" and disc: "discovering fe d" by (simp_all add: started_def)
  have "decodes_from fe d q" if "q \<in> set pcs" for q
    using Cons.prems(2) that by (simp add: same_setup_flow [OF same])
  from Cons.IH [OF disc this] s show ?case
    by (auto simp: d started_def found_setup [OF same] option.map_comp o_def
        elim!: res_okE intro: same_setup_trans)
qed

text \<open>A state in which nothing has been tagged yet, and whose code SHA-1 can take in one call.\<close>

definition untagged :: "cpu \<Rightarrow> bool" where
  "untagged c \<longleftrightarrow> tag_mem c = None \<and> full_search c \<and>
     \<not> has (flags_debug c) (CPU_DEBUG_SINGLESTEP OR CPU_DEBUG_SINGLESTEP_BB) \<and>
     unat (code_end c - code_start c) + 64 < 4294967296"

definition digest_of :: "cpu \<Rightarrow> byte list" where
  "digest_of c = fips_sha1 (code_bytes c (ucast (code_end c - code_start c)))"

definition fresh :: "cpu \<Rightarrow> cpu" where
  "fresh c = c\<lparr>tag_mem := Some (replicate (unat (code_end c - code_start c)) TAG_UNKNOWN),
     code_digest := digest_of c, file_entries := None\<rparr>"

lemma fresh_code: "code_set (fresh c) = {}"
proof -
  have "is_code (fresh c) a \<noteq> Inr True" for a
  proof (cases "is_code (fresh c) a")
    case (Inr b)
    then show ?thesis
      by (auto simp: is_code_def get_tag_def fresh_def res_bind_Inr_iff nth_res_Inr_iff split: if_splits)
  qed simp
  then show ?thesis by (simp add: code_set_def)
qed

lemma fresh_discovering:
  assumes "untagged c"
  shows "discovering fe (fresh c)"
  using assms fresh_code [of c]
  by (simp add: discovering_def code_closed_def) (simp add: untagged_def full_search_def wf_tags_def fresh_def)

lemma fresh_setup [simp]: "same_setup c (fresh c)"
  by (simp add: fresh_def same_setup_def)

lemma init_digest:
  assumes "untagged c" and "wf_host h"
  shows "sha1_digest (stack_ctx h) (code_bytes c (ucast (code_end c - code_start c)))
      (ucast (code_end c - code_start c)) = Inr (digest_of c)"
proof -
  have "unat (ucast (code_end c - code_start c) :: 32 word) = unat (code_end c - code_start c)"
    using assms(1) by (simp add: untagged_def unsigned_ucast_eq take_bit_eq_mod)
  then show ?thesis
    unfolding digest_of_def using assms
    by (intro sha1_digest_fips) (simp_all add: wf_host_def code_bytes_def untagged_def)
qed

text \<open>The entries an earlier session left, as this session reads them.\<close>

definition cached :: "host \<Rightarrow> cpu \<Rightarrow> addr list" where
  "cached h c = (case cache_read h (cache_fn (digest_of c)) of None \<Rightarrow> [] | Some f \<Rightarrow> read_entries f)"

lemma init_tagging_found:
  assumes "untagged c" and "wf_host h" and "cache_append h (cache_fn (digest_of c))"
    and "\<And>pc. pc \<in> set (cached h c) \<Longrightarrow> decodes_from fe c pc"
  shows "res_ok (\<lambda>d. same_setup c d \<and> discovering fe d \<and> code_digest d = digest_of c \<and>
      file_entries d = Some [] \<and> code_set d = (\<Union>pc\<in>set (cached h c). found fe c pc))
    (init_tagging h fe c)"
proof -
  have limit: "\<not> has (flags_codegen c) CPU_CODEGEN_TAG_LIMIT"
    using assms(1) by (simp add: untagged_def full_search_def)
  have bytes: "code_bytes (c\<lparr>tag_mem := x\<rparr>) n = code_bytes c n" for x n by (simp add: code_bytes_def)
  have "res_ok (\<lambda>d. same_setup (fresh c) d \<and> discovering fe d \<and> code_digest d = digest_of c \<and>
      code_set d = (\<Union>pc\<in>set (cached h c). found fe c pc))
    (res_fold (tag_start_with (\<lambda>_. Inl NullDeref) fe) (cached h c) (fresh c))"
    by (rule res_ok_mono [OF tag_start_fold [OF fresh_discovering [OF assms(1)]]])
       (use assms(4) in \<open>auto simp: same_setup_flow [OF fresh_setup] fresh_code found_setup [OF fresh_setup], simp add: fresh_def\<close>)
  moreover have "init_tagging h fe c =
      res_bind (res_fold (tag_start_with (\<lambda>_. Inl NullDeref) fe) (cached h c) (fresh c))
        (\<lambda>d. Inr (d\<lparr>file_entries := Some []\<rparr>))"
    using init_digest [OF assms(1,2)] limit assms(3)
    by (simp add: init_tagging_def bytes Let_def cached_def fresh_def split: option.split)
  ultimately show ?thesis
    by (auto elim!: res_okE intro: same_setup_trans [OF fresh_setup])
qed

text \<open>
  The first \<open>tag_start\<close> of a session: what the cache leads to, and then what the new entry
  point leads to.
\<close>

lemma tag_start_first:
  assumes "untagged c" and "wf_host h" and "cache_append h (cache_fn (digest_of c))"
    and "\<And>q. q \<in> set (cached h c) \<Longrightarrow> decodes_from fe c q" and "decodes_from fe c pc"
  shows "res_ok (\<lambda>d. same_setup c d \<and> discovering fe d \<and> code_digest d = digest_of c \<and>
      file_entries d = Some (entry_bytes pc) \<and>
      code_set d = (\<Union>q\<in>set (cached h c). found fe c q) \<union> found fe c pc)
    (tag_start h fe pc c)"
proof -
  let ?c = "c\<lparr>tags_dirty := True\<rparr>"
  have c: "untagged ?c" "digest_of ?c = digest_of c" "cached h ?c = cached h c"
    using assms(1) by (simp_all add: untagged_def full_search_def digest_of_def cached_def code_bytes_def)
  from init_tagging_found [OF c(1) assms(2), of fe] assms(3,4)
  obtain d where d: "init_tagging h fe ?c = Inr d" and setup_d: "same_setup c d" and disc: "discovering fe d"
      and dig: "code_digest d = digest_of c" and log: "file_entries d = Some []"
      and code: "code_set d = (\<Union>q\<in>set (cached h c). found fe c q)"
    unfolding c by (auto elim!: res_okE simp: same_setup_def)
  have "tag_start h fe pc c = res_bind (or_tag (log_entry pc d) pc TAG_ENTRY) (tag_recursive fe 0 pc)"
    using assms(1) by (simp add: tag_start_def tag_start_with_def untagged_def d)
  moreover have "decodes_from fe d pc" using assms(5) by (simp add: same_setup_flow [OF setup_d])
  from log_and_search [OF disc this] obtain e
    where "res_bind (or_tag (log_entry pc d) pc TAG_ENTRY) (tag_recursive fe 0 pc) = Inr e"
      and "started fe d pc e"
    by (rule res_okE)
  ultimately show ?thesis
    using dig log code same_setup_trans [OF setup_d]
    by (simp add: started_def found_setup [OF setup_d])
qed

text \<open>
  Two sessions. The first finds no cache and starts at \<open>pcs\<close>; the second finds the file the
  first has written.
\<close>

lemma tag_start_session:
  assumes "untagged c" and "wf_host h" and "cache_append h (cache_fn (digest_of c))"
    and "cache_read h (cache_fn (digest_of c)) = None"
    and "\<And>q. q \<in> set (pc # pcs) \<Longrightarrow> decodes_from fe c q"
  shows "res_ok (\<lambda>d. same_setup c d \<and> discovering fe d \<and> code_digest d = digest_of c \<and>
      file_entries d = Some (concat (map entry_bytes (pc # pcs))) \<and>
      code_set d = (\<Union>q\<in>set (pc # pcs). found fe c q))
    (res_fold (tag_start h fe) (pc # pcs) c)"
proof -
  have "cached h c = []" using assms(4) by (simp add: cached_def)
  with tag_start_first [OF assms(1-3), of fe pc] assms(5)
  obtain d where d: "tag_start h fe pc c = Inr d" and same: "same_setup c d" and disc: "discovering fe d"
      and dig: "code_digest d = digest_of c" and log: "file_entries d = Some (entry_bytes pc)"
      and code: "code_set d = found fe c pc"
    by (auto elim!: res_okE)
  have "decodes_from fe d q" if "q \<in> set pcs" for q
    using assms(5) that by (simp add: same_setup_flow [OF same])
  from tag_start_fold [OF disc this, of pcs "init_tagging h fe"]
  obtain e where e: "res_fold (tag_start h fe) pcs d = Inr e" and "same_setup d e" "discovering fe e"
      "code_digest e = code_digest d"
      "file_entries e = map_option (\<lambda>f. f @ concat (map entry_bytes pcs)) (file_entries d)"
      "code_set e = code_set d \<union> (\<Union>q\<in>set pcs. found fe d q)"
    unfolding tag_start_def by (auto elim!: res_okE)
  then show ?thesis
    using dig log code same_setup_trans [OF same] by (simp add: d found_setup [OF same])
qed

lemma outside_found: "\<not> is_inside_code_area c pc \<Longrightarrow> found fe c pc = {} \<and> decodes_from fe c pc"
proof -
  assume out: "\<not> is_inside_code_area c pc"
  have "a = pc" if "(flow_edge fe c)\<^sup>*\<^sup>* pc a" for a
    using that by (cases rule: converse_rtranclpE) (auto simp: flow_edge_def out)
  with out show ?thesis by (auto simp: found_def decodes_from_def flow_reach_def)
qed

lemma minus_one_outside: "\<not> is_inside_code_area c (- 1)"
  by (simp add: is_inside_code_area_def not_less)

section \<open>Properties\<close>

definition demo_host :: host where
  "demo_host = \<lparr>cache_read = (\<lambda>_. None), cache_append = (\<lambda>_. True), stack_ctx = zero_ctx\<rparr>"

definition untagged_cpu :: "addr \<Rightarrow> ram \<Rightarrow> cpu" where
  "untagged_cpu n m = (area_cpu n m)\<lparr>tag_mem := None\<rparr>"

lemma untagged_cpu_untagged: "unat n + 64 < 4294967296 \<Longrightarrow> untagged (untagged_cpu n m)"
  by (simp add: untagged_def untagged_cpu_def full_search_def)

lemma demo_host_simps: "wf_host demo_host" "cache_append demo_host f" "cache_read demo_host f = None"
  by (simp_all add: wf_host_def demo_host_def zero_ctx_def)

text \<open>
  C9. The first \<open>tag_start\<close> of a session allocates the tags, digests the code, reads the cache,
  and then finds exactly what the cached entries and the new entry reach in the code area;
  the log to be appended holds the new entry alone.
\<close>

theorem tag_start_first_session:
  assumes "untagged c" and "wf_host h" and "cache_append h (cache_fn (digest_of c))"
    and "\<And>q. q \<in> set (cached h c) \<Longrightarrow> decodes_from fe c q" and "decodes_from fe c pc"
  shows "res_ok (\<lambda>d. code_digest d = digest_of c \<and> file_entries d = Some (entry_bytes pc) \<and>
      code_set d = (\<Union>q\<in>set (cached h c). found fe c q) \<union> found fe c pc)
    (tag_start h fe pc c)"
  by (rule res_ok_mono [OF tag_start_first [OF assms]]) simp_all

theorem tag_start_first_session_witness:
  "res_ok (\<lambda>d. 2 \<in> code_set d) (tag_start demo_host ret_frontend 2 (untagged_cpu 4 (\<lambda>_. 0)))"
proof (rule res_ok_mono [OF tag_start_first_session [OF untagged_cpu_untagged demo_host_simps(1,2)]])
  show "unat (4 :: addr) + 64 < 4294967296" by simp
  show "decodes_from ret_frontend (untagged_cpu 4 (\<lambda>_. 0)) q" for q by (rule ret_frontend_decodes)
  show "decodes_from ret_frontend (untagged_cpu 4 (\<lambda>_. 0)) q" for q by (rule ret_frontend_decodes)
qed (auto simp: found_def untagged_cpu_def)

text \<open>
  C10. What the cache file of one session holds, read back, are the entry points of that session
  in their order, and then \<open>-1\<close>: the end of the file is noticed only after a read beyond it.
  Entry points must be below 2 GiB.
\<close>

theorem cache_round_trip:
  assumes "\<And>pc. pc \<in> set pcs \<Longrightarrow> unat pc < 2147483648"
  shows "read_entries (concat (map entry_bytes pcs)) = pcs @ [- 1]"
  using assms by (rule read_entries_written)

theorem cache_round_trip_witness:
  "read_entries (concat (map entry_bytes [0x1000, 0x2000])) = [0x1000, 0x2000, - 1]"
proof -
  have "unat pc < 2147483648" if "pc \<in> set [0x1000, 0x2000]" for pc :: addr
    using that by auto
  from cache_round_trip [of "[0x1000, 0x2000]", OF this] show ?thesis by simp
qed




end
