(* ===== verification/Llvm.thy ===== *)
theory Llvm
  imports Prelude
begin

text \<open>
  The interface to LLVM. libcpu builds its translations through LLVM's C++ classes
  (\<open>new LoadInst\<close>, \<open>BinaryOperator::Create\<close>, ...), each of which appends one
  instruction to a basic block. LLVM is not part of this repository: the instructions are
  the constructors of a datatype, and what executing one does is a parameter \<open>step\<close> of every
  statement, constrained by the locale \<open>llvm\<close> to the behaviour the LLVM Language
  Reference documents. Where the reference leaves a behaviour undefined (or calls the
  instruction ill-typed), nothing is assumed of \<open>step\<close>.
\<close>

section \<open>Types, values, instructions\<close>

datatype lty = IntTy nat | PtrTy lty

text \<open>
  What a pointer of the generated code points to: the local copy of a register or of a flag
  (an \<open>alloca\<close> of the entry block), the program counter in the register file, the exit
  code, the members of the register file that the client passes, a byte or an aligned word of
  the guest's RAM at an offset, and a temporary of the block itself. The first kind is created
  by the entry block for all the others, so it has a name here (\<open>EntryAlloca\<close>, and
  \<open>MemberGEP\<close> for the address of a member) where a block's own temporary is known by its position.
\<close>

datatype ptr =
    GprPtr nat
  | XrPtr nat
  | FlagPtr nat
  | PcPtr
  | ExitPtr
  | RegPtr nat
  | RamPtr int
  | Ram32Ptr int
  | TempPtr nat

text \<open>
  A \<open>Value *\<close>: an integer constant of a width, the address of something that exists before
  the block runs, or the result of the block's n-th instruction. \<open>lty_of\<close> is
  \<open>Value::getType\<close>.
\<close>

datatype lval =
    ConstantInt nat int
  | Address ptr lty
  | Result nat lty

fun lty_of :: "lval \<Rightarrow> lty" where
  "lty_of (ConstantInt n x) = IntTy n"
| "lty_of (Address p t) = PtrTy t"
| "lty_of (Result i t) = t"

fun pointee :: "lty \<Rightarrow> lty" where
  "pointee (PtrTy t) = t"
| "pointee (IntTy n) = IntTy n"

fun bits_of :: "lty \<Rightarrow> nat" where
  "bits_of (IntTy n) = n"
| "bits_of (PtrTy t) = 0"

datatype binop = Add | Sub | Mul | SDiv | UDiv | SRem | URem | BAnd | BOr | BXor | Shl | LShr | AShr

datatype icmp = ICMP_EQ | ICMP_NE | ICMP_ULT | ICMP_UGT | ICMP_SLT | ICMP_SGT | ICMP_SGE | ICMP_SLE

datatype castop = Trunc | ZExt | SExt

datatype intrinsic = Bswap | Ctlz | Cttz

datatype inst =
    LoadInst lval
  | StoreInst lval lval
  | BinaryOperator binop lval lval
  | CastInst castop lval nat
  | ICmpInst icmp lval lval
  | SelectInst lval lval lval
  | GetElementPtr lval lval
  | BitCast32 lval
  | AllocaInst nat
  | EntryAlloca ptr nat
  | MemberGEP nat
  | CallIntrinsic intrinsic nat lval
  | ReturnInst lval
  | BranchInst nat
  | CondBranchInst lval nat nat
  | SwitchInst lval nat "(int \<times> nat) list"

section \<open>Emitting\<close>

text \<open>
  An emitter appends instructions to the basic block it is given: from the number of
  instructions that are there it makes its result and the instructions to append, or faults.
\<close>

type_synonym 'a emit = "nat \<Rightarrow> ('a \<times> inst list) res"

definition e_ret :: "'a \<Rightarrow> 'a emit" where
  "e_ret x = (\<lambda>n. Inr (x, []))"

definition e_fault :: "fault \<Rightarrow> 'a emit" where
  "e_fault e = (\<lambda>n. Inl e)"

definition e_bind :: "'a emit \<Rightarrow> ('a \<Rightarrow> 'b emit) \<Rightarrow> 'b emit" where
  "e_bind m f = (\<lambda>n.
     res_bind (m n) (\<lambda>(x, is). res_bind (f x (n + length is)) (\<lambda>(y, js). Inr (y, is @ js))))"

abbreviation e_seq :: "'a emit \<Rightarrow> 'b emit \<Rightarrow> 'b emit" where
  "e_seq m k \<equiv> e_bind m (\<lambda>_. k)"

definition e_inst :: "inst \<Rightarrow> lty \<Rightarrow> lval emit" where
  "e_inst i t = (\<lambda>n. Inr (Result n t, [i]))"

definition e_do :: "inst \<Rightarrow> unit emit" where
  "e_do i = (\<lambda>n. Inr ((), [i]))"

definition e_res :: "'a res \<Rightarrow> 'a emit" where
  "e_res r = (\<lambda>n. res_bind r (\<lambda>x. Inr (x, [])))"

section \<open>What the Language Reference says\<close>

text \<open>
  A configuration of a running block: the store that blocks share (\<open>cells\<close> with the width of
  each and its contents once something has been stored, \<open>ram\<close> as far as the client's buffer goes), the temporaries, and the results of the
  instructions executed so far. A store has no result but takes a position.
\<close>

datatype rval = VInt nat int | VPtr ptr

record store =
  cells :: "ptr \<Rightarrow> (nat \<times> int option) option"
  ram :: "int \<Rightarrow> byte option"

record config = store +
  temps :: "nat \<Rightarrow> (nat \<times> int option) option"
  results :: "nat \<Rightarrow> rval"
  position :: nat

fun eval :: "config \<Rightarrow> lval \<Rightarrow> rval" where
  "eval c (ConstantInt n x) = VInt n x"
| "eval c (Address p t) = VPtr p"
| "eval c (Result i t) = results c i"

definition push :: "rval \<Rightarrow> config \<Rightarrow> config" where
  "push r c = c\<lparr>results := (results c)(position c := r), position := Suc (position c)\<rparr>"

definition skip :: "config \<Rightarrow> config" where
  "skip c = c\<lparr>position := Suc (position c)\<rparr>"

fun arith :: "binop \<Rightarrow> nat \<Rightarrow> int \<Rightarrow> int \<Rightarrow> int option" where
  "arith Add n x y = Some (take_bit n (x + y))"
| "arith Sub n x y = Some (take_bit n (x - y))"
| "arith Mul n x y = Some (take_bit n (x * y))"
| "arith UDiv n x y = (if y = 0 then None else Some (x div y))"
| "arith URem n x y = (if y = 0 then None else Some (x mod y))"
| "arith BAnd n x y = Some (x AND y)"
| "arith BOr n x y = Some (x OR y)"
| "arith BXor n x y = Some (x XOR y)"
| "arith Shl n x y = (if y < int n then Some (take_bit n (push_bit (nat y) x)) else None)"
| "arith LShr n x y = (if y < int n then Some (drop_bit (nat y) x) else None)"
| "arith AShr n x y =
     (if y < int n then Some (take_bit n (drop_bit (nat y) (signed_take_bit (n - 1) x))) else None)"
| "arith SDiv n x y = None"
| "arith SRem n x y = None"

text \<open>The signed divisions are not given a meaning: no translation modelled here uses them.\<close>

fun compare :: "icmp \<Rightarrow> nat \<Rightarrow> int \<Rightarrow> int \<Rightarrow> bool" where
  "compare ICMP_EQ n x y = (x = y)"
| "compare ICMP_NE n x y = (x \<noteq> y)"
| "compare ICMP_ULT n x y = (x < y)"
| "compare ICMP_UGT n x y = (x > y)"
| "compare ICMP_SLT n x y = (signed_take_bit (n - 1) x < signed_take_bit (n - 1) y)"
| "compare ICMP_SGT n x y = (signed_take_bit (n - 1) x > signed_take_bit (n - 1) y)"
| "compare ICMP_SGE n x y = (signed_take_bit (n - 1) x \<ge> signed_take_bit (n - 1) y)"
| "compare ICMP_SLE n x y = (signed_take_bit (n - 1) x \<le> signed_take_bit (n - 1) y)"

fun cast :: "castop \<Rightarrow> nat \<Rightarrow> nat \<Rightarrow> int \<Rightarrow> int option" where
  "cast Trunc n k x = (if k < n then Some (take_bit k x) else None)"
| "cast ZExt n k x = (if n < k then Some x else None)"
| "cast SExt n k x = (if n < k then Some (take_bit k (signed_take_bit (n - 1) x)) else None)"

text \<open>
  \<open>big\<close> is the byte order of the host the code runs on. A load or store without an alignment
  of its own asks for the natural one; the client's buffer starts at a multiple of four.
\<close>

definition word_bytes :: "bool \<Rightarrow> int \<Rightarrow> int list" where
  "word_bytes big a = (if big then [a + 3, a + 2, a + 1, a] else [a, a + 1, a + 2, a + 3])"

definition load_word :: "bool \<Rightarrow> (int \<Rightarrow> byte option) \<Rightarrow> int \<Rightarrow> int option" where
  "load_word big m a =
     (case if 4 dvd a then map m (word_bytes big a) else [] of
        [Some b0, Some b1, Some b2, Some b3] \<Rightarrow>
          Some (uint b0 + 2 ^ 8 * uint b1 + 2 ^ 16 * uint b2 + 2 ^ 24 * uint b3)
      | _ \<Rightarrow> None)"

definition store_word :: "bool \<Rightarrow> (int \<Rightarrow> byte option) \<Rightarrow> int \<Rightarrow> int \<Rightarrow> (int \<Rightarrow> byte option) option" where
  "store_word big m a x =
     (if 4 dvd a \<and> list_all (\<lambda>i. m i \<noteq> None) (word_bytes big a)
      then Some (fold (\<lambda>(i, k) m'. m'(i \<mapsto> word_of_int (drop_bit (8 * k) x)))
                   (zip (word_bytes big a) [0, 1, 2, 3]) m)
      else None)"

fun load_from :: "bool \<Rightarrow> config \<Rightarrow> ptr \<Rightarrow> nat \<Rightarrow> int option" where
  "load_from big c (RamPtr a) n = (if n = 8 then map_option uint (ram c a) else None)"
| "load_from big c (Ram32Ptr a) n = (if n = 32 then load_word big (ram c) a else None)"
| "load_from big c (TempPtr i) n = (case temps c i of Some (m, Some x) \<Rightarrow> if m = n then Some x else None | _ \<Rightarrow> None)"
| "load_from big c p n = (case cells c p of Some (m, Some x) \<Rightarrow> if m = n then Some x else None | _ \<Rightarrow> None)"

fun store_to :: "bool \<Rightarrow> config \<Rightarrow> ptr \<Rightarrow> nat \<Rightarrow> int \<Rightarrow> config option" where
  "store_to big c (RamPtr a) n x =
     (if n = 8 \<and> ram c a \<noteq> None then Some (c\<lparr>ram := (ram c)(a \<mapsto> word_of_int x)\<rparr>) else None)"
| "store_to big c (Ram32Ptr a) n x =
     (if n = 32 then map_option (\<lambda>m. c\<lparr>ram := m\<rparr>) (store_word big (ram c) a x) else None)"
| "store_to big c (TempPtr i) n x =
     (case temps c i of Some (m, y) \<Rightarrow> if m = n then Some (c\<lparr>temps := (temps c)(i \<mapsto> (n, Some x))\<rparr>) else None
      | None \<Rightarrow> None)"
| "store_to big c p n x =
     (case cells c p of Some (m, y) \<Rightarrow> if m = n then Some (c\<lparr>cells := (cells c)(p \<mapsto> (n, Some x))\<rparr>) else None
      | None \<Rightarrow> None)"

text \<open>The effect of one instruction that is not a terminator.\<close>

fun langref :: "bool \<Rightarrow> inst \<Rightarrow> config \<Rightarrow> config option" where
  "langref big (LoadInst a) c =
     (case eval c a of
        VPtr p \<Rightarrow> map_option (\<lambda>x. push (VInt (bits_of (pointee (lty_of a))) x) c)
                    (load_from big c p (bits_of (pointee (lty_of a))))
      | VInt n x \<Rightarrow> None)"
| "langref big (StoreInst v a) c =
     (case (eval c v, eval c a) of
        (VInt n x, VPtr p) \<Rightarrow> if pointee (lty_of a) = IntTy n then map_option skip (store_to big c p n x) else None
      | _ \<Rightarrow> None)"
| "langref big (BinaryOperator op a b) c =
     (case (eval c a, eval c b) of
        (VInt n x, VInt m y) \<Rightarrow> if n = m then map_option (\<lambda>z. push (VInt n z) c) (arith op n x y) else None
      | _ \<Rightarrow> None)"
| "langref big (CastInst op a k) c =
     (case eval c a of VInt n x \<Rightarrow> map_option (\<lambda>z. push (VInt k z) c) (cast op n k x) | VPtr p \<Rightarrow> None)"
| "langref big (ICmpInst op a b) c =
     (case (eval c a, eval c b) of
        (VInt n x, VInt m y) \<Rightarrow> if n = m then Some (push (VInt 1 (of_bool (compare op n x y))) c) else None
      | _ \<Rightarrow> None)"
| "langref big (SelectInst p a b) c =
     (case (eval c p, eval c a, eval c b) of
        (VInt l q, VInt n x, VInt m y) \<Rightarrow>
          if l = 1 \<and> n = m then Some (push (VInt n (if q \<noteq> 0 then x else y)) c) else None
      | _ \<Rightarrow> None)"
| "langref big (GetElementPtr a i) c =
     (case (eval c a, eval c i) of
        (VPtr (RamPtr a0), VInt n x) \<Rightarrow> Some (push (VPtr (RamPtr (a0 + signed_take_bit (n - 1) x))) c)
      | _ \<Rightarrow> None)"
| "langref big (BitCast32 a) c =
     (case eval c a of VPtr (RamPtr k) \<Rightarrow> Some (push (VPtr (Ram32Ptr k)) c) | _ \<Rightarrow> None)"
| "langref big (AllocaInst n) c =
     Some (push (VPtr (TempPtr (position c))) (c\<lparr>temps := (temps c)(position c \<mapsto> (n, None))\<rparr>))"
| "langref big (EntryAlloca p n) c = Some (skip (c\<lparr>cells := (cells c)(p \<mapsto> (n, None))\<rparr>))"
| "langref big (MemberGEP i) c = Some (skip c)"
| "langref big (CallIntrinsic Bswap n a) c =
     (case eval c a of
        VInt m x \<Rightarrow> if m = 32 \<and> n = 32 then
            Some (push (VInt 32 (push_bit 24 (take_bit 8 x) + push_bit 16 (take_bit 8 (drop_bit 8 x))
              + push_bit 8 (take_bit 8 (drop_bit 16 x)) + take_bit 8 (drop_bit 24 x))) c)
          else None
      | VPtr p \<Rightarrow> None)"
| "langref big _ c = None"

text \<open>Straight-line code.\<close>

primrec run :: "(inst \<Rightarrow> config \<Rightarrow> config option) \<Rightarrow> inst list \<Rightarrow> config \<Rightarrow> config option" where
  "run step [] c = Some c"
| "run step (i # is) c = Option.bind (step i c) (run step is)"

lemma run_append: "run step (is @ js) c = Option.bind (run step is c) (run step js)"
proof (induction "is" arbitrary: c)
  case (Cons i "is")
  then show ?case by (cases "step i c") simp_all
qed simp

text \<open>
  A block ends with its only terminator: it returns an exit code or names the block to go on
  with. A block without one, or with an instruction behind one, is malformed.
\<close>

datatype outcome = Goto nat | Return int

fun is_terminator :: "inst \<Rightarrow> bool" where
  "is_terminator (ReturnInst v) = True"
| "is_terminator (BranchInst b) = True"
| "is_terminator (CondBranchInst v a b) = True"
| "is_terminator (SwitchInst v d cs) = True"
| "is_terminator _ = False"

fun langref_jump :: "inst \<Rightarrow> config \<Rightarrow> outcome option" where
  "langref_jump (ReturnInst v) c = (case eval c v of VInt n x \<Rightarrow> if n = 32 then Some (Return x) else None | VPtr p \<Rightarrow> None)"
| "langref_jump (BranchInst b) c = Some (Goto b)"
| "langref_jump (CondBranchInst v a b) c =
     (case eval c v of VInt n x \<Rightarrow> if n = 1 then Some (Goto (if x \<noteq> 0 then a else b)) else None | VPtr p \<Rightarrow> None)"
| "langref_jump (SwitchInst v d cs) c =
     (case eval c v of VInt n x \<Rightarrow> Some (Goto (case map_of cs x of None \<Rightarrow> d | Some b \<Rightarrow> b)) | VPtr p \<Rightarrow> None)"
| "langref_jump _ c = None"

fun exec_block :: "(inst \<Rightarrow> config \<Rightarrow> config option) \<Rightarrow> (inst \<Rightarrow> config \<Rightarrow> outcome option) \<Rightarrow> inst list \<Rightarrow> config \<Rightarrow> (outcome \<times> config) option" where
  "exec_block step jump [] c = None"
| "exec_block step jump (i # is) c =
     (if is_terminator i then (if is = [] then map_option (\<lambda>r. (r, c)) (jump i c) else None)
      else Option.bind (step i c) (exec_block step jump is))"

text \<open>
  A function runs block after block; the results and temporaries of a block are its own. The
  fuel bounds the number of blocks entered.
\<close>

definition enter :: "config \<Rightarrow> config" where
  "enter c = c\<lparr>position := 0, temps := (\<lambda>i. None)\<rparr>"

fun exec_fun :: "(inst \<Rightarrow> config \<Rightarrow> config option) \<Rightarrow> (inst \<Rightarrow> config \<Rightarrow> outcome option) \<Rightarrow> nat \<Rightarrow> inst list list \<Rightarrow> nat \<Rightarrow> config \<Rightarrow> (int \<times> config) option" where
  "exec_fun step jump 0 bs b c = None"
| "exec_fun step jump (Suc n) bs b c =
     (if b < length bs then
        (case exec_block step jump (bs ! b) (enter c) of
           None \<Rightarrow> None
         | Some (Return x, d) \<Rightarrow> Some (x, d)
         | Some (Goto b', d) \<Rightarrow> exec_fun step jump n bs b' d)
      else None)"

lemma langref_terminator: "langref big i c = Some d \<Longrightarrow> \<not> is_terminator i"
  by (cases i) simp_all

lemma exec_block_run:
  "run (langref big) is c = Some d \<Longrightarrow> exec_block (langref big) jump (is @ js) c = exec_block (langref big) jump js d"
  by (induction "is" arbitrary: c) (auto simp: bind_eq_Some_conv dest: langref_terminator)

section \<open>Reasoning about emitters\<close>

text \<open>
  \<open>wp step e Q c\<close>: the emitter \<open>e\<close> succeeds, and its instructions, appended to a block that
  stands at configuration \<open>c\<close>, run to the end and leave a configuration that satisfies \<open>Q\<close>
  together with the emitted value.
\<close>

definition wp :: "(inst \<Rightarrow> config \<Rightarrow> config option) \<Rightarrow> 'a emit \<Rightarrow> ('a \<Rightarrow> config \<Rightarrow> bool) \<Rightarrow> config \<Rightarrow> bool" where
  "wp step e Q c =
     (case e (position c) of Inl f \<Rightarrow> False
      | Inr (x, is) \<Rightarrow> (case run step is c of None \<Rightarrow> False | Some d \<Rightarrow> Q x d))"

named_theorems emit \<open>weakest preconditions of the emitters\<close>

lemma position_simps [simp]:
  "position (push r c) = Suc (position c)" "position (skip c) = Suc (position c)"
  "cells (push r c) = cells c" "cells (skip c) = cells c"
  "ram (push r c) = ram c" "ram (skip c) = ram c"
  "temps (push r c) = temps c" "temps (skip c) = temps c"
  "results (push r c) = (results c)(position c := r)" "results (skip c) = results c"
  by (simp_all add: push_def skip_def)

lemma store_to_position: "store_to big c p n x = Some d \<Longrightarrow> position d = position c"
  by (cases p) (auto split: option.splits if_splits)

lemma langref_position: "langref big i c = Some d \<Longrightarrow> position d = Suc (position c)"
  by (induction big i c rule: langref.induct)
     (auto split: rval.splits ptr.splits if_splits option.splits dest!: store_to_position)

lemma run_position: "run (langref big) is c = Some d \<Longrightarrow> position d = position c + length is"
  by (induction "is" arbitrary: c) (auto simp: bind_eq_Some_conv dest!: langref_position)

lemma wp_ret [simp, emit]: "wp step (e_ret x) Q = Q x"
  by (rule ext) (simp add: wp_def e_ret_def)

lemma wp_bind [simp, emit]:
  "wp (langref big) (e_bind e f) Q = wp (langref big) e (\<lambda>x. wp (langref big) (f x) Q)"
proof (rule ext, goal_cases)
  case (1 c)
  show ?case
  proof (cases "e (position c)")
    case (Inr r)
    then obtain x "is" where r: "e (position c) = Inr (x, is)" by (cases r) auto
    show ?thesis
    proof (cases "run (langref big) is c")
      case (Some d)
      with run_position [OF Some] r show ?thesis
        by (cases "f x (position d)") (auto simp: wp_def e_bind_def run_append)
    next
      case None
      with r show ?thesis
        by (cases "f x (position c + length is)") (auto simp: wp_def e_bind_def run_append)
    qed
  qed (simp add: wp_def e_bind_def)
qed

lemma wp_inst [emit]:
  "wp step (e_inst i t) Q c = (case step i c of None \<Rightarrow> False | Some d \<Rightarrow> Q (Result (position c) t) d)"
  by (cases "step i c") (simp_all add: wp_def e_inst_def)

lemma wp_do [emit]: "wp step (e_do i) Q c = (case step i c of None \<Rightarrow> False | Some d \<Rightarrow> Q () d)"
  by (cases "step i c") (simp_all add: wp_def e_do_def)

lemma wp_res [simp, emit]:
  "wp step (e_res (Inr x)) Q = Q x"
  "wp step (e_res (Inl f)) Q = (\<lambda>c. False)"
  by (rule ext, simp add: wp_def e_res_def)+

lemma wp_mono: "wp step e P c \<Longrightarrow> (\<And>x d. P x d \<Longrightarrow> Q x d) \<Longrightarrow> wp step e Q c"
  by (auto simp: wp_def split: sum.splits option.splits)

text \<open>
  \<open>lands c t r v d\<close>: from \<open>c\<close>, code without a visible effect has led to \<open>d\<close>, and the value
  \<open>v\<close> of type \<open>t\<close> is one of its results and stands for \<open>r\<close>.
\<close>

definition lands :: "config \<Rightarrow> lty \<Rightarrow> rval \<Rightarrow> lval \<Rightarrow> config \<Rightarrow> bool" where
  "lands c t r v d \<longleftrightarrow> (\<exists>k. k < position d \<and> results d k = r \<and> cells d = cells c \<and> ram d = ram c \<and>
     (\<forall>i < position c. results d i = results c i) \<and> position c \<le> position d \<and> v = Result k t)"

lemma wp_lands:
  assumes "wp step e (lands c t r) c"
    and "\<And>d k. k < position d \<Longrightarrow> results d k = r \<Longrightarrow> cells d = cells c \<Longrightarrow> ram d = ram c \<Longrightarrow>
      (\<And>i. i < position c \<Longrightarrow> results d i = results c i) \<Longrightarrow> position c \<le> position d \<Longrightarrow> Q (Result k t) d"
  shows "wp step e Q c"
  using assms(1) by (rule wp_mono) (auto simp: lands_def intro: assms(2))

text \<open>What an implementation of LLVM owes the translations: the documented behaviour.\<close>

locale llvm =
  fixes big :: bool
    and step :: "inst \<Rightarrow> config \<Rightarrow> config option"
    and jump :: "inst \<Rightarrow> config \<Rightarrow> outcome option"
  assumes documented: "langref big i c = Some d \<Longrightarrow> step i c = Some d"
    and jumps: "langref_jump i c = Some r \<Longrightarrow> jump i c = Some r"
begin

lemma run_documented: "run (langref big) is c = Some d \<Longrightarrow> run step is c = Some d"
  by (induction "is" arbitrary: c) (auto simp: bind_eq_Some_conv dest: documented)

lemma wp_documented: "wp (langref big) e Q c \<Longrightarrow> wp step e Q c"
  by (cases "e (position c)"; cases "run (langref big) (snd (projr (e (position c)))) c")
     (auto simp: wp_def split_beta dest: run_documented)

lemma exec_block_documented:
  "exec_block (langref big) langref_jump is c = Some r \<Longrightarrow> exec_block step jump is c = Some r"
  by (induction "is" arbitrary: c) (auto simp: bind_eq_Some_conv split: if_splits dest: documented jumps)

lemma exec_fun_documented:
  "exec_fun (langref big) langref_jump n bs b c = Some r \<Longrightarrow> exec_fun step jump n bs b c = Some r"
proof (induction n arbitrary: b c)
  case (Suc n)
  then obtain q d where "exec_block (langref big) langref_jump (bs ! b) (enter c) = Some (q, d)" and "b < length bs"
    by (auto split: if_splits option.splits)
  with Suc exec_block_documented show ?case by (cases q) fastforce+
qed simp

end

interpretation reference: llvm big "langref big" langref_jump for big
  by unfold_locales

end
