(* ===== verification/Frontend.thy ===== *)
theory Frontend
  imports Llvm
begin

text \<open>
  The code generation interface of the frontends, \<open>libcpu/frontend.h\<close> and
  \<open>libcpu/frontend.cpp\<close>: the macros a frontend writes its translation with and the functions
  behind them that emit register, flag and memory accesses. The macros nest as they do in the
  source, so each takes emitters; C++ leaves the order in which the arguments of a call are
  evaluated open, here they are evaluated from left to right. None of the translations modelled
  here has two arguments of which one stores what the other loads.
\<close>

section \<open>What the emitters know of the guest CPU\<close>

text \<open>
  The part of \<open>cpu_t\<close> (\<open>libcpu/libcpu.h\<close>) that code generation reads: from \<open>info\<close> the flags,
  the sizes, the register layout (the width of each register, GPRs first) and the flags layout
  (bit position and generic meaning), from \<open>cpu_t\<close> itself \<open>flags\<close> and the pointers that
  \<open>emit_decode_reg\<close> has set up. A pointer that was never set is NULL.
\<close>

datatype flag_type =
    CPU_FLAGTYPE_NONE | CPU_FLAGTYPE_CARRY | CPU_FLAGTYPE_OVERFLOW
  | CPU_FLAGTYPE_NEGATIVE | CPU_FLAGTYPE_PARITY | CPU_FLAGTYPE_ZERO

record xcpu =
  common_flags :: "32 word"
  word_size :: nat
  address_size :: nat
  psr_size :: nat
  register_bits :: "nat list"
  gpr_count :: nat
  xr_count :: nat
  flags_layout :: "(nat \<times> flag_type) list"
  cpu_flags :: "32 word"
  ptr_gpr :: "lval list"
  in_ptr_gpr :: "lval list"
  ptr_xr :: "lval list"
  in_ptr_xr :: "lval list"
  ptr_FLAG :: "lval option list"
  ptr_N :: "lval option"
  ptr_V :: "lval option"
  ptr_Z :: "lval option"
  ptr_C :: "lval option"
  ptr_PC :: lval
  ptr_RAM :: lval

abbreviation CPU_FLAG_ENDIAN_MASK :: "32 word" where "CPU_FLAG_ENDIAN_MASK \<equiv> 0x6"
abbreviation CPU_FLAG_ENDIAN_LITTLE :: "32 word" where "CPU_FLAG_ENDIAN_LITTLE \<equiv> 0x2"
abbreviation CPU_FLAG_HARDWIRE_GPR0 :: "32 word" where "CPU_FLAG_HARDWIRE_GPR0 \<equiv> 0x10"
abbreviation CPU_FLAG_FP80 :: "32 word" where "CPU_FLAG_FP80 \<equiv> 0x8000"
abbreviation CPU_FLAG_FP128 :: "32 word" where "CPU_FLAG_FP128 \<equiv> 0x10000"
abbreviation CPU_FLAG_SWAPMEM :: "32 word" where "CPU_FLAG_SWAPMEM \<equiv> 0x20000"

definition nullptr :: lval where
  "nullptr = ConstantInt 64 0"

definition IS_LITTLE_ENDIAN :: "xcpu \<Rightarrow> bool" where
  "IS_LITTLE_ENDIAN cpu \<longleftrightarrow> common_flags cpu AND CPU_FLAG_ENDIAN_MASK = CPU_FLAG_ENDIAN_LITTLE"

definition HAS_SPECIAL_GPR0 :: "xcpu \<Rightarrow> bool" where
  "HAS_SPECIAL_GPR0 cpu \<longleftrightarrow> has (common_flags cpu) CPU_FLAG_HARDWIRE_GPR0"

definition ptr_of :: "lval option \<Rightarrow> lval emit" where
  "ptr_of p = e_res (case p of None \<Rightarrow> Inl NullDeref | Some a \<Rightarrow> Inr a)"

definition flag_ptr :: "xcpu \<Rightarrow> nat \<Rightarrow> lval emit" where
  "flag_ptr cpu i = e_bind (e_res (nth_res (ptr_FLAG cpu) i)) ptr_of"

definition GPR :: "xcpu \<Rightarrow> nat \<Rightarrow> lval emit" where
  "GPR cpu i = e_res (nth_res (ptr_gpr cpu) i)"

section \<open>The macros\<close>

definition SIZE :: "lval \<Rightarrow> nat" where
  "SIZE v = bits_of (lty_of v)"

definition CONSTs :: "nat \<Rightarrow> int \<Rightarrow> lval emit" where
  "CONSTs s v = e_ret (ConstantInt s (take_bit s v))"

definition CONSTw :: "xcpu \<Rightarrow> int \<Rightarrow> lval emit" where
  "CONSTw cpu v = CONSTs (word_size cpu) v"

definition e_load :: "lval \<Rightarrow> lval emit" where
  "e_load a = e_inst (LoadInst a) (pointee (lty_of a))"

definition e_store :: "lval \<Rightarrow> lval \<Rightarrow> unit emit" where
  "e_store v a = e_do (StoreInst v a)"

definition LOAD :: "lval emit \<Rightarrow> lval emit" where
  "LOAD a = e_bind a e_load"

definition arch_store :: "lval \<Rightarrow> lval \<Rightarrow> lval emit" where
  "arch_store v a = e_seq (e_store v a) (e_ret v)"

definition STORE :: "lval emit \<Rightarrow> lval emit \<Rightarrow> lval emit" where
  "STORE v a = e_bind v (\<lambda>x. e_bind a (arch_store x))"

definition LET1 :: "lval emit \<Rightarrow> lval emit \<Rightarrow> unit emit" where
  "LET1 a b = e_bind a (\<lambda>p. e_bind b (\<lambda>x. e_store x p))"

definition e_cast :: "castop \<Rightarrow> nat \<Rightarrow> lval emit \<Rightarrow> lval emit" where
  "e_cast op s v = e_bind v (\<lambda>x. e_inst (CastInst op x s) (IntTy s))"

abbreviation TRUNC :: "nat \<Rightarrow> lval emit \<Rightarrow> lval emit" where "TRUNC \<equiv> e_cast Trunc"
abbreviation ZEXT :: "nat \<Rightarrow> lval emit \<Rightarrow> lval emit" where "ZEXT \<equiv> e_cast ZExt"
abbreviation SEXT :: "nat \<Rightarrow> lval emit \<Rightarrow> lval emit" where "SEXT \<equiv> e_cast SExt"

definition e_binop :: "binop \<Rightarrow> lval emit \<Rightarrow> lval emit \<Rightarrow> lval emit" where
  "e_binop op a b = e_bind a (\<lambda>x. e_bind b (\<lambda>y. e_inst (BinaryOperator op x y) (lty_of x)))"

abbreviation e_ADD :: "lval emit \<Rightarrow> lval emit \<Rightarrow> lval emit" where "e_ADD \<equiv> e_binop Add"
abbreviation e_SUB :: "lval emit \<Rightarrow> lval emit \<Rightarrow> lval emit" where "e_SUB \<equiv> e_binop Sub"
abbreviation e_MUL :: "lval emit \<Rightarrow> lval emit \<Rightarrow> lval emit" where "e_MUL \<equiv> e_binop Mul"
abbreviation e_AND :: "lval emit \<Rightarrow> lval emit \<Rightarrow> lval emit" where "e_AND \<equiv> e_binop BAnd"
abbreviation e_OR :: "lval emit \<Rightarrow> lval emit \<Rightarrow> lval emit" where "e_OR \<equiv> e_binop BOr"
abbreviation e_XOR :: "lval emit \<Rightarrow> lval emit \<Rightarrow> lval emit" where "e_XOR \<equiv> e_binop BXor"
abbreviation SHL :: "lval emit \<Rightarrow> lval emit \<Rightarrow> lval emit" where "SHL \<equiv> e_binop Shl"
abbreviation LSHR :: "lval emit \<Rightarrow> lval emit \<Rightarrow> lval emit" where "LSHR \<equiv> e_binop LShr"
abbreviation ASHR :: "lval emit \<Rightarrow> lval emit \<Rightarrow> lval emit" where "ASHR \<equiv> e_binop AShr"

definition e_icmp :: "icmp \<Rightarrow> lval emit \<Rightarrow> lval emit \<Rightarrow> lval emit" where
  "e_icmp op a b = e_bind a (\<lambda>x. e_bind b (\<lambda>y. e_inst (ICmpInst op x y) (IntTy 1)))"

definition COM :: "xcpu \<Rightarrow> lval emit \<Rightarrow> lval emit" where
  "COM cpu x = e_XOR x (CONSTw cpu (- 1))"

definition e_NOT :: "lval emit \<Rightarrow> lval emit" where
  "e_NOT a = e_XOR a (CONSTs 1 1)"

definition INC :: "xcpu \<Rightarrow> lval emit \<Rightarrow> lval emit" where
  "INC cpu a = e_ADD a (CONSTw cpu 1)"

definition DEC :: "xcpu \<Rightarrow> lval emit \<Rightarrow> lval emit" where
  "DEC cpu a = e_SUB a (CONSTw cpu 1)"

definition SET_N :: "xcpu \<Rightarrow> lval \<Rightarrow> unit emit" where
  "SET_N cpu t = LET1 (ptr_of (ptr_N cpu)) (e_icmp ICMP_SLT (e_ret t) (CONSTs (SIZE t) 0))"

definition SET_Z :: "xcpu \<Rightarrow> lval \<Rightarrow> unit emit" where
  "SET_Z cpu t = LET1 (ptr_of (ptr_Z cpu)) (e_icmp ICMP_EQ (e_ret t) (CONSTs (SIZE t) 0))"

definition SET_NZ :: "xcpu \<Rightarrow> lval emit \<Rightarrow> unit emit" where
  "SET_NZ cpu a = e_bind a (\<lambda>t2. e_seq (SET_N cpu t2) (SET_Z cpu t2))"

definition CC_EQ :: "xcpu \<Rightarrow> lval emit" where "CC_EQ cpu = LOAD (ptr_of (ptr_Z cpu))"
definition CC_NE :: "xcpu \<Rightarrow> lval emit" where "CC_NE cpu = e_NOT (LOAD (ptr_of (ptr_Z cpu)))"
definition CC_CS :: "xcpu \<Rightarrow> lval emit" where "CC_CS cpu = LOAD (ptr_of (ptr_C cpu))"
definition CC_CC :: "xcpu \<Rightarrow> lval emit" where "CC_CC cpu = e_NOT (LOAD (ptr_of (ptr_C cpu)))"
definition CC_MI :: "xcpu \<Rightarrow> lval emit" where "CC_MI cpu = LOAD (ptr_of (ptr_N cpu))"
definition CC_PL :: "xcpu \<Rightarrow> lval emit" where "CC_PL cpu = e_NOT (LOAD (ptr_of (ptr_N cpu)))"
definition CC_VS :: "xcpu \<Rightarrow> lval emit" where "CC_VS cpu = LOAD (ptr_of (ptr_V cpu))"
definition CC_VC :: "xcpu \<Rightarrow> lval emit" where "CC_VC cpu = e_NOT (LOAD (ptr_of (ptr_V cpu)))"

section \<open>Register access\<close>

text \<open>
  An index past the general registers selects an extra register. \<open>bits = 0\<close> stands for the
  register's own width.
\<close>

definition arch_get_reg :: "xcpu \<Rightarrow> nat \<Rightarrow> nat \<Rightarrow> nat \<Rightarrow> lval emit" where
  "arch_get_reg cpu index bits shift =
     e_bind (e_res (nth_res (register_bits cpu) index)) (\<lambda>size.
       let get = (\<lambda>regs i.
             let v = e_bind (e_res (nth_res regs i)) e_load in
             if bits \<noteq> 0 \<and> bits < size then
               (if shift \<noteq> 0 then LSHR (TRUNC bits v) (CONSTs 32 (int shift)) else TRUNC bits v)
             else v)
       in if gpr_count cpu \<le> index then
            (if xr_count cpu \<le> index - gpr_count cpu then e_fault AssertFailure
             else get (ptr_xr cpu) (index - gpr_count cpu))
          else if HAS_SPECIAL_GPR0 cpu \<and> index = 0 then CONSTs (if bits \<noteq> 0 then bits else size) 0
          else get (ptr_gpr cpu) index)"

definition arch_put_reg :: "xcpu \<Rightarrow> nat \<Rightarrow> lval \<Rightarrow> nat \<Rightarrow> bool \<Rightarrow> lval emit" where
  "arch_put_reg cpu index v0 bits sext =
     e_bind (e_res (nth_res (register_bits cpu) index)) (\<lambda>size.
       let is_xr = (gpr_count cpu \<le> index);
           i = (if is_xr then index - gpr_count cpu else index)
       in if is_xr \<and> xr_count cpu \<le> i then e_fault AssertFailure
          else e_bind (if bits \<noteq> 0 \<and> size \<noteq> bits
                       then e_cast (if sext then SExt else ZExt) size (e_ret v0) else e_ret v0) (\<lambda>v.
            e_seq (if is_xr \<or> \<not> HAS_SPECIAL_GPR0 cpu \<or> i \<noteq> 0
                   then e_bind (e_res (nth_res (if is_xr then ptr_xr cpu else ptr_gpr cpu) i)) (e_store v)
                   else e_ret ())
              (e_ret v)))"

definition R :: "xcpu \<Rightarrow> nat \<Rightarrow> lval emit" where
  "R cpu i = arch_get_reg cpu i 0 0"

definition R8H :: "xcpu \<Rightarrow> nat \<Rightarrow> lval emit" where
  "R8H cpu i = TRUNC 8 (arch_get_reg cpu i 16 8)"

definition LET :: "xcpu \<Rightarrow> nat \<Rightarrow> lval emit \<Rightarrow> lval emit" where
  "LET cpu i v = e_bind v (\<lambda>x. arch_put_reg cpu i x 0 False)"

section \<open>Memory access\<close>

definition arch_bswap :: "nat \<Rightarrow> lval emit \<Rightarrow> lval emit" where
  "arch_bswap width v = e_bind v (\<lambda>x. e_inst (CallIntrinsic Bswap width x) (IntTy width))"

definition arch_gep8 :: "xcpu \<Rightarrow> lval \<Rightarrow> lval emit" where
  "arch_gep8 cpu a = e_inst (GetElementPtr (ptr_RAM cpu) a) (PtrTy (IntTy 8))"

definition arch_gep32 :: "xcpu \<Rightarrow> lval \<Rightarrow> lval emit" where
  "arch_gep32 cpu a = e_bind (arch_gep8 cpu a) (\<lambda>p. e_inst (BitCast32 p) (PtrTy (IntTy 32)))"

definition arch_load32_aligned :: "xcpu \<Rightarrow> lval \<Rightarrow> lval emit" where
  "arch_load32_aligned cpu a =
     e_bind (arch_gep32 cpu a) (\<lambda>p.
     if has (cpu_flags cpu) CPU_FLAG_SWAPMEM then arch_bswap 32 (e_load p) else e_load p)"

definition arch_store32_aligned :: "xcpu \<Rightarrow> lval \<Rightarrow> lval \<Rightarrow> unit emit" where
  "arch_store32_aligned cpu v a =
     e_bind (arch_gep32 cpu a) (\<lambda>p.
     e_bind (if has (cpu_flags cpu) CPU_FLAG_SWAPMEM then arch_bswap 32 (e_ret v) else e_ret v) (\<lambda>w.
     e_store w p))"

definition arch_get_shift8 :: "xcpu \<Rightarrow> lval \<Rightarrow> lval emit" where
  "arch_get_shift8 cpu addr =
     (let shift = e_AND (e_ret addr) (CONSTw cpu 3);
          shift = (if \<not> IS_LITTLE_ENDIAN cpu then e_XOR shift (CONSTw cpu 3) else shift)
      in SHL shift (CONSTw cpu 3))"

definition arch_get_shift16 :: "xcpu \<Rightarrow> lval \<Rightarrow> lval emit" where
  "arch_get_shift16 cpu addr =
     (let shift = e_AND (LSHR (e_ret addr) (CONSTw cpu 1)) (CONSTw cpu 1);
          shift = (if \<not> IS_LITTLE_ENDIAN cpu then e_XOR shift (CONSTw cpu 1) else shift)
      in SHL shift (CONSTw cpu 4))"

text \<open>The mask \<open>~3ULL\<close>, as the signed number with the same bits.\<close>

definition arch_load8 :: "xcpu \<Rightarrow> lval \<Rightarrow> lval emit" where
  "arch_load8 cpu addr =
     e_bind (arch_get_shift8 cpu addr) (\<lambda>shift.
     e_bind (e_bind (e_AND (e_ret addr) (CONSTw cpu (- 4))) (arch_load32_aligned cpu)) (\<lambda>val.
     TRUNC 8 (LSHR (e_ret val) (e_ret shift))))"

definition arch_load16_aligned :: "xcpu \<Rightarrow> lval \<Rightarrow> lval emit" where
  "arch_load16_aligned cpu addr =
     e_bind (arch_get_shift16 cpu addr) (\<lambda>shift.
     e_bind (e_bind (e_AND (e_ret addr) (CONSTw cpu (- 4))) (arch_load32_aligned cpu)) (\<lambda>val.
     TRUNC 16 (LSHR (e_ret val) (e_ret shift))))"

definition arch_store8 :: "xcpu \<Rightarrow> lval \<Rightarrow> lval \<Rightarrow> unit emit" where
  "arch_store8 cpu val addr0 =
     e_bind (arch_get_shift8 cpu addr0) (\<lambda>shift.
     e_bind (e_AND (e_ret addr0) (CONSTw cpu (- 4))) (\<lambda>addr.
     e_bind (e_XOR (SHL (CONSTw cpu 255) (e_ret shift)) (CONSTw cpu (- 1))) (\<lambda>mask.
     e_bind (e_AND (arch_load32_aligned cpu addr) (e_ret mask)) (\<lambda>old.
     e_bind (e_OR (e_ret old) (SHL (e_AND (e_ret val) (CONSTw cpu 255)) (e_ret shift))) (\<lambda>v.
     arch_store32_aligned cpu v addr)))))"

definition arch_store16 :: "xcpu \<Rightarrow> lval \<Rightarrow> lval \<Rightarrow> unit emit" where
  "arch_store16 cpu val addr0 =
     e_bind (arch_get_shift16 cpu addr0) (\<lambda>shift.
     e_bind (e_AND (e_ret addr0) (CONSTw cpu (- 4))) (\<lambda>addr.
     e_bind (e_XOR (SHL (CONSTw cpu 65535) (e_ret shift)) (CONSTw cpu (- 1))) (\<lambda>mask.
     e_bind (e_AND (arch_load32_aligned cpu addr) (e_ret mask)) (\<lambda>old.
     e_bind (e_OR (e_ret old) (SHL (e_AND (e_ret val) (CONSTw cpu 65535)) (e_ret shift))) (\<lambda>v.
     arch_store32_aligned cpu v addr)))))"

definition LOAD8 :: "xcpu \<Rightarrow> nat \<Rightarrow> lval emit \<Rightarrow> lval emit" where
  "LOAD8 cpu i a = e_bind (e_bind a (arch_load8 cpu)) (\<lambda>v. arch_put_reg cpu i v 8 False)"

definition LOAD32 :: "xcpu \<Rightarrow> nat \<Rightarrow> lval emit \<Rightarrow> lval emit" where
  "LOAD32 cpu i a = e_bind (e_bind a (arch_load32_aligned cpu)) (\<lambda>v. arch_put_reg cpu i v 32 True)"

definition STORE8 :: "xcpu \<Rightarrow> lval emit \<Rightarrow> lval emit \<Rightarrow> unit emit" where
  "STORE8 cpu v a = e_bind v (\<lambda>x. e_bind a (arch_store8 cpu x))"

definition STORE32 :: "xcpu \<Rightarrow> lval emit \<Rightarrow> lval emit \<Rightarrow> unit emit" where
  "STORE32 cpu v a = e_bind v (\<lambda>x. e_bind a (arch_store32_aligned cpu x))"

section \<open>Shifts, additions, flags\<close>

text \<open>Shifts or rotates what \<open>src\<close> points to and stores it to \<open>dst\<close>; the carry gets the bit that leaves.\<close>

definition arch_shiftrotate :: "xcpu \<Rightarrow> lval \<Rightarrow> lval \<Rightarrow> bool \<Rightarrow> bool \<Rightarrow> lval emit" where
  "arch_shiftrotate cpu dst src left rot =
     e_bind (e_load src) (\<lambda>v.
     e_bind (if left then e_icmp ICMP_SLT (e_ret v) (CONSTs (SIZE v) 0) else TRUNC 1 (e_ret v)) (\<lambda>c.
     e_bind (if left then SHL (e_ret v) (CONSTs (SIZE v) 1) else LSHR (e_ret v) (CONSTs (SIZE v) 1)) (\<lambda>v1.
     e_bind (if rot then
               (let carry = ZEXT (SIZE v1) (LOAD (ptr_of (ptr_C cpu))) in
                e_OR (e_ret v1) (if left then carry else SHL carry (CONSTs (SIZE v1) (int (SIZE v1) - 1))))
             else e_ret v1) (\<lambda>v2.
     e_seq (LET1 (ptr_of (ptr_C cpu)) (e_ret c))
       (STORE (e_ret v2) (e_ret dst))))))"

definition arch_adc :: "xcpu \<Rightarrow> lval option \<Rightarrow> lval \<Rightarrow> lval \<Rightarrow> bool \<Rightarrow> bool \<Rightarrow> lval emit" where
  "arch_adc cpu dst src v plus_carry plus_one =
     e_bind (if plus_carry then LOAD (ptr_of (ptr_C cpu))
             else if plus_one then CONSTs 1 1 else CONSTs 1 0) (\<lambda>c.
     if SIZE v = 8 then
       e_bind (e_ADD (e_ADD (ZEXT 16 (e_load src)) (ZEXT 16 (e_ret v))) (ZEXT 16 (e_ret c))) (\<lambda>v1.
       e_seq (STORE (TRUNC 1 (LSHR (e_ret v1) (CONSTs 16 8))) (ptr_of (ptr_C cpu)))
       (e_bind (TRUNC 8 (e_ret v1)) (\<lambda>v2.
        e_seq (case dst of None \<Rightarrow> e_ret v2 | Some d \<Rightarrow> STORE (e_ret v2) (e_ret d)) (e_ret v2))))
     else e_fault ExitFailure)"

definition arch_encode_bit :: "lval \<Rightarrow> lval emit \<Rightarrow> nat \<Rightarrow> nat \<Rightarrow> lval emit" where
  "arch_encode_bit flags b shift width =
     e_bind (LOAD b) (\<lambda>n.
     e_OR (e_ret flags) (SHL (ZEXT width (e_ret n)) (CONSTs width (int shift))))"

definition arch_decode_bit :: "lval \<Rightarrow> lval emit \<Rightarrow> nat \<Rightarrow> nat \<Rightarrow> unit emit" where
  "arch_decode_bit flags b shift width =
     e_bind (TRUNC 1 (LSHR (e_ret flags) (CONSTs width (int shift)))) (\<lambda>n.
     e_bind b (e_store n))"

primrec encode_bits :: "xcpu \<Rightarrow> (nat \<times> flag_type) list \<Rightarrow> lval \<Rightarrow> lval emit" where
  "encode_bits cpu [] flags = e_ret flags"
| "encode_bits cpu (f # fs) flags =
     e_bind (arch_encode_bit flags (flag_ptr cpu (fst f)) (fst f) (psr_size cpu)) (encode_bits cpu fs)"

definition arch_flags_encode :: "xcpu \<Rightarrow> lval emit" where
  "arch_flags_encode cpu = e_bind (CONSTs (psr_size cpu) 0) (encode_bits cpu (flags_layout cpu))"

primrec decode_bits :: "xcpu \<Rightarrow> lval \<Rightarrow> (nat \<times> flag_type) list \<Rightarrow> unit emit" where
  "decode_bits cpu flags [] = e_ret ()"
| "decode_bits cpu flags (f # fs) =
     e_seq (arch_decode_bit flags (flag_ptr cpu (fst f)) (fst f) (psr_size cpu)) (decode_bits cpu flags fs)"

definition arch_flags_decode :: "xcpu \<Rightarrow> lval \<Rightarrow> unit emit" where
  "arch_flags_decode cpu flags = decode_bits cpu flags (flags_layout cpu)"

section \<open>Running the emitted code\<close>

text \<open>The collection \<open>emitters\<close> unfolds the macros down to the instructions they emit.\<close>

named_theorems emitters \<open>the macros of the frontends\<close>

declare wp_inst [emitters] wp_do [emitters] SET_NZ_def [emitters] SET_N_def [emitters] SET_Z_def [emitters]
  LET1_def [emitters] e_load_def [emitters] e_store_def [emitters] e_icmp_def [emitters] CONSTs_def [emitters]
  CONSTw_def [emitters] SIZE_def [emitters] ptr_of_def [emitters] flag_ptr_def [emitters]
  arch_gep8_def [emitters] LOAD_def [emitters] e_binop_def [emitters] e_cast_def [emitters] COM_def [emitters]
  STORE_def [emitters] arch_store_def [emitters] INC_def [emitters] DEC_def [emitters] arch_adc_def [emitters]
  e_NOT_def [emitters]

end
