(* ===== verification/Function.thy ===== *)
theory Function
  imports Frontend
begin

text \<open>
  The function that holds a translation, \<open>libcpu/function.cpp\<close>: its entry block copies the
  registers of the client's register file into local variables and takes the status register
  apart, its \<open>ret\<close> block puts everything back and returns the exit code, its \<open>trap\<close> block
  sets the exit code first. CPUs with floating point registers, and the frontends that emit a
  part of their own, are not covered.
\<close>

section \<open>Decoding the register file\<close>

definition get_struct_member_pointer :: "nat \<Rightarrow> nat \<Rightarrow> lval emit" where
  "get_struct_member_pointer index width =
     e_seq (e_do (MemberGEP index)) (e_ret (Address (RegPtr index) (IntTy width)))"

definition e_alloca :: "ptr \<Rightarrow> nat \<Rightarrow> lval emit" where
  "e_alloca p width = e_seq (e_do (EntryAlloca p width)) (e_ret (Address p (IntTy width)))"

text \<open>
  \<open>emit_decode_reg_helper\<close>: one round per register of the class; the result are the pointers
  for \<open>in_ptr_r\<close> and \<open>ptr_r\<close>.
\<close>

primrec emit_decode_reg_helper :: "xcpu \<Rightarrow> nat \<Rightarrow> (nat \<Rightarrow> ptr) \<Rightarrow> nat list \<Rightarrow> (lval list \<times> lval list) emit" where
  "emit_decode_reg_helper cpu offset cell [] = e_ret ([], [])"
| "emit_decode_reg_helper cpu offset cell (i # is) =
     e_bind (e_res (nth_res (register_bits cpu) (i + offset))) (\<lambda>width.
     e_bind (get_struct_member_pointer (i + offset) width) (\<lambda>in_r.
     e_bind (e_alloca (cell i) width) (\<lambda>r.
     e_bind (e_load in_r) (\<lambda>v.
     e_seq (e_store v r)
     (e_bind (emit_decode_reg_helper cpu offset cell is) (\<lambda>(in_rs, rs). e_ret (in_r # in_rs, r # rs)))))))"

primrec emit_declare_flags :: "(nat \<times> flag_type) list \<Rightarrow> xcpu \<Rightarrow> xcpu emit" where
  "emit_declare_flags [] cpu = e_ret cpu"
| "emit_declare_flags (fl # fls) cpu =
     e_bind (e_alloca (FlagPtr (fst fl)) 1) (\<lambda>f.
     e_bind (e_res (upd_res (ptr_FLAG cpu) (fst fl) (Some f))) (\<lambda>flgs.
     let cpu' = cpu\<lparr>ptr_FLAG := flgs\<rparr> in
     emit_declare_flags fls
       (case snd fl of
          CPU_FLAGTYPE_NEGATIVE \<Rightarrow> cpu'\<lparr>ptr_N := Some f\<rparr>
        | CPU_FLAGTYPE_OVERFLOW \<Rightarrow> cpu'\<lparr>ptr_V := Some f\<rparr>
        | CPU_FLAGTYPE_ZERO \<Rightarrow> cpu'\<lparr>ptr_Z := Some f\<rparr>
        | CPU_FLAGTYPE_CARRY \<Rightarrow> cpu'\<lparr>ptr_C := Some f\<rparr>
        | _ \<Rightarrow> cpu')))"

definition emit_decode_reg :: "xcpu \<Rightarrow> xcpu emit" where
  "emit_decode_reg cpu =
     e_bind (emit_decode_reg_helper cpu 0 GprPtr [0..<gpr_count cpu]) (\<lambda>(in_gpr, gpr).
     e_bind (emit_decode_reg_helper cpu (gpr_count cpu) XrPtr [0..<xr_count cpu]) (\<lambda>(in_xr, xr).
     let cpu1 = cpu\<lparr>ptr_gpr := gpr, in_ptr_gpr := in_gpr, ptr_xr := xr, in_ptr_xr := in_xr,
                    ptr_PC := Address PcPtr (IntTy (address_size cpu))\<rparr> in
     if psr_size cpu1 \<noteq> 0 then
       e_bind (emit_declare_flags (flags_layout cpu1) cpu1) (\<lambda>cpu2.
       e_bind (e_bind (e_res (nth_res (ptr_xr cpu2) 0)) e_load) (\<lambda>flgs.
       e_seq (arch_flags_decode cpu2 flgs) (e_ret cpu2)))
     else e_ret cpu1))"

section \<open>Spilling it\<close>

primrec spill_reg_state_helper :: "(lval \<times> lval) list \<Rightarrow> unit emit" where
  "spill_reg_state_helper [] = e_ret ()"
| "spill_reg_state_helper (p # ps) =
     e_bind (e_load (snd p)) (\<lambda>v. e_seq (e_store v (fst p)) (spill_reg_state_helper ps))"

definition spill_reg_state :: "xcpu \<Rightarrow> unit emit" where
  "spill_reg_state cpu =
     e_seq (if psr_size cpu \<noteq> 0 then
              e_bind (arch_flags_encode cpu) (\<lambda>flgs. e_bind (e_res (nth_res (ptr_xr cpu) 0)) (e_store flgs))
            else e_ret ())
     (e_seq (spill_reg_state_helper (zip (in_ptr_gpr cpu) (ptr_gpr cpu)))
       (spill_reg_state_helper (zip (in_ptr_xr cpu) (ptr_xr cpu))))"

section \<open>Functions under construction\<close>

text \<open>
  The blocks of a function, a \<open>BasicBlock *\<close> being the position of its block, and the map from
  guest addresses to blocks, \<open>func_bb[cur_func]\<close>.
\<close>

record ir_fun =
  blocks :: "inst list list"
  func_bb :: "addr \<Rightarrow> nat option"

type_synonym 'a build = "ir_fun \<Rightarrow> ('a \<times> ir_fun) res"

definition b_ret :: "'a \<Rightarrow> 'a build" where
  "b_ret x = (\<lambda>f. Inr (x, f))"

definition b_bind :: "'a build \<Rightarrow> ('a \<Rightarrow> 'b build) \<Rightarrow> 'b build" where
  "b_bind m k = (\<lambda>f. res_bind (m f) (\<lambda>(x, g). k x g))"

abbreviation b_seq :: "'a build \<Rightarrow> 'b build \<Rightarrow> 'b build" where
  "b_seq m k \<equiv> b_bind m (\<lambda>_. k)"

definition in_block :: "nat \<Rightarrow> 'a emit \<Rightarrow> 'a build" where
  "in_block bb e = (\<lambda>f.
     res_bind (nth_res (blocks f) bb) (\<lambda>is.
     res_bind (e (length is)) (\<lambda>(x, js). Inr (x, f\<lparr>blocks := (blocks f)[bb := is @ js]\<rparr>))))"

definition new_block :: "nat build" where
  "new_block = (\<lambda>f. Inr (length (blocks f), f\<lparr>blocks := blocks f @ [[]]\<rparr>))"

text \<open>\<open>BranchInst::Create\<close> insists on a destination.\<close>

definition b_jump :: "nat \<Rightarrow> nat option \<Rightarrow> unit build" where
  "b_jump bb target =
     (case target of None \<Rightarrow> (\<lambda>f. Inl NullDeref) | Some t \<Rightarrow> in_block bb (e_do (BranchInst t)))"

abbreviation (input) JIT_RETURN_NOERR :: int where "JIT_RETURN_NOERR \<equiv> 0"
abbreviation (input) JIT_RETURN_FUNCNOTFOUND :: int where "JIT_RETURN_FUNCNOTFOUND \<equiv> 1"
abbreviation (input) JIT_RETURN_SINGLESTEP :: int where "JIT_RETURN_SINGLESTEP \<equiv> 2"
abbreviation (input) JIT_RETURN_TRAP :: int where "JIT_RETURN_TRAP \<equiv> 3"

text \<open>
  \<open>cpu_create_function\<close>: the blocks of the new function and the updated CPU; \<open>single\<close> tells
  whether the debug flags ask for single-stepping.
\<close>

definition cpu_create_function :: "xcpu \<Rightarrow> bool \<Rightarrow> (xcpu \<times> nat \<times> nat \<times> nat) build" where
  "cpu_create_function cpu0 single =
     b_bind new_block (\<lambda>label_entry.
     b_bind (in_block label_entry (emit_decode_reg (cpu0\<lparr>ptr_RAM := Address (RamPtr 0) (IntTy 8)\<rparr>))) (\<lambda>cpu.
     b_bind (in_block label_entry (e_alloca ExitPtr 32)) (\<lambda>exit_code.
     b_seq (in_block label_entry
       (e_bind (CONSTs 32 (if single then JIT_RETURN_SINGLESTEP else JIT_RETURN_FUNCNOTFOUND)) (\<lambda>v. e_store v exit_code)))
     (b_bind new_block (\<lambda>bb_ret.
      b_seq (in_block bb_ret (spill_reg_state cpu))
     (b_seq (in_block bb_ret (e_bind (e_load exit_code) (\<lambda>v. e_do (ReturnInst v))))
     (b_bind new_block (\<lambda>bb_trap.
      b_seq (in_block bb_trap (e_bind (CONSTs 32 JIT_RETURN_TRAP) (\<lambda>v. e_store v exit_code)))
     (b_seq (b_jump bb_trap (Some bb_ret))
       (b_ret (cpu, bb_ret, bb_trap, label_entry)))))))))))"

end
