(* ===== verification/Translate.thy ===== *)
theory Translate
  imports Tagger Function
begin

text \<open>
  The translation drivers: basic blocks (\<open>libcpu/basicblock.cpp\<close>), the code of one instruction
  with its branches (\<open>libcpu/translate.cpp\<close>), and the three ways to fill a function: one
  instruction (\<open>translate_singlestep.cpp\<close>), straight on to the next branch
  (\<open>translate_singlestep_bb.cpp\<close>), or everything the tagging has found (\<open>translate_all.cpp\<close>).
  The LLVM-independent part of \<open>cpu_translate_function\<close> in \<open>interface.cpp\<close> puts them together.
\<close>

section \<open>The frontend\<close>

text \<open>The three entries of \<open>arch_func_t\<close> that translation calls.\<close>

record arch_func =
  f_tag_instr :: tag_fn
  f_translate_cond :: "addr \<Rightarrow> lval option emit"
  f_translate_instr :: "addr \<Rightarrow> int emit"

section \<open>Basic blocks\<close>

definition is_start_of_basicblock :: "cpu \<Rightarrow> addr \<Rightarrow> bool res" where
  "is_start_of_basicblock cpu a =
     res_bind (get_tag cpu a) (\<lambda>tag.
     Inr (has tag (TAG_BRANCH_TARGET OR TAG_SUBROUTINE OR TAG_AFTER_CALL OR TAG_AFTER_COND OR TAG_AFTER_TRAP OR TAG_ENTRY)
       \<and> has tag TAG_CODE))"

definition emit_store_pc :: "xcpu \<Rightarrow> nat \<Rightarrow> addr \<Rightarrow> unit build" where
  "emit_store_pc x bb_branch new_pc =
     in_block bb_branch (e_bind (CONSTs (address_size x) (uint new_pc)) (\<lambda>v_pc. e_store v_pc (ptr_PC x)))"

definition emit_store_pc_return :: "xcpu \<Rightarrow> nat \<Rightarrow> addr \<Rightarrow> nat \<Rightarrow> unit build" where
  "emit_store_pc_return x bb_branch new_pc bb_ret =
     b_seq (emit_store_pc x bb_branch new_pc) (b_jump bb_branch (Some bb_ret))"

text \<open>The types tell labels apart; only the normal ones are remembered.\<close>

datatype bb_type = BB_TYPE_NORMAL | BB_TYPE_COND | BB_TYPE_DELAY | BB_TYPE_EXTERNAL

definition create_basicblock :: "addr \<Rightarrow> bb_type \<Rightarrow> nat build" where
  "create_basicblock addr ty =
     b_bind new_block (\<lambda>bb f.
       Inr (bb, if ty = BB_TYPE_NORMAL then f\<lparr>func_bb := (func_bb f)(addr \<mapsto> bb)\<rparr> else f))"

definition lookup_basicblock :: "xcpu \<Rightarrow> addr \<Rightarrow> nat \<Rightarrow> nat build" where
  "lookup_basicblock x pc bb_ret = (\<lambda>f.
     case func_bb f pc of
       Some bb \<Rightarrow> Inr (bb, f)
     | None \<Rightarrow>
         b_bind (create_basicblock pc BB_TYPE_EXTERNAL) (\<lambda>new_bb.
         b_seq (emit_store_pc_return x new_bb pc bb_ret) (b_ret new_bb)) f)"

section \<open>One instruction\<close>

definition b_cond_branch :: "nat \<Rightarrow> nat option \<Rightarrow> nat option \<Rightarrow> lval option \<Rightarrow> unit build" where
  "b_cond_branch bb t e c =
     (case (t, e, c) of
        (Some t', Some e', Some v) \<Rightarrow> in_block bb (e_do (CondBranchInst v t' e'))
      | _ \<Rightarrow> (\<lambda>f. Inl NullDeref))"

definition some_block :: "nat build \<Rightarrow> nat option build" where
  "some_block b = b_bind b (\<lambda>x. b_ret (Some x))"

text \<open>The block where execution continues, or NULL if the instruction always branches away.\<close>

definition translate_instr :: "arch_func \<Rightarrow> addr \<Rightarrow> tag \<Rightarrow> nat option \<Rightarrow> nat option \<Rightarrow> nat option \<Rightarrow> nat \<Rightarrow> nat option build" where
  "translate_instr fe pc tag bb_target bb_trap bb_next cur_bb =
     b_bind (if has tag TAG_CONDITIONAL then some_block (create_basicblock pc BB_TYPE_COND) else b_ret None) (\<lambda>bb_cond.
     b_bind (if has tag TAG_DELAY_SLOT \<and> has tag TAG_CONDITIONAL
             then some_block (create_basicblock pc BB_TYPE_DELAY) else b_ret None) (\<lambda>bb_delay.
     if has tag TAG_DELAY_SLOT then
       (case (bb_cond, bb_delay) of
          (Some cond, Some delay) \<Rightarrow>
            b_bind (in_block cur_bb (f_translate_cond fe pc)) (\<lambda>c.
            b_seq (b_cond_branch cur_bb bb_cond bb_delay c)
            (b_bind (in_block cond (f_translate_instr fe pc)) (\<lambda>len.
             let delay_pc = pc + word_of_int len in
             b_seq (in_block cond (f_translate_instr fe delay_pc))
            (b_seq (b_jump cond bb_target)
            (b_seq (in_block delay (f_translate_instr fe delay_pc))
            (b_seq (b_jump delay bb_next)
              (b_ret None)))))))
        | _ \<Rightarrow>
            b_bind (in_block cur_bb (f_translate_instr fe pc)) (\<lambda>len.
            b_seq (in_block cur_bb (f_translate_instr fe (pc + word_of_int len)))
            (b_seq (b_jump cur_bb bb_target)
              (b_ret None))))
     else
       b_bind (case bb_cond of
                 None \<Rightarrow> b_ret cur_bb
               | Some cond \<Rightarrow>
                   b_bind (in_block cur_bb (f_translate_cond fe pc)) (\<lambda>c.
                   b_seq (b_cond_branch cur_bb bb_cond bb_next c) (b_ret cond))) (\<lambda>cur_bb'.
       b_seq (in_block cur_bb' (f_translate_instr fe pc))
       (b_seq (if has tag (TAG_BRANCH OR TAG_CALL OR TAG_RET) then b_jump cur_bb' bb_target
               else if has tag TAG_TRAP then b_jump cur_bb' bb_trap else b_ret ())
         (b_ret (if has tag TAG_CONTINUE then Some cur_bb' else None))))))"

section \<open>Single-stepping\<close>

text \<open>
  \<open>new_pc\<close> is not initialised, and read even if the frontend has not written it; \<open>junk\<close> is what
  it holds.
\<close>

definition b_res :: "'a res \<Rightarrow> 'a build" where
  "b_res r = (\<lambda>f. res_bind r (\<lambda>x. Inr (x, f)))"

definition create_singlestep_return_basicblock :: "xcpu \<Rightarrow> addr \<Rightarrow> nat \<Rightarrow> nat build" where
  "create_singlestep_return_basicblock x new_pc bb_ret =
     b_bind (create_basicblock new_pc BB_TYPE_NORMAL) (\<lambda>bb_branch.
     b_seq (emit_store_pc_return x bb_branch new_pc bb_ret) (b_ret bb_branch))"

definition cpu_translate_singlestep :: "arch_func \<Rightarrow> xcpu \<Rightarrow> addr \<Rightarrow> addr \<Rightarrow> nat \<Rightarrow> nat \<Rightarrow> nat build" where
  "cpu_translate_singlestep fe x junk pc bb_ret bb_trap =
     b_bind new_block (\<lambda>cur_bb.
     b_bind (b_res (f_tag_instr fe pc)) (\<lambda>(len, out).
     let loc = assign_outs out (no_vars\<lparr>v_new_pc := Some junk\<rparr>) in
     b_bind (b_res (rd (v_tag loc))) (\<lambda>tag.
     b_bind (b_res (rd (v_new_pc loc))) (\<lambda>new_pc.
     b_bind (if has tag TAG_RET \<or> new_pc = NEW_PC_NONE then b_ret (Some bb_ret)
             else if has tag (TAG_CALL OR TAG_BRANCH) then some_block (create_singlestep_return_basicblock x new_pc bb_ret)
             else b_ret None) (\<lambda>bb_target.
     b_bind (if has tag TAG_CONDITIONAL then
               b_bind (b_res (rd (v_next_pc loc))) (\<lambda>next_pc.
               some_block (create_singlestep_return_basicblock x next_pc bb_ret))
             else b_ret None) (\<lambda>bb_next.
     b_bind (translate_instr fe pc tag bb_target (Some bb_trap) bb_next cur_bb) (\<lambda>bb_cont.
     b_seq (case bb_cont of
              None \<Rightarrow> b_ret ()
            | Some bb \<Rightarrow> b_bind (b_res (rd (v_next_pc loc))) (\<lambda>next_pc. emit_store_pc_return x bb next_pc bb_ret))
       (b_ret cur_bb))))))))"

text \<open>
  One round of \<open>cpu_translate_singlestep_bb\<close>: \<open>tag\<close>, \<open>bb_target\<close> and \<open>bb_next\<close> live across
  the rounds, \<open>new_pc\<close> and \<open>next_pc\<close> do not. The instructions all go to \<open>cur_bb\<close>.
\<close>

type_synonym round_vars = "tag option \<times> nat option \<times> nat option"

definition singlestep_bb_round ::
    "arch_func \<Rightarrow> xcpu \<Rightarrow> addr \<Rightarrow> nat \<Rightarrow> nat \<Rightarrow> nat \<Rightarrow> addr \<Rightarrow> round_vars \<Rightarrow> (round_vars \<times> addr \<times> nat option) build" where
  "singlestep_bb_round fe x entry bb_ret bb_trap cur_bb pc vars =
     b_bind (b_res (f_tag_instr fe pc)) (\<lambda>(len, out).
     let loc = assign_outs out (no_vars\<lparr>v_tag := fst vars\<rparr>) in
     b_bind (b_res (rd (v_tag loc))) (\<lambda>tag.
     b_bind (if has tag (TAG_CALL OR TAG_BRANCH) then
               b_bind (b_res (rd (v_new_pc loc))) (\<lambda>new_pc.
               if new_pc = NEW_PC_NONE then b_ret (Some bb_ret)
               else if new_pc = entry then b_ret (Some cur_bb)
               else some_block (create_singlestep_return_basicblock x new_pc bb_ret))
             else b_ret (if has tag TAG_RET then Some bb_ret else fst (snd vars))) (\<lambda>bb_target.
     b_bind (b_res (rd (v_next_pc loc))) (\<lambda>next_pc.
     b_bind (if has tag TAG_CONDITIONAL then some_block (create_singlestep_return_basicblock x next_pc bb_ret)
             else b_ret (snd (snd vars))) (\<lambda>bb_next.
     b_bind (translate_instr fe pc tag bb_target (Some bb_trap) bb_next cur_bb) (\<lambda>bb_cont.
     b_ret ((Some tag, bb_target, bb_next), next_pc, bb_cont)))))))"

text \<open>Code that never branches, in an area that spans the address space, has no result: None.\<close>

partial_function (option) singlestep_bb_loop ::
    "arch_func \<Rightarrow> cpu \<Rightarrow> xcpu \<Rightarrow> addr \<Rightarrow> nat \<Rightarrow> nat \<Rightarrow> nat \<Rightarrow> addr \<Rightarrow> round_vars \<Rightarrow> ir_fun \<Rightarrow> ir_fun res option" where
  "singlestep_bb_loop fe cpu x entry bb_ret bb_trap cur_bb pc vars f =
     (case singlestep_bb_round fe x entry bb_ret bb_trap cur_bb pc vars f of
        Inl e \<Rightarrow> Some (Inl e)
      | Inr ((vars', next_pc, bb_cont), g) \<Rightarrow>
          if is_inside_code_area cpu next_pc \<and> bb_cont \<noteq> None
          then singlestep_bb_loop fe cpu x entry bb_ret bb_trap cur_bb next_pc vars' g
          else Some (Inr g))"

definition cpu_translate_singlestep_bb ::
    "arch_func \<Rightarrow> cpu \<Rightarrow> xcpu \<Rightarrow> addr \<Rightarrow> nat \<Rightarrow> nat \<Rightarrow> ir_fun \<Rightarrow> (nat \<times> ir_fun) res option" where
  "cpu_translate_singlestep_bb fe cpu x entry bb_ret bb_trap f =
     (case create_basicblock entry BB_TYPE_NORMAL f of
        Inl e \<Rightarrow> Some (Inl e)
      | Inr (cur_bb, g) \<Rightarrow>
          map_option (\<lambda>r. res_bind r (\<lambda>h. Inr (cur_bb, h)))
            (singlestep_bb_loop fe cpu x entry bb_ret bb_trap cur_bb entry (None, None, None) g))"

section \<open>Everything that is tagged\<close>

text \<open>The addresses that get a block, in ascending order, which is also that of the map.\<close>

fun block_starts :: "cpu \<Rightarrow> addr list \<Rightarrow> addr list res" where
  "block_starts cpu [] = Inr []"
| "block_starts cpu (pc # pcs) =
     res_bind (is_start_of_basicblock cpu pc) (\<lambda>start.
     res_bind (get_tag cpu pc) (\<lambda>tag.
     res_bind (block_starts cpu pcs) (\<lambda>rest.
     Inr (if start \<and> \<not> has tag TAG_TRANSLATED then pc # rest else rest))))"

definition code_addresses :: "cpu \<Rightarrow> addr list" where
  "code_addresses cpu = map word_of_nat [unat (code_start cpu)..<unat (code_end cpu)]"

primrec create_blocks :: "addr list \<Rightarrow> (addr \<times> nat) list build" where
  "create_blocks [] = b_ret []"
| "create_blocks (pc # pcs) =
     b_bind (create_basicblock pc BB_TYPE_NORMAL) (\<lambda>bb. b_bind (create_blocks pcs) (\<lambda>rest. b_ret ((pc, bb) # rest)))"

text \<open>
  One round of the inner loop: the tag is the one the search has stored, the targets are those
  the frontend reports. \<open>bb_target\<close> and \<open>bb_next\<close> live across the rounds.
\<close>

definition translate_all_round ::
    "arch_func \<Rightarrow> cpu \<Rightarrow> xcpu \<Rightarrow> nat \<Rightarrow> nat \<Rightarrow> nat \<Rightarrow> nat \<Rightarrow> addr \<Rightarrow> nat option \<times> nat option
     \<Rightarrow> ((nat option \<times> nat option) \<times> addr \<times> nat option) build" where
  "translate_all_round fe cpu x bb_ret bb_trap bb_dispatch cur_bb pc vars =
     b_bind (b_res (get_tag cpu pc)) (\<lambda>tag.
     b_bind (b_res (f_tag_instr fe pc)) (\<lambda>(len, out).
     b_bind (if has tag (TAG_CALL OR TAG_BRANCH) then
               b_bind (b_res (rd (v_new_pc out))) (\<lambda>new_pc.
               if new_pc = NEW_PC_NONE then b_ret (Some bb_dispatch)
               else some_block (lookup_basicblock x new_pc bb_ret))
             else b_ret (if has tag TAG_RET then Some bb_dispatch else fst vars)) (\<lambda>bb_target.
     b_bind (b_res (rd (v_next_pc out))) (\<lambda>next_pc.
     b_bind (if has tag TAG_CONDITIONAL then some_block (lookup_basicblock x next_pc bb_ret)
             else b_ret (snd vars)) (\<lambda>bb_next.
     b_bind (translate_instr fe pc tag bb_target (Some bb_trap) bb_next cur_bb) (\<lambda>bb_cont.
     b_ret ((bb_target, bb_next), next_pc, bb_cont)))))))"

text \<open>The inner loop with the link to the next block behind it.\<close>

partial_function (option) translate_all_loop ::
    "arch_func \<Rightarrow> cpu \<Rightarrow> xcpu \<Rightarrow> nat \<Rightarrow> nat \<Rightarrow> nat \<Rightarrow> nat \<Rightarrow> addr \<Rightarrow> nat option \<times> nat option \<Rightarrow> ir_fun \<Rightarrow> ir_fun res option" where
  "translate_all_loop fe cpu x bb_ret bb_trap bb_dispatch cur_bb pc vars f =
     (case translate_all_round fe cpu x bb_ret bb_trap bb_dispatch cur_bb pc vars f of
        Inl e \<Rightarrow> Some (Inl e)
      | Inr ((vars', next_pc, bb_cont), g) \<Rightarrow>
          (case (is_start_of_basicblock cpu next_pc, is_code cpu next_pc) of
             (Inr start, Inr code) \<Rightarrow>
               if \<not> start \<and> code \<and> bb_cont \<noteq> None
               then translate_all_loop fe cpu x bb_ret bb_trap bb_dispatch cur_bb next_pc vars' g
               else Some (case bb_cont of
                   None \<Rightarrow> Inr g
                 | Some bb \<Rightarrow> res_bind (lookup_basicblock x next_pc bb_ret g) (\<lambda>(target, h).
                     res_bind (b_jump bb (Some target) h) (\<lambda>((), h'). Inr h')))
           | (Inl e, _) \<Rightarrow> Some (Inl e)
           | (_, Inl e) \<Rightarrow> Some (Inl e)))"

text \<open>The outer loop; \<open>or_tag\<close> marks each block's address as translated.\<close>

fun translate_blocks ::
    "arch_func \<Rightarrow> xcpu \<Rightarrow> nat \<Rightarrow> nat \<Rightarrow> nat \<Rightarrow> (addr \<times> nat) list \<Rightarrow> cpu \<Rightarrow> ir_fun \<Rightarrow> (cpu \<times> ir_fun) res option" where
  "translate_blocks fe x bb_ret bb_trap bb_dispatch [] cpu f = Some (Inr (cpu, f))"
| "translate_blocks fe x bb_ret bb_trap bb_dispatch ((pc, cur_bb) # rest) cpu f =
     (case or_tag cpu pc TAG_TRANSLATED of
        Inl e \<Rightarrow> Some (Inl e)
      | Inr cpu' \<Rightarrow>
          Option.bind (translate_all_loop fe cpu' x bb_ret bb_trap bb_dispatch cur_bb pc (None, None) f) (\<lambda>r.
          case r of Inl e \<Rightarrow> Some (Inl e)
          | Inr g \<Rightarrow> translate_blocks fe x bb_ret bb_trap bb_dispatch rest cpu' g))"

text \<open>
  \<open>addCase\<close> grows the switch while the blocks are translated, and nothing looks at it before the
  end, so the dispatch block is written with all its cases at once.
\<close>

definition cpu_translate_all ::
    "arch_func \<Rightarrow> cpu \<Rightarrow> xcpu \<Rightarrow> nat \<Rightarrow> nat \<Rightarrow> ir_fun \<Rightarrow> (nat \<times> cpu \<times> ir_fun) res option" where
  "cpu_translate_all fe cpu x bb_ret bb_trap f0 =
     (case res_bind (block_starts cpu (code_addresses cpu)) (\<lambda>starts.
         b_bind (create_blocks starts) (\<lambda>bbs.
         b_bind new_block (\<lambda>bb_dispatch.
         b_bind (in_block bb_dispatch (e_load (ptr_PC x))) (\<lambda>v_pc.
         b_seq (in_block bb_dispatch (e_do (SwitchInst v_pc bb_ret
             (map (\<lambda>(pc, bb). (take_bit (address_size x) (uint pc), bb)) bbs))))
           (b_ret (bbs, bb_dispatch))))) f0) of
        Inl e \<Rightarrow> Some (Inl e)
      | Inr ((bbs, bb_dispatch), f) \<Rightarrow>
          map_option (\<lambda>r. res_bind r (\<lambda>(cpu', g). Inr (bb_dispatch, cpu', g)))
            (translate_blocks fe x bb_ret bb_trap bb_dispatch bbs cpu f))"

section \<open>A function\<close>

text \<open>
  \<open>cpu_translate_function\<close> up to the point where the finished function goes to LLVM: the
  entry block, the updated tags and the blocks. The frontend's emitters use the pointers that the
  entry block has set up; \<open>pc\<close> is the program counter in the register file.
\<close>

definition cpu_translate_function ::
    "(xcpu \<Rightarrow> arch_func) \<Rightarrow> cpu \<Rightarrow> xcpu \<Rightarrow> addr \<Rightarrow> addr \<Rightarrow> (nat \<times> cpu \<times> inst list list) res option" where
  "cpu_translate_function frontend cpu x0 junk pc =
     (let single = has (flags_debug cpu) (CPU_DEBUG_SINGLESTEP OR CPU_DEBUG_SINGLESTEP_BB) in
      case cpu_create_function x0 single \<lparr>blocks = [], func_bb = (\<lambda>a. None)\<rparr> of
        Inl e \<Rightarrow> Some (Inl e)
      | Inr ((x, bb_ret, bb_trap, label_entry), f) \<Rightarrow>
          let fe = frontend x in
          map_option (\<lambda>r. res_bind r (\<lambda>(bb_start, cpu', g).
              res_bind (b_jump label_entry (Some bb_start) g) (\<lambda>((), h). Inr (label_entry, cpu', blocks h))))
            (if has (flags_debug cpu) CPU_DEBUG_SINGLESTEP then
               Some (res_bind (cpu_translate_singlestep fe x junk pc bb_ret bb_trap f) (\<lambda>(bb, g). Inr (bb, cpu, g)))
             else if has (flags_debug cpu) CPU_DEBUG_SINGLESTEP_BB then
               map_option (\<lambda>r. res_bind r (\<lambda>(bb, g). Inr (bb, cpu, g)))
                 (cpu_translate_singlestep_bb fe cpu x pc bb_ret bb_trap f)
             else cpu_translate_all fe cpu x bb_ret bb_trap f))"

end
