(* ===== verification/Singlestep.thy ===== *)
theory Singlestep
  imports Translate
begin

text \<open>
  What single-stepping promises of every frontend. The locale \<open>guest\<close> is the contract between
  a frontend and the drivers: how a machine state \<open>'s\<close> is kept in the client's register file and
  in the local variables of a function (\<open>'b\<close> is what else the store holds), that the entry block
  sets the variables up and the return block puts them back, that the emitted code of an
  instruction and of a condition does what it should. Its lemmas are the drivers' side: the
  function that is made for one instruction executes it.
\<close>

section \<open>Blocks\<close>

abbreviation run_block :: "bool \<Rightarrow> inst list \<Rightarrow> config \<Rightarrow> (outcome \<times> config) option" where
  "run_block big \<equiv> exec_block (langref big) langref_jump"

abbreviation run_fun :: "bool \<Rightarrow> nat \<Rightarrow> inst list list \<Rightarrow> nat \<Rightarrow> config \<Rightarrow> (int \<times> config) option" where
  "run_fun big \<equiv> exec_fun (langref big) langref_jump"

lemma enter_simps [simp]: "position (enter c) = 0" "cells (enter c) = cells c" "ram (enter c) = ram c"
  by (simp_all add: enter_def)

lemma wp_code:
  assumes "wp step e Q c"
  obtains x js d where "e (position c) = Inr (x, js)" and "run step js c = Some d" and "Q x d"
  using assms by (auto simp: wp_def split: sum.splits option.splits)

lemma option_caseE: "(case m of None \<Rightarrow> False | Some z \<Rightarrow> P z) \<Longrightarrow> (\<And>z. m = Some z \<Longrightarrow> P z \<Longrightarrow> thesis) \<Longrightarrow> thesis"
  by (cases m) simp_all

lemma run_goto:
  assumes "bs ! k = pre @ [j]" and "k < length bs" and "run (langref big) pre (enter c) = Some d" and "langref_jump j d = Some (Goto k')"
    and "is_terminator j"
  shows "run_fun big (Suc n) bs k c = run_fun big n bs k' d"
  using assms by (simp add: exec_block_run)

abbreviation trap_code :: "inst list" where
  "trap_code \<equiv> [StoreInst (ConstantInt 32 3) (Address ExitPtr (IntTy 32)), BranchInst 1]"

text \<open>The blocks of the empty function.\<close>

abbreviation no_fun :: ir_fun where
  "no_fun \<equiv> \<lparr>blocks = [], func_bb = (\<lambda>a. None)\<rparr>"

definition set_exit :: "int \<Rightarrow> config \<Rightarrow> config" where
  "set_exit k c = c\<lparr>cells := (cells c)(ExitPtr \<mapsto> (32, Some k))\<rparr>"

lemma list_update_numeral [simp]: "(x # xs)[numeral k := y] = x # xs[pred_numeral k := y]"
  by (simp add: numeral_eq_Suc)

lemma has_one: "has (1 :: 'a::len word) 1" by (simp add: has_def)

lemmas build = b_bind_def b_ret_def in_block_def new_block_def b_jump_def b_res_def create_basicblock_def some_block_def
  create_singlestep_return_basicblock_def emit_store_pc_return_def emit_store_pc_def e_bind_def e_ret_def e_do_def e_store_def CONSTs_def
  b_cond_branch_def

lemmas singlestep = build cpu_translate_singlestep_def translate_instr_def assign_outs_def no_vars_def Let_def bits has_one

text \<open>
  One step of the guest, as its tags describe the flow. A trap has none, nor has a conditional
  branch whose target is the address that \<open>NEW_PC_NONE\<close> stands for.
\<close>

definition guest_step :: "tag_fn \<Rightarrow> (addr \<Rightarrow> 's \<Rightarrow> 's option) \<Rightarrow> (addr \<Rightarrow> 's \<Rightarrow> bool option) \<Rightarrow> (addr \<Rightarrow> 's \<Rightarrow> 's) \<Rightarrow> addr \<Rightarrow> 's \<Rightarrow> 's option" where
  "guest_step tag_instr exec taken set_pc pc s =
     (case tag_instr pc of
        Inl e \<Rightarrow> None
      | Inr (len, out) \<Rightarrow>
          (case (v_tag out, v_next_pc out, v_new_pc out) of
             (Some t, Some n, new) \<Rightarrow>
               if t = TAG_CONTINUE then map_option (set_pc n) (exec pc s)
               else if t = TAG_RET then exec pc s
               else (case new of
                   None \<Rightarrow> None
                 | Some a \<Rightarrow>
                     if t = TAG_BRANCH \<or> t = TAG_CALL
                     then map_option (if a = NEW_PC_NONE then id else set_pc a) (exec pc s)
                     else if t = TAG_COND_BRANCH \<and> a \<noteq> NEW_PC_NONE
                     then Option.bind (taken pc s) (\<lambda>p. Option.bind (exec pc s) (\<lambda>u. Some (if p then set_pc a u else set_pc n s)))
                     else None)
           | _ \<Rightarrow> None))"

lemma guest_step_cases:
  assumes "guest_step tag_instr exec taken set_pc pc s = Some t"
  obtains (plain) len n new u where "tag_instr pc = Inr (len, \<lparr>v_tag = Some TAG_CONTINUE, v_new_pc = new, v_next_pc = Some n\<rparr>)"
      "exec pc s = Some u" "t = set_pc n u"
  | (return) len n tag new where "tag_instr pc = Inr (len, \<lparr>v_tag = Some tag, v_new_pc = new, v_next_pc = Some n\<rparr>)"
      "tag = TAG_RET \<or> tag \<in> {TAG_BRANCH, TAG_CALL} \<and> new = Some NEW_PC_NONE" "exec pc s = Some t"
  | (jump) len n tag a u where "tag_instr pc = Inr (len, \<lparr>v_tag = Some tag, v_new_pc = Some a, v_next_pc = Some n\<rparr>)"
      "tag \<in> {TAG_BRANCH, TAG_CALL}" "a \<noteq> NEW_PC_NONE" "exec pc s = Some u" "t = set_pc a u"
  | (branch) len n a p u where "tag_instr pc = Inr (len, \<lparr>v_tag = Some TAG_COND_BRANCH, v_new_pc = Some a, v_next_pc = Some n\<rparr>)"
      "a \<noteq> NEW_PC_NONE" "taken pc s = Some p" "exec pc s = Some u" "t = (if p then set_pc a u else set_pc n s)"
proof -
  obtain len out where r: "tag_instr pc = Inr (len, out)" using assms by (auto simp: guest_step_def split: sum.splits)
  obtain tg new n where out: "out = \<lparr>v_tag = tg, v_new_pc = new, v_next_pc = n\<rparr>" by (cases out) auto
  note step = assms [unfolded guest_step_def r out, simplified]
  show thesis
    using step plain return jump branch
    by (auto simp: r out bind_eq_Some_conv split: option.splits if_splits)
qed

section \<open>The contract\<close>

locale guest =
  fixes big :: bool
    and x0 x :: xcpu
    and fe :: "xcpu \<Rightarrow> arch_func"
    and rep :: "'b \<Rightarrow> 's \<Rightarrow> config \<Rightarrow> bool"
    and code :: "'b \<Rightarrow> int"
    and regfile :: "'s \<Rightarrow> config \<Rightarrow> bool"
    and exec :: "addr \<Rightarrow> 's \<Rightarrow> 's option"
    and taken :: "addr \<Rightarrow> 's \<Rightarrow> bool option"
    and set_pc :: "addr \<Rightarrow> 's \<Rightarrow> 's"
  assumes rep_frame: "cells d = cells c \<Longrightarrow> ram d = ram c \<Longrightarrow> rep b s d = rep b s c"
    and regfile_frame: "cells d = cells c \<Longrightarrow> ram d = ram c \<Longrightarrow> regfile s d = regfile s c"
    and decode: "regfile s c \<Longrightarrow> wp (langref big) (emit_decode_reg (x0\<lparr>ptr_RAM := Address (RamPtr 0) (IntTy 8)\<rparr>))
      (\<lambda>y d. y = x \<and> (\<forall>k. \<exists>b. code b = k \<and> rep b s (set_exit k d))) c"
    and spill: "rep b s c \<Longrightarrow> wp (langref big) (spill_reg_state x)
      (\<lambda>_ d. regfile s d \<and> cells d ExitPtr = Some (32, Some (code b))) c"
    and exit: "regfile s c \<Longrightarrow> regfile s (set_exit k c)"
    and exit_rep: "rep b s c \<Longrightarrow> \<exists>b'. code b' = k \<and> rep b' s (set_exit k c)"
    and exit_cell: "rep b s c \<Longrightarrow> cells c ExitPtr = Some (32, Some (code b))"
    and instr: "rep b s c \<Longrightarrow> exec pc s = Some t \<Longrightarrow> wp (langref big) (f_translate_instr (fe x) pc) (\<lambda>_. rep b t) c"
    and cond: "rep b s c \<Longrightarrow> taken pc s = Some p \<Longrightarrow> wp (langref big) (f_translate_cond (fe x) pc)
      (\<lambda>v d. \<exists>w. v = Some w \<and> eval d w = VInt 1 (of_bool p) \<and> rep b s d) c"
    and store_pc: "rep b s c \<Longrightarrow> wp (langref big) (e_do (StoreInst (ConstantInt (address_size x)
      (take_bit (address_size x) (uint a))) (ptr_PC x))) (\<lambda>_. rep b (set_pc a s)) c"
begin

abbreviation pc_code :: "addr \<Rightarrow> inst list" where
  "pc_code a \<equiv> [StoreInst (ConstantInt (address_size x) (take_bit (address_size x) (uint a))) (ptr_PC x), BranchInst 1]"

lemma frames [simp]: "rep b s (enter c) = rep b s c" "regfile s (enter c) = regfile s c"
    "rep b s (skip c) = rep b s c" "regfile s (skip c) = regfile s c"
  by (simp_all add: rep_frame [of "enter c" c] regfile_frame [of "enter c" c] rep_frame [of "skip c" c] regfile_frame [of "skip c" c])

definition returns :: "inst list \<Rightarrow> bool" where
  "returns B \<longleftrightarrow> (\<forall>b s c. rep b s c \<longrightarrow> (\<exists>d. run_block big B (enter c) = Some (Return (code b), d) \<and> regfile s d))"

lemma function_frame:
  assumes "regfile s c"
  obtains J B d b where "cpu_create_function x0 single no_fun = Inr ((x, 1, 2, 0), \<lparr>blocks = [J, B, trap_code], func_bb = (\<lambda>a. None)\<rparr>)"
    and "\<And>rest. run_block big (J @ rest) (enter c) = run_block big rest d"
    and "rep b s d" and "code b = (if single then 2 else 1)" and "returns B"
proof -
  let ?code = "if single then 2 else 1 :: int"
  from assms have "regfile s (enter c)" by simp
  from decode [OF this] obtain j d where j: "emit_decode_reg (x0\<lparr>ptr_RAM := Address (RamPtr 0) (IntTy 8)\<rparr>) 0 = Inr (x, j)"
    and d: "run (langref big) j (enter c) = Some d" "\<And>k. \<exists>b. code b = k \<and> rep b s (set_exit k d)"
    by (auto elim!: wp_code)
  define e where "e = skip (skip (set_exit ?code d))"
  define J where "J = j @ [EntryAlloca ExitPtr 32, StoreInst (ConstantInt 32 ?code) (Address ExitPtr (IntTy 32))]"
  obtain b where b: "code b = ?code" "rep b s (set_exit ?code d)" using d(2) by blast
  then have "rep b s (enter (set_exit ?code d))" by simp
  from spill [OF this] obtain r where r: "spill_reg_state x 0 = Inr ((), r)"
    by (auto elim!: wp_code)
  let ?B = "r @ [LoadInst (Address ExitPtr (IntTy 32)), ReturnInst (Result (length r) (IntTy 32))]"
  have "returns ?B" unfolding returns_def
  proof (intro allI impI)
    fix b s c
    assume "rep b s c"
    then have "rep b s (enter c)" by simp
    from spill [OF this] obtain g where "run (langref big) r (enter c) = Some g" "regfile s g" "cells g ExitPtr = Some (32, Some (code b))"
      using r by (auto elim!: wp_code)
    moreover from this have "position g = length r" using run_position by fastforce
    moreover have "regfile s (push v g)" for v using \<open>regfile s g\<close> regfile_frame [of "push v g" g] by simp
    ultimately show "\<exists>d. run_block big ?B (enter c) = Some (Return (code b), d) \<and> regfile s d"
      by (simp add: exec_block_run)
  qed
  show thesis
  proof (rule that)
    show "cpu_create_function x0 single no_fun = Inr ((x, 1, 2, 0), \<lparr>blocks = [J, ?B, trap_code], func_bb = (\<lambda>a. None)\<rparr>)"
      by (simp add: cpu_create_function_def b_bind_def b_ret_def new_block_def in_block_def j r e_alloca_def e_do_def e_bind_def e_ret_def
        CONSTs_def e_store_def e_load_def e_inst_def b_jump_def J_def)
    show "run_block big (J @ rest) (enter c) = run_block big rest e" for rest
      using d(1) by (simp add: J_def exec_block_run e_def set_exit_def skip_def)
    show "rep b s e" using b(2) by (simp add: e_def)
    show "code b = ?code" by (rule b(1))
    show "returns ?B" by fact
  qed
qed

lemma return_block:
  assumes "rep b s c" and "returns B" and "1 < length bs" "bs ! 1 = B"
  shows "\<exists>d. run_fun big (Suc n) bs 1 c = Some (code b, d) \<and> regfile s d"
  using assms(2) [unfolded returns_def, rule_format, OF assms(1)] assms(3,4) by auto

lemma pc_block:
  assumes "rep b s c" and "returns B" and "bs ! k = pre @ pc_code a" and "run (langref big) pre (enter e) = Some c"
    and "k < length bs" "1 < length bs" "bs ! 1 = B"
  shows "\<exists>d. run_fun big (Suc (Suc n)) bs k e = Some (code b, d) \<and> regfile (set_pc a s) d"
proof -
  obtain f where "langref big (StoreInst (ConstantInt (address_size x)
      (take_bit (address_size x) (uint a))) (ptr_PC x)) c = Some f" and f: "rep b (set_pc a s) f"
    using store_pc [OF assms(1), of a] unfolding wp_do by (blast elim!: option_caseE)
  then have "run_block big (bs ! k) (enter e) = Some (Goto 1, f)"
    using assms(3,4) by (simp add: exec_block_run)
  with return_block [OF f assms(2,6,7), of n] assms(5) show ?thesis by simp
qed

text \<open>What the driver makes of the four kinds of instruction.\<close>

abbreviation translated :: "addr \<Rightarrow> addr \<Rightarrow> inst list list \<Rightarrow> inst list list \<Rightarrow> bool" where
  "translated junk pc bs bs' \<equiv> (\<exists>g. cpu_translate_singlestep (fe x) x junk pc 1 2 \<lparr>blocks = bs, func_bb = \<lambda>a. None\<rparr> =
     Inr (3, \<lparr>blocks = bs', func_bb = g\<rparr>))"

lemma translated_plain:
  assumes "f_tag_instr (fe x) pc = Inr (len, \<lparr>v_tag = Some TAG_CONTINUE, v_new_pc = new, v_next_pc = Some n\<rparr>)"
    and "f_translate_instr (fe x) pc 0 = Inr (l, is)"
  shows "translated junk pc [J, B, T] [J, B, T, is @ pc_code n]"
  using assms by (cases new) (simp_all add: singlestep)

lemma translated_return:
  assumes "f_tag_instr (fe x) pc = Inr (len, \<lparr>v_tag = Some tag, v_new_pc = new, v_next_pc = Some n\<rparr>)"
    and "tag = TAG_RET \<or> tag \<in> {TAG_BRANCH, TAG_CALL} \<and> new = Some NEW_PC_NONE"
    and "f_translate_instr (fe x) pc 0 = Inr (l, is)"
  shows "translated junk pc [J, B, T] [J, B, T, is @ [BranchInst 1]]"
  using assms by (cases new) (auto simp: singlestep)

lemma translated_jump:
  assumes "f_tag_instr (fe x) pc = Inr (len, \<lparr>v_tag = Some tag, v_new_pc = Some a, v_next_pc = Some n\<rparr>)"
    and "tag \<in> {TAG_BRANCH, TAG_CALL}" "a \<noteq> NEW_PC_NONE"
    and "f_translate_instr (fe x) pc 0 = Inr (l, is)"
  shows "translated junk pc [J, B, T] [J, B, T, is @ [BranchInst 4], pc_code a]"
  using assms by (auto simp: singlestep)

lemma translated_branch:
  assumes "f_tag_instr (fe x) pc = Inr (len, \<lparr>v_tag = Some TAG_COND_BRANCH, v_new_pc = Some a, v_next_pc = Some n\<rparr>)"
    and "a \<noteq> NEW_PC_NONE"
    and "f_translate_cond (fe x) pc 0 = Inr (Some v, js)" and "f_translate_instr (fe x) pc 0 = Inr (l, is)"
  shows "translated junk pc [J, B, T] [J, B, T, js @ [CondBranchInst v 6 5], pc_code a, pc_code n, is @ [BranchInst 4]]"
  using assms by (auto simp: singlestep)

lemma function_singlestep:
  assumes "cpu_create_function x0 True no_fun = Inr ((x, 1, 2, 0), \<lparr>blocks = [J, B, T], func_bb = (\<lambda>a. None)\<rparr>)"
    and "has (flags_debug cpu) CPU_DEBUG_SINGLESTEP"
    and "translated junk pc [J, B, T] (J # B # T # bs)"
  shows "cpu_translate_function fe cpu x0 junk pc = Some (Inr (0, cpu, (J @ [BranchInst 3]) # B # T # bs))"
proof -
  have "has (flags_debug cpu) 3" using assms(2) has_or_mask [of "flags_debug cpu" 1 2] by simp
  moreover obtain g where "cpu_translate_singlestep (fe x) x junk pc 1 2 \<lparr>blocks = [J, B, T], func_bb = \<lambda>a. None\<rparr> =
      Inr (3, \<lparr>blocks = J # B # T # bs, func_bb = g\<rparr>)" using assms(3) by blast
  moreover note assms(1,2)
  ultimately show ?thesis
    by (simp add: cpu_translate_function_def b_jump_def in_block_def e_do_def Let_def cong del: unit.case_cong_weak)
qed

lemma emitted:
  assumes "rep b s c" and "exec pc s = Some t"
  obtains l js d where "f_translate_instr (fe x) pc 0 = Inr (l, js)" and "run (langref big) js (enter c) = Some d" and "rep b t d"
proof -
  have "wp (langref big) (f_translate_instr (fe x) pc) (\<lambda>_. rep b t) (enter c)"
    using assms by (intro instr) simp_all
  then show thesis using that by (auto elim!: wp_code)
qed

text \<open>
  Five blocks are enough: entry, instruction, the taken side of a branch, the one that stores the
  program counter, return.
\<close>

lemma singlestep_correct:
  assumes regs: "regfile s c" and step: "guest_step (f_tag_instr (fe x)) exec taken set_pc pc s = Some t"
    and flag: "has (flags_debug cpu) CPU_DEBUG_SINGLESTEP"
  shows "\<exists>bs d. cpu_translate_function fe cpu x0 junk pc = Some (Inr (0, cpu, bs)) \<and>
    run_fun big 5 bs 0 c = Some (2, d) \<and> regfile t d"
proof -
  let ?T = trap_code
  obtain J B e b where fn: "cpu_create_function x0 True no_fun = Inr ((x, 1, 2, 0), \<lparr>blocks = [J, B, ?T], func_bb = (\<lambda>a. None)\<rparr>)"
    and J: "\<And>rest. run_block big (J @ rest) (enter c) = run_block big rest e"
    and e: "rep b s e" and two: "code b = 2" and B: "returns B"
    using function_frame [OF regs, of True] by (metis (full_types))
  have entry: "run_fun big 5 ((J @ [BranchInst 3]) # bs) 0 c = run_fun big 4 ((J @ [BranchInst 3]) # bs) 3 e" for bs
    using J by (simp add: eval_nat_numeral)
  have thesis_by: ?thesis if "translated junk pc [J, B, ?T] (J # B # ?T # bs)"
    and "\<exists>d. run_fun big 4 ((J @ [BranchInst 3]) # B # ?T # bs) 3 e = Some (2, d) \<and> regfile t d" for bs
    using function_singlestep [OF fn flag that(1)] that(2) by (auto simp: entry)
  from step show ?thesis
  proof (cases rule: guest_step_cases)
    case (plain len n new u)
    obtain l "is" g where i: "f_translate_instr (fe x) pc 0 = Inr (l, is)"
      and g: "run (langref big) is (enter e) = Some g" "rep b u g" using emitted [OF e plain(2)] .
    show ?thesis
      by (rule thesis_by [OF translated_plain [OF plain(1) i]])
        (use pc_block [OF g(2) B _ g(1), of _ 3 n 2] in \<open>simp add: plain(3) two eval_nat_numeral\<close>)
  next
    case (return len n tag new)
    obtain l "is" g where i: "f_translate_instr (fe x) pc 0 = Inr (l, is)"
      and g: "run (langref big) is (enter e) = Some g" "rep b t g" using emitted [OF e return(3)] .
    show ?thesis
      by (rule thesis_by [OF translated_return [OF return(1,2) i]])
        (use return_block [OF g(2) B, of _ 2] in \<open>simp add: two eval_nat_numeral exec_block_run g\<close>)
  next
    case (jump len n tag a u)
    obtain l "is" g where i: "f_translate_instr (fe x) pc 0 = Inr (l, is)"
      and g: "run (langref big) is (enter e) = Some g" "rep b u g" using emitted [OF e jump(4)] .
    let ?bs = "[J @ [BranchInst 3], B, ?T, is @ [BranchInst 4], pc_code a]"
    have "run_fun big 4 ?bs 3 e = run_fun big 3 ?bs 4 g"
      using run_goto [of ?bs 3 "is" "BranchInst 4" big e g 4 3] g by (simp add: eval_nat_numeral)
    moreover have "rep b u (enter g)" using g(2) by simp
    ultimately show ?thesis
      using pc_block [of b u "enter g" B ?bs 4 "[]" a g 1] B
      by (intro thesis_by [OF translated_jump [OF jump(1-3) i]]) (simp add: jump(5) two eval_nat_numeral)
  next
    case (branch len n a p u)
    from e have "rep b s (enter e)" by simp
    from cond [OF this branch(3)] obtain js v f where j: "f_translate_cond (fe x) pc 0 = Inr (Some v, js)"
      and f: "run (langref big) js (enter e) = Some f" "eval f v = VInt 1 (of_bool p)" "rep b s f"
      by (auto elim!: wp_code)
    obtain l "is" g where i: "f_translate_instr (fe x) pc 0 = Inr (l, is)"
      and g: "run (langref big) is (enter f) = Some g" "rep b u g" using emitted [OF f(3) branch(4)] .
    let ?bs = "[J @ [BranchInst 3], B, ?T, js @ [CondBranchInst v 6 5], pc_code a, pc_code n, is @ [BranchInst 4]]"
    have "run_fun big 4 ?bs 3 e = run_fun big 3 ?bs (if p then 6 else 5) f"
      using run_goto [of ?bs 3 js "CondBranchInst v 6 5" big e f "if p then 6 else 5" 3] f by (simp add: eval_nat_numeral of_bool_def)
    moreover have "run_fun big 3 ?bs 6 f = run_fun big 2 ?bs 4 g"
      using run_goto [of ?bs 6 "is" "BranchInst 4" big f g 4 2] g by (simp add: eval_nat_numeral)
    moreover have "rep b u (enter g)" "rep b s (enter f)" using g(2) f(3) by simp_all
    ultimately show ?thesis
      using pc_block [of b u "enter g" B ?bs 4 "[]" a g 0] pc_block [of b s "enter f" B ?bs 5 "[]" n f 1] B
      by (intro thesis_by [OF translated_branch [OF branch(1,2) j i]]) (cases p; simp add: branch(5) two eval_nat_numeral)
  qed
qed

text \<open>Going from the entry block to the return block, or there by way of the trap block.\<close>

lemma enter_return:
  assumes "regfile s c"
  shows "\<exists>J B. cpu_create_function x0 single no_fun = Inr ((x, 1, 2, 0), \<lparr>blocks = [J, B, trap_code], func_bb = (\<lambda>a. None)\<rparr>) \<and>
    (\<exists>d. run_fun big 2 [J @ [BranchInst 1], B, trap_code] 0 c = Some (if single then 2 else 1, d) \<and> regfile s d) \<and>
    (\<exists>d. run_fun big 3 [J @ [BranchInst 2], B, trap_code] 0 c = Some (3, d) \<and> regfile s d)"
proof -
  obtain J B e b where fn: "cpu_create_function x0 single no_fun = Inr ((x, 1, 2, 0), \<lparr>blocks = [J, B, trap_code], func_bb = (\<lambda>a. None)\<rparr>)"
    and J: "\<And>rest. run_block big (J @ rest) (enter c) = run_block big rest e"
    and e: "rep b s e" and k: "code b = (if single then 2 else 1)" and B: "returns B"
    using function_frame [OF assms] by metis
  let ?bs = "[J @ [BranchInst 2], B, trap_code]"
  have 1: "run_fun big 2 [J @ [BranchInst 1], B, trap_code] 0 c = run_fun big 1 [J @ [BranchInst 1], B, trap_code] 1 e"
    using J by (simp add: numeral_2_eq_2)
  obtain b' where b': "code b' = 3" "rep b' s (set_exit 3 (enter e))" using exit_rep [of b s "enter e" 3] e by auto
  have "run_fun big 3 ?bs 0 c = run_fun big 2 ?bs 2 e"
    using J by (simp add: numeral_3_eq_3 numeral_2_eq_2)
  moreover have "run (langref big) [StoreInst (ConstantInt 32 3) (Address ExitPtr (IntTy 32))] (enter e) = Some (skip (set_exit 3 (enter e)))"
    using exit_cell [OF e] by (simp add: set_exit_def)
  from run_goto [of ?bs 2 _ "BranchInst 1", OF _ _ this, of 1 1]
  have "run_fun big 2 ?bs 2 e = run_fun big 1 ?bs 1 (skip (set_exit 3 (enter e)))" by (simp add: numeral_2_eq_2)
  ultimately show ?thesis
    using fn 1 return_block [OF e B, of "[J @ [BranchInst 1], B, trap_code]" 0]
      return_block [of b' s "skip (set_exit 3 (enter e))" B ?bs 0] b' B k by auto
qed

end

end
