(* ===== verification/Run.thy ===== *)
theory Run
  imports Entry Singlestep
begin

text \<open>
  Running guest code: \<open>cpu_translate\<close>, \<open>cpu_run\<close> and \<open>cpu_flush\<close> (\<open>libcpu/interface.cpp\<close>)
  put code discovery, translation and execution together. What LLVM makes of a finished function
  is a parameter; memory the generated code has written is what the frontend decodes next.
\<close>

section \<open>The state of a session\<close>

text \<open>
  \<open>funcs\<close> are the functions translated so far, \<open>client\<close> the register file and the memory.
  The arrays \<open>fp\<close>, \<open>func\<close>, \<open>ctx\<close> and \<open>mod\<close> have room for 1024 functions.
\<close>

record session =
  core :: cpu
  funcs :: "inst list list list"
  client :: config

definition view :: "ram \<Rightarrow> (int \<Rightarrow> byte option) \<Rightarrow> ram" where
  "view m f a = (case f (uint a) of Some b \<Rightarrow> b | None \<Rightarrow> m a)"

definition seen :: "session \<Rightarrow> cpu" where
  "seen r = (core r)\<lparr>RAM := view (RAM (core r)) (ram (client r))\<rparr>"

text \<open>The contents of the buffer stay with the client; \<open>RAM\<close> says what a read beyond it would find.\<close>

definition with_core :: "session \<Rightarrow> cpu \<Rightarrow> session" where
  "with_core r cpu = r\<lparr>core := cpu\<lparr>RAM := RAM (core r)\<rparr>\<rparr>"

definition get_pc :: "config \<Rightarrow> addr" where
  "get_pc c = (case cells c PcPtr of Some (n, Some x) \<Rightarrow> word_of_int x | _ \<Rightarrow> 0)"

type_synonym frontend = "ram \<Rightarrow> xcpu \<Rightarrow> arch_func"

section \<open>Operations\<close>

definition cpu_translate :: "frontend \<Rightarrow> xcpu \<Rightarrow> addr \<Rightarrow> session \<Rightarrow> session res option" where
  "cpu_translate fe x0 junk r =
     (if tags_dirty (core r) then
        (if 1024 \<le> length (funcs r) then Some (Inl OutOfBounds)
         else map_option (\<lambda>t. res_bind t (\<lambda>(entry, cpu, bs).
             Inr (with_core (r\<lparr>funcs := funcs r @ [bs]\<rparr>) (cpu\<lparr>tags_dirty := False\<rparr>))))
           (cpu_translate_function (fe (RAM (seen r))) (seen r) x0 junk (get_pc (client r))))
      else Some (Inr r))"

text \<open>
  The inner loop of \<open>cpu_run\<close>: a function that does not know the program counter returns
  \<open>JIT_RETURN_FUNCNOTFOUND\<close>. \<open>Moved\<close> is the loop left with \<open>success\<close>, \<open>Missed\<close> its end without.
\<close>

datatype attempt = Finished int config | Moved config | Missed config

fun try_functions :: "(inst list list \<Rightarrow> config \<Rightarrow> (int \<times> config) option) \<Rightarrow> cpu \<Rightarrow> addr \<Rightarrow> inst list list list \<Rightarrow> config \<Rightarrow> attempt option" where
  "try_functions fp cpu orig [] c = Some (Missed c)"
| "try_functions fp cpu orig (f # fs) c =
     (case fp f c of
        None \<Rightarrow> None
      | Some (ret, d) \<Rightarrow>
          if ret \<noteq> JIT_RETURN_FUNCNOTFOUND \<or> \<not> is_inside_code_area cpu (get_pc d) then Some (Finished ret d)
          else if get_pc d \<noteq> orig then Some (Moved d)
          else try_functions fp cpu orig fs d)"

definition cpu_tag :: "host \<Rightarrow> frontend \<Rightarrow> xcpu \<Rightarrow> session \<Rightarrow> session res" where
  "cpu_tag h fe x0 r =
     res_bind (tag_start h (f_tag_instr (fe (RAM (seen r)) x0)) (get_pc (client r)) (seen r)) (\<lambda>cpu. Inr (with_core r cpu))"

text \<open>No result: a function, the translation or the loop itself does not come to an end.\<close>

partial_function (option) cpu_run ::
    "(inst list list \<Rightarrow> config \<Rightarrow> (int \<times> config) option) \<Rightarrow> host \<Rightarrow> frontend \<Rightarrow> xcpu \<Rightarrow> addr \<Rightarrow> session \<Rightarrow> (int \<times> session) res option" where
  "cpu_run fp h fe x0 junk r =
     (case cpu_translate fe x0 junk r of
        None \<Rightarrow> None
      | Some (Inl e) \<Rightarrow> Some (Inl e)
      | Some (Inr r) \<Rightarrow>
          (case try_functions fp (core r) (get_pc (client r)) (funcs r) (client r) of
             None \<Rightarrow> None
           | Some (Finished ret d) \<Rightarrow> Some (Inr (ret, r\<lparr>client := d\<rparr>))
           | Some (Moved d) \<Rightarrow> cpu_run fp h fe x0 junk (r\<lparr>client := d\<rparr>)
           | Some (Missed d) \<Rightarrow>
               (case cpu_tag h fe x0 (r\<lparr>client := d\<rparr>) of
                  Inl e \<Rightarrow> Some (Inl e)
                | Inr r \<Rightarrow> cpu_run fp h fe x0 junk r)))"

definition cpu_flush :: "session \<Rightarrow> session" where
  "cpu_flush r = r\<lparr>funcs := []\<rparr>"

text \<open>A client that single-steps: it runs, flushes, and goes on as long as it is told it was a step.\<close>

primrec step_times ::
    "(inst list list \<Rightarrow> config \<Rightarrow> (int \<times> config) option) \<Rightarrow> host \<Rightarrow> frontend \<Rightarrow> xcpu \<Rightarrow> addr \<Rightarrow> nat \<Rightarrow> session \<Rightarrow> session res option" where
  "step_times fp h fe x0 junk 0 r = Some (Inr r)"
| "step_times fp h fe x0 junk (Suc n) r =
     (case cpu_run fp h fe x0 junk r of
        None \<Rightarrow> None
      | Some (Inl e) \<Rightarrow> Some (Inl e)
      | Some (Inr (ret, r)) \<Rightarrow> if ret = JIT_RETURN_SINGLESTEP then step_times fp h fe x0 junk n (cpu_flush r) else Some (Inr r))"

section \<open>The compiled functions\<close>

text \<open>A function as LLVM compiles it: it does what its blocks do, without a bound on their number.\<close>

locale jit = llvm big step jump for big step jump +
  fixes fp :: "inst list list \<Rightarrow> config \<Rightarrow> (int \<times> config) option"
  assumes compiled: "exec_fun step jump n bs 0 c = Some r \<Longrightarrow> fp bs c = Some r"
begin

lemma fp_documented: "exec_fun (langref big) langref_jump n bs 0 c = Some r \<Longrightarrow> fp bs c = Some r"
  by (rule compiled [OF exec_fun_documented])

end

partial_function (option) run_from ::
    "(inst \<Rightarrow> config \<Rightarrow> config option) \<Rightarrow> (inst \<Rightarrow> config \<Rightarrow> outcome option) \<Rightarrow> inst list list \<Rightarrow> nat \<Rightarrow> config \<Rightarrow> (int \<times> config) option" where
  "run_from step jump bs b c =
     (if b < length bs then
        (case exec_block step jump (bs ! b) (enter c) of
           None \<Rightarrow> None
         | Some (Return x, d) \<Rightarrow> Some (x, d)
         | Some (Goto b', d) \<Rightarrow> run_from step jump bs b' d)
      else None)"

lemma run_from_exec: "exec_fun step jump n bs b c = Some r \<Longrightarrow> run_from step jump bs b c = Some r"
proof (induction n arbitrary: b c)
  case (Suc n)
  then show ?case by (subst run_from.simps) (auto split: if_splits option.splits outcome.splits)
qed simp

interpretation reference_jit: jit big "langref big" langref_jump "\<lambda>bs. run_from (langref big) langref_jump bs 0" for big
  by unfold_locales (rule run_from_exec)

section \<open>Single-stepping\<close>

lemma tag_start_singlestep:
  assumes "has (flags_debug cpu) CPU_DEBUG_SINGLESTEP"
  shows "tag_start h t pc cpu = Inr (cpu\<lparr>tags_dirty := True\<rparr>)"
proof -
  have "has (flags_debug cpu) 3" using assms has_or_mask [of "flags_debug cpu" 1 2] by simp
  then show ?thesis by (simp add: tag_start_def tag_start_with_def Let_def)
qed

text \<open>
  A guest whose contract holds for whatever is in memory, and that keeps its program counter where
  the client and the core look for it.
\<close>

locale stepped =
  fixes big :: bool
    and x0 x :: xcpu
    and fe :: frontend
    and rep :: "'b \<Rightarrow> 's \<Rightarrow> config \<Rightarrow> bool"
    and code :: "'b \<Rightarrow> int"
    and regfile :: "'s \<Rightarrow> config \<Rightarrow> bool"
    and exec :: "ram \<Rightarrow> addr \<Rightarrow> 's \<Rightarrow> 's option"
    and taken :: "ram \<Rightarrow> addr \<Rightarrow> 's \<Rightarrow> bool option"
    and set_pc :: "addr \<Rightarrow> 's \<Rightarrow> 's"
    and pc_of :: "'s \<Rightarrow> addr"
    and mem_of :: "'s \<Rightarrow> int \<Rightarrow> byte option"
  assumes guest: "guest big x0 x (fe m) rep code regfile (exec m) (taken m) set_pc"
    and client_pc: "regfile s c \<Longrightarrow> get_pc c = pc_of s"
    and client_ram: "regfile s c \<Longrightarrow> ram c = mem_of s"
begin

text \<open>The machine, fetching each instruction from its memory.\<close>

definition machine_step :: "ram \<Rightarrow> 's \<Rightarrow> 's option" where
  "machine_step m s = (let m = view m (mem_of s) in guest_step (f_tag_instr (fe m x)) (exec m) (taken m) set_pc (pc_of s) s)"

primrec machine_steps :: "ram \<Rightarrow> nat \<Rightarrow> 's \<Rightarrow> 's option" where
  "machine_steps m 0 s = Some s"
| "machine_steps m (Suc n) s = Option.bind (machine_step m s) (machine_steps m n)"

lemma stepped_function:
  assumes "regfile s c" and "machine_step m s = Some t" and "has (flags_debug cpu) CPU_DEBUG_SINGLESTEP"
  shows "\<exists>bs d. cpu_translate_function (fe (view m (ram c))) cpu x0 junk (get_pc c) = Some (Inr (0, cpu, bs)) \<and>
    run_fun big 5 bs 0 c = Some (2, d) \<and> regfile t d"
  using guest.singlestep_correct [OF guest assms(1) _ assms(3)] assms(2) client_pc [OF assms(1)] client_ram [OF assms(1)]
  by (simp add: machine_step_def Let_def)

definition dirty_core :: "session \<Rightarrow> cpu" where
  "dirty_core r = (core r)\<lparr>tags_dirty := True, RAM := view (RAM (core r)) (ram (client r))\<rparr>"

lemma run_step:
  assumes "jit big step jump fp" and "regfile s (client r)" and "machine_step (RAM (core r)) s = Some t"
    and "has (flags_debug (core r)) CPU_DEBUG_SINGLESTEP" and "funcs r = []"
  obtains bs d where "cpu_run fp h fe x0 junk r = Some (Inr (JIT_RETURN_SINGLESTEP,
      r\<lparr>funcs := [bs], core := (core r)\<lparr>tags_dirty := False\<rparr>, client := d\<rparr>))"
    and "regfile t d"
    and "cpu_translate_function (fe (RAM (dirty_core r))) (dirty_core r) x0 junk (get_pc (client r)) = Some (Inr (0, dirty_core r, bs))"
proof -
  let ?dirty = "r\<lparr>core := (core r)\<lparr>tags_dirty := True\<rparr>\<rparr>"
  have "has (flags_debug (dirty_core r)) CPU_DEBUG_SINGLESTEP" using assms(4) by (simp add: dirty_core_def)
  from stepped_function [OF assms(2,3) this, where junk = junk] obtain bs d
    where bs: "cpu_translate_function (fe (RAM (dirty_core r))) (dirty_core r) x0 junk (get_pc (client r)) = Some (Inr (0, dirty_core r, bs))"
    and d: "run_fun big 5 bs 0 (client r) = Some (2, d)" "regfile t d" by (auto simp: dirty_core_def)
  have "fp bs (client r) = Some (2, d)" using d(1) by (rule jit.fp_documented [OF assms(1)])
  with bs have run: "cpu_run fp h fe x0 junk ?dirty =
      Some (Inr (JIT_RETURN_SINGLESTEP, r\<lparr>funcs := [bs], core := (core r)\<lparr>tags_dirty := False\<rparr>, client := d\<rparr>))"
    by (subst cpu_run.simps) (simp add: cpu_translate_def with_core_def seen_def dirty_core_def assms(5))
  have "cpu_run fp h fe x0 junk r = cpu_run fp h fe x0 junk ?dirty" if "\<not> tags_dirty (core r)"
  proof -
    have "has (flags_debug (seen r)) CPU_DEBUG_SINGLESTEP" using assms(4) by (simp add: seen_def)
    then show ?thesis using that assms(5)
      by (subst cpu_run.simps) (simp add: cpu_translate_def cpu_tag_def tag_start_singlestep with_core_def seen_def)
  qed
  moreover have "?dirty = r" if "tags_dirty (core r)" using that by simp
  ultimately have "cpu_run fp h fe x0 junk r = cpu_run fp h fe x0 junk ?dirty" by metis
  with run bs d(2) that show thesis by simp
qed

text \<open>Stepping and flushing runs the machine, instruction by instruction.\<close>

lemma run_all_steps:
  assumes "jit big step jump fp" and "has (flags_debug (core r)) CPU_DEBUG_SINGLESTEP" and "funcs r = []"
    and "regfile s (client r)" and "machine_steps (RAM (core r)) n s = Some t"
  shows "\<exists>q. step_times fp h fe x0 junk n r = Some (Inr q) \<and> regfile t (client q) \<and>
    funcs q = [] \<and> core q = (core r)\<lparr>tags_dirty := tags_dirty (core q)\<rparr>"
  using assms(2-5)
proof (induction n arbitrary: r s)
  case (Suc n)
  then obtain u where u: "machine_step (RAM (core r)) s = Some u" "machine_steps (RAM (core r)) n u = Some t"
    by (auto simp: bind_eq_Some_conv)
  obtain bs d
    where run: "cpu_run fp h fe x0 junk r = Some (Inr (JIT_RETURN_SINGLESTEP,
        r\<lparr>funcs := [bs], core := (core r)\<lparr>tags_dirty := False\<rparr>, client := d\<rparr>))" and d: "regfile u d"
    by (rule run_step [OF assms(1) Suc.prems(3) u(1) Suc.prems(1,2)])
  let ?q = "r\<lparr>core := (core r)\<lparr>tags_dirty := False\<rparr>, client := d, funcs := []\<rparr>"
  have "\<exists>q. step_times fp h fe x0 junk n ?q = Some (Inr q) \<and> regfile t (client q) \<and>
      funcs q = [] \<and> core q = (core ?q)\<lparr>tags_dirty := tags_dirty (core q)\<rparr>"
    by (rule Suc.IH [where s = u]) (use Suc.prems(1) d u(2) in simp_all)
  then show ?case using run by (simp add: cpu_flush_def)
qed simp

text \<open>Without the flush the first function runs again, wherever the program counter has gone.\<close>

lemma run_again:
  assumes "jit big step jump fp" and "regfile s (client r)" and "machine_step (RAM (core r)) s = Some t"
    and "has (flags_debug (core r)) CPU_DEBUG_SINGLESTEP" and "funcs r = []"
    and "guest_step (f_tag_instr (fe (view (RAM (core r)) (mem_of s)) x)) (exec (view (RAM (core r)) (mem_of s)))
      (taken (view (RAM (core r)) (mem_of s))) set_pc (pc_of s) t = Some u"
  shows "\<exists>q q'. cpu_run fp h fe x0 junk r = Some (Inr (JIT_RETURN_SINGLESTEP, q)) \<and> regfile t (client q) \<and>
    cpu_run fp h fe x0 junk q = Some (Inr (JIT_RETURN_SINGLESTEP, q')) \<and> regfile u (client q')"
proof -
  obtain bs d where run: "cpu_run fp h fe x0 junk r = Some (Inr (JIT_RETURN_SINGLESTEP,
      r\<lparr>funcs := [bs], core := (core r)\<lparr>tags_dirty := False\<rparr>, client := d\<rparr>))" and d: "regfile t d"
    and bs: "cpu_translate_function (fe (RAM (dirty_core r))) (dirty_core r) x0 junk (get_pc (client r)) = Some (Inr (0, dirty_core r, bs))"
    by (rule run_step [OF assms(1-5)])
  let ?q = "r\<lparr>funcs := [bs], core := (core r)\<lparr>tags_dirty := False\<rparr>, client := d\<rparr>"
  have "has (flags_debug (dirty_core r)) CPU_DEBUG_SINGLESTEP" using assms(4) by (simp add: dirty_core_def)
  from guest.singlestep_correct [OF guest d assms(6) this, where junk = junk]
  obtain e where "run_fun big 5 bs 0 d = Some (2, e)" "regfile u e"
    using bs client_ram [OF assms(2)] client_pc [OF assms(2)] by (auto simp: dirty_core_def)
  then have "fp bs d = Some (2, e)" "regfile u e" by (simp_all add: jit.fp_documented [OF assms(1)])
  then have "cpu_run fp h fe x0 junk ?q = Some (Inr (JIT_RETURN_SINGLESTEP, ?q\<lparr>client := e\<rparr>))"
    by (subst cpu_run.simps) (simp add: cpu_translate_def)
  with run d \<open>regfile u e\<close> show ?thesis by auto
qed

end

end
