(* ===== verification/Printf.thy ===== *)
theory Printf
  imports Prelude
begin

text \<open>
  The part of C's formatted output the disassemblers use: hexadecimal conversions with a
  minimal width, signed decimals, and \<open>snprintf\<close>'s cut at the size of the buffer.
\<close>

definition digit_char :: "char list \<Rightarrow> nat \<Rightarrow> char" where
  "digit_char ds n = ds ! n"

fun digits_of :: "nat \<Rightarrow> nat \<Rightarrow> nat list" where
  "digits_of base n = (if base < 2 \<or> n < base then [n] else digits_of base (n div base) @ [n mod base])"

declare digits_of.simps [simp del]

definition upper_digits :: string where "upper_digits = ''0123456789ABCDEF''"
definition lower_digits :: string where "lower_digits = ''0123456789abcdef''"

definition hex_upper :: "nat \<Rightarrow> string" where
  "hex_upper n = map (\<lambda>d. upper_digits ! d) (digits_of 16 n)"

definition hex_lower :: "nat \<Rightarrow> string" where
  "hex_lower n = map (\<lambda>d. lower_digits ! d) (digits_of 16 n)"

definition decimal :: "int \<Rightarrow> string" where
  "decimal n = (if n < 0 then ''-'' else '''') @ map (\<lambda>d. upper_digits ! d) (digits_of 10 (nat \<bar>n\<bar>))"

definition pad_left :: "char \<Rightarrow> nat \<Rightarrow> string \<Rightarrow> string" where
  "pad_left c w s = replicate (w - length s) c @ s"

definition pad_right :: "char \<Rightarrow> nat \<Rightarrow> string \<Rightarrow> string" where
  "pad_right c w s = s @ replicate (w - length s) c"

text \<open>A format with one conversion \<open>%0<d>X\<close>.\<close>

fun format_X :: "string \<Rightarrow> nat \<Rightarrow> string" where
  "format_X [] n = []"
| "format_X (c # fmt) n =
     (if c = CHR ''%'' \<and> 3 \<le> length fmt \<and> fmt ! 0 = CHR ''0'' \<and> fmt ! 2 = CHR ''X'' then
        pad_left CHR ''0'' (of_char (fmt ! 1) - of_char CHR ''0'') (hex_upper n) @ drop 3 fmt
      else c # format_X fmt n)"

text \<open>
  \<open>snprintf(buf, size, ...)\<close>: at most \<open>size - 1\<close> characters and a terminating zero reach
  the buffer; the call returns the length it would have liked to write.
\<close>

definition snprintf_text :: "nat \<Rightarrow> string \<Rightarrow> string" where
  "snprintf_text n s = take (n - 1) s"

text \<open>
  The same call on a character array of \<open>cap\<close> bytes from offset \<open>len\<close> on, with the rest of the
  array as its limit. A text that does not fit is cut, and the offset goes on growing; at the end
  of the array the limit is 0 and nothing is written, beyond it the address and the limit, a
  difference of unsigned values, are wrong.
\<close>

type_synonym buf = "nat \<times> string"

definition buf_put :: "nat \<Rightarrow> string \<Rightarrow> buf \<Rightarrow> buf res" where
  "buf_put cap s = (\<lambda>(len, content).
     if cap < len then Inl BufferOverflow
     else Inr (len + length s, if len = cap then content else take (cap - 1) (take len content @ s)))"

text \<open>\<open>"0x%x"\<close> and \<open>abs\<close> of an \<open>int\<close>, which has no value for the least one.\<close>

definition hex_0x :: "32 word \<Rightarrow> string" where
  "hex_0x w = ''0x'' @ hex_lower (unat w)"

definition abs_int :: "32 word \<Rightarrow> 32 word res" where
  "abs_int w = (if w = 0x80000000 then Inl SignedOverflow else Inr (if sint w < 0 then - w else w))"

lemma length_digits_of_bound:
  "1 < base \<Longrightarrow> n < base ^ k \<Longrightarrow> 0 < k \<Longrightarrow> length (digits_of base n) \<le> k"
proof (induction base n arbitrary: k rule: digits_of.induct)
  case (1 base n)
  show ?case
  proof (cases "n < base")
    case True
    then show ?thesis using "1.prems" by (simp add: digits_of.simps [of base n])
  next
    case False
    then have "k \<noteq> 1" using "1.prems" by auto
    with "1.prems" obtain j where k: "k = Suc j" "0 < j" by (cases k) auto
    then have "n div base < base ^ j"
      using "1.prems" by (simp add: div_less_iff_less_mult mult.commute)
    with False k 1 show ?thesis by (simp add: digits_of.simps [of base n])
  qed
qed

lemma length_hex_upper: "n < 16 ^ k \<Longrightarrow> 0 < k \<Longrightarrow> length (hex_upper n) \<le> k"
  by (simp add: hex_upper_def length_digits_of_bound)

lemma length_pad_left [simp]: "length (pad_left c w s) = max w (length s)"
  by (simp add: pad_left_def)

lemma snprintf_text_fits [simp]: "length s < n \<Longrightarrow> snprintf_text n s = s"
  by (simp add: snprintf_text_def)

end
