(* ===== verification/M6502.thy ===== *)
theory M6502
  imports Tagger Printf
begin

text \<open>
  The 6502 frontend, \<open>arch/6502\<close>: instruction decoding (\<open>6502_isa.h\<close>), code tagging
  (\<open>6502_tag.cpp\<close>) and the disassembler (\<open>6502_disasm.cpp\<close>). The decoding tables are
  compared with the regular encoding \<open>aaabbbcc\<close> of the instruction set.
\<close>

section \<open>Decoding\<close>

datatype (plugins only: code size) m6502_instr =
    INSTR_ADC | INSTR_AND | INSTR_ASL | INSTR_BCC | INSTR_BCS | INSTR_BEQ
  | INSTR_BIT | INSTR_BMI | INSTR_BNE | INSTR_BPL | INSTR_BRK | INSTR_BVC
  | INSTR_BVS | INSTR_CLC | INSTR_CLD | INSTR_CLI | INSTR_CLV | INSTR_CMP
  | INSTR_CPX | INSTR_CPY | INSTR_DEC | INSTR_DEX | INSTR_DEY | INSTR_EOR
  | INSTR_INC | INSTR_INX | INSTR_INY | INSTR_JMP | INSTR_JSR | INSTR_LDA
  | INSTR_LDX | INSTR_LDY | INSTR_LSR | INSTR_NOP | INSTR_ORA | INSTR_PHA
  | INSTR_PHP | INSTR_PLA | INSTR_PLP | INSTR_ROL | INSTR_ROR | INSTR_RTI
  | INSTR_RTS | INSTR_SBC | INSTR_SEC | INSTR_SED | INSTR_SEI | INSTR_STA
  | INSTR_STX | INSTR_STY | INSTR_TAX | INSTR_TAY | INSTR_TSX | INSTR_TXA
  | INSTR_TXS | INSTR_TYA | INSTR_XXX

datatype (plugins only: code size) m6502_addmode =
    ADDMODE_ABS | ADDMODE_ABSX | ADDMODE_ABSY | ADDMODE_ACC | ADDMODE_BRA
  | ADDMODE_IMM | ADDMODE_IMPL | ADDMODE_IND | ADDMODE_INDX | ADDMODE_INDY
  | ADDMODE_ZP | ADDMODE_ZPX | ADDMODE_ZPY

definition get_addmode :: "byte \<Rightarrow> m6502_addmode" where
  "get_addmode opcode =
     (if opcode \<in> set [0x0D, 0x0E, 0x20, 0x2C, 0x2D, 0x2E, 0x4C, 0x4D, 0x4E, 0x6D, 0x6E, 0x8C, 0x8D, 0x8E, 
        0xAC, 0xAD, 0xAE, 0xCC, 0xCD, 0xCE, 0xEC, 0xED, 0xEE] then ADDMODE_ABS
     else if opcode \<in> set [0x1D, 0x1E, 0x3D, 0x3E, 0x5D, 0x5E, 0x7D, 0x7E, 0x9D, 0xBC, 0xBD, 0xDD, 0xDE, 
        0xFD, 0xFE] then ADDMODE_ABSX
     else if opcode \<in> set [0x19, 0x39, 0x59, 0x79, 0x99, 0xB9, 0xBE, 0xD9, 0xF9] then ADDMODE_ABSY
     else if opcode \<in> set [0x0A, 0x2A, 0x4A, 0x6A] then ADDMODE_ACC
     else if opcode \<in> set [0x10, 0x30, 0x50, 0x70, 0x90, 0xB0, 0xD0, 0xF0] then ADDMODE_BRA
     else if opcode \<in> set [0x09, 0x29, 0x49, 0x69, 0xA0, 0xA2, 0xA9, 0xC0, 0xC9, 0xE0, 0xE9] then ADDMODE_IMM
     else if opcode = 0x6C then ADDMODE_IND
     else if opcode \<in> set [0x01, 0x21, 0x41, 0x61, 0x81, 0xA1, 0xC1, 0xE1] then ADDMODE_INDX
     else if opcode \<in> set [0x11, 0x31, 0x51, 0x71, 0x91, 0xB1, 0xD1, 0xF1] then ADDMODE_INDY
     else if opcode \<in> set [0x05, 0x06, 0x24, 0x25, 0x26, 0x45, 0x46, 0x65, 0x66, 0x84, 0x85, 0x86, 0xA4, 
        0xA5, 0xA6, 0xC4, 0xC5, 0xC6, 0xE4, 0xE5, 0xE6] then ADDMODE_ZP
     else if opcode \<in> set [0x15, 0x16, 0x35, 0x36, 0x55, 0x56, 0x75, 0x76, 0x94, 0x95, 0xB4, 0xB5, 0xD5, 
        0xD6, 0xF5, 0xF6] then ADDMODE_ZPX
     else if opcode \<in> set [0x96, 0xB6] then ADDMODE_ZPY
     else ADDMODE_IMPL)"

definition get_instr :: "byte \<Rightarrow> m6502_instr" where
  "get_instr opcode =
     (if opcode = 0x00 then INSTR_BRK
     else if opcode = 0xEA then INSTR_NOP
     else if opcode = 0x8A then INSTR_TXA
     else if opcode = 0x98 then INSTR_TYA
     else if opcode = 0xA8 then INSTR_TAY
     else if opcode = 0xAA then INSTR_TAX
     else if opcode = 0x9A then INSTR_TXS
     else if opcode = 0xBA then INSTR_TSX
     else if opcode \<in> set [0xA1, 0xA5, 0xA9, 0xAD, 0xB1, 0xB5, 0xB9, 0xBD] then INSTR_LDA
     else if opcode \<in> set [0xA2, 0xA6, 0xAE, 0xB6, 0xBE] then INSTR_LDX
     else if opcode \<in> set [0xA0, 0xA4, 0xAC, 0xB4, 0xBC] then INSTR_LDY
     else if opcode \<in> set [0x81, 0x85, 0x8D, 0x91, 0x95, 0x99, 0x9D] then INSTR_STA
     else if opcode \<in> set [0x84, 0x8C, 0x94] then INSTR_STY
     else if opcode \<in> set [0x86, 0x8E, 0x96] then INSTR_STX
     else if opcode \<in> set [0x21, 0x25, 0x29, 0x2D, 0x31, 0x35, 0x39, 0x3D] then INSTR_AND
     else if opcode \<in> set [0x01, 0x05, 0x09, 0x0D, 0x11, 0x15, 0x19, 0x1D] then INSTR_ORA
     else if opcode \<in> set [0x41, 0x45, 0x49, 0x4D, 0x51, 0x55, 0x59, 0x5D] then INSTR_EOR
     else if opcode \<in> set [0x24, 0x2C] then INSTR_BIT
     else if opcode \<in> set [0x06, 0x0A, 0x0E, 0x16, 0x1E] then INSTR_ASL
     else if opcode \<in> set [0x46, 0x4A, 0x4E, 0x56, 0x5E] then INSTR_LSR
     else if opcode \<in> set [0x26, 0x2A, 0x2E, 0x36, 0x3E] then INSTR_ROL
     else if opcode \<in> set [0x66, 0x6A, 0x6E, 0x76, 0x7E] then INSTR_ROR
     else if opcode \<in> set [0xE6, 0xEE, 0xF6, 0xFE] then INSTR_INC
     else if opcode \<in> set [0xC6, 0xCE, 0xD6, 0xDE] then INSTR_DEC
     else if opcode = 0xE8 then INSTR_INX
     else if opcode = 0xC8 then INSTR_INY
     else if opcode = 0xCA then INSTR_DEX
     else if opcode = 0x88 then INSTR_DEY
     else if opcode \<in> set [0x61, 0x65, 0x69, 0x6D, 0x71, 0x75, 0x79, 0x7D] then INSTR_ADC
     else if opcode \<in> set [0xE1, 0xE5, 0xE9, 0xED, 0xF1, 0xF5, 0xF9, 0xFD] then INSTR_SBC
     else if opcode \<in> set [0xC1, 0xC5, 0xC9, 0xCD, 0xD1, 0xD5, 0xD9, 0xDD] then INSTR_CMP
     else if opcode \<in> set [0xE0, 0xE4, 0xEC] then INSTR_CPX
     else if opcode \<in> set [0xC0, 0xC4, 0xCC] then INSTR_CPY
     else if opcode = 0x08 then INSTR_PHP
     else if opcode = 0x28 then INSTR_PLP
     else if opcode = 0x48 then INSTR_PHA
     else if opcode = 0x68 then INSTR_PLA
     else if opcode = 0x10 then INSTR_BPL
     else if opcode = 0x30 then INSTR_BMI
     else if opcode = 0x50 then INSTR_BVC
     else if opcode = 0x70 then INSTR_BVS
     else if opcode = 0x90 then INSTR_BCC
     else if opcode = 0xB0 then INSTR_BCS
     else if opcode = 0xD0 then INSTR_BNE
     else if opcode = 0xF0 then INSTR_BEQ
     else if opcode = 0x18 then INSTR_CLC
     else if opcode = 0x58 then INSTR_CLI
     else if opcode = 0xB8 then INSTR_CLV
     else if opcode = 0xD8 then INSTR_CLD
     else if opcode = 0x38 then INSTR_SEC
     else if opcode = 0x78 then INSTR_SEI
     else if opcode = 0xF8 then INSTR_SED
     else if opcode = 0x20 then INSTR_JSR
     else if opcode \<in> set [0x4C, 0x6C] then INSTR_JMP
     else if opcode = 0x40 then INSTR_RTI
     else if opcode = 0x60 then INSTR_RTS
     else INSTR_XXX)"

fun addmode_template :: "m6502_addmode \<Rightarrow> string" where
  "addmode_template ADDMODE_ABS = ''$%04X''"
| "addmode_template ADDMODE_ABSX = ''$%04X,X''"
| "addmode_template ADDMODE_ABSY = ''$%04X,Y''"
| "addmode_template ADDMODE_ACC = ''A''"
| "addmode_template ADDMODE_BRA = ''$%02X''"
| "addmode_template ADDMODE_IMM = ''#$%02X''"
| "addmode_template ADDMODE_IMPL = ''''"
| "addmode_template ADDMODE_IND = ''($%04X)''"
| "addmode_template ADDMODE_INDX = ''($%02X,X)''"
| "addmode_template ADDMODE_INDY = ''($%02X),Y''"
| "addmode_template ADDMODE_ZP = ''$%02X''"
| "addmode_template ADDMODE_ZPX = ''$%02X,X''"
| "addmode_template ADDMODE_ZPY = ''$%02X,Y''"

fun mnemo :: "m6502_instr \<Rightarrow> string" where
  "mnemo INSTR_ADC = ''ADC''"
| "mnemo INSTR_AND = ''AND''"
| "mnemo INSTR_ASL = ''ASL''"
| "mnemo INSTR_BCC = ''BCC''"
| "mnemo INSTR_BCS = ''BCS''"
| "mnemo INSTR_BEQ = ''BEQ''"
| "mnemo INSTR_BIT = ''BIT''"
| "mnemo INSTR_BMI = ''BMI''"
| "mnemo INSTR_BNE = ''BNE''"
| "mnemo INSTR_BPL = ''BPL''"
| "mnemo INSTR_BRK = ''BRK''"
| "mnemo INSTR_BVC = ''BVC''"
| "mnemo INSTR_BVS = ''BVS''"
| "mnemo INSTR_CLC = ''CLC''"
| "mnemo INSTR_CLD = ''CLD''"
| "mnemo INSTR_CLI = ''CLI''"
| "mnemo INSTR_CLV = ''CLV''"
| "mnemo INSTR_CMP = ''CMP''"
| "mnemo INSTR_CPX = ''CPX''"
| "mnemo INSTR_CPY = ''CPY''"
| "mnemo INSTR_DEC = ''DEC''"
| "mnemo INSTR_DEX = ''DEX''"
| "mnemo INSTR_DEY = ''DEY''"
| "mnemo INSTR_EOR = ''EOR''"
| "mnemo INSTR_INC = ''INC''"
| "mnemo INSTR_INX = ''INX''"
| "mnemo INSTR_INY = ''INY''"
| "mnemo INSTR_JMP = ''JMP''"
| "mnemo INSTR_JSR = ''JSR''"
| "mnemo INSTR_LDA = ''LDA''"
| "mnemo INSTR_LDX = ''LDX''"
| "mnemo INSTR_LDY = ''LDY''"
| "mnemo INSTR_LSR = ''LSR''"
| "mnemo INSTR_NOP = ''NOP''"
| "mnemo INSTR_ORA = ''ORA''"
| "mnemo INSTR_PHA = ''PHA''"
| "mnemo INSTR_PHP = ''PHP''"
| "mnemo INSTR_PLA = ''PLA''"
| "mnemo INSTR_PLP = ''PLP''"
| "mnemo INSTR_ROL = ''ROL''"
| "mnemo INSTR_ROR = ''ROR''"
| "mnemo INSTR_RTI = ''RTI''"
| "mnemo INSTR_RTS = ''RTS''"
| "mnemo INSTR_SBC = ''SBC''"
| "mnemo INSTR_SEC = ''SEC''"
| "mnemo INSTR_SED = ''SED''"
| "mnemo INSTR_SEI = ''SEI''"
| "mnemo INSTR_STA = ''STA''"
| "mnemo INSTR_STX = ''STX''"
| "mnemo INSTR_STY = ''STY''"
| "mnemo INSTR_TAX = ''TAX''"
| "mnemo INSTR_TAY = ''TAY''"
| "mnemo INSTR_TSX = ''TSX''"
| "mnemo INSTR_TXA = ''TXA''"
| "mnemo INSTR_TXS = ''TXS''"
| "mnemo INSTR_TYA = ''TYA''"
| "mnemo INSTR_XXX = ''???''"

fun get_length :: "m6502_addmode \<Rightarrow> int" where
  "get_length ADDMODE_ACC = 1"
| "get_length ADDMODE_IMPL = 1"
| "get_length ADDMODE_BRA = 2"
| "get_length ADDMODE_IMM = 2"
| "get_length ADDMODE_INDX = 2"
| "get_length ADDMODE_INDY = 2"
| "get_length ADDMODE_ZP = 2"
| "get_length ADDMODE_ZPX = 2"
| "get_length ADDMODE_ZPY = 2"
| "get_length ADDMODE_ABS = 3"
| "get_length ADDMODE_ABSX = 3"
| "get_length ADDMODE_ABSY = 3"
| "get_length ADDMODE_IND = 3"

section \<open>Tagging\<close>

text \<open>\<open>RAM[pc+1] | RAM[pc+2] << 8\<close> and \<open>(int8_t)RAM[pc+1]\<close>, as values of \<open>addr_t\<close>.\<close>

definition operand_16 :: "ram \<Rightarrow> addr \<Rightarrow> addr" where
  "operand_16 m pc = ucast (m (pc + 1)) OR push_bit 8 (ucast (m (pc + 2)))"

definition branch_target :: "ram \<Rightarrow> addr \<Rightarrow> addr" where
  "branch_target m pc = pc + 2 + scast (m (pc + 1))"

definition arch_6502_tag_instr :: "ram \<Rightarrow> tag_fn" where
  "arch_6502_tag_instr m pc =
     (let opcode = m pc;
          instr = get_instr opcode;
          len = get_length (get_addmode opcode);
          outs = (\<lambda>t w. Inr (len, \<lparr>v_tag = Some t, v_new_pc = w, v_next_pc = Some (pc + word_of_int len)\<rparr>))
      in if instr = INSTR_BRK then outs TAG_TRAP None
         else if instr = INSTR_RTS then outs TAG_RET None
         else if instr = INSTR_JMP then
           outs TAG_BRANCH (Some (if get_addmode opcode = ADDMODE_ABS then operand_16 m pc else NEW_PC_NONE))
         else if instr = INSTR_JSR then outs TAG_CALL (Some (operand_16 m pc))
         else if instr \<in> set [INSTR_BCC, INSTR_BCS, INSTR_BEQ, INSTR_BMI, INSTR_BNE, INSTR_BPL, INSTR_BVC, INSTR_BVS] then
           outs TAG_COND_BRANCH (Some (branch_target m pc))
         else outs TAG_CONTINUE None)"

section \<open>Disassembly\<close>

text \<open>
  \<open>line2\<close> has room for eight bytes; the operand is formatted into it first. The caller's line
  has room for \<open>max_line\<close> bytes. The result is the text in the line and the bytes consumed.
\<close>

definition arch_6502_operand :: "ram \<Rightarrow> addr \<Rightarrow> string res" where
  "arch_6502_operand m pc =
     (let addmode = get_addmode (m pc) in
      if addmode = ADDMODE_BRA then
        Inr (format_X ''$%02X'' (unat (branch_target m pc)))
      else if get_length addmode = 1 then Inr (format_X (addmode_template addmode) 0)
      else if get_length addmode = 2 then Inr (format_X (addmode_template addmode) (unat (m (pc + 1))))
      else if get_length addmode = 3 then
        Inr (format_X (addmode_template addmode) (unat (operand_16 m pc)))
      else Inl ExitFailure)"

definition arch_6502_disasm_instr :: "ram \<Rightarrow> addr \<Rightarrow> nat \<Rightarrow> (string \<times> int) res" where
  "arch_6502_disasm_instr m pc max_line =
     res_bind (arch_6502_operand m pc) (\<lambda>operand.
     let line2 = snprintf_text 8 operand in
     Inr (snprintf_text max_line (mnemo (get_instr (m pc)) @ '' '' @ line2), get_length (get_addmode (m pc))))"

section \<open>The regular encoding\<close>

text \<open>
  The instruction set as its manuals tabulate it: an opcode \<open>aaabbbcc\<close> selects a group by \<open>cc\<close>,
  within it an addressing mode by \<open>bbb\<close> and an operation by \<open>aaa\<close>.
\<close>

definition group1 :: "nat \<Rightarrow> nat \<Rightarrow> m6502_instr \<times> m6502_addmode" where
  "group1 a b =
     (if a = 4 \<and> b = 2 then (INSTR_XXX, ADDMODE_IMPL)
      else ([INSTR_ORA, INSTR_AND, INSTR_EOR, INSTR_ADC, INSTR_STA, INSTR_LDA, INSTR_CMP, INSTR_SBC] ! a,
            [ADDMODE_INDX, ADDMODE_ZP, ADDMODE_IMM, ADDMODE_ABS, ADDMODE_INDY, ADDMODE_ZPX, ADDMODE_ABSY, ADDMODE_ABSX] ! b))"

definition group2 :: "nat \<Rightarrow> nat \<Rightarrow> m6502_instr \<times> m6502_addmode" where
  "group2 a b =
     (let i = [INSTR_ASL, INSTR_ROL, INSTR_LSR, INSTR_ROR, INSTR_STX, INSTR_LDX, INSTR_DEC, INSTR_INC] ! a;
          illegal = (INSTR_XXX, ADDMODE_IMPL) in
      [if a = 5 then (i, ADDMODE_IMM) else illegal,
       (i, ADDMODE_ZP),
       if a < 4 then (i, ADDMODE_ACC) else ([INSTR_TXA, INSTR_TAX, INSTR_DEX, INSTR_NOP] ! (a - 4), ADDMODE_IMPL),
       (i, ADDMODE_ABS),
       illegal,
       (i, if a = 4 \<or> a = 5 then ADDMODE_ZPY else ADDMODE_ZPX),
       if a = 4 then (INSTR_TXS, ADDMODE_IMPL) else if a = 5 then (INSTR_TSX, ADDMODE_IMPL) else illegal,
       if a = 4 then illegal else (i, if a = 5 then ADDMODE_ABSY else ADDMODE_ABSX)] ! b)"

definition group0 :: "nat \<Rightarrow> nat \<Rightarrow> m6502_instr \<times> m6502_addmode" where
  "group0 a b =
     (let illegal = (INSTR_XXX, ADDMODE_IMPL);
          i = [INSTR_XXX, INSTR_BIT, INSTR_JMP, INSTR_JMP, INSTR_STY, INSTR_LDY, INSTR_CPY, INSTR_CPX] ! a in
      [[(INSTR_BRK, ADDMODE_IMPL), (INSTR_JSR, ADDMODE_ABS), (INSTR_RTI, ADDMODE_IMPL), (INSTR_RTS, ADDMODE_IMPL),
        illegal, (i, ADDMODE_IMM), (i, ADDMODE_IMM), (i, ADDMODE_IMM)] ! a,
       if a = 1 \<or> 4 \<le> a then (i, ADDMODE_ZP) else illegal,
       ([INSTR_PHP, INSTR_PLP, INSTR_PHA, INSTR_PLA, INSTR_DEY, INSTR_TAY, INSTR_INY, INSTR_INX] ! a, ADDMODE_IMPL),
       if a = 0 then illegal else (i, if a = 3 then ADDMODE_IND else ADDMODE_ABS),
       ([INSTR_BPL, INSTR_BMI, INSTR_BVC, INSTR_BVS, INSTR_BCC, INSTR_BCS, INSTR_BNE, INSTR_BEQ] ! a, ADDMODE_BRA),
       if a = 4 \<or> a = 5 then (i, ADDMODE_ZPX) else illegal,
       ([INSTR_CLC, INSTR_SEC, INSTR_CLI, INSTR_SEI, INSTR_TYA, INSTR_CLV, INSTR_CLD, INSTR_SED] ! a, ADDMODE_IMPL),
       if a = 5 then (i, ADDMODE_ABSX) else illegal] ! b)"

definition regular_decode :: "byte \<Rightarrow> m6502_instr \<times> m6502_addmode" where
  "regular_decode opcode =
     (let a = unat (drop_bit 5 opcode); b = unat (drop_bit 2 opcode AND 7); c = unat (opcode AND 3) in
      [group0 a b, group1 a b, group2 a b, (INSTR_XXX, ADDMODE_IMPL)] ! c)"

text \<open>
  Statements about all opcodes are checked value by value, on the integer an opcode stands for.
\<close>

lemma byte_eq_numeral: "(b :: byte) = numeral k \<longleftrightarrow> uint b = take_bit 8 (numeral k)"
proof -
  have "LENGTH(8) = 8" by simp
  then have "uint (word_of_int (numeral k) :: byte) = take_bit 8 (numeral k)"
    by (simp only: uint_word_of_int_eq)
  then show ?thesis by (simp only: word_uint_eq_iff of_int_numeral)
qed

lemma byte_eq_0_1: "(b :: byte) = 0 \<longleftrightarrow> uint b = 0" "(b :: byte) = 1 \<longleftrightarrow> uint b = 1"
  by (simp_all add: word_uint_eq_iff)

declare if_cong [cong]

lemmas get_instr_int = get_instr_def [unfolded byte_eq_numeral byte_eq_0_1 list.set insert_iff empty_iff, simplified]
lemmas get_addmode_int = get_addmode_def [unfolded byte_eq_numeral byte_eq_0_1 list.set insert_iff empty_iff, simplified]

declare if_cong [cong del]

lemma regular_decode_int:
  "regular_decode op =
     (let a = nat (uint op div 32); b = nat (uint op div 4 mod 8); c = nat (uint op mod 4) in
      [group0 a b, group1 a b, group2 a b, (INSTR_XXX, ADDMODE_IMPL)] ! c)"
proof -
  have "drop_bit 2 op AND 7 = take_bit 3 (drop_bit 2 op)" "op AND 3 = take_bit 2 op"
    by (simp_all add: take_bit_eq_mask mask_eq_exp_minus_1)
  moreover have "uint op mod 256 = uint op"
    using unsigned_less [of op, where 'a = int] by (intro mod_pos_pos_trivial) simp_all
  ultimately show ?thesis
    unfolding regular_decode_def
    by (simp only: unat_eq_nat_uint unsigned_drop_bit_eq unsigned_take_bit_eq) (simp add: take_bit_eq_mod drop_bit_eq_div)
qed

lemma all_bytes:
  assumes "list_all (\<lambda>n. uint b = n \<longrightarrow> P b) [0..255]"
  shows "P (b :: byte)"
proof -
  have "uint b < 256" using unsigned_less [of b, where 'a = int] by simp
  then have "uint b \<in> set [0..255]" by simp
  with assms show ?thesis unfolding list_all_iff by blast
qed

lemma tables_regular: "(get_instr op, get_addmode op) = regular_decode op"
proof (rule all_bytes)
  show "list_all (\<lambda>n. uint op = n \<longrightarrow> (get_instr op, get_addmode op) = regular_decode op) [0..255]"
    unfolding list_all_iff
  proof
    fix n :: int
    assume "n \<in> set [0..255]"
    then show "uint op = n \<longrightarrow> (get_instr op, get_addmode op) = regular_decode op"
      by (simp del: set_upto add: upto.simps)
         (elim disjE; simp add: get_instr_int get_addmode_int regular_decode_int group0_def group1_def group2_def)
  qed
qed

section \<open>The frontend contract\<close>

lemma tag_bits_6502:
  "\<not> has TAG_TRAP TAG_INTERNAL" "\<not> has TAG_RET TAG_INTERNAL" "\<not> has TAG_BRANCH TAG_INTERNAL"
  "\<not> has TAG_CALL TAG_INTERNAL" "\<not> has TAG_COND_BRANCH TAG_INTERNAL" "\<not> has TAG_CONTINUE TAG_INTERNAL"
  by (simp_all add: bits)

lemma arch_6502_contract:
  "res_ok (\<lambda>(len, v). tag_contract v \<and> len = get_length (get_addmode (m pc)) \<and>
     v_next_pc v = Some (pc + word_of_int len)) (arch_6502_tag_instr m pc)"
  by (auto simp: arch_6502_tag_instr_def tag_contract_def Let_def tag_bits_6502 bits)

interpretation m6502: tag_frontend "arch_6502_tag_instr m" "\<lambda>_. True" for m
  by unfold_locales (rule res_ok_mono [OF arch_6502_contract], auto)

lemma get_length_bounds: "get_length a \<in> {1, 2, 3}"
  by (cases a) simp_all

section \<open>The disassembler\<close>

lemma operand_16_bound: "unat (operand_16 m pc) < 65536"
  using small_word_iff [of "operand_16 m pc" 16]
  by (auto simp: operand_16_def bit_simps dest: bit_imp_le_length)

lemma template_fits:
  "get_length a = 1 \<Longrightarrow> length (format_X (addmode_template a) n) \<le> 7"
  "get_length a = 2 \<Longrightarrow> n < 256 \<Longrightarrow> length (format_X (addmode_template a) n) \<le> 7"
  "get_length a = 3 \<Longrightarrow> n < 65536 \<Longrightarrow> length (format_X (addmode_template a) n) \<le> 7"
  using length_hex_upper [of n 2] length_hex_upper [of n 4]
  by (cases a; simp)+

lemma operand_fits:
  assumes "get_addmode (m pc) \<noteq> ADDMODE_BRA \<or> unat (branch_target m pc) < 16777216"
  shows "res_ok (\<lambda>s. length s \<le> 7) (arch_6502_operand m pc)"
proof (cases "get_addmode (m pc) = ADDMODE_BRA")
  case True
  with assms show ?thesis
    using length_hex_upper [of "unat (branch_target m pc)" 6] by (simp add: arch_6502_operand_def)
next
  case False
  have "unat (m (pc + 1)) < 256" using unsigned_less [of "m (pc + 1)", where 'a = nat] by simp
  with False show ?thesis
    using get_length_bounds [of "get_addmode (m pc)"] operand_16_bound [of m pc]
    by (auto simp: arch_6502_operand_def template_fits)
qed

lemma mnemo_length: "length (mnemo i) = 3"
  by (cases i) simp_all

lemma disasm_total:
  "\<exists>operand. arch_6502_operand m pc = Inr operand \<and>
     arch_6502_disasm_instr m pc max_line =
       Inr (snprintf_text max_line (mnemo (get_instr (m pc)) @ '' '' @ snprintf_text 8 operand),
            get_length (get_addmode (m pc)))"
  using get_length_bounds [of "get_addmode (m pc)"]
  by (auto simp: arch_6502_disasm_instr_def arch_6502_operand_def Let_def)

section \<open>Properties\<close>

text \<open>
  C15. The two opcode tables agree with the regular encoding of the instruction set on all 256
  opcodes: the operation and the addressing mode are the ones \<open>aaa\<close>, \<open>bbb\<close> and \<open>cc\<close> select,
  and every opcode outside the instruction set is \<open>INSTR_XXX\<close> of one byte.
\<close>

theorem m6502_tables_regular: "(get_instr opcode, get_addmode opcode) = regular_decode opcode"
  by (rule tables_regular)



end
