(* ===== verification/M6502_Translate.thy ===== *)
theory M6502_Translate
  imports M6502 Function
begin

text \<open>
  The code generation of the 6502 frontend, \<open>arch/6502/6502_translate.cpp\<close>, and the register
  file it works on (\<open>6502_arch.cpp\<close>).
\<close>

section \<open>The guest CPU\<close>

abbreviation (input) A :: nat where "A \<equiv> 0"
abbreviation (input) X :: nat where "X \<equiv> 1"
abbreviation (input) Y :: nat where "Y \<equiv> 2"
abbreviation (input) S :: nat where "S \<equiv> 3"

abbreviation (input) N_SHIFT :: nat where "N_SHIFT \<equiv> 7"
abbreviation (input) V_SHIFT :: nat where "V_SHIFT \<equiv> 6"
abbreviation (input) X_SHIFT :: nat where "X_SHIFT \<equiv> 5"
abbreviation (input) B_SHIFT :: nat where "B_SHIFT \<equiv> 4"
abbreviation (input) D_SHIFT :: nat where "D_SHIFT \<equiv> 3"
abbreviation (input) I_SHIFT :: nat where "I_SHIFT \<equiv> 2"
abbreviation (input) Z_SHIFT :: nat where "Z_SHIFT \<equiv> 1"
abbreviation (input) C_SHIFT :: nat where "C_SHIFT \<equiv> 0"

definition arch_6502_flags_layout :: "(nat \<times> flag_type) list" where
  "arch_6502_flags_layout =
     [(N_SHIFT, CPU_FLAGTYPE_NEGATIVE), (V_SHIFT, CPU_FLAGTYPE_OVERFLOW), (X_SHIFT, CPU_FLAGTYPE_NONE),
      (B_SHIFT, CPU_FLAGTYPE_NONE), (D_SHIFT, CPU_FLAGTYPE_NONE), (I_SHIFT, CPU_FLAGTYPE_NONE),
      (Z_SHIFT, CPU_FLAGTYPE_ZERO), (C_SHIFT, CPU_FLAGTYPE_CARRY)]"

text \<open>
  What \<open>arch_6502_init\<close> and \<open>cpu_new\<close> fill in; \<open>flgs\<close> is the \<open>flags\<close> field that \<open>cpu_new\<close>
  derives from the host. The pointers are NULL until the entry block has been emitted.
\<close>

definition arch_6502_init :: "32 word \<Rightarrow> xcpu" where
  "arch_6502_init flgs = \<lparr>
     common_flags = CPU_FLAG_ENDIAN_LITTLE, word_size = 8, address_size = 16, psr_size = 8,
     register_bits = [8, 8, 8, 8, 8], gpr_count = 4, xr_count = 1,
     flags_layout = arch_6502_flags_layout, cpu_flags = flgs,
     ptr_gpr = [], in_ptr_gpr = [], ptr_xr = [], in_ptr_xr = [],
     ptr_FLAG = replicate 8 None, ptr_N = None, ptr_V = None, ptr_Z = None, ptr_C = None,
     ptr_PC = nullptr, ptr_RAM = nullptr\<rparr>"

text \<open>The same CPU with the pointers of a function under construction.\<close>

definition cpu_6502 :: "32 word \<Rightarrow> xcpu" where
  "cpu_6502 flgs = (arch_6502_init flgs)\<lparr>
     ptr_gpr := map (\<lambda>i. Address (GprPtr i) (IntTy 8)) [0..<4],
     in_ptr_gpr := map (\<lambda>i. Address (RegPtr i) (IntTy 8)) [0..<4],
     ptr_xr := [Address (XrPtr 0) (IntTy 8)], in_ptr_xr := [Address (RegPtr 4) (IntTy 8)],
     ptr_FLAG := map (\<lambda>i. Some (Address (FlagPtr i) (IntTy 1))) [0..<8],
     ptr_N := Some (Address (FlagPtr N_SHIFT) (IntTy 1)), ptr_V := Some (Address (FlagPtr V_SHIFT) (IntTy 1)),
     ptr_Z := Some (Address (FlagPtr Z_SHIFT) (IntTy 1)), ptr_C := Some (Address (FlagPtr C_SHIFT) (IntTy 1)),
     ptr_PC := Address PcPtr (IntTy 16), ptr_RAM := Address (RamPtr 0) (IntTy 8)\<rparr>"

section \<open>Operands\<close>

definition OPERAND_8 :: "ram \<Rightarrow> addr \<Rightarrow> byte" where
  "OPERAND_8 m pc = m ((pc + 1) AND 0xFFFF)"

definition OPERAND_16 :: "ram \<Rightarrow> addr \<Rightarrow> 16 word" where
  "OPERAND_16 m pc = ucast (m ((pc + 1) AND 0xFFFF)) OR push_bit 8 (ucast (m ((pc + 2) AND 0xFFFF)))"

definition GEP :: "xcpu \<Rightarrow> lval emit \<Rightarrow> lval emit" where
  "GEP cpu a = e_bind a (arch_gep8 cpu)"

definition LOAD_RAM8 :: "xcpu \<Rightarrow> lval emit \<Rightarrow> lval emit" where
  "LOAD_RAM8 cpu a = LOAD (GEP cpu a)"

definition LOAD_RAM16 :: "xcpu \<Rightarrow> lval \<Rightarrow> lval emit" where
  "LOAD_RAM16 cpu a =
     e_OR (ZEXT 16 (LOAD_RAM8 cpu (e_ret a)))
       (SHL (ZEXT 16 (LOAD_RAM8 cpu (e_ADD (e_ret a) (CONSTs 32 1)))) (CONSTs 16 8))"

definition arch_6502_get_operand_lvalue :: "xcpu \<Rightarrow> ram \<Rightarrow> addr \<Rightarrow> lval option emit" where
  "arch_6502_get_operand_lvalue cpu m pc =
     (let am = get_addmode (m pc) in
      if am = ADDMODE_ACC then e_bind (GPR cpu A) (\<lambda>p. e_ret (Some p))
      else if am = ADDMODE_BRA \<or> am = ADDMODE_IMPL then e_ret None
      else if am = ADDMODE_IMM then
        e_bind (e_inst (AllocaInst 8) (PtrTy (IntTy 8))) (\<lambda>ptr_temp.
        e_bind (CONSTs 8 (uint (OPERAND_8 m pc))) (\<lambda>v.
        e_seq (e_store v ptr_temp) (e_ret (Some ptr_temp))))
      else
        let is_indirect = am = ADDMODE_IND \<or> am = ADDMODE_INDX \<or> am = ADDMODE_INDY;
            is_8bit_base = \<not> (am = ADDMODE_ABS \<or> am = ADDMODE_ABSX \<or> am = ADDMODE_ABSY);
            before = (if am = ADDMODE_ABSY \<or> am = ADDMODE_ZPY then Some Y
                      else if am = ADDMODE_ABSX \<or> am = ADDMODE_INDX \<or> am = ADDMODE_ZPX then Some X else None);
            after = (if am = ADDMODE_INDY then Some Y else None);
            base = (if is_8bit_base then ucast (OPERAND_8 m pc) else OPERAND_16 m pc)
        in e_bind (CONSTs 32 (uint base)) (\<lambda>ea0.
           e_bind (case before of None \<Rightarrow> e_ret ea0
                   | Some r \<Rightarrow> e_ADD (ZEXT 32 (LOAD (GPR cpu r))) (e_ret ea0)) (\<lambda>ea1.
           e_bind (if is_8bit_base then e_AND (e_ret ea1) (CONSTs 32 0x00FF)
                   else if 0xFF00 \<le> base then e_AND (e_ret ea1) (CONSTs 32 0xFFFF) else e_ret ea1) (\<lambda>ea2.
           e_bind (if is_indirect then ZEXT 32 (LOAD_RAM16 cpu ea2) else e_ret ea2) (\<lambda>ea3.
           e_bind (case after of None \<Rightarrow> e_ret ea3
                   | Some r \<Rightarrow> e_ADD (ZEXT 32 (LOAD (GPR cpu r))) (e_ret ea3)) (\<lambda>ea4.
           e_bind (GEP cpu (e_ret ea4)) (\<lambda>p. e_ret (Some p))))))))"

definition LOPERAND :: "xcpu \<Rightarrow> ram \<Rightarrow> addr \<Rightarrow> lval emit" where
  "LOPERAND cpu m pc = e_bind (arch_6502_get_operand_lvalue cpu m pc) ptr_of"

definition OPERAND :: "xcpu \<Rightarrow> ram \<Rightarrow> addr \<Rightarrow> lval emit" where
  "OPERAND cpu m pc = LOAD (LOPERAND cpu m pc)"

section \<open>The stack\<close>

definition TOS :: "xcpu \<Rightarrow> lval emit" where
  "TOS cpu = GEP cpu (e_OR (ZEXT 32 (R cpu S)) (CONSTs 32 0x0100))"

definition PUSH :: "xcpu \<Rightarrow> lval emit \<Rightarrow> unit emit" where
  "PUSH cpu v = e_seq (STORE v (TOS cpu)) (e_seq (LET cpu S (DEC cpu (R cpu S))) (e_ret ()))"

definition PULL :: "xcpu \<Rightarrow> lval emit" where
  "PULL cpu = e_seq (LET cpu S (INC cpu (R cpu S))) (LOAD (TOS cpu))"

definition PUSH16 :: "xcpu \<Rightarrow> addr \<Rightarrow> unit emit" where
  "PUSH16 cpu v =
     e_seq (PUSH cpu (CONSTs 8 (uint (drop_bit 8 v)))) (PUSH cpu (CONSTs 8 (uint (v AND 0xFF))))"

definition arch_6502_pull16 :: "xcpu \<Rightarrow> lval emit" where
  "arch_6502_pull16 cpu =
     e_bind (PULL cpu) (\<lambda>lo. e_bind (PULL cpu) (\<lambda>hi.
     e_OR (ZEXT 16 (e_ret lo)) (SHL (ZEXT 16 (e_ret hi)) (CONSTs 16 8))))"

section \<open>Instructions\<close>

definition arch_6502_trap :: "xcpu \<Rightarrow> addr \<Rightarrow> unit emit" where
  "arch_6502_trap cpu pc =
     e_bind (CONSTs 16 (uint pc)) (\<lambda>v_pc.
     e_seq (e_store v_pc (ptr_PC cpu))
     (e_bind (CONSTs 32 JIT_RETURN_TRAP) (\<lambda>r. e_do (ReturnInst r))))"

definition arch_6502_translate_cond :: "xcpu \<Rightarrow> ram \<Rightarrow> addr \<Rightarrow> lval option emit" where
  "arch_6502_translate_cond cpu m pc =
     (let some = (\<lambda>e. e_bind e (\<lambda>v. e_ret (Some v))) in
      case get_instr (m pc) of
        INSTR_BEQ \<Rightarrow> some (CC_EQ cpu)
      | INSTR_BNE \<Rightarrow> some (CC_NE cpu)
      | INSTR_BCS \<Rightarrow> some (CC_CS cpu)
      | INSTR_BCC \<Rightarrow> some (CC_CC cpu)
      | INSTR_BMI \<Rightarrow> some (CC_MI cpu)
      | INSTR_BPL \<Rightarrow> some (CC_PL cpu)
      | INSTR_BVS \<Rightarrow> some (CC_VS cpu)
      | INSTR_BVC \<Rightarrow> some (CC_VC cpu)
      | _ \<Rightarrow> e_ret None)"

definition e_unit :: "'a emit \<Rightarrow> unit emit" where
  "e_unit e = e_seq e (e_ret ())"

definition ADC :: "xcpu \<Rightarrow> lval emit option \<Rightarrow> lval emit \<Rightarrow> lval emit \<Rightarrow> bool \<Rightarrow> bool \<Rightarrow> lval emit" where
  "ADC cpu dst src v plus_carry plus_one =
     e_bind (case dst of None \<Rightarrow> e_ret None | Some d \<Rightarrow> e_bind d (\<lambda>p. e_ret (Some p))) (\<lambda>d.
     e_bind src (\<lambda>s. e_bind v (\<lambda>x. arch_adc cpu d s x plus_carry plus_one)))"

definition SHIFTROTATE :: "xcpu \<Rightarrow> lval emit \<Rightarrow> lval emit \<Rightarrow> bool \<Rightarrow> bool \<Rightarrow> lval emit" where
  "SHIFTROTATE cpu dst src left rot =
     e_bind dst (\<lambda>d. e_bind src (\<lambda>s. arch_shiftrotate cpu d s left rot))"

fun arch_6502_emit :: "xcpu \<Rightarrow> ram \<Rightarrow> addr \<Rightarrow> m6502_instr \<Rightarrow> unit emit" where
  "arch_6502_emit cpu m pc INSTR_CLC = LET1 (ptr_of (ptr_C cpu)) (CONSTs 1 0)"
| "arch_6502_emit cpu m pc INSTR_CLD = LET1 (flag_ptr cpu D_SHIFT) (CONSTs 1 0)"
| "arch_6502_emit cpu m pc INSTR_CLI = LET1 (flag_ptr cpu I_SHIFT) (CONSTs 1 0)"
| "arch_6502_emit cpu m pc INSTR_CLV = LET1 (ptr_of (ptr_V cpu)) (CONSTs 1 0)"
| "arch_6502_emit cpu m pc INSTR_SEC = LET1 (ptr_of (ptr_C cpu)) (CONSTs 1 1)"
| "arch_6502_emit cpu m pc INSTR_SED = LET1 (flag_ptr cpu D_SHIFT) (CONSTs 1 1)"
| "arch_6502_emit cpu m pc INSTR_SEI = LET1 (flag_ptr cpu I_SHIFT) (CONSTs 1 1)"
| "arch_6502_emit cpu m pc INSTR_TAX = SET_NZ cpu (LET cpu X (R cpu A))"
| "arch_6502_emit cpu m pc INSTR_TAY = SET_NZ cpu (LET cpu Y (R cpu A))"
| "arch_6502_emit cpu m pc INSTR_TXA = SET_NZ cpu (LET cpu A (R cpu X))"
| "arch_6502_emit cpu m pc INSTR_TYA = SET_NZ cpu (LET cpu A (R cpu Y))"
| "arch_6502_emit cpu m pc INSTR_TSX = SET_NZ cpu (LET cpu X (R cpu S))"
| "arch_6502_emit cpu m pc INSTR_TXS = SET_NZ cpu (LET cpu S (R cpu X))"
| "arch_6502_emit cpu m pc INSTR_LDA = SET_NZ cpu (LET cpu A (OPERAND cpu m pc))"
| "arch_6502_emit cpu m pc INSTR_LDX = SET_NZ cpu (LET cpu X (OPERAND cpu m pc))"
| "arch_6502_emit cpu m pc INSTR_LDY = SET_NZ cpu (LET cpu Y (OPERAND cpu m pc))"
| "arch_6502_emit cpu m pc INSTR_STA = e_unit (STORE (R cpu A) (LOPERAND cpu m pc))"
| "arch_6502_emit cpu m pc INSTR_STX = e_unit (STORE (R cpu X) (LOPERAND cpu m pc))"
| "arch_6502_emit cpu m pc INSTR_STY = e_unit (STORE (R cpu Y) (LOPERAND cpu m pc))"
| "arch_6502_emit cpu m pc INSTR_PHA = PUSH cpu (R cpu A)"
| "arch_6502_emit cpu m pc INSTR_PHP = PUSH cpu (arch_flags_encode cpu)"
| "arch_6502_emit cpu m pc INSTR_PLA = SET_NZ cpu (LET cpu A (PULL cpu))"
| "arch_6502_emit cpu m pc INSTR_PLP = e_bind (PULL cpu) (arch_flags_decode cpu)"
| "arch_6502_emit cpu m pc INSTR_ASL = SET_NZ cpu (SHIFTROTATE cpu (LOPERAND cpu m pc) (LOPERAND cpu m pc) True False)"
| "arch_6502_emit cpu m pc INSTR_LSR = SET_NZ cpu (SHIFTROTATE cpu (LOPERAND cpu m pc) (LOPERAND cpu m pc) False False)"
| "arch_6502_emit cpu m pc INSTR_ROL = SET_NZ cpu (SHIFTROTATE cpu (LOPERAND cpu m pc) (LOPERAND cpu m pc) True True)"
| "arch_6502_emit cpu m pc INSTR_ROR = SET_NZ cpu (SHIFTROTATE cpu (LOPERAND cpu m pc) (LOPERAND cpu m pc) False True)"
| "arch_6502_emit cpu m pc INSTR_AND = SET_NZ cpu (LET cpu A (e_AND (R cpu A) (OPERAND cpu m pc)))"
| "arch_6502_emit cpu m pc INSTR_ORA = SET_NZ cpu (LET cpu A (e_OR (R cpu A) (OPERAND cpu m pc)))"
| "arch_6502_emit cpu m pc INSTR_EOR = SET_NZ cpu (LET cpu A (e_XOR (R cpu A) (OPERAND cpu m pc)))"
| "arch_6502_emit cpu m pc INSTR_BIT = SET_NZ cpu (OPERAND cpu m pc)"
| "arch_6502_emit cpu m pc INSTR_ADC = SET_NZ cpu (ADC cpu (Some (GPR cpu A)) (GPR cpu A) (OPERAND cpu m pc) True False)"
| "arch_6502_emit cpu m pc INSTR_SBC =
     SET_NZ cpu (ADC cpu (Some (GPR cpu A)) (GPR cpu A) (COM cpu (OPERAND cpu m pc)) True False)"
| "arch_6502_emit cpu m pc INSTR_CMP = SET_NZ cpu (ADC cpu None (GPR cpu A) (COM cpu (OPERAND cpu m pc)) False True)"
| "arch_6502_emit cpu m pc INSTR_CPX = SET_NZ cpu (ADC cpu None (GPR cpu X) (COM cpu (OPERAND cpu m pc)) False True)"
| "arch_6502_emit cpu m pc INSTR_CPY = SET_NZ cpu (ADC cpu None (GPR cpu Y) (COM cpu (OPERAND cpu m pc)) False True)"
| "arch_6502_emit cpu m pc INSTR_INX = SET_NZ cpu (LET cpu X (INC cpu (R cpu X)))"
| "arch_6502_emit cpu m pc INSTR_INY = SET_NZ cpu (LET cpu Y (INC cpu (R cpu Y)))"
| "arch_6502_emit cpu m pc INSTR_DEX = SET_NZ cpu (LET cpu X (DEC cpu (R cpu X)))"
| "arch_6502_emit cpu m pc INSTR_DEY = SET_NZ cpu (LET cpu Y (DEC cpu (R cpu Y)))"
| "arch_6502_emit cpu m pc INSTR_INC = SET_NZ cpu (STORE (INC cpu (OPERAND cpu m pc)) (LOPERAND cpu m pc))"
| "arch_6502_emit cpu m pc INSTR_DEC = SET_NZ cpu (STORE (DEC cpu (OPERAND cpu m pc)) (LOPERAND cpu m pc))"
| "arch_6502_emit cpu m pc INSTR_JMP =
     (if get_addmode (m pc) = ADDMODE_IND then
        e_bind (e_bind (CONSTs 32 (uint (OPERAND_16 m pc))) (LOAD_RAM16 cpu)) (\<lambda>v. e_store v (ptr_PC cpu))
      else e_ret ())"
| "arch_6502_emit cpu m pc INSTR_JSR = PUSH16 cpu (pc + 2)"
| "arch_6502_emit cpu m pc INSTR_RTS =
     e_unit (STORE (e_ADD (arch_6502_pull16 cpu) (CONSTs 16 1)) (e_ret (ptr_PC cpu)))"
| "arch_6502_emit cpu m pc INSTR_BEQ = e_ret ()"
| "arch_6502_emit cpu m pc INSTR_BNE = e_ret ()"
| "arch_6502_emit cpu m pc INSTR_BCS = e_ret ()"
| "arch_6502_emit cpu m pc INSTR_BCC = e_ret ()"
| "arch_6502_emit cpu m pc INSTR_BMI = e_ret ()"
| "arch_6502_emit cpu m pc INSTR_BPL = e_ret ()"
| "arch_6502_emit cpu m pc INSTR_BVS = e_ret ()"
| "arch_6502_emit cpu m pc INSTR_BVC = e_ret ()"
| "arch_6502_emit cpu m pc INSTR_NOP = e_ret ()"
| "arch_6502_emit cpu m pc INSTR_BRK = arch_6502_trap cpu pc"
| "arch_6502_emit cpu m pc INSTR_RTI = arch_6502_trap cpu pc"
| "arch_6502_emit cpu m pc INSTR_XXX = arch_6502_trap cpu pc"

definition arch_6502_translate_instr :: "xcpu \<Rightarrow> ram \<Rightarrow> addr \<Rightarrow> int emit" where
  "arch_6502_translate_instr cpu m pc =
     e_seq (arch_6502_emit cpu m pc (get_instr (m pc))) (e_ret (get_length (get_addmode (m pc))))"

section \<open>Opcodes and their operands\<close>

text \<open>
  The instructions that have an operand never come with a mode that has none, and a jump is absolute
  or indirect.
\<close>

definition has_operand :: "m6502_instr \<Rightarrow> bool" where
  "has_operand i \<longleftrightarrow> i \<in> {INSTR_LDA, INSTR_LDX, INSTR_LDY, INSTR_STA, INSTR_STX, INSTR_STY, INSTR_ASL, INSTR_LSR,
     INSTR_ROL, INSTR_ROR, INSTR_AND, INSTR_ORA, INSTR_EOR, INSTR_BIT, INSTR_ADC, INSTR_SBC, INSTR_CMP, INSTR_CPX,
     INSTR_CPY, INSTR_INC, INSTR_DEC}"

lemma opcode_modes:
  "(has_operand (get_instr b) \<longrightarrow> get_addmode b \<noteq> ADDMODE_IMPL \<and> get_addmode b \<noteq> ADDMODE_BRA) \<and>
   (get_instr b = INSTR_JMP \<longrightarrow> get_addmode b = ADDMODE_ABS \<or> get_addmode b = ADDMODE_IND)" (is "?P b")
proof (rule all_bytes)
  show "list_all (\<lambda>n. uint b = n \<longrightarrow> ?P b) [0..255]"
    unfolding list_all_iff
  proof
    fix n :: int
    assume "n \<in> set [0..255]"
    then show "uint b = n \<longrightarrow> ?P b"
      by (simp del: set_upto add: upto.simps)
         (elim disjE; simp add: get_instr_int get_addmode_int has_operand_def)
  qed
qed

lemmas operand_mode = opcode_modes [THEN conjunct1]
lemmas jmp_modes = opcode_modes [THEN conjunct2, THEN mp]

end
