(* ===== verification/M6502_Exec.thy ===== *)
theory M6502_Exec
  imports M6502_Translate "HOL-Library.Monad_Syntax"
begin

text \<open>
  The 6502 as a machine: its registers, flags and memory, and what each instruction does to
  them, as the instruction set describes it on bytes. The memory is the client's buffer, so an
  access outside of it has no result. The branches leave the program counter to the caller.
\<close>

section \<open>The machine\<close>

record m6502_state =
  reg :: "nat \<Rightarrow> byte"
  flag :: "nat \<Rightarrow> bool"
  pcr :: "16 word"
  mem :: "int \<Rightarrow> byte option"

definition set_reg :: "nat \<Rightarrow> byte \<Rightarrow> m6502_state \<Rightarrow> m6502_state" where
  "set_reg i x s = s\<lparr>reg := (reg s)(i := x)\<rparr>"

definition set_flag :: "nat \<Rightarrow> bool \<Rightarrow> m6502_state \<Rightarrow> m6502_state" where
  "set_flag i p s = s\<lparr>flag := (flag s)(i := p)\<rparr>"

definition set_nz :: "byte \<Rightarrow> m6502_state \<Rightarrow> m6502_state" where
  "set_nz x s = set_flag Z_SHIFT (x = 0) (set_flag N_SHIFT (bit x 7) s)"

definition word16 :: "byte \<Rightarrow> byte \<Rightarrow> 16 word" where
  "word16 lo hi = ucast lo OR push_bit 8 (ucast hi)"

definition read16 :: "m6502_state \<Rightarrow> int \<Rightarrow> 16 word option" where
  "read16 s a = do { lo \<leftarrow> mem s a; hi \<leftarrow> mem s (a + 1); Some (word16 lo hi) }"

section \<open>Addressing\<close>

text \<open>
  \<open>b\<close> and \<open>w\<close> are the byte and the word after the opcode. An indexed zero page address stays in
  the zero page and an indexed absolute one in 64 KiB; the pointer of an indirect mode is not
  wrapped at the end of the zero page, nor its indexed value at the end of the memory.
\<close>

fun effective_address :: "m6502_addmode \<Rightarrow> byte \<Rightarrow> 16 word \<Rightarrow> m6502_state \<Rightarrow> int option" where
  "effective_address ADDMODE_ABS b w s = Some (uint w)"
| "effective_address ADDMODE_ABSX b w s = Some (uint (w + ucast (reg s X)))"
| "effective_address ADDMODE_ABSY b w s = Some (uint (w + ucast (reg s Y)))"
| "effective_address ADDMODE_ZP b w s = Some (uint b)"
| "effective_address ADDMODE_ZPX b w s = Some (uint (b + reg s X))"
| "effective_address ADDMODE_ZPY b w s = Some (uint (b + reg s Y))"
| "effective_address ADDMODE_IND b w s = map_option uint (read16 s (uint b))"
| "effective_address ADDMODE_INDX b w s = map_option uint (read16 s (uint (b + reg s X)))"
| "effective_address ADDMODE_INDY b w s = map_option (\<lambda>p. uint p + uint (reg s Y)) (read16 s (uint b))"
| "effective_address _ b w s = None"

datatype place = Accumulator | Memory int

definition operand_place :: "m6502_addmode \<Rightarrow> byte \<Rightarrow> 16 word \<Rightarrow> m6502_state \<Rightarrow> place option" where
  "operand_place am b w s =
     (if am = ADDMODE_ACC then Some Accumulator else map_option Memory (effective_address am b w s))"

fun fetch :: "m6502_state \<Rightarrow> place \<Rightarrow> byte option" where
  "fetch s Accumulator = Some (reg s A)"
| "fetch s (Memory a) = mem s a"

fun put :: "place \<Rightarrow> byte \<Rightarrow> m6502_state \<Rightarrow> m6502_state option" where
  "put Accumulator x s = Some (set_reg A x s)"
| "put (Memory a) x s = (if mem s a = None then None else Some (s\<lparr>mem := (mem s)(a \<mapsto> x)\<rparr>))"

definition operand :: "m6502_addmode \<Rightarrow> byte \<Rightarrow> 16 word \<Rightarrow> m6502_state \<Rightarrow> byte option" where
  "operand am b w s =
     (if am = ADDMODE_IMM then Some b else Option.bind (operand_place am b w s) (fetch s))"

section \<open>The stack\<close>

definition tos :: "m6502_state \<Rightarrow> place" where
  "tos s = Memory (256 + uint (reg s S))"

definition push8 :: "byte \<Rightarrow> m6502_state \<Rightarrow> m6502_state option" where
  "push8 x s = do { t \<leftarrow> put (tos s) x s; Some (set_reg S (reg s S - 1) t) }"

definition pull8 :: "m6502_state \<Rightarrow> (byte \<times> m6502_state) option" where
  "pull8 s = (let t = set_reg S (reg s S + 1) s in do { x \<leftarrow> fetch t (tos t); Some (x, t) })"

definition status :: "m6502_state \<Rightarrow> byte" where
  "status s = horner_sum of_bool 2 (map (flag s) [0..<8])"

definition set_status :: "byte \<Rightarrow> m6502_state \<Rightarrow> m6502_state" where
  "set_status x s = s\<lparr>flag := (\<lambda>i. if i < 8 then bit x i else flag s i)\<rparr>"

section \<open>Instructions\<close>

definition transfer :: "nat \<Rightarrow> nat \<Rightarrow> m6502_state \<Rightarrow> m6502_state option" where
  "transfer i j s = Some (set_nz (reg s i) (set_reg j (reg s i) s))"

definition modify :: "m6502_addmode \<Rightarrow> byte \<Rightarrow> 16 word \<Rightarrow> (byte \<Rightarrow> byte \<times> bool) \<Rightarrow> m6502_state \<Rightarrow> m6502_state option" where
  "modify am b w f s = do {
     p \<leftarrow> operand_place am b w s;
     x \<leftarrow> fetch s p;
     t \<leftarrow> put p (fst (f x)) (set_flag C_SHIFT (snd (f x)) s);
     Some (set_nz (fst (f x)) t) }"

definition add :: "byte \<Rightarrow> m6502_state \<Rightarrow> m6502_state" where
  "add x s =
     (let k = of_bool (flag s C_SHIFT) :: byte; sum = reg s A + x + k in
      set_nz sum (set_reg A sum
        (set_flag C_SHIFT (2 ^ 8 \<le> uint (reg s A) + uint x + of_bool (flag s C_SHIFT)) s)))"

definition subtract :: "byte \<Rightarrow> m6502_state \<Rightarrow> m6502_state" where
  "subtract x s =
     (let borrow = \<not> flag s C_SHIFT; diff = reg s A - x - of_bool borrow in
      set_nz diff (set_reg A diff
        (set_flag C_SHIFT (uint x + of_bool borrow \<le> uint (reg s A)) s)))"

definition compare_with :: "byte \<Rightarrow> byte \<Rightarrow> m6502_state \<Rightarrow> m6502_state" where
  "compare_with r x s = set_nz (r - x) (set_flag C_SHIFT (x \<le> r) s)"

definition store_reg :: "m6502_addmode \<Rightarrow> byte \<Rightarrow> 16 word \<Rightarrow> nat \<Rightarrow> m6502_state \<Rightarrow> m6502_state option" where
  "store_reg am b w i s = do { p \<leftarrow> operand_place am b w s; put p (reg s i) s }"

definition load_reg :: "nat \<Rightarrow> byte \<Rightarrow> m6502_state \<Rightarrow> m6502_state" where
  "load_reg i x s = set_nz x (set_reg i x s)"

definition increment :: "m6502_addmode \<Rightarrow> byte \<Rightarrow> 16 word \<Rightarrow> byte \<Rightarrow> m6502_state \<Rightarrow> m6502_state option" where
  "increment am b w k s = do {
     p \<leftarrow> operand_place am b w s;
     x \<leftarrow> fetch s p;
     t \<leftarrow> put p (x + k) s;
     Some (set_nz (x + k) t) }"

fun m6502_exec :: "m6502_instr \<Rightarrow> m6502_addmode \<Rightarrow> byte \<Rightarrow> 16 word \<Rightarrow> addr \<Rightarrow> m6502_state \<Rightarrow> m6502_state option" where
  "m6502_exec INSTR_CLC am b w pc s = Some (set_flag C_SHIFT False s)"
| "m6502_exec INSTR_CLD am b w pc s = Some (set_flag D_SHIFT False s)"
| "m6502_exec INSTR_CLI am b w pc s = Some (set_flag I_SHIFT False s)"
| "m6502_exec INSTR_CLV am b w pc s = Some (set_flag V_SHIFT False s)"
| "m6502_exec INSTR_SEC am b w pc s = Some (set_flag C_SHIFT True s)"
| "m6502_exec INSTR_SED am b w pc s = Some (set_flag D_SHIFT True s)"
| "m6502_exec INSTR_SEI am b w pc s = Some (set_flag I_SHIFT True s)"
| "m6502_exec INSTR_TAX am b w pc s = transfer A X s"
| "m6502_exec INSTR_TAY am b w pc s = transfer A Y s"
| "m6502_exec INSTR_TXA am b w pc s = transfer X A s"
| "m6502_exec INSTR_TYA am b w pc s = transfer Y A s"
| "m6502_exec INSTR_TSX am b w pc s = transfer S X s"
| "m6502_exec INSTR_TXS am b w pc s = transfer X S s"
| "m6502_exec INSTR_LDA am b w pc s = map_option (\<lambda>x. load_reg A x s) (operand am b w s)"
| "m6502_exec INSTR_LDX am b w pc s = map_option (\<lambda>x. load_reg X x s) (operand am b w s)"
| "m6502_exec INSTR_LDY am b w pc s = map_option (\<lambda>x. load_reg Y x s) (operand am b w s)"
| "m6502_exec INSTR_STA am b w pc s = store_reg am b w A s"
| "m6502_exec INSTR_STX am b w pc s = store_reg am b w X s"
| "m6502_exec INSTR_STY am b w pc s = store_reg am b w Y s"
| "m6502_exec INSTR_PHA am b w pc s = push8 (reg s A) s"
| "m6502_exec INSTR_PHP am b w pc s = push8 (status s) s"
| "m6502_exec INSTR_PLA am b w pc s = do { (x, t) \<leftarrow> pull8 s; Some (load_reg A x t) }"
| "m6502_exec INSTR_PLP am b w pc s = do { (x, t) \<leftarrow> pull8 s; Some (set_status x t) }"
| "m6502_exec INSTR_ASL am b w pc s = modify am b w (\<lambda>x. (push_bit 1 x, bit x 7)) s"
| "m6502_exec INSTR_LSR am b w pc s = modify am b w (\<lambda>x. (drop_bit 1 x, bit x 0)) s"
| "m6502_exec INSTR_ROL am b w pc s = modify am b w (\<lambda>x. (push_bit 1 x OR of_bool (flag s C_SHIFT), bit x 7)) s"
| "m6502_exec INSTR_ROR am b w pc s = modify am b w (\<lambda>x. (drop_bit 1 x OR push_bit 7 (of_bool (flag s C_SHIFT)), bit x 0)) s"
| "m6502_exec INSTR_AND am b w pc s = map_option (\<lambda>x. load_reg A (reg s A AND x) s) (operand am b w s)"
| "m6502_exec INSTR_ORA am b w pc s = map_option (\<lambda>x. load_reg A (reg s A OR x) s) (operand am b w s)"
| "m6502_exec INSTR_EOR am b w pc s = map_option (\<lambda>x. load_reg A (reg s A XOR x) s) (operand am b w s)"
| "m6502_exec INSTR_BIT am b w pc s = map_option (\<lambda>x. set_nz x s) (operand am b w s)"
| "m6502_exec INSTR_ADC am b w pc s = map_option (\<lambda>x. add x s) (operand am b w s)"
| "m6502_exec INSTR_SBC am b w pc s = map_option (\<lambda>x. subtract x s) (operand am b w s)"
| "m6502_exec INSTR_CMP am b w pc s = map_option (\<lambda>x. compare_with (reg s A) x s) (operand am b w s)"
| "m6502_exec INSTR_CPX am b w pc s = map_option (\<lambda>x. compare_with (reg s X) x s) (operand am b w s)"
| "m6502_exec INSTR_CPY am b w pc s = map_option (\<lambda>x. compare_with (reg s Y) x s) (operand am b w s)"
| "m6502_exec INSTR_INX am b w pc s = Some (load_reg X (reg s X + 1) s)"
| "m6502_exec INSTR_INY am b w pc s = Some (load_reg Y (reg s Y + 1) s)"
| "m6502_exec INSTR_DEX am b w pc s = Some (load_reg X (reg s X - 1) s)"
| "m6502_exec INSTR_DEY am b w pc s = Some (load_reg Y (reg s Y - 1) s)"
| "m6502_exec INSTR_INC am b w pc s = increment am b w 1 s"
| "m6502_exec INSTR_DEC am b w pc s = increment am b w (- 1) s"
| "m6502_exec INSTR_JMP am b w pc s =
     (if am = ADDMODE_IND then map_option (\<lambda>t. s\<lparr>pcr := t\<rparr>) (read16 s (uint w)) else Some s)"
| "m6502_exec INSTR_JSR am b w pc s =
     do { t \<leftarrow> push8 (ucast (drop_bit 8 (pc + 2))) s; push8 (ucast (pc + 2)) t }"
| "m6502_exec INSTR_RTS am b w pc s =
     do { (lo, t) \<leftarrow> pull8 s; (hi, u) \<leftarrow> pull8 t; Some (u\<lparr>pcr := word16 lo hi + 1\<rparr>) }"
| "m6502_exec INSTR_BRK am b w pc s = None"
| "m6502_exec INSTR_RTI am b w pc s = None"
| "m6502_exec INSTR_XXX am b w pc s = None"
| "m6502_exec _ am b w pc s = Some s"

end
