(* ===== verification/M6502_Correct.thy ===== *)
theory M6502_Correct
  imports M6502_Exec
begin

text \<open>
  The code that the 6502 frontend emits does what the instruction does: run on a configuration
  that represents a machine state, it ends in one that represents the state after the
  instruction. The collection \<open>word_fold\<close> turns the integers of the generated code back into
  bytes.
\<close>

named_theorems word_fold \<open>integers of the generated code as words\<close>

declare split_of_bool [split del] split_of_bool_asm [split del]

section \<open>Words\<close>

lemma byte_bounds: "0 \<le> uint (x :: byte)" "uint (x :: byte) < 256"
  using unsigned_less [of x, where 'a = int] by simp_all

lemma half_bounds: "0 \<le> uint (w :: 16 word)" "uint (w :: 16 word) < 65536"
  using unsigned_less [of w, where 'a = int] by simp_all

lemma small_int: "0 \<le> y \<Longrightarrow> y < 2 ^ 31 \<Longrightarrow> signed_take_bit 31 y = (y :: int)"
  by (rule signed_take_bit_int_eq_self) (rule order_trans [of _ 0], simp_all)

lemma small_bits [word_fold]:
  "signed_take_bit 31 (uint (w :: 16 word)) = uint w" "take_bit 32 (uint w) = uint w"
  "signed_take_bit 31 (uint (x :: byte)) = uint x" "take_bit 32 (uint x) = uint x"
  "take_bit 16 (uint x) = uint x" "take_bit 8 (uint x) = uint x"
  "take_bit 32 (uint w + 1) = uint w + 1" "signed_take_bit 31 (uint w + 1) = uint w + 1"
  "take_bit 32 (uint x + 1) = uint x + 1" "signed_take_bit 31 (uint x + 1) = uint x + 1"
  "take_bit 32 (uint x + uint w) = uint x + uint w" "signed_take_bit 31 (uint x + uint w) = uint x + uint w"
  using byte_bounds [of x] half_bounds [of w] by (simp_all add: take_bit_int_eq_self small_int)

lemma masks: "y AND 0xFFFF = take_bit 16 (y :: int)" "y AND 0xFF = take_bit 8 (y :: int)"
  by (simp_all add: take_bit_eq_mask mask_eq_exp_minus_1)

lemma abs_index [word_fold]:
  "uint (w :: 16 word) AND 0xFFFF = uint w"
  "uint (x :: byte) + uint w AND 0xFFFF = uint (w + ucast x)"
  "\<not> 0xFF00 \<le> w \<Longrightarrow> uint x + uint w = uint (w + ucast x)"
proof -
  show "uint w AND 0xFFFF = uint w" using half_bounds [of w] by (simp add: masks take_bit_int_eq_self)
  have b: "uint x mod 65536 = uint x" using byte_bounds [of x] by simp
  show "uint x + uint w AND 0xFFFF = uint (w + ucast x)"
    by (simp add: masks uint_word_ariths take_bit_eq_mod unsigned_ucast_eq add.commute b)
  assume "\<not> 0xFF00 \<le> w"
  then have "uint w < 0xFF00" by (simp add: word_le_def)
  with byte_bounds [of x] half_bounds [of w] show "uint x + uint w = uint (w + ucast x)"
    by (simp add: uint_word_ariths take_bit_eq_mod unsigned_ucast_eq add.commute)
qed

lemma zp_index [word_fold]:
  "take_bit 32 (uint (x :: byte) + uint b) AND 0xFF = uint (b + x)"
  "take_bit 16 (push_bit 8 (uint b)) = push_bit 8 (uint b)"
  "uint (b :: byte) AND 0xFF = uint b"
  "uint (ucast b :: 16 word) = uint b"
proof -
  show "take_bit 32 (uint x + uint b) AND 0xFF = uint (b + x)"
    by (simp add: masks uint_word_ariths take_bit_eq_mod add.commute mod_mod_cancel)
  show "take_bit 16 (push_bit 8 (uint b)) = push_bit 8 (uint b)" "uint b AND 0xFF = uint b"
    using byte_bounds [of b] by (simp_all add: masks take_bit_int_eq_self push_bit_eq_mult)
  show "uint (ucast b :: 16 word) = uint b"
    using byte_bounds [of b] by (simp add: unsigned_ucast_eq take_bit_int_eq_self)
qed

lemma word16_uint [word_fold]: "uint lo OR push_bit 8 (uint hi) = uint (word16 lo hi)"
  by (rule bit_eqI) (auto simp: bit_simps word16_def dest: bit_imp_le_length)

lemma byte_arith [word_fold]:
  "take_bit 16 (uint a + uint b) = uint a + uint b"
  "take_bit 16 (uint a + uint b + of_bool k) = uint a + uint b + of_bool k"
  "take_bit 16 (uint a + uint b + 1) = uint a + uint b + 1"
  "take_bit 8 (uint a + uint b + of_bool k) = uint (a + b + of_bool k)"
  "take_bit 8 (uint a + uint b + 1) = uint (a + b + 1)"
  "take_bit 8 (uint a + 1) = uint (a + 1)"
  "take_bit 8 (uint a - 1) = uint (a - 1)"
  "take_bit 16 (uint w + 1) = uint (w + 1)"
  for a b :: byte and w :: "16 word"
proof -
  show "take_bit 16 (uint a + uint b) = uint a + uint b"
    "take_bit 16 (uint a + uint b + of_bool k) = uint a + uint b + of_bool k"
    "take_bit 16 (uint a + uint b + 1) = uint a + uint b + 1"
    using byte_bounds [of a] byte_bounds [of b] by (simp_all add: take_bit_int_eq_self of_bool_def)
  show "take_bit 8 (uint a + uint b + of_bool k) = uint (a + b + of_bool k)"
    "take_bit 8 (uint a + uint b + 1) = uint (a + b + 1)" "take_bit 16 (uint w + 1) = uint (w + 1)"
    "take_bit 8 (uint a + 1) = uint (a + 1)" "take_bit 8 (uint a - 1) = uint (a - 1)"
    by (simp_all add: uint_word_ariths take_bit_eq_mod mod_simps of_bool_def)
qed

lemma carry_out [word_fold]:
  "drop_bit 8 (uint a + uint b + of_bool k) mod 2 = of_bool (256 \<le> uint a + uint b + of_bool k)"
  "drop_bit 8 (uint a + uint b + 1) mod 2 = of_bool (256 \<le> uint a + uint b + 1)" for a b :: byte
proof -
  have d: "drop_bit 8 n mod 2 = of_bool (256 \<le> n)" if "0 \<le> n" "n < 512" for n :: int
    using that by (auto simp: drop_bit_eq_div of_bool_def)
  show "drop_bit 8 (uint a + uint b + of_bool k) mod 2 = of_bool (256 \<le> uint a + uint b + of_bool k)"
    "drop_bit 8 (uint a + uint b + 1) mod 2 = of_bool (256 \<le> uint a + uint b + 1)"
    by (rule d; use byte_bounds [of a] byte_bounds [of b] in \<open>simp add: of_bool_def\<close>)+
qed

lemma byte_bits [word_fold]:
  "uint a XOR mask 8 = uint (NOT a)" "bit (uint a) n = bit a n" "uint a = 0 \<longleftrightarrow> a = 0"
  "uint a AND uint b = uint (a AND b)" "uint a OR uint b = uint (a OR b)" "uint a XOR uint b = uint (a XOR b)"
  "take_bit 8 (uint a * 2) = uint (a * 2)" "drop_bit (Suc 0) (uint a) = uint (drop_bit 1 a)"
  "uint a mod 2 = of_bool (bit a 0)" "uint a OR of_bool k = uint (a OR of_bool k)"
  "uint a OR take_bit 8 (push_bit 7 (of_bool k)) = uint (a OR push_bit 7 (of_bool k))" for a b :: byte
proof -
  show "uint a XOR mask 8 = uint (NOT a)"
    by (rule bit_eqI) (auto simp: bit_simps dest: bit_imp_le_length)
  show "take_bit 8 (uint a * 2) = uint (a * 2)"
    by (simp add: uint_word_ariths take_bit_eq_mod)
  show "drop_bit (Suc 0) (uint a) = uint (drop_bit 1 a)"
    by (simp_all only: unsigned_push_bit_eq unsigned_drop_bit_eq One_nat_def) (simp_all add: take_bit_int_eq_self byte_bounds)
  have "bit (uint a) 0 = bit a 0" by (simp add: bit_unsigned_iff)
  then show "uint a mod 2 = of_bool (bit a 0)" by (simp add: bit_0 mod_2_eq_odd)
qed (auto simp: bit_uint_iff unsigned_eq_0_iff unsigned_and_eq unsigned_or_eq unsigned_xor_eq of_bool_def dest: bit_imp_le_length)

lemma not_uint: "uint (NOT x) = 255 - uint x" for x :: byte
proof -
  have "- uint x - 1 = 255 - uint x - 256" by simp
  then have "uint (NOT x) = (255 - uint x - 256) mod 256"
    unfolding unsigned_not_eq by (simp add: take_bit_eq_mod not_eq_complement minus_diff_commute [of _ 1])
  also have "\<dots> = 255 - uint x" unfolding minus_mod_self2
    by (rule mod_pos_pos_trivial) (use byte_bounds [of x] in linarith)+
  finally show ?thesis .
qed

lemma complement_sum:
  "256 \<le> uint a + uint (NOT x) + 1 \<longleftrightarrow> x \<le> a" "a + NOT x + 1 = a - x"
  "256 \<le> uint a + uint (NOT x) + of_bool k \<longleftrightarrow> uint x + of_bool (\<not> k) \<le> uint a"
  "a + NOT x + of_bool k = a - x - of_bool (\<not> k)" for a x :: byte
  unfolding not_uint word_le_def by (auto simp: of_bool_def not_eq_complement)

lemma stack_address [word_fold]: "signed_take_bit 31 (uint x OR 256) = 256 + uint x" for x :: byte
proof -
  have "uint x AND 256 = 0"
    using bit_exp_iff [of 8, where 'a = int] by (intro bit_eqI) (auto simp: bit_simps dest!: bit_imp_le_length)
  then have "uint x OR 256 = 256 + uint x" by (metis disjunctive_add_eq_or add.commute)
  then show ?thesis using byte_bounds [of x] by (simp add: small_int)
qed

section \<open>Representing the machine\<close>

text \<open>
  \<open>b\<close> is what else the store holds: the register file of the client, the copy of the status
  register, the exit code.
\<close>

fun rep :: "m6502_state \<Rightarrow> ptr \<Rightarrow> (nat \<times> int option) option" where
  "rep s (GprPtr i) = (if i < 4 then Some (8, Some (uint (reg s i))) else None)"
| "rep s (FlagPtr i) = (if i < 8 then Some (1, Some (of_bool (flag s i))) else None)"
| "rep s PcPtr = Some (16, Some (uint (pcr s)))"
| "rep s _ = None"

definition represents :: "(ptr \<Rightarrow> (nat \<times> int option) option) \<Rightarrow> m6502_state \<Rightarrow> config \<Rightarrow> bool" where
  "represents b s c \<longleftrightarrow> cells c = b ++ rep s \<and> ram c = mem s"

lemma rep_lookup [simp]:
  "i < 4 \<Longrightarrow> (b ++ rep s) (GprPtr i) = Some (8, Some (uint (reg s i)))"
  "i < 8 \<Longrightarrow> (b ++ rep s) (FlagPtr i) = Some (Suc 0, Some (of_bool (flag s i)))"
  "(b ++ rep s) PcPtr = Some (16, Some (uint (pcr s)))"
  by (simp_all add: map_add_def)

lemma set_simps [simp]:
  "mem (set_reg i x s) = mem s" "mem (set_flag i p s) = mem s"
  "pcr (set_reg i x s) = pcr s" "pcr (set_flag i p s) = pcr s"
  "flag (set_reg i x s) = flag s" "reg (set_flag i p s) = reg s"
  "reg (set_reg i x s) = (reg s)(i := x)" "flag (set_flag i p s) = (flag s)(i := p)"
  "rep (s\<lparr>mem := y\<rparr>) = rep s"
  "set_reg i x (s\<lparr>mem := y\<rparr>) = (set_reg i x s)\<lparr>mem := y\<rparr>"
  "set_flag i p (s\<lparr>mem := y\<rparr>) = (set_flag i p s)\<lparr>mem := y\<rparr>"
proof -
  show "rep (s\<lparr>mem := y\<rparr>) = rep s" by (rule ext) (rename_tac q, case_tac q, simp_all)
qed (simp_all add: set_reg_def set_flag_def)

lemma rep_reg: "i < 4 \<Longrightarrow> (b ++ rep s)(GprPtr i \<mapsto> (8, Some (uint x))) = b ++ rep (set_reg i x s)"
  by (rule ext) (rename_tac q, case_tac q, simp_all add: map_add_def set_reg_def)

lemma rep_flag: "i < 8 \<Longrightarrow> (b ++ rep s)(FlagPtr i \<mapsto> (Suc 0, Some (of_bool p))) = b ++ rep (set_flag i p s)"
  by (rule ext) (rename_tac q, case_tac q, simp_all add: map_add_def set_flag_def)

lemma rep_pc: "(b ++ rep s)(PcPtr \<mapsto> (16, Some (uint w))) = b ++ rep (s\<lparr>pcr := w\<rparr>)"
  by (rule ext) (rename_tac q, case_tac q, simp_all add: map_add_def)

lemmas rep_updates = rep_reg rep_flag rep_pc
  rep_flag [where p = True, simplified of_bool_eq] rep_flag [where p = False, simplified of_bool_eq]

lemma init_simps [simp]:
  "word_size (cpu_6502 w) = 8" "gpr_count (cpu_6502 w) = 4" "psr_size (cpu_6502 w) = 8"
  "ptr_N (cpu_6502 w) = Some (Address (FlagPtr N_SHIFT) (IntTy 1))"
  "ptr_V (cpu_6502 w) = Some (Address (FlagPtr V_SHIFT) (IntTy 1))"
  "ptr_Z (cpu_6502 w) = Some (Address (FlagPtr Z_SHIFT) (IntTy 1))"
  "ptr_C (cpu_6502 w) = Some (Address (FlagPtr C_SHIFT) (IntTy 1))"
  "ptr_PC (cpu_6502 w) = Address PcPtr (IntTy 16)" "ptr_RAM (cpu_6502 w) = Address (RamPtr 0) (IntTy 8)"
  "HAS_SPECIAL_GPR0 (cpu_6502 w) = False" "flags_layout (cpu_6502 w) = arch_6502_flags_layout"
  "i < 5 \<Longrightarrow> nth_res (register_bits (cpu_6502 w)) i = Inr 8"
  "i < 4 \<Longrightarrow> nth_res (ptr_gpr (cpu_6502 w)) i = Inr (Address (GprPtr i) (IntTy 8))"
  "i < 8 \<Longrightarrow> nth_res (ptr_FLAG (cpu_6502 w)) i = Inr (Some (Address (FlagPtr i) (IntTy 1)))"
  by (auto simp: cpu_6502_def arch_6502_init_def HAS_SPECIAL_GPR0_def has_def nth_res_def less_Suc_eq numeral_eq_Suc)

section \<open>The macros\<close>

lemma R_wp [emitters]:
  "i < 4 \<Longrightarrow> wp (langref big) (R (cpu_6502 w) i) Q = wp (langref big) (e_load (Address (GprPtr i) (IntTy 8))) Q"
  by (simp add: R_def arch_get_reg_def)

lemma LET_wp [emitters]:
  "i < 4 \<Longrightarrow> wp (langref big) (LET (cpu_6502 w) i v) Q =
    wp (langref big) v (\<lambda>x. wp (langref big) (e_do (StoreInst x (Address (GprPtr i) (IntTy 8)))) (\<lambda>_. Q x))"
  by (simp add: LET_def arch_put_reg_def e_store_def)

lemma GPR_wp [emitters]:
  "i < 4 \<Longrightarrow> wp (langref big) (GPR (cpu_6502 w) i) Q = Q (Address (GprPtr i) (IntTy 8))"
  by (simp add: GPR_def)

declare GEP_def [emitters] LOAD_RAM8_def [emitters] LOAD_RAM16_def [emitters] TOS_def [emitters] ADC_def [emitters] e_unit_def [emitters]

section \<open>Operands\<close>

abbreviation at_mode :: "(m6502_addmode \<Rightarrow> byte \<Rightarrow> 16 word \<Rightarrow> 'a) \<Rightarrow> ram \<Rightarrow> addr \<Rightarrow> 'a" where
  "at_mode f m pc \<equiv> f (get_addmode (m pc)) (OPERAND_8 m pc) (OPERAND_16 m pc)"

lemma place_lands:
  assumes rel: "represents b s c" and ea: "at_mode effective_address m pc s = Some a"
  shows "wp (langref big) (LOPERAND (cpu_6502 w) m pc) (lands c (PtrTy (IntTy 8)) (VPtr (RamPtr a))) c"
proof -
  note emit = emitters LOPERAND_def arch_6502_get_operand_lvalue_def lands_def Let_def word_fold
    read16_def bind_eq_Some_conv
  show ?thesis using rel ea unfolding represents_def
    by (cases "get_addmode (m pc)") (simp, auto simp: emit)+
qed

lemma operand_lands:
  assumes rel: "represents b s c" and op: "at_mode operand m pc s = Some x"
  shows "wp (langref big) (OPERAND (cpu_6502 w) m pc) (lands c (IntTy 8) (VInt 8 (uint x))) c"
proof -
  note emit = emitters OPERAND_def LOPERAND_def arch_6502_get_operand_lvalue_def lands_def word_fold
  consider (imm) "get_addmode (m pc) = ADDMODE_IMM" | (acc) "get_addmode (m pc) = ADDMODE_ACC"
    | (place) a where "at_mode effective_address m pc s = Some a" and "mem s a = Some x"
    using op by (auto simp: operand_def operand_place_def bind_eq_Some_conv split: if_splits)
  then show ?thesis
  proof cases
    case imm
    with op show ?thesis by (simp add: emit operand_def)
  next
    case acc
    with op rel show ?thesis by (simp add: emit operand_def operand_place_def represents_def)
  next
    case (place a)
    from rel place show ?thesis
      unfolding OPERAND_def LOAD_def wp_bind e_load_def
      by (intro wp_lands [OF place_lands [OF rel place(1)]]) (simp add: wp_inst represents_def lands_def)
  qed
qed

text \<open>\<open>OPERAND\<close> in the middle of an expression: what it leaves untouched, and what it yields.\<close>

lemma operand_wp:
  assumes "represents b s c" and "at_mode operand m pc s = Some x"
    and "\<And>d k. k < position d \<Longrightarrow> results d k = VInt 8 (uint x) \<Longrightarrow> cells d = b ++ rep s \<Longrightarrow> ram d = mem s \<Longrightarrow>
      (\<And>i. i < position c \<Longrightarrow> results d i = results c i) \<Longrightarrow> position c \<le> position d \<Longrightarrow> Q (Result k (IntTy 8)) d"
  shows "wp (langref big) (OPERAND (cpu_6502 w) m pc) Q c"
  using assms(1) by (intro wp_lands [OF operand_lands [OF assms(1,2)]] assms(3)) (simp_all add: represents_def)

lemma place_wp:
  assumes "represents b s c" and "at_mode effective_address m pc s = Some a"
    and "\<And>d k. k < position d \<Longrightarrow> results d k = VPtr (RamPtr a) \<Longrightarrow> cells d = b ++ rep s \<Longrightarrow> ram d = mem s \<Longrightarrow>
      (\<And>i. i < position c \<Longrightarrow> results d i = results c i) \<Longrightarrow> position c \<le> position d \<Longrightarrow> Q (Result k (PtrTy (IntTy 8))) d"
  shows "wp (langref big) (LOPERAND (cpu_6502 w) m pc) Q c"
  using assms(1) by (intro wp_lands [OF place_lands [OF assms(1,2)]] assms(3)) (simp_all add: represents_def)

section \<open>Instructions\<close>

lemmas outcome = represents_def rep_updates word_fold complement_sum load_reg_def set_nz_def add_def subtract_def
  compare_with_def transfer_def Let_def

lemma emit_operand:
  assumes "represents b s c" and "at_mode operand m pc s = Some x"
  shows "i < 4 \<Longrightarrow> wp (langref big) (SET_NZ (cpu_6502 w) (LET (cpu_6502 w) i (OPERAND (cpu_6502 w) m pc)))
      (\<lambda>_. represents b (load_reg i x s)) c"
    and "wp (langref big) (arch_6502_emit (cpu_6502 w) m pc INSTR_AND) (\<lambda>_. represents b (load_reg A (reg s A AND x) s)) c"
    and "wp (langref big) (arch_6502_emit (cpu_6502 w) m pc INSTR_ORA) (\<lambda>_. represents b (load_reg A (reg s A OR x) s)) c"
    and "wp (langref big) (arch_6502_emit (cpu_6502 w) m pc INSTR_EOR) (\<lambda>_. represents b (load_reg A (reg s A XOR x) s)) c"
    and "wp (langref big) (arch_6502_emit (cpu_6502 w) m pc INSTR_BIT) (\<lambda>_. represents b (set_nz x s)) c"
    and "wp (langref big) (arch_6502_emit (cpu_6502 w) m pc INSTR_ADC) (\<lambda>_. represents b (add x s)) c"
    and "wp (langref big) (arch_6502_emit (cpu_6502 w) m pc INSTR_SBC) (\<lambda>_. represents b (subtract x s)) c"
    and "i < 4 \<Longrightarrow> wp (langref big) (SET_NZ (cpu_6502 w)
        (ADC (cpu_6502 w) None (GPR (cpu_6502 w) i) (COM (cpu_6502 w) (OPERAND (cpu_6502 w) m pc)) False True))
      (\<lambda>_. represents b (compare_with (reg s i) x s)) c"
  using assms(1)
  by (simp add: emitters represents_def, intro operand_wp [where b = b, OF _ assms(2)];
      simp add: emitters outcome)+

lemma emit_accumulator:
  assumes "get_addmode (m pc) = ADDMODE_ACC"
  shows "LOPERAND (cpu_6502 w) m pc = e_bind (GPR (cpu_6502 w) A) (\<lambda>p. ptr_of (Some p))"
  using assms by (auto simp: LOPERAND_def arch_6502_get_operand_lvalue_def ptr_of_def GPR_def e_bind_def e_res_def e_ret_def)

lemma emit_store_reg:
  assumes "represents b s c" and "at_mode store_reg m pc i s = Some t" and "i < 4"
  shows "wp (langref big) (e_unit (STORE (R (cpu_6502 w) i) (LOPERAND (cpu_6502 w) m pc))) (\<lambda>_. represents b t) c"
proof (cases "get_addmode (m pc) = ADDMODE_ACC")
  case True
  with assms show ?thesis
    by (auto simp: store_reg_def operand_place_def emit_accumulator emitters outcome)
next
  case False
  with assms(2) obtain a x where ea: "at_mode effective_address m pc s = Some a" and x: "mem s a = Some x"
    and t: "t = s\<lparr>mem := (mem s)(a \<mapsto> reg s i)\<rparr>"
    by (auto simp: store_reg_def operand_place_def bind_eq_Some_conv split: if_splits)
  show ?thesis using assms(1,3)
    by (simp add: emitters represents_def, intro place_wp [where b = b, OF _ ea]; simp add: emitters outcome x t)
qed

lemma emit_modify:
  assumes "represents b s c" and "at_mode modify m pc f s = Some t"
    and f: "f = (\<lambda>x. (if left then push_bit 1 x OR of_bool (rot \<and> flag s C_SHIFT)
                      else drop_bit 1 x OR push_bit 7 (of_bool (rot \<and> flag s C_SHIFT)), bit x (if left then 7 else 0)))"
  shows "wp (langref big) (SET_NZ (cpu_6502 w) (SHIFTROTATE (cpu_6502 w)
      (LOPERAND (cpu_6502 w) m pc) (LOPERAND (cpu_6502 w) m pc) left rot)) (\<lambda>_. represents b t) c"
proof (cases "get_addmode (m pc) = ADDMODE_ACC")
  case True
  with assms show ?thesis
    by (auto simp: modify_def operand_place_def emit_accumulator emitters outcome SHIFTROTATE_def arch_shiftrotate_def)
next
  case False
  with assms(2) obtain a x where ea: "at_mode effective_address m pc s = Some a" and x: "mem s a = Some x"
    and t: "t = set_nz (fst (f x)) (set_flag C_SHIFT (snd (f x)) (s\<lparr>mem := (mem s)(a \<mapsto> fst (f x))\<rparr>))"
    by (auto simp: modify_def operand_place_def bind_eq_Some_conv split: if_splits)
  have shift: "wp (langref big) (SET_NZ (cpu_6502 w) (arch_shiftrotate (cpu_6502 w)
        (Result k (PtrTy (IntTy 8))) (Result l (PtrTy (IntTy 8))) left rot)) (\<lambda>_. represents b t) d"
    if "k < position d" "l < position d" "results d k = VPtr (RamPtr a)" "results d l = VPtr (RamPtr a)"
      "cells d = b ++ rep s" "ram d = mem s" for k l d
    using that by (cases left; cases rot) (simp_all add: arch_shiftrotate_def emitters outcome x t f)
  show ?thesis unfolding SHIFTROTATE_def SET_NZ_def wp_bind
    by (rule place_wp [OF assms(1) ea], rule place_wp [where b = b, OF _ ea], simp add: represents_def)
       (use shift in \<open>simp add: SET_NZ_def\<close>)
qed

lemma emit_increment:
  assumes "represents b s c" and "at_mode increment m pc k s = Some t"
   and k: "k = (if up then 1 else -1)"
  shows "wp (langref big) (SET_NZ (cpu_6502 w) (STORE ((if up then INC else DEC) (cpu_6502 w)
      (OPERAND (cpu_6502 w) m pc)) (LOPERAND (cpu_6502 w) m pc))) (\<lambda>_. represents b t) c"
proof (cases "get_addmode (m pc) = ADDMODE_ACC")
  case True
  with assms show ?thesis
    by (auto simp: increment_def operand_place_def emit_accumulator emitters outcome OPERAND_def)
next
  case False
  with assms(2) obtain a x where ea: "at_mode effective_address m pc s = Some a" and x: "mem s a = Some x"
    and t: "t = set_nz (x + k) (s\<lparr>mem := (mem s)(a \<mapsto> x + k)\<rparr>)"
    by (auto simp: increment_def operand_place_def bind_eq_Some_conv split: if_splits)
  show ?thesis using assms(1) 
    apply (cases up)
    apply (simp_all add: emitters represents_def OPERAND_def)
    apply (intro place_wp [where b = b, OF _ ea]; simp add: represents_def emitters x)
    apply (intro place_wp [where b = b, OF _ ea]; simp add: emitters outcome x t k)
    apply (intro place_wp [where b = b, OF _ ea]; simp add: represents_def emitters x)
    apply (intro place_wp [where b = b, OF _ ea]; simp add: emitters outcome x t k)
    done
qed

lemma emit_push:
  assumes "cells c = b ++ rep s" "ram c = mem s" and t: "push8 x s = Some t"
    and v: "wp (langref big) v (lands c (IntTy 8) (VInt 8 (uint x))) c"
    and Q: "\<And>d. cells d = b ++ rep t \<Longrightarrow> ram d = mem t \<Longrightarrow> Q () d"
  shows "wp (langref big) (PUSH (cpu_6502 w) v) Q c"
  using t assms(1,2) by (simp add: emitters PUSH_def, intro wp_lands [OF v]) 
   (auto simp add: emitters outcome push8_def tos_def bind_eq_Some_conv intro!: Q split: if_splits)

lemma emit_pull:
  assumes "cells c = b ++ rep s" "ram c = mem s" and t: "pull8 s = Some (x, t)"
    and Q: "\<And>d k. k < position d \<Longrightarrow> results d k = VInt 8 (uint x) \<Longrightarrow> cells d = b ++ rep t \<Longrightarrow> ram d = mem t \<Longrightarrow>
      (\<And>i. i < position c \<Longrightarrow> results d i = results c i) \<Longrightarrow> position c \<le> position d \<Longrightarrow> Q (Result k (IntTy 8)) d"
  shows "wp (langref big) (PULL (cpu_6502 w)) Q c"
  using t assms(1,2)
  by (auto simp add: emitters outcome PULL_def pull8_def tos_def bind_eq_Some_conv intro!: Q split: if_splits)

lemma status_bits: "bit (status s) i \<longleftrightarrow> i < 8 \<and> flag s i"
  by (auto simp: status_def bit_horner_sum_bit_word_iff)

lemma lands_encode:
  assumes "cells c = b ++ rep s" "ram c = mem s"
  shows "wp (langref big) (arch_flags_encode (cpu_6502 w)) (lands c (IntTy 8) (VInt 8 (uint (status s)))) c"
proof -
  have b: "bit (take_bit 8 (push_bit k (of_bool p)) :: int) n \<longleftrightarrow> n < 8 \<and> n = k \<and> p" for k n p
    by (simp only: bit_take_bit_iff bit_push_bit_iff_int bit_of_bool_iff) auto
  have "take_bit 8 (push_bit 7 (of_bool (flag s 7))) OR take_bit 8 (push_bit 6 (of_bool (flag s 6))) OR
      take_bit 8 (push_bit 5 (of_bool (flag s 5))) OR take_bit 8 (push_bit 4 (of_bool (flag s 4))) OR
      take_bit 8 (push_bit 3 (of_bool (flag s 3))) OR take_bit 8 (push_bit 2 (of_bool (flag s 2))) OR
      take_bit 8 (push_bit 1 (of_bool (flag s 1))) OR take_bit 8 (push_bit 0 (of_bool (flag s 0))) = uint (status s)"
    by (rule bit_eqI, simp only: bit_or_iff b byte_bits(2) status_bits) (auto simp: less_Suc_eq numeral_eq_Suc)
  then show ?thesis using assms
    by (simp add: arch_flags_encode_def arch_6502_flags_layout_def arch_encode_bit_def emitters)
       (simp add: lands_def or.assoc)
qed

lemma decoded_flag: "drop_bit n (uint x) mod 2 = of_bool (bit x n)" "uint x mod 2 = of_bool (bit x 0)" for x :: byte
proof -
  show "drop_bit n (uint x) mod 2 = of_bool (bit x n)"
    using byte_bits(2) [of x n] by (simp only: bit_iff_odd_drop_bit mod_2_eq_odd)
  show "uint x mod 2 = of_bool (bit x 0)" by (simp add: word_fold)
qed

lemma emit_decode:
  assumes "cells c = b ++ rep s" "ram c = mem s" "k < position c" "results c k = VInt 8 (uint x)"
  shows "wp (langref big) (arch_flags_decode (cpu_6502 w) (Result k (IntTy 8)))
    (\<lambda>_. represents b (set_status x s)) c"
proof -
  have "set_flag 0 (bit x 0) (set_flag 1 (bit x 1) (set_flag 2 (bit x 2) (set_flag 3 (bit x 3) (set_flag 4 (bit x 4)
      (set_flag 5 (bit x 5) (set_flag 6 (bit x 6) (set_flag 7 (bit x 7) s))))))) = set_status x s"
    by (auto simp: set_status_def set_flag_def less_Suc_eq numeral_eq_Suc intro!: m6502_state.equality ext)
  then show ?thesis
  using assms
  by (simp add: represents_def arch_flags_decode_def arch_6502_flags_layout_def arch_decode_bit_def emitters decoded_flag rep_updates)
     (simp add: set_status_def)
qed

lemma emit_push_const:
  assumes "cells c = b ++ rep s" "ram c = mem s" and t: "push8 x s = Some t" and v: "take_bit 8 v = uint x"
    and Q: "\<And>d. cells d = b ++ rep t \<Longrightarrow> ram d = mem t \<Longrightarrow> Q () d"
  shows "wp (langref big) (PUSH (cpu_6502 w) (CONSTs 8 v)) Q c"
  using t assms(1,2)
  by (auto simp: emitters outcome v push8_def tos_def bind_eq_Some_conv PUSH_def intro!: Q split: if_splits)

lemma emit_stack:
  assumes "represents b s c"
  shows "push8 (reg s A) s = Some t \<Longrightarrow>
      wp (langref big) (arch_6502_emit (cpu_6502 w) m pc INSTR_PHA) (\<lambda>_. represents b t) c"
    and "push8 (status s) s = Some t \<Longrightarrow>
      wp (langref big) (arch_6502_emit (cpu_6502 w) m pc INSTR_PHP) (\<lambda>_. represents b t) c"
    and "pull8 s = Some (x, u) \<Longrightarrow>
      wp (langref big) (arch_6502_emit (cpu_6502 w) m pc INSTR_PLA) (\<lambda>_. represents b (load_reg A x u)) c"
    and "pull8 s = Some (x, u) \<Longrightarrow>
      wp (langref big) (arch_6502_emit (cpu_6502 w) m pc INSTR_PLP) (\<lambda>_. represents b (set_status x u)) c"
    and "pull8 s = Some (x, u) \<Longrightarrow> pull8 u = Some (y, v) \<Longrightarrow>
      wp (langref big) (arch_6502_emit (cpu_6502 w) m pc INSTR_RTS)
        (\<lambda>_. represents b (v\<lparr>pcr := word16 x y + 1\<rparr>)) c"
    and "push8 (ucast (drop_bit 8 (pc + 2))) s = Some u \<Longrightarrow> push8 (ucast (pc + 2)) u = Some t \<Longrightarrow>
      wp (langref big) (arch_6502_emit (cpu_6502 w) m pc INSTR_JSR) (\<lambda>_. represents b t) c"
proof -
  have rel: "cells c = b ++ rep s" "ram c = mem s" using assms by (simp_all add: represents_def)
  have A: "wp (langref big) (R (cpu_6502 w) A) (lands c (IntTy 8) (VInt 8 (uint (reg s A)))) c"
    using rel by (simp add: emitters lands_def)
  show "push8 (reg s A) s = Some t \<Longrightarrow>
      wp (langref big) (arch_6502_emit (cpu_6502 w) m pc INSTR_PHA) (\<lambda>_. represents b t) c"
    using emit_push [OF rel _ A] by (simp add: represents_def)
  show "push8 (status s) s = Some t \<Longrightarrow>
      wp (langref big) (arch_6502_emit (cpu_6502 w) m pc INSTR_PHP) (\<lambda>_. represents b t) c"
    using emit_push [OF rel _ lands_encode [OF rel]] by (simp add: represents_def)
  show "pull8 s = Some (x, u) \<Longrightarrow>
      wp (langref big) (arch_6502_emit (cpu_6502 w) m pc INSTR_PLA) (\<lambda>_. represents b (load_reg A x u)) c"
    by (simp add: emitters, rule emit_pull [OF rel], assumption) (simp add: emitters outcome)
  show "pull8 s = Some (x, u) \<Longrightarrow>
      wp (langref big) (arch_6502_emit (cpu_6502 w) m pc INSTR_PLP) (\<lambda>_. represents b (set_status x u)) c"
    by (simp, rule emit_pull [OF rel], assumption) (simp add: emit_decode)
  show "pull8 s = Some (x, u) \<Longrightarrow> pull8 u = Some (y, v) \<Longrightarrow>
      wp (langref big) (arch_6502_emit (cpu_6502 w) m pc INSTR_RTS)
        (\<lambda>_. represents b (v\<lparr>pcr := word16 x y + 1\<rparr>)) c"
    by (simp add: emitters arch_6502_pull16_def, rule emit_pull [OF rel], assumption, rule emit_pull, assumption+)
       (simp add: emitters outcome)
  have "take_bit 8 (uint (drop_bit 8 (pc + 2))) = uint (ucast (drop_bit 8 (pc + 2)) :: byte)"
    "take_bit 8 (uint (pc + 2 AND 0xFF)) = uint (ucast (pc + 2) :: byte)"
    by (simp_all add: unsigned_ucast_eq unsigned_and_eq masks)
  then show "push8 (ucast (drop_bit 8 (pc + 2))) s = Some u \<Longrightarrow> push8 (ucast (pc + 2)) u = Some t \<Longrightarrow>
      wp (langref big) (arch_6502_emit (cpu_6502 w) m pc INSTR_JSR) (\<lambda>_. represents b t) c"
    by (simp add: PUSH16_def) (rule emit_push_const [OF rel], assumption+, rule emit_push_const, assumption+, simp add: represents_def)
qed

lemma emit_plain:
  assumes "represents b s c" and "m6502_exec i (get_addmode (m pc)) (OPERAND_8 m pc) (OPERAND_16 m pc) pc s = Some t"
    and "i \<in> {INSTR_CLC, INSTR_CLD, INSTR_CLI, INSTR_CLV, INSTR_SEC, INSTR_SED, INSTR_SEI, INSTR_TAX, INSTR_TAY,
      INSTR_TXA, INSTR_TYA, INSTR_TSX, INSTR_TXS, INSTR_INX, INSTR_INY, INSTR_DEX, INSTR_DEY, INSTR_JMP, INSTR_NOP,
      INSTR_BEQ, INSTR_BNE, INSTR_BCS, INSTR_BCC, INSTR_BMI, INSTR_BPL, INSTR_BVS, INSTR_BVC}"
  shows "wp (langref big) (arch_6502_emit (cpu_6502 w) m pc i) (\<lambda>_. represents b t) c"
  using assms by (auto simp: emitters outcome read16_def bind_eq_Some_conv)

lemma emit_correct:
  assumes rel: "represents b s c"
    and ex: "m6502_exec i (get_addmode (m pc)) (OPERAND_8 m pc) (OPERAND_16 m pc) pc s = Some t"
  shows "wp (langref big) (arch_6502_emit (cpu_6502 w) m pc i) (\<lambda>_. represents b t) c"
proof -
  note modify = emit_modify [OF rel _ refl, where m = m and pc = pc]
    and increment = emit_increment [OF rel _ refl, where m = m and pc = pc]
  show ?thesis
    using ex emit_plain [OF rel ex] emit_operand [OF rel, of m pc] emit_store_reg [OF rel, of m pc _ t] emit_stack [OF rel]
      modify [of True False] modify [of False False] modify [of True True] modify [of False True]
      increment [of True] increment [of False]
    by (cases i) (auto simp: bind_eq_Some_conv)
qed

end
