(* ===== verification/M6502_Step.thy ===== *)
theory M6502_Step
  imports M6502_Correct Singlestep
begin

text \<open>
  The 6502 frontend under the single-step driver: a function translated for one instruction
  executes that instruction on the client's register file and memory.
\<close>

declare split_of_bool [split del] split_of_bool_asm [split del]

section \<open>The frontend and the instruction step\<close>

definition arch_func_6502 :: "ram \<Rightarrow> xcpu \<Rightarrow> arch_func" where
  "arch_func_6502 m x = \<lparr>f_tag_instr = arch_6502_tag_instr m,
     f_translate_cond = arch_6502_translate_cond x m, f_translate_instr = arch_6502_translate_instr x m\<rparr>"

fun branch_taken :: "m6502_instr \<Rightarrow> m6502_state \<Rightarrow> bool option" where
  "branch_taken INSTR_BEQ s = Some (flag s Z_SHIFT)"
| "branch_taken INSTR_BNE s = Some (\<not> flag s Z_SHIFT)"
| "branch_taken INSTR_BCS s = Some (flag s C_SHIFT)"
| "branch_taken INSTR_BCC s = Some (\<not> flag s C_SHIFT)"
| "branch_taken INSTR_BMI s = Some (flag s N_SHIFT)"
| "branch_taken INSTR_BPL s = Some (\<not> flag s N_SHIFT)"
| "branch_taken INSTR_BVS s = Some (flag s V_SHIFT)"
| "branch_taken INSTR_BVC s = Some (\<not> flag s V_SHIFT)"
| "branch_taken _ s = None"

text \<open>The program counter after an instruction that has led from \<open>s\<close> to \<open>t\<close>.\<close>

definition next_pc :: "ram \<Rightarrow> addr \<Rightarrow> m6502_state \<Rightarrow> m6502_state \<Rightarrow> 16 word" where
  "next_pc m pc s t =
     (let i = get_instr (m pc); am = get_addmode (m pc) in
      if i = INSTR_RTS \<or> i = INSTR_JMP \<and> am = ADDMODE_IND then pcr t
      else if i = INSTR_JMP \<or> i = INSTR_JSR then ucast (operand_16 m pc)
      else if branch_taken i s = Some True then ucast (branch_target m pc)
      else ucast (pc + word_of_int (get_length am)))"

definition m6502_step :: "ram \<Rightarrow> addr \<Rightarrow> m6502_state \<Rightarrow> m6502_state option" where
  "m6502_step m pc s =
     map_option (\<lambda>t. t\<lparr>pcr := next_pc m pc s t\<rparr>)
       (m6502_exec (get_instr (m pc)) (get_addmode (m pc)) (OPERAND_8 m pc) (OPERAND_16 m pc) pc s)"

section \<open>Entering and leaving a function\<close>

text \<open>The machine state in the register file the client passes (\<open>reg_6502_t\<close>).\<close>

definition regfile :: "m6502_state \<Rightarrow> config \<Rightarrow> bool" where
  "regfile s c \<longleftrightarrow>
     (\<forall>i<4. cells c (RegPtr i) = Some (8, Some (uint (reg s i)))) \<and>
     cells c (RegPtr 4) = Some (8, Some (uint (status s))) \<and>
     cells c PcPtr = Some (16, Some (uint (pcr s))) \<and> ram c = mem s"

lemma represents_self:
  assumes "\<And>i. i < 4 \<Longrightarrow> cells d (GprPtr i) = Some (8, Some (uint (reg s i)))"
    and "\<And>i. i < 8 \<Longrightarrow> cells d (FlagPtr i) = Some (1, Some (of_bool (flag s i)))"
    and "cells d PcPtr = Some (16, Some (uint (pcr s)))" and "ram d = mem s"
  shows "represents (cells d) s d"
proof -
  have "(cells d ++ rep s) p = cells d p" for p
    by (cases p) (simp_all add: map_add_def assms)
  then show ?thesis using assms(4) by (auto simp: represents_def)
qed

text \<open>
  What the entry block establishes: the local copies represent the state, and the client's
  register file is as it was.
\<close>

definition entered :: "m6502_state \<Rightarrow> config \<Rightarrow> bool" where
  "entered s d \<longleftrightarrow> represents (cells d) s d \<and> regfile s d \<and> cells d (XrPtr 0) = Some (8, Some (uint (status s)))"

lemma upt4: "[0..<4] = [0, Suc 0, 2, 3]" "[0..<Suc 0] = [0]"
  by (simp_all add: upt_rec)

lemma decode_6502:
  assumes "regfile s c"
  shows "wp (langref big) (emit_decode_reg ((arch_6502_init w)\<lparr>ptr_RAM := Address (RamPtr 0) (IntTy 8)\<rparr>))
    (\<lambda>x d. x = cpu_6502 w \<and> entered s d) c"
proof -
  note defs = emit_decode_reg_def arch_6502_init_def emitters get_struct_member_pointer_def
    e_alloca_def arch_6502_flags_layout_def upd_res_def
  have e: "entered s d" if "cells d = (cells c)(GprPtr 0 \<mapsto> (8, Some (uint (reg s 0))), GprPtr 1 \<mapsto> (8, Some (uint (reg s 1))),
      GprPtr 2 \<mapsto> (8, Some (uint (reg s 2))), GprPtr 3 \<mapsto> (8, Some (uint (reg s 3))), XrPtr 0 \<mapsto> (8, Some (uint (status s))),
      FlagPtr 7 \<mapsto> (1, Some (of_bool (flag s 7))), FlagPtr 6 \<mapsto> (1, Some (of_bool (flag s 6))),
      FlagPtr 5 \<mapsto> (1, Some (of_bool (flag s 5))), FlagPtr 4 \<mapsto> (1, Some (of_bool (flag s 4))),
      FlagPtr 3 \<mapsto> (1, Some (of_bool (flag s 3))), FlagPtr 2 \<mapsto> (1, Some (of_bool (flag s 2))),
      FlagPtr 1 \<mapsto> (1, Some (of_bool (flag s 1))), FlagPtr 0 \<mapsto> (1, Some (of_bool (flag s 0))))"
    and "ram d = ram c" for d
    using assms unfolding entered_def
    by (intro conjI represents_self) (auto simp: that regfile_def less_Suc_eq numeral_eq_Suc)
  show ?thesis using assms
    by (simp add: defs regfile_def upt_rec)
       (simp add: arch_flags_decode_def arch_decode_bit_def defs decoded_flag status_bits, intro conjI e,
        simp_all add: cpu_6502_def arch_6502_init_def arch_6502_flags_layout_def numeral_eq_Suc upt_rec fun_eq_iff)
qed

text \<open>What the returning block puts back.\<close>

lemma spill_6502:
  assumes "represents b s c" and own: "b (RegPtr 0) = Some (8, v0)" "b (RegPtr (Suc 0)) = Some (8, v1)" "b (RegPtr 2) = Some (8, v2)"
      "b (RegPtr 3) = Some (8, v3)" "b (RegPtr 4) = Some (8, v4)" "b (XrPtr 0) = Some (8, x)"
  shows "wp (langref big) (spill_reg_state (cpu_6502 w)) (\<lambda>_ d. regfile s d \<and> cells d ExitPtr = b ExitPtr) c"
proof -
  have rel: "cells c = b ++ rep s" "ram c = mem s" using assms(1) by (simp_all add: represents_def)
  have frame: "(b ++ rep t) (RegPtr i) = b (RegPtr i)" "(b ++ rep t) (XrPtr i) = b (XrPtr i)" "(b ++ rep t) ExitPtr = b ExitPtr" for i t
    by (simp_all add: map_add_def)
  show ?thesis
    by (simp add: spill_reg_state_def, rule wp_lands [OF lands_encode [OF rel]])
       (simp add: cpu_6502_def emitters rel frame upt4 own,
        auto simp: regfile_def rel frame own less_Suc_eq numeral_eq_Suc)
qed

section \<open>The contract\<close>

text \<open>The client's register file and the exit code, which the code of an instruction leaves alone.\<close>

definition own_cells :: "(ptr \<Rightarrow> (nat \<times> int option) option) \<Rightarrow> int \<Rightarrow> bool" where
  "own_cells b code \<longleftrightarrow> (\<exists>v0 v1 v2 v3 v4 x. b (RegPtr 0) = Some (8, v0) \<and> b (RegPtr (Suc 0)) = Some (8, v1) \<and>
     b (RegPtr 2) = Some (8, v2) \<and> b (RegPtr 3) = Some (8, v3) \<and> b (RegPtr 4) = Some (8, v4) \<and>
     b (XrPtr 0) = Some (8, x) \<and> b ExitPtr = Some (32, Some code))"

definition keeps_6502 :: "(ptr \<Rightarrow> (nat \<times> int option) option) \<times> int \<Rightarrow> m6502_state \<Rightarrow> config \<Rightarrow> bool" where
  "keeps_6502 b s c \<longleftrightarrow> represents (fst b) s c \<and> own_cells (fst b) (snd b)"

definition exec_6502 :: "ram \<Rightarrow> addr \<Rightarrow> m6502_state \<Rightarrow> m6502_state option" where
  "exec_6502 m pc = at_mode (m6502_exec (get_instr (m pc))) m pc pc"

definition set_pc_6502 :: "addr \<Rightarrow> m6502_state \<Rightarrow> m6502_state" where
  "set_pc_6502 a s = s\<lparr>pcr := ucast a\<rparr>"

lemma cond_lands:
  assumes "represents b s c" and "branch_taken (get_instr (m pc)) s = Some p"
  shows "wp (langref big) (arch_6502_translate_cond (cpu_6502 w) m pc)
    (\<lambda>v d. \<exists>x. v = Some x \<and> lands c (IntTy 1) (VInt 1 (of_bool p)) x d) c"
  using assms
  by (cases "get_instr (m pc)")
     (auto simp: arch_6502_translate_cond_def CC_EQ_def CC_NE_def CC_CS_def CC_CC_def CC_MI_def CC_PL_def CC_VS_def CC_VC_def
        emitters represents_def lands_def of_bool_def)

lemma translate_wp:
  assumes "represents b s c"
    and "at_mode (m6502_exec (get_instr (m pc))) m pc pc s = Some t"
  shows "wp (langref big) (arch_6502_translate_instr (cpu_6502 w) m pc) (\<lambda>_. represents b t) c"
  using emit_correct [OF assms] by (simp add: arch_6502_translate_instr_def)

text \<open>Entering establishes the contract, and it survives a new exit code.\<close>

lemma entered_keeps:
  assumes "entered s d"
  shows "\<forall>k. \<exists>b. snd b = k \<and> keeps_6502 b s (set_exit k d)"
proof
  fix k
  have "keeps_6502 (cells (set_exit k d), k) s (set_exit k d)"
    using assms by (auto simp: entered_def keeps_6502_def represents_def own_cells_def regfile_def set_exit_def fun_eq_iff map_add_def
       split: option.splits)
  then show "\<exists>b. snd b = k \<and> keeps_6502 b s (set_exit k d)" by (intro exI conjI) auto
qed

lemma keeps_exit: "keeps_6502 b s c \<Longrightarrow> \<exists>b'. snd b' = k \<and> keeps_6502 b' s (set_exit k c)"
  by (rule exI [of _ "((fst b)(ExitPtr \<mapsto> (32, Some k)), k)"])
     (auto simp: keeps_6502_def represents_def own_cells_def set_exit_def map_add_upd_left domIff)

lemma keeps_store_pc:
  assumes "keeps_6502 b s c"
  shows "wp (langref big) (e_do (StoreInst (ConstantInt 16 (take_bit 16 (uint a))) (Address PcPtr (IntTy 16))))
    (\<lambda>_. keeps_6502 b (set_pc_6502 a s)) c"
proof -
  have "take_bit 16 (uint a) = uint (ucast a :: 16 word)" by (simp add: unsigned_ucast_eq)
  with assms show ?thesis
    by (simp add: keeps_6502_def represents_def emitters set_pc_6502_def rep_pc)
qed

interpretation m6502_guest: guest big "arch_6502_init w" "cpu_6502 w" "arch_func_6502 m" keeps_6502 snd regfile
    "exec_6502 m" "\<lambda>pc. branch_taken (get_instr (m pc))" set_pc_6502
  for big w m
proof (unfold_locales, goal_cases)
  case (3 s c)
  then show ?case by (intro wp_mono [OF decode_6502]) (assumption, elim conjE, intro conjI entered_keeps)
next
  case (4 b s c)
  then show ?case by (auto simp: keeps_6502_def own_cells_def intro!: wp_mono [OF spill_6502])
next
  case (8 b s c pc t)
  then show ?case
    by (auto simp: keeps_6502_def arch_func_6502_def exec_6502_def intro!: wp_mono [OF translate_wp])
next
  case (9 b s c pc p)
  then have "represents (fst b) s c" by (simp add: keeps_6502_def)
  from cond_lands [where m = m and pc = pc, OF this 9(2)]
  have "wp (langref big) (arch_6502_translate_cond (cpu_6502 w) m pc)
      (\<lambda>v d. \<exists>x. v = Some x \<and> eval d x = VInt 1 (of_bool p) \<and> keeps_6502 b s d) c"
    by (rule wp_mono) (use 9(1) in \<open>auto simp: lands_def keeps_6502_def represents_def\<close>)
  then show ?case by (simp add: arch_func_6502_def)
next
  case (10 b s c a)
  then show ?case using keeps_store_pc by (simp add: cpu_6502_def arch_6502_init_def)
next
  case (6 b s c k)
  then show ?case by (rule keeps_exit)
qed (auto simp: keeps_6502_def represents_def own_cells_def regfile_def set_exit_def map_add_def)

text \<open>The tags describe the flow of the machine.\<close>

lemma step_6502:
  assumes "m6502_step m pc s = Some t"
    and "branch_taken (get_instr (m pc)) s \<noteq> None \<Longrightarrow> branch_target m pc \<noteq> NEW_PC_NONE"
  shows "guest_step (arch_6502_tag_instr m) (exec_6502 m) (\<lambda>pc. branch_taken (get_instr (m pc))) set_pc_6502 pc s = Some t"
proof -
  note defs = m6502_step_def next_pc_def arch_6502_tag_instr_def Let_def guest_step_def exec_6502_def set_pc_6502_def
  have op: "operand_16 m pc \<noteq> NEW_PC_NONE"
    using operand_16_bound [of m pc] by (auto simp: unsigned_minus_1_eq_mask mask_eq_exp_minus_1)
  show ?thesis
  proof (cases "get_instr (m pc) = INSTR_JMP")
    case True
    from jmp_modes [OF True] consider "get_addmode (m pc) = ADDMODE_ABS" | "get_addmode (m pc) = ADDMODE_IND" by blast
    then show ?thesis
      by cases (use True assms(1) op in \<open>auto simp: defs\<close>)
  next
    case False
    then show ?thesis using assms op
      by (cases "get_instr (m pc)") (auto simp: defs)
  qed
qed

end
