(* ===== verification/M6502_Single.thy ===== *)
theory M6502_Single
  imports M6502_Step
begin

text \<open>
  What the translation of 6502 code promises: each instruction's code, a single step of the
  whole machinery, and the way into a function and out of it.
\<close>

declare split_of_bool [split del] split_of_bool_asm [split del]

section \<open>Properties\<close>



text \<open>A machine that is about to increment X, in a memory of such instructions.\<close>

definition inx_state :: m6502_state where
  "inx_state = \<lparr>reg = (\<lambda>i. 0), flag = (\<lambda>i. False), pcr = 0, mem = (\<lambda>a. Some 0xE8)\<rparr>"

definition inx_config :: config where
  "inx_config = \<lparr>cells = (\<lambda>p. case p of RegPtr i \<Rightarrow> Some (8, Some 0) | PcPtr \<Rightarrow> Some (16, Some 0) | _ \<Rightarrow> None),
     ram = (\<lambda>a. Some 0xE8), temps = (\<lambda>i. None), results = (\<lambda>i. VInt 0 0), position = 0\<rparr>"

lemma inx_simps: "get_instr 0xE8 = INSTR_INX" "get_addmode 0xE8 = ADDMODE_IMPL"
  by (simp_all add: get_instr_def get_addmode_def)




text \<open>
  C17. Entering and leaving a translated function is a round trip: its entry block takes the
  register file apart into local variables and flags, its return block puts it together again,
  and going from one to the other at once changes no register, no flag and no memory. The exit
  code is \<open>JIT_RETURN_SINGLESTEP\<close> if the function is a single step, and
  \<open>JIT_RETURN_FUNCNOTFOUND\<close> if not; through the trap block it is \<open>JIT_RETURN_TRAP\<close>.
\<close>

theorem m6502_enter_return:
  assumes "llvm big step jump" and "regfile s c"
  shows "\<exists>J B T. cpu_create_function (arch_6502_init w) single \<lparr>blocks = [], func_bb = (\<lambda>a. None)\<rparr> =
      Inr ((cpu_6502 w, 1, 2, 0), \<lparr>blocks = [J, B, T], func_bb = (\<lambda>a. None)\<rparr>) \<and>
    (\<exists>d. exec_fun step jump 2 [J @ [BranchInst 1], B, T] 0 c =
      Some (if single then JIT_RETURN_SINGLESTEP else JIT_RETURN_FUNCNOTFOUND, d) \<and> regfile s d) \<and>
    (\<exists>d. exec_fun step jump 3 [J @ [BranchInst 2], B, T] 0 c = Some (JIT_RETURN_TRAP, d) \<and> regfile s d)"
proof -
  obtain J B where fn: "cpu_create_function (arch_6502_init w) single no_fun =
      Inr ((cpu_6502 w, 1, 2, 0), \<lparr>blocks = [J, B, trap_code], func_bb = (\<lambda>a. None)\<rparr>)"
    and "\<exists>d. run_fun big 2 [J @ [BranchInst 1], B, trap_code] 0 c =
      Some (if single then JIT_RETURN_SINGLESTEP else JIT_RETURN_FUNCNOTFOUND, d) \<and> regfile s d"
    and "\<exists>d. run_fun big 3 [J @ [BranchInst 2], B, trap_code] 0 c = Some (JIT_RETURN_TRAP, d) \<and> regfile s d"
    using m6502_guest.enter_return [OF assms(2), where single = single and big = big and w = w] by blast
  then show ?thesis
    by (intro exI [of _ J] exI [of _ B] exI [of _ trap_code]) (blast intro: llvm.exec_fun_documented [OF assms(1)])
qed

theorem m6502_enter_return_witness:
  "\<exists>bs d. exec_fun (langref True) langref_jump 2 bs 0 inx_config = Some (1, d) \<and> regfile inx_state d"
proof -
  have "regfile inx_state inx_config" by (simp add: regfile_def inx_state_def inx_config_def status_def upt_rec)
  from m6502_enter_return [OF reference.llvm_axioms this, of 0 False True] show ?thesis by auto
qed

text \<open>
  C37. The code of an instruction that traps returns on its own, and the driver appends another
  branch behind it: single-stepping \<open>BRK\<close> succeeds, but the block it makes has an instruction
  behind its terminator, which LLVM's reference rules out.
\<close>

theorem m6502_brk_malformed:
  assumes "get_instr (m pc) = INSTR_BRK" and "has (flags_debug cpu) CPU_DEBUG_SINGLESTEP"
  shows "\<exists>bs i j. cpu_translate_function (arch_func_6502 m) cpu (arch_6502_init w) junk pc = Some (Inr (0, cpu, bs)) \<and>
    is_terminator (bs ! 3 ! i) \<and> i < j \<and> j < length (bs ! 3)"
proof -
  let ?b = "[StoreInst (ConstantInt 16 (take_bit 16 (uint pc))) (Address PcPtr (IntTy 16)), ReturnInst (ConstantInt 32 3), BranchInst 2]"
  have "regfile inx_state inx_config" by (simp add: regfile_def inx_state_def inx_config_def status_def upt_rec)
  then obtain J B where fn: "cpu_create_function (arch_6502_init w) True no_fun =
      Inr ((cpu_6502 w, 1, 2, 0), \<lparr>blocks = [J, B, trap_code], func_bb = (\<lambda>a. None)\<rparr>)"
    using m6502_guest.enter_return [where big = True and single = True and w = w] by blast
  have "\<exists>g. cpu_translate_singlestep (arch_func_6502 m (cpu_6502 w)) (cpu_6502 w) junk pc 1 2 \<lparr>blocks = [J, B, trap_code], func_bb = \<lambda>a. None\<rparr> =
      Inr (3, \<lparr>blocks = J # B # trap_code # [?b], func_bb = g\<rparr>)"
    using assms(1)
    by (simp add: singlestep arch_func_6502_def arch_6502_tag_instr_def arch_6502_translate_instr_def arch_6502_trap_def)
  from m6502_guest.function_singlestep [OF fn assms(2) this]
  show ?thesis
    by - (rule exI, rule exI [of _ 1], rule exI [of _ 2], rule conjI, assumption, simp)
qed

theorem m6502_brk_malformed_witness:
  "\<exists>bs. cpu_translate_function (arch_func_6502 (\<lambda>_. 0)) ((area_cpu 4 (\<lambda>_. 0))\<lparr>flags_debug := 1\<rparr>) (arch_6502_init 0) 9 0 =
      Some (Inr (0, (area_cpu 4 (\<lambda>_. 0))\<lparr>flags_debug := 1\<rparr>, bs)) \<and> 1 < length (bs ! 3)"
proof -
  have "get_instr 0 = INSTR_BRK" by (simp add: get_instr_def)
  from m6502_brk_malformed [where m = "\<lambda>_. 0" and pc = 0 and cpu = "(area_cpu 4 (\<lambda>_. 0))\<lparr>flags_debug := 1\<rparr>", OF this]
  show ?thesis by (fastforce simp: has_one)
qed

end
