(* ===== verification/Stepping.thy ===== *)
theory Stepping
  imports Run M6502_Single
begin

text \<open>
  Whole runs of 6502 code, one instruction at a time, on top of \<open>cpu_run\<close>. The interpretation
  says that the 6502 frontend keeps the contract whatever code is in memory, so code that
  modifies itself is covered: every step fetches from the memory the last one has left.
\<close>

interpretation m6502_stepped: stepped big "arch_6502_init w" "cpu_6502 w" arch_func_6502 keeps_6502 snd regfile
    exec_6502 "\<lambda>m pc. branch_taken (get_instr (m pc))" set_pc_6502 "\<lambda>s. ucast (pcr s)" mem
  for big w
proof (unfold_locales, goal_cases)
  case (1 s c)
  have "word_of_int (uint (pcr s)) = (ucast (pcr s) :: addr)" by simp
  with 1 show ?case by (simp add: get_pc_def regfile_def)
next
  case (2 s c)
  then show ?case by (simp add: regfile_def)
qed

section \<open>The machine\<close>

text \<open>
  The 6502 fetching from its memory; \<open>base\<close> is what a read outside the client's buffer would
  find. A branch to the address \<open>NEW_PC_NONE\<close> stands for, 65535 reached backwards from the first page,
  ends the run.
\<close>

definition m6502_next :: "ram \<Rightarrow> m6502_state \<Rightarrow> m6502_state option" where
  "m6502_next base s =
     (let m = view base (mem s); pc = ucast (pcr s) in
      if branch_taken (get_instr (m pc)) s \<noteq> None \<and> branch_target m pc = NEW_PC_NONE then None else m6502_step m pc s)"

primrec m6502_run :: "ram \<Rightarrow> nat \<Rightarrow> m6502_state \<Rightarrow> m6502_state option" where
  "m6502_run base 0 s = Some s"
| "m6502_run base (Suc n) s = Option.bind (m6502_next base s) (m6502_run base n)"

lemma machine_step_6502: "m6502_next base s = Some t \<Longrightarrow> m6502_stepped.machine_step w base s = Some t"
  unfolding m6502_stepped.machine_step_def Let_def arch_func_6502_def arch_func.simps
  by (rule step_6502) (auto simp: m6502_next_def Let_def split: if_splits)

lemma machine_steps_6502: "m6502_run base n s = Some t \<Longrightarrow> m6502_stepped.machine_steps w base n s = Some t"
  by (induction n arbitrary: s) (auto simp: bind_eq_Some_conv dest: machine_step_6502)

section \<open>Properties\<close>


text \<open>A machine in a memory of nothing but \<open>INX\<close>.\<close>

definition inx_session :: session where
  "inx_session = \<lparr>core = (area_cpu 4 (\<lambda>_. 0xE8))\<lparr>flags_debug := 1\<rparr>, funcs = [], client = inx_config\<rparr>"

lemma inx_next:
  assumes "mem s = (\<lambda>a. Some 0xE8)"
  shows "m6502_next base s = Some ((load_reg X (reg s X + 1) s)\<lparr>pcr := pcr s + 1\<rparr>)"
proof -
  have "unat (pcr s) < 65536" using unsigned_less [of "pcr s", where 'a = nat] by simp
  then have "ucast (ucast (pcr s) + 1 :: addr) = pcr s + 1"
    by (simp add: word_unat_eq_iff unat_word_ariths unsigned_ucast_eq take_bit_eq_mod)
  moreover have "view base (mem s) = (\<lambda>_. 0xE8)" by (simp add: fun_eq_iff view_def assms)
  ultimately show ?thesis by (simp add: m6502_next_def inx_simps m6502_step_def next_pc_def)
qed

lemma load_reg_mem [simp]: "mem (load_reg r x s) = mem s" "reg (load_reg r x s) = (reg s)(r := x)" "pcr (load_reg r x s) = pcr s"
  by (simp_all add: load_reg_def set_nz_def)


text \<open>
  C40. \<open>cpu_run\<close> alone does not go on: called again without \<open>cpu_flush\<close> it finds the function of
  the first step, and executes the same instruction once more although the program counter has
  moved.
\<close>

theorem m6502_no_flush:
  assumes "jit big step jump fp" and "regfile s (client r)" and "m6502_next (RAM (core r)) s = Some t"
    and "has (flags_debug (core r)) CPU_DEBUG_SINGLESTEP" and "funcs r = []"
    and "m = view (RAM (core r)) (mem s)" and "pc = ucast (pcr s)"
    and "m6502_step m pc t = Some u" and "branch_target m pc \<noteq> NEW_PC_NONE"
  shows "\<exists>q q'. cpu_run fp h arch_func_6502 (arch_6502_init w) junk r = Some (Inr (JIT_RETURN_SINGLESTEP, q)) \<and> regfile t (client q) \<and>
    cpu_run fp h arch_func_6502 (arch_6502_init w) junk q = Some (Inr (JIT_RETURN_SINGLESTEP, q')) \<and> regfile u (client q')"
  using m6502_stepped.run_again [OF assms(1,2) machine_step_6502 [OF assms(3)] assms(4,5)] step_6502 [OF assms(8)] assms(6,7,9)
  by (simp add: arch_func_6502_def)

theorem m6502_no_flush_witness:
  "\<exists>q q'. cpu_run (\<lambda>bs. run_from (langref True) langref_jump bs 0) demo_host arch_func_6502 (arch_6502_init 0) 9 inx_session = Some (Inr (2, q)) \<and>
    cells (client q) PcPtr = Some (16, Some 1) \<and>
    cpu_run (\<lambda>bs. run_from (langref True) langref_jump bs 0) demo_host arch_func_6502 (arch_6502_init 0) 9 q = Some (Inr (2, q')) \<and>
    cells (client q') PcPtr = Some (16, Some 1) \<and> cells (client q') (RegPtr 1) = Some (8, Some 2)"
proof -
  let ?t = "(load_reg X 1 inx_state)\<lparr>pcr := 1\<rparr>" and ?u = "(load_reg X 2 ((load_reg X 1 inx_state)\<lparr>pcr := 1\<rparr>))\<lparr>pcr := 1\<rparr>"
  have r: "regfile inx_state (client inx_session)"
    by (simp add: inx_session_def regfile_def inx_state_def inx_config_def status_def upt_rec)
  have n: "m6502_next (RAM (core inx_session)) inx_state = Some ?t" by (simp add: inx_state_def inx_next)
  have m: "(\<lambda>_. 0xE8) = view (RAM (core inx_session)) (mem inx_state)" by (simp add: fun_eq_iff view_def inx_state_def)
  have u: "m6502_step (\<lambda>_. 0xE8) 0 ?t = Some ?u" by (simp add: m6502_step_def inx_simps next_pc_def)
  have "branch_target (\<lambda>_. 0xE8) 0 \<noteq> NEW_PC_NONE" by (simp add: branch_target_def)
  from m6502_no_flush [OF reference_jit.jit_axioms r n _ _ m _ u this, of True demo_host 0 9] show ?thesis
    by (fastforce simp: inx_session_def has_one regfile_def inx_state_def)
qed

end
