(* ===== verification/Llvm_Types.thy ===== *)
theory Llvm_Types
  imports Llvm
begin

text \<open>
  The static side of the emitted code: LLVM accepts an instruction only if its operands have
  the types it asks for and are defined before it. The classes check this with assertions (in a
  debug build of LLVM) and with \<open>verifyFunction\<close>.
\<close>

section \<open>Typing\<close>

text \<open>\<open>ts\<close> are the types of the block's instructions so far; one without a result has none.\<close>

fun value_ok :: "lty option list \<Rightarrow> lval \<Rightarrow> bool" where
  "value_ok ts (ConstantInt n x) \<longleftrightarrow> take_bit n x = x"
| "value_ok ts (Address p t) \<longleftrightarrow> True"
| "value_ok ts (Result k t) \<longleftrightarrow> k < length ts \<and> ts ! k = Some t"

fun is_int :: "lty \<Rightarrow> bool" where
  "is_int (IntTy n) = True"
| "is_int (PtrTy t) = False"

text \<open>The result type of a well-typed instruction; None if it is not well-typed.\<close>

fun type_of :: "inst \<Rightarrow> lty option option" where
  "type_of (LoadInst a) = (case lty_of a of PtrTy t \<Rightarrow> Some (Some t) | IntTy n \<Rightarrow> None)"
| "type_of (StoreInst v a) = (if lty_of a = PtrTy (lty_of v) then Some None else None)"
| "type_of (BinaryOperator op a b) = (if lty_of a = lty_of b \<and> is_int (lty_of a) then Some (Some (lty_of a)) else None)"
| "type_of (CastInst op a k) =
     (case lty_of a of
        IntTy n \<Rightarrow> if (if op = Trunc then k < n else n < k) then Some (Some (IntTy k)) else None
      | PtrTy t \<Rightarrow> None)"
| "type_of (ICmpInst op a b) = (if lty_of a = lty_of b \<and> is_int (lty_of a) then Some (Some (IntTy 1)) else None)"
| "type_of (SelectInst p a b) = (if lty_of p = IntTy 1 \<and> lty_of a = lty_of b then Some (Some (lty_of a)) else None)"
| "type_of (GetElementPtr a i) =
     (case lty_of a of PtrTy t \<Rightarrow> if is_int (lty_of i) then Some (Some (PtrTy t)) else None | IntTy n \<Rightarrow> None)"
| "type_of (BitCast32 a) = (case lty_of a of PtrTy t \<Rightarrow> Some (Some (PtrTy (IntTy 32))) | IntTy n \<Rightarrow> None)"
| "type_of (AllocaInst n) = Some (Some (PtrTy (IntTy n)))"
| "type_of (EntryAlloca p n) = Some None"
| "type_of (MemberGEP i) = Some None"
| "type_of (CallIntrinsic f n a) = (if lty_of a = IntTy n then Some (Some (IntTy n)) else None)"
| "type_of (ReturnInst v) = (if lty_of v = IntTy 32 then Some None else None)"
| "type_of (BranchInst b) = Some None"
| "type_of (CondBranchInst v a b) = (if lty_of v = IntTy 1 then Some None else None)"
| "type_of (SwitchInst v d cs) = (if is_int (lty_of v) then Some None else None)"

fun operands :: "inst \<Rightarrow> lval list" where
  "operands (LoadInst a) = [a]"
| "operands (StoreInst v a) = [v, a]"
| "operands (BinaryOperator op a b) = [a, b]"
| "operands (CastInst op a k) = [a]"
| "operands (ICmpInst op a b) = [a, b]"
| "operands (SelectInst p a b) = [p, a, b]"
| "operands (GetElementPtr a i) = [a, i]"
| "operands (BitCast32 a) = [a]"
| "operands (CallIntrinsic f n a) = [a]"
| "operands (ReturnInst v) = [v]"
| "operands (CondBranchInst v a b) = [v]"
| "operands (SwitchInst v d cs) = [v]"
| "operands _ = []"

primrec typed :: "lty option list \<Rightarrow> inst list \<Rightarrow> lty option list option" where
  "typed ts [] = Some ts"
| "typed ts (i # is) =
     (case type_of i of
        None \<Rightarrow> None
      | Some t \<Rightarrow> if list_all (value_ok ts) (operands i) then typed (ts @ [t]) is else None)"

text \<open>
  \<open>wt e P ts\<close>: behind instructions of the types \<open>ts\<close>, the emitter succeeds with well-typed
  instructions, and its value and the types satisfy \<open>P\<close>.
\<close>

definition wt :: "'a emit \<Rightarrow> ('a \<Rightarrow> lty option list \<Rightarrow> bool) \<Rightarrow> lty option list \<Rightarrow> bool" where
  "wt e P ts =
     (case e (length ts) of Inl f \<Rightarrow> False
      | Inr (x, is) \<Rightarrow> (case typed ts is of None \<Rightarrow> False | Some us \<Rightarrow> P x us))"

lemma typed_append: "typed ts (is @ js) = Option.bind (typed ts is) (\<lambda>us. typed us js)"
  by (induction "is" arbitrary: ts) (auto split: option.splits)

lemma typed_length: "typed ts is = Some us \<Longrightarrow> length us = length ts + length is"
  by (induction "is" arbitrary: ts) (auto split: option.splits if_splits)

named_theorems typing \<open>typing of the emitters\<close>

lemma wt_ret [simp, typing]: "wt (e_ret x) P = P x"
  by (rule ext) (simp add: wt_def e_ret_def)

lemma wt_bind [simp, typing]: "wt (e_bind e f) P = wt e (\<lambda>x. wt (f x) P)"
proof (rule ext, goal_cases)
  case (1 ts)
  show ?case
  proof (cases "e (length ts)")
    case (Inr r)
    then obtain x "is" where r: "e (length ts) = Inr (x, is)" by (cases r) auto
    show ?thesis
    proof (cases "typed ts is")
      case None
      with r show ?thesis
        by (cases "f x (length ts + length is)") (auto simp: wt_def e_bind_def typed_append)
    next
      case (Some us)
      with r typed_length [OF this] show ?thesis
        by (cases "f x (length us)") (auto simp: wt_def e_bind_def typed_append)
    qed
  qed (simp add: wt_def e_bind_def)
qed

lemma wt_inst [typing]:
  "wt (e_inst i t) P ts =
     (case type_of i of None \<Rightarrow> False | Some u \<Rightarrow> list_all (value_ok ts) (operands i) \<and> P (Result (length ts) t) (ts @ [u]))"
  by (simp add: wt_def e_inst_def split: option.splits)

lemma wt_do [typing]:
  "wt (e_do i) P ts = (case type_of i of None \<Rightarrow> False | Some u \<Rightarrow> list_all (value_ok ts) (operands i) \<and> P () (ts @ [u]))"
  by (simp add: wt_def e_do_def split: option.splits)

lemma wt_res [simp, typing]: "wt (e_res (Inr x)) P = P x" "wt (e_res (Inl f)) P = (\<lambda>ts. False)"
  by (rule ext, simp add: wt_def e_res_def)+

lemma wt_mono: "wt e P ts \<Longrightarrow> (\<And>x us. P x us \<Longrightarrow> Q x us) \<Longrightarrow> wt e Q ts"
  by (auto simp: wt_def split: sum.splits option.splits)

lemma value_ok_append: "value_ok ts v \<Longrightarrow> value_ok (ts @ us) v"
  by (cases v) (auto simp: nth_append)

end
