(* ===== verification/M6502_Typed.thy ===== *)
theory M6502_Typed
  imports M6502_Correct Llvm_Types
begin

text \<open>
  What the 6502 frontend hands to LLVM is well-typed, for every opcode: no operand is NULL, no
  instruction mixes widths, every value is defined before it is used.
\<close>

section \<open>Operands\<close>

definition typed_as :: "lty option list \<Rightarrow> lty \<Rightarrow> lval \<Rightarrow> lty option list \<Rightarrow> bool" where
  "typed_as ts t v us \<longleftrightarrow> lty_of v = t \<and> value_ok us v \<and> (\<exists>vs. us = ts @ vs)"

lemma lvalue_typed:
  assumes "get_addmode (m pc) \<noteq> ADDMODE_IMPL" "get_addmode (m pc) \<noteq> ADDMODE_BRA"
  shows "wt (LOPERAND (cpu_6502 w) m pc) (typed_as ts (PtrTy (IntTy 8))) ts"
  using assms
  by (cases "get_addmode (m pc)")
     (simp_all add: LOPERAND_def arch_6502_get_operand_lvalue_def emitters typing typed_as_def nth_append GPR_def Let_def)

lemma wt_typed:
  assumes "wt e (typed_as ts t) ts"
    and "\<And>v vs. lty_of v = t \<Longrightarrow> value_ok (ts @ vs) v \<Longrightarrow> P v (ts @ vs)"
  shows "wt e P ts"
  using assms(1) by (rule wt_mono) (auto simp: typed_as_def intro: assms(2))

section \<open>Instructions\<close>

lemma R_typed [emitters]:
  "i < 4 \<Longrightarrow> wt (R (cpu_6502 w) i) P = wt (e_load (Address (GprPtr i) (IntTy 8))) P"
  by (simp add: R_def arch_get_reg_def)

lemma LET_typed [emitters]:
  "i < 4 \<Longrightarrow> wt (LET (cpu_6502 w) i v) P =
    wt v (\<lambda>x. wt (e_do (StoreInst x (Address (GprPtr i) (IntTy 8)))) (\<lambda>_. P x))"
  by (simp add: LET_def arch_put_reg_def e_store_def)

lemma GPR_typed [emitters]:
  "i < 4 \<Longrightarrow> wt (GPR (cpu_6502 w) i) P = P (Address (GprPtr i) (IntTy 8))"
  by (simp add: GPR_def)

lemma operand_typed:
  assumes "has_operand (get_instr (m pc))"
  shows "wt (LOPERAND (cpu_6502 w) m pc) (typed_as ts (PtrTy (IntTy 8))) ts"
  using operand_mode [of "m pc"] assms by (simp add: lvalue_typed)

lemma emit_typed:
  "wt (arch_6502_emit (cpu_6502 w) m pc (get_instr (m pc))) (\<lambda>_ _. True) ts"
proof -
  note emit = emitters typing value_ok_append nth_append OPERAND_def SHIFTROTATE_def arch_shiftrotate_def PUSH_def PULL_def PUSH16_def
    arch_6502_pull16_def arch_6502_trap_def arch_flags_encode_def arch_flags_decode_def arch_6502_flags_layout_def
    arch_encode_bit_def arch_decode_bit_def Let_def
  show ?thesis
  proof (cases "has_operand (get_instr (m pc))")
    case False
    then show ?thesis
      by (cases "get_instr (m pc)"; simp only: arch_6502_emit.simps; (simp add: emit; fail | simp add: has_operand_def))
  next
    case True
    note op = operand_typed [where m = m and pc = pc, OF True]
    from True show ?thesis
      by (cases "get_instr (m pc)"; simp only: arch_6502_emit.simps; simp add: has_operand_def; simp add: emit del: append_assoc;
        intro wt_typed [OF op]; simp add: emit del: append_assoc; intro wt_typed [OF op]; simp add: emit del: append_assoc)
  qed
qed

section \<open>Property\<close>

text \<open>
  C16. The 6502 frontend translates every opcode, those outside the instruction set included, into
  well-typed code, whatever the block already holds. The condition it emits is a bit that is defined
  there, and it emits one exactly for the instructions that the tagger reports as conditional.
\<close>

theorem m6502_well_typed:
  "wt (arch_6502_translate_instr (cpu_6502 w) m pc) (\<lambda>len us. len = get_length (get_addmode (m pc))) ts \<and>
   wt (arch_6502_translate_cond (cpu_6502 w) m pc)
     (\<lambda>v us. case v of
        None \<Rightarrow> res_ok (\<lambda>(len, out). map_option (\<lambda>t. has t TAG_CONDITIONAL) (v_tag out) = Some False) (arch_6502_tag_instr m pc)
      | Some x \<Rightarrow> res_ok (\<lambda>(len, out). map_option (\<lambda>t. has t TAG_CONDITIONAL) (v_tag out) = Some True) (arch_6502_tag_instr m pc) \<and>
          lty_of x = IntTy 1 \<and> value_ok us x) ts"
proof
  show "wt (arch_6502_translate_instr (cpu_6502 w) m pc) (\<lambda>len us. len = get_length (get_addmode (m pc))) ts"
    using emit_typed [of w m pc ts] by (simp add: arch_6502_translate_instr_def)
  show "wt (arch_6502_translate_cond (cpu_6502 w) m pc)
     (\<lambda>v us. case v of
        None \<Rightarrow> res_ok (\<lambda>(len, out). map_option (\<lambda>t. has t TAG_CONDITIONAL) (v_tag out) = Some False) (arch_6502_tag_instr m pc)
      | Some x \<Rightarrow> res_ok (\<lambda>(len, out). map_option (\<lambda>t. has t TAG_CONDITIONAL) (v_tag out) = Some True) (arch_6502_tag_instr m pc) \<and>
          lty_of x = IntTy 1 \<and> value_ok us x) ts"
    by (cases "get_instr (m pc)")
       (simp_all add: arch_6502_translate_cond_def arch_6502_tag_instr_def CC_EQ_def CC_NE_def CC_CS_def CC_CC_def CC_MI_def
          CC_PL_def CC_VS_def CC_VC_def emitters typing Let_def has_def nth_append)
qed

end
