(* ===== verification/Fapra.thy ===== *)
theory Fapra
  imports Tagger Printf
begin

text \<open>
  The FAPRA frontend up to translation: the opcodes (\<open>arch/fapra/fapra_internal.h\<close>), the fields
  of an instruction word and the tagger (\<open>fapra_translate.cpp\<close>), and the disassembler
  (\<open>fapra_disasm.cpp\<close>).
\<close>

section \<open>Instruction words\<close>

datatype fapra_op =
    OP_LDW | OP_STW | OP_LDB | OP_STB | OP_LDIH | OP_LDIL
  | OP_JMP | OP_BRA | OP_BZ | OP_BNZ | OP_NOP | OP_CALL | OP_BL | OP_RFE
  | OP_ADDI | OP_ADD | OP_SUB | OP_AND | OP_OR | OP_NOT | OP_SARI | OP_SAL | OP_SAR | OP_MUL
  | OP_PERM | OP_RDC8 | OP_TGE | OP_TSE

definition fapra_opcodes :: "(32 word \<times> fapra_op) list" where
  "fapra_opcodes =
     [(0x10, OP_LDW), (0x11, OP_STW), (0x1C, OP_LDB), (0x1D, OP_STB), (0x20, OP_LDIH), (0x21, OP_LDIL),
      (0x30, OP_JMP), (0x34, OP_BRA), (0x35, OP_BZ), (0x36, OP_BNZ), (0x32, OP_NOP), (0x33, OP_CALL),
      (0x37, OP_BL), (0x3F, OP_RFE), (0x0F, OP_ADDI), (0x00, OP_ADD), (0x01, OP_SUB), (0x02, OP_AND),
      (0x03, OP_OR), (0x05, OP_NOT), (0x0B, OP_SARI), (0x06, OP_SAL), (0x07, OP_SAR), (0x08, OP_MUL),
      (0x09, OP_PERM), (0x0A, OP_RDC8), (0x0C, OP_TGE), (0x0D, OP_TSE)]"

definition RAM32LE :: "ram \<Rightarrow> addr \<Rightarrow> 32 word" where
  "RAM32LE m a = ucast (m a) OR push_bit 8 (ucast (m (a + 1))) OR push_bit 16 (ucast (m (a + 2)))
     OR push_bit 24 (ucast (m (a + 3)))"

abbreviation INST_SIZE :: int where "INST_SIZE \<equiv> 4"

definition opc :: "32 word \<Rightarrow> 32 word" where
  "opc ins = drop_bit 26 ins"

text \<open>What a \<open>switch\<close> on the opcode sees; None is its \<open>default\<close>.\<close>

definition fapra_opcode :: "32 word \<Rightarrow> fapra_op option" where
  "fapra_opcode ins = map_of fapra_opcodes (opc ins)"

definition fapra_rd :: "32 word \<Rightarrow> 32 word" where "fapra_rd ins = drop_bit 21 ins AND 0x1F"
definition fapra_ra :: "32 word \<Rightarrow> 32 word" where "fapra_ra ins = drop_bit 16 ins AND 0x1F"
definition fapra_rb :: "32 word \<Rightarrow> 32 word" where "fapra_rb ins = drop_bit 11 ins AND 0x1F"

definition fapra_simm :: "32 word \<Rightarrow> 32 word" where
  "fapra_simm ins = signed_drop_bit 16 (push_bit 16 (ins AND 0xFFFF))"

definition fapra_imm :: "32 word \<Rightarrow> 32 word" where
  "fapra_imm ins = ins AND 0xFFFF"

section \<open>Tagging\<close>

text \<open>
  A call is looked at together with the two instructions before it: if they load the constant it
  jumps to, that constant is the target. Its address may lie before the code.
\<close>

definition fapra_call_target :: "ram \<Rightarrow> addr \<Rightarrow> addr" where
  "fapra_call_target m pc =
     (let ins = RAM32LE m pc; ldih = RAM32LE m (pc - 8); ldil = RAM32LE m (pc - 4) in
      if fapra_opcode ldih = Some OP_LDIH \<and> fapra_opcode ldil = Some OP_LDIL
        \<and> fapra_rd ldih = fapra_rd ldil \<and> fapra_rd ldih = fapra_ra ins
      then ucast (push_bit 16 (fapra_imm ldih) OR fapra_imm ldil) else NEW_PC_NONE)"

definition fapra_relative :: "ram \<Rightarrow> addr \<Rightarrow> addr" where
  "fapra_relative m pc = pc + scast (fapra_simm (RAM32LE m pc))"

definition arch_fapra_tag_instr :: "ram \<Rightarrow> tag_fn" where
  "arch_fapra_tag_instr m pc =
     (let out = (\<lambda>t target. Inr (INST_SIZE, \<lparr>v_tag = Some t, v_new_pc = target, v_next_pc = Some (pc + 4)\<rparr>)) in
      case fapra_opcode (RAM32LE m pc) of
        None \<Rightarrow> Inl ExitFailure
      | Some i \<Rightarrow>
          if i \<in> {OP_RFE, OP_PERM, OP_RDC8, OP_TGE, OP_TSE} then Inl ExitFailure
          else if i = OP_JMP then out TAG_RET None
          else if i = OP_BRA then out TAG_BRANCH (Some (fapra_relative m pc))
          else if i \<in> {OP_BZ, OP_BNZ} then out TAG_COND_BRANCH (Some (fapra_relative m pc))
          else if i = OP_CALL then out TAG_CALL (Some (fapra_call_target m pc))
          else if i = OP_BL then out TAG_CALL (Some (fapra_relative m pc))
          else out TAG_CONTINUE None)"

section \<open>The disassembler\<close>

fun disas_op :: "fapra_op \<Rightarrow> string" where
  "disas_op OP_RFE = ''rfe''" | "disas_op OP_PERM = ''perm''" | "disas_op OP_RDC8 = ''rdc8''"
| "disas_op OP_TGE = ''tge''" | "disas_op OP_TSE = ''tse''" | "disas_op OP_LDW = ''ldw''"
| "disas_op OP_STW = ''stw''" | "disas_op OP_LDB = ''ldb''" | "disas_op OP_STB = ''stb''"
| "disas_op OP_LDIH = ''ldih''" | "disas_op OP_LDIL = ''ldil''" | "disas_op OP_ADDI = ''addi''"
| "disas_op OP_ADD = ''add''" | "disas_op OP_SUB = ''sub''" | "disas_op OP_AND = ''and''"
| "disas_op OP_OR = ''or''" | "disas_op OP_NOT = ''not''" | "disas_op OP_SARI = ''sari''"
| "disas_op OP_SAL = ''sal''" | "disas_op OP_SAR = ''sar''" | "disas_op OP_MUL = ''mul''"
| "disas_op OP_NOP = ''nop''" | "disas_op OP_JMP = ''jmp''" | "disas_op OP_BRA = ''bra''"
| "disas_op OP_BZ = ''bz''" | "disas_op OP_BNZ = ''bnz''" | "disas_op OP_CALL = ''call''" | "disas_op OP_BL = ''bl''"

definition disas_opc :: "32 word \<Rightarrow> string res" where
  "disas_opc ins = (case fapra_opcode ins of None \<Rightarrow> Inl ExitFailure | Some i \<Rightarrow> Inr (disas_op i))"

definition arch_fapra_disasm_instr :: "ram \<Rightarrow> addr \<Rightarrow> nat \<Rightarrow> (string \<times> int) res" where
  "arch_fapra_disasm_instr m pc max_line =
     res_bind (disas_opc (RAM32LE m pc)) (\<lambda>s. Inr (snprintf_text max_line (s @ [CHR 0x0A]), 4))"

section \<open>Fields\<close>

lemma field_bound: "unat (x AND 0x1F :: 32 word) < 32"
proof -
  have "x AND 0x1F = take_bit 5 x" by (simp add: take_bit_eq_mask mask_eq_exp_minus_1)
  then have "unat (x AND 0x1F) = take_bit 5 (unat x)" by (simp add: unsigned_take_bit_eq)
  then show ?thesis by (simp add: take_bit_eq_mod)
qed

lemma fapra_fields: "unat (fapra_rd ins) < 32" "unat (fapra_ra ins) < 32" "unat (fapra_rb ins) < 32"
  by (simp_all only: fapra_rd_def fapra_ra_def fapra_rb_def field_bound)

lemma low_half: "(ins :: 32 word) AND 0xFFFF = ucast (ucast ins :: 16 word)"
proof -
  have "ins AND 0xFFFF = take_bit 16 ins" by (simp add: take_bit_eq_mask mask_eq_exp_minus_1)
  also have "\<dots> = ucast (ucast ins :: 16 word)" by (rule bit_word_eqI) (auto simp: bit_simps)
  finally show ?thesis .
qed

lemma fapra_simm_sext: "fapra_simm ins = scast (ucast ins :: 16 word)"
proof (rule bit_word_eqI)
  fix n
  assume "n < LENGTH(32)"
  then show "bit (fapra_simm ins) n \<longleftrightarrow> bit (scast (ucast ins :: 16 word) :: 32 word) n"
    unfolding fapra_simm_def low_half
    by (cases "n < 15"; cases "n = 15") (auto simp: bit_simps min_def)
qed

lemma fapra_opcode_rev: "fapra_opcode ins = Some i \<Longrightarrow> (opc ins, i) \<in> set fapra_opcodes"
  unfolding fapra_opcode_def by (rule map_of_SomeD)

section \<open>The frontend contract\<close>

definition fapra_code :: "ram \<Rightarrow> addr \<Rightarrow> bool" where
  "fapra_code m pc \<longleftrightarrow> fapra_opcode (RAM32LE m pc) \<notin> {None, Some OP_RFE, Some OP_PERM, Some OP_RDC8, Some OP_TGE, Some OP_TSE}"

lemma tag_bits_fapra:
  "\<not> has TAG_RET TAG_INTERNAL" "\<not> has TAG_BRANCH TAG_INTERNAL" "\<not> has TAG_CALL TAG_INTERNAL"
  "\<not> has TAG_COND_BRANCH TAG_INTERNAL" "\<not> has TAG_CONTINUE TAG_INTERNAL"
  by (simp_all add: bits)

lemma arch_fapra_contract:
  assumes "fapra_code m pc"
  shows "res_ok (\<lambda>(len, v). tag_contract v \<and> len = INST_SIZE \<and> v_next_pc v = Some (pc + 4)) (arch_fapra_tag_instr m pc)"
  using assms
  by (auto simp: fapra_code_def arch_fapra_tag_instr_def tag_contract_def Let_def tag_bits_fapra bits split: option.splits)

interpretation fapra: tag_frontend "arch_fapra_tag_instr m" "fapra_code m" for m
  by unfold_locales (rule res_ok_mono [OF arch_fapra_contract], auto)

end
