(* ===== verification/Memory.thy ===== *)
theory Memory
  imports Frontend
begin

text \<open>
  The guest's memory as generated code sees it: words of four bytes in either byte order, the
  aligned accesses of \<open>libcpu/frontend.cpp\<close> with the swap \<open>cpu_new\<close> asks for, and the byte
  accesses built from them.
\<close>

declare split_of_bool [split del] split_of_bool_asm [split del]

section \<open>Words of four bytes\<close>

abbreviation word_of_bytes :: "byte list \<Rightarrow> int" where
  "word_of_bytes \<equiv> horner_sum uint 256"

lemma bit_word_of_bytes:
  "bit (word_of_bytes bs) n \<longleftrightarrow> n div 8 < length bs \<and> bit (bs ! (n div 8)) (n mod 8)"
  using bit_horner_sum_uint_exp_iff [of bs n] by simp

lemma load_word_bytes:
  "load_word big m a = Some x \<longleftrightarrow>
     4 dvd a \<and> (\<exists>bs. map m (word_bytes big a) = map Some bs \<and> x = word_of_bytes bs)"
  by (auto simp: load_word_def word_bytes_def map_eq_Cons_conv Cons_eq_map_conv algebra_simps split: list.splits option.splits)

lemma byte_of_word:
  "k < length bs \<Longrightarrow> take_bit 8 (drop_bit (8 * k) (word_of_bytes bs)) = uint (bs ! k)"
proof (rule bit_eqI)
  fix n
  show "bit (take_bit 8 (drop_bit (8 * k) (word_of_bytes bs))) n \<longleftrightarrow> bit (uint (bs ! k)) n" if "k < length bs"
    using that bit_imp_le_length [of "bs ! k" n] by (cases "n < 8") (auto simp: bit_simps bit_word_of_bytes)
qed

lemma word_bytes_length [simp]: "length (word_bytes big a) = 4" "set (word_bytes big a) = {a, a + 1, a + 2, a + 3}"
  by (auto simp: word_bytes_def)

lemma word_bytes_rev: "word_bytes (\<not> big) a = rev (word_bytes big a)"
  by (simp add: word_bytes_def)

lemma four_bytes: "length bs = 4 \<Longrightarrow> \<exists>b0 b1 b2 b3. bs = [b0, b1, b2, b3]"
  by (auto simp: numeral_eq_Suc length_Suc_conv)

lemma bswap_bytes:
  assumes "length bs = 4" and "x = word_of_bytes bs"
  shows "push_bit 24 (take_bit 8 x) + push_bit 16 (take_bit 8 (drop_bit 8 x))
      + push_bit 8 (take_bit 8 (drop_bit 16 x)) + take_bit 8 (drop_bit 24 x) = word_of_bytes (rev bs)"
proof -
  have b: "take_bit 8 x = uint (bs ! 0)" "take_bit 8 (drop_bit 8 x) = uint (bs ! 1)"
      "take_bit 8 (drop_bit 16 x) = uint (bs ! 2)" "take_bit 8 (drop_bit 24 x) = uint (bs ! 3)"
    using byte_of_word [of 0 bs] byte_of_word [of 1 bs] byte_of_word [of 2 bs] byte_of_word [of 3 bs] assms by simp_all
  show ?thesis unfolding b using four_bytes [OF assms(1)] by (auto simp: push_bit_eq_mult)
qed

lemma load_word_bswap:
  assumes "load_word big m a = Some x"
  shows "load_word (\<not> big) m a = Some (push_bit 24 (take_bit 8 x) + push_bit 16 (take_bit 8 (drop_bit 8 x))
      + push_bit 8 (take_bit 8 (drop_bit 16 x)) + take_bit 8 (drop_bit 24 x))"
proof -
  obtain bs where bs: "4 dvd a" "map m (word_bytes big a) = map Some bs" "x = word_of_bytes bs"
    using assms by (auto simp: load_word_bytes)
  from bs(2) have "length bs = 4" by (metis length_map word_bytes_length(1))
  then have "push_bit 24 (take_bit 8 x) + push_bit 16 (take_bit 8 (drop_bit 8 x))
      + push_bit 8 (take_bit 8 (drop_bit 16 x)) + take_bit 8 (drop_bit 24 x) = word_of_bytes (rev bs)"
    using bs(3) by (rule bswap_bytes)
  moreover have "map m (word_bytes (\<not> big) a) = map Some (rev bs)"
    using bs(2) by (simp add: word_bytes_rev rev_map [symmetric])
  ultimately show ?thesis using bs(1) by (auto simp: load_word_bytes)
qed

lemma load_word_bits: "load_word big m a = Some x \<Longrightarrow> take_bit 32 x = x"
proof -
  assume "load_word big m a = Some x"
  then obtain bs where "map m (word_bytes big a) = map Some bs" and x: "x = word_of_bytes bs"
    by (auto simp: load_word_bytes)
  then have "length bs = 4" by (metis length_map word_bytes_length(1))
  then show ?thesis by (intro bit_eqI) (auto simp: bit_simps bit_word_of_bytes x)
qed

section \<open>Aligned words\<close>

text \<open>
  What \<open>cpu_new\<close> finds out about the host: the two formats of \<open>long double\<close> it may have, and
  whether its byte order differs from the guest's.
\<close>

definition cpu_new_flags :: "bool \<Rightarrow> bool \<Rightarrow> bool \<Rightarrow> xcpu \<Rightarrow> xcpu" where
  "cpu_new_flags little fp80 fp128 cpu = cpu\<lparr>cpu_flags :=
     (if fp80 then CPU_FLAG_FP80 else 0) OR (if fp128 then CPU_FLAG_FP128 else 0) OR
     (if little \<noteq> IS_LITTLE_ENDIAN cpu then CPU_FLAG_SWAPMEM else 0)\<rparr>"

definition swaps :: "bool \<Rightarrow> xcpu \<Rightarrow> bool" where
  "swaps big cpu \<longleftrightarrow> has (cpu_flags cpu) CPU_FLAG_SWAPMEM = (big = IS_LITTLE_ENDIAN cpu)"

lemma cpu_new_swaps: "swaps big (cpu_new_flags (\<not> big) fp80 fp128 cpu)"
  by (auto simp: swaps_def cpu_new_flags_def IS_LITTLE_ENDIAN_def has_def)

definition guest_cpu :: "bool \<Rightarrow> xcpu \<Rightarrow> bool" where
  "guest_cpu big cpu \<longleftrightarrow> swaps big cpu \<and> ptr_RAM cpu = Address (RamPtr 0) (IntTy 8) \<and> word_size cpu = 32"

definition holds :: "config \<Rightarrow> lval \<Rightarrow> nat \<Rightarrow> int \<Rightarrow> bool" where
  "holds c v n x \<longleftrightarrow> lty_of v = IntTy n \<and> eval c v = VInt n x \<and> (\<forall>k t. v = Result k t \<longrightarrow> k < position c)"

lemma holds_simps [simp]:
  "holds c (ConstantInt n x) m y \<longleftrightarrow> n = m \<and> x = y"
  "holds c (Result k t) n x \<longleftrightarrow> t = IntTy n \<and> results c k = VInt n x \<and> k < position c"
  "\<not> holds c (Address p t) n x"
  by (auto simp: holds_def)

lemma lands_holds: "lands c (IntTy n) (VInt n x) v d \<Longrightarrow> holds d v n x"
  by (auto simp: lands_def)

lemma holds_later:
  "holds c v n x \<Longrightarrow> (\<And>i. i < position c \<Longrightarrow> results d i = results c i) \<Longrightarrow> position c \<le> position d \<Longrightarrow> holds d v n x"
  by (cases v) auto

lemma lands_keeps: "lands c t r v d \<Longrightarrow> holds c w n x \<Longrightarrow> holds d w n x"
  by (cases w) (auto simp: lands_def holds_def)

lemma holds_push [simp]: "holds c v n x \<Longrightarrow> holds (push r c) v n x" "holds c v n x \<Longrightarrow> holds (skip c) v n x"
  by (cases v; simp add: holds_def)+

lemma load32_lands:
  assumes g: "guest_cpu big cpu" and v: "holds c v 32 x"
    and y: "load_word (\<not> IS_LITTLE_ENDIAN cpu) (ram c) (signed_take_bit 31 x) = Some y"
  shows "wp (langref big) (arch_load32_aligned cpu v) (lands c (IntTy 32) (VInt 32 y)) c"
proof (cases "big = IS_LITTLE_ENDIAN cpu")
  case True
  with load_word_bswap [OF y] obtain z where z: "load_word big (ram c) (signed_take_bit 31 x) = Some z" by auto
  from load_word_bswap [OF this] True y have "push_bit 24 (take_bit 8 z) + push_bit 16 (take_bit 8 (drop_bit 8 z))
      + push_bit 8 (take_bit 8 (drop_bit 16 z)) + take_bit 8 (drop_bit 24 z) = y" by simp
  with True g v z show ?thesis
    by (cases v) (simp_all add: arch_load32_aligned_def arch_gep32_def guest_cpu_def swaps_def emitters lands_def arch_bswap_def)
next
  case False
  with y have "load_word big (ram c) (signed_take_bit 31 x) = Some y" by (cases big) simp_all
  with False g v show ?thesis
    by (cases v) (simp_all add: arch_load32_aligned_def arch_gep32_def guest_cpu_def swaps_def emitters lands_def)
qed

lemma word_of_byte: "k < length bs \<Longrightarrow> word_of_int (drop_bit (8 * k) (word_of_bytes bs)) = bs ! k"
  by (rule bit_eqI) (auto simp: bit_simps bit_word_of_bytes)

lemma store_word_bytes:
  assumes "length bs = 4"
  shows "store_word big m a (word_of_bytes bs) =
    (if 4 dvd a \<and> (\<forall>i\<in>set (word_bytes big a). m i \<noteq> None) then Some (m(word_bytes big a [\<mapsto>] bs)) else None)"
proof -
  obtain b0 b1 b2 b3 where bs: "bs = [b0, b1, b2, b3]" using four_bytes [OF assms] by blast
  define y where "y = word_of_bytes bs"
  have w: "word_of_int (drop_bit (8 * k) y) = bs ! k" if "k < 4" for k
    using that assms by (simp add: y_def word_of_byte)
  have "word_of_int y = b0" "word_of_int (drop_bit 8 y) = b1" "word_of_int (drop_bit 16 y) = b2" "word_of_int (drop_bit 24 y) = b3"
    using w [of 0] w [of 1] w [of 2] w [of 3] by (simp_all add: bs)
  then show ?thesis unfolding y_def [symmetric]
    by (simp add: store_word_def word_bytes_def bs list_all_iff)
qed

lemma bytes_of_word:
  assumes "take_bit 32 y = y"
  obtains bs where "length bs = 4" and "y = word_of_bytes bs"
proof
  let ?bs = "map (\<lambda>k. word_of_int (drop_bit (8 * k) y)) [0..<4] :: byte list"
  show "length ?bs = 4" by simp
  have high: "n < 32" if "bit y n" for n using that assms by (metis bit_take_bit_iff)
  show "y = word_of_bytes ?bs"
  proof (rule bit_eqI)
    fix n
    show "bit y n \<longleftrightarrow> bit (word_of_bytes ?bs) n"
    proof (cases "n < 32")
      case True
      then have "n div 8 < 4" by auto
      moreover from this have "?bs ! (n div 8) = word_of_int (drop_bit (8 * (n div 8)) y)"
        by (simp only: nth_map_upt) simp
      ultimately show ?thesis
        unfolding bit_word_of_bytes by (simp only: length_map length_upt bit_word_of_int_iff bit_drop_bit_eq o_def) simp
    next
      case False
      then have "\<not> n div 8 < length ?bs" by simp
      with False high show ?thesis unfolding bit_word_of_bytes by blast
    qed
  qed
qed

lemma store_word_bswap:
  assumes "take_bit 32 y = y"
  shows "store_word (\<not> big) m a (push_bit 24 (take_bit 8 y) + push_bit 16 (take_bit 8 (drop_bit 8 y))
      + push_bit 8 (take_bit 8 (drop_bit 16 y)) + take_bit 8 (drop_bit 24 y)) = store_word big m a y"
proof -
  obtain bs where bs: "length bs = 4" "y = word_of_bytes bs" using bytes_of_word [OF assms] .
  obtain b0 b1 b2 b3 where b: "bs = [b0, b1, b2, b3]" using four_bytes [OF bs(1)] by blast
  have "m(word_bytes (\<not> big) a [\<mapsto>] rev bs) = m(word_bytes big a [\<mapsto>] bs)"
    by (auto simp: word_bytes_def b fun_eq_iff)
  then show ?thesis
    unfolding bswap_bytes [OF bs] using bs by (simp add: store_word_bytes)
qed

lemma store32:
  assumes g: "guest_cpu big cpu" and v: "holds c v 32 y" "take_bit 32 y = y" and a: "holds c a 32 x"
    and m: "store_word (\<not> IS_LITTLE_ENDIAN cpu) (ram c) (signed_take_bit 31 x) y = Some m"
    and Q: "\<And>d. cells d = cells c \<Longrightarrow> ram d = m \<Longrightarrow> Q () d"
  shows "wp (langref big) (arch_store32_aligned cpu v a) Q c"
proof (cases "big = IS_LITTLE_ENDIAN cpu")
  case True
  with store_word_bswap [OF v(2), of "\<not> big"] m
  have "store_word big (ram c) (signed_take_bit 31 x) (push_bit 24 (take_bit 8 y) + push_bit 16 (take_bit 8 (drop_bit 8 y))
      + push_bit 8 (take_bit 8 (drop_bit 16 y)) + take_bit 8 (drop_bit 24 y)) = Some m" by simp
  with True g v a show ?thesis
    by (cases v; cases a) (simp_all add: arch_store32_aligned_def arch_gep32_def guest_cpu_def swaps_def emitters arch_bswap_def Q)
next
  case False
  with m have "store_word big (ram c) (signed_take_bit 31 x) y = Some m" by (cases big) simp_all
  with False g v a show ?thesis
    by (cases v; cases a) (simp_all add: arch_store32_aligned_def arch_gep32_def guest_cpu_def swaps_def emitters Q)
qed

section \<open>Bytes\<close>

lemma int_bits:
  assumes "0 \<le> x" "x < (2 ^ 32 :: int)"
  shows "x AND 3 = x mod 4" "x AND 4294967292 = x - x mod 4"
    "signed_take_bit 31 (x - x mod 4) = signed_take_bit 31 x - x mod 4" "4 dvd signed_take_bit 31 x - x mod 4"
proof -
  show "x AND 3 = x mod 4"
    using take_bit_eq_mask [of 2 x] by (simp add: mask_eq_exp_minus_1 take_bit_eq_mod)
  have "take_bit 32 x = x" using assms by (simp add: take_bit_int_eq_self)
  then have high: "n < 32" if "bit x n" for n using that by (metis bit_take_bit_iff)
  have m: "bit (4294967292 :: int) n \<longleftrightarrow> 2 \<le> n \<and> n < 32" for n
  proof -
    have "(4294967292 :: int) = push_bit 2 (mask 30)" by (simp add: mask_eq_exp_minus_1 push_bit_eq_mult)
    then show ?thesis by (simp only: bit_push_bit_iff bit_mask_iff) auto
  qed
  have "x AND 4294967292 = push_bit 2 (drop_bit 2 x)"
  proof (rule bit_eqI)
    fix n
    have "Suc (Suc (n - 2)) = n" if "2 \<le> n" using that by simp
    then show "bit (x AND 4294967292) n \<longleftrightarrow> bit (push_bit 2 (drop_bit 2 x)) n"
      using high [of n] by (auto simp: bit_and_iff m bit_push_bit_iff bit_drop_bit_eq)
  qed
  also have "\<dots> = x - x mod 4" by (simp add: push_bit_eq_mult drop_bit_eq_div minus_mod_eq_div_mult)
  finally show "x AND 4294967292 = x - x mod 4" .
  have s: "signed_take_bit 31 z = (if z < 2147483648 then z else z - 4294967296)" if "0 \<le> z" "z < 4294967296" for z :: int
  proof (cases "z < 2147483648")
    case True
    with that have "(z + 2147483648) mod 4294967296 = z + 2147483648" by (intro mod_pos_pos_trivial) simp_all
    with True show ?thesis by (simp add: signed_take_bit_eq_take_bit_shift take_bit_eq_mod)
  next
    case False
    have "(z + 2147483648) mod 4294967296 = (z - 2147483648) mod 4294967296"
      using minus_mod_self2 [of "z + 2147483648" 4294967296] by simp
    also have "\<dots> = z - 2147483648" using that False by (intro mod_pos_pos_trivial) simp_all
    finally show ?thesis using False by (simp add: signed_take_bit_eq_take_bit_shift take_bit_eq_mod)
  qed
  define q r where "q = x div 4" and "r = x mod 4"
  have x: "x = 4 * q + r" "0 \<le> r" "r < 4" by (simp_all add: q_def r_def)
  have "q < 536870912 \<longleftrightarrow> 4 * q + r < 2147483648" using x by (cases "q < 536870912") linarith+
  moreover have "4 * q + r < 4294967296" using assms x by simp
  moreover from this have "0 \<le> q" "q < 1073741824" using assms(1) x by linarith+
  ultimately have e: "signed_take_bit 31 (4 * q) = signed_take_bit 31 (4 * q + r) - r"
    and d: "signed_take_bit 31 (4 * q) = 4 * (if q < 536870912 then q else q - 1073741824)"
    using s [of "4 * q"] s [of "4 * q + r"] x(2) by auto
  have "x - r = 4 * q" "4 * q + r = x" using x(1) by linarith+
  then have e': "signed_take_bit 31 (x - r) = signed_take_bit 31 x - r" using e by (simp only:)
  then show "signed_take_bit 31 (x - x mod 4) = signed_take_bit 31 x - x mod 4" by (simp only: r_def)
  have "4 dvd signed_take_bit 31 (4 * q)" unfolding d by (rule dvd_triv_left)
  with e' \<open>x - r = 4 * q\<close> show "4 dvd signed_take_bit 31 x - x mod 4" by (simp only: r_def)
qed

lemma word_byte_at:
  assumes "load_word big m a = Some y" and "k < 4"
  shows "m (a + int k) = Some (word_of_int (drop_bit (8 * (if big then 3 - k else k)) y))"
proof -
  obtain bs where bs: "map m (word_bytes big a) = map Some bs" "y = word_of_bytes bs"
    using assms(1) by (auto simp: load_word_bytes)
  from bs(1) have "length bs = 4" by (metis length_map word_bytes_length(1))
  then have "m (word_bytes big a ! j) = Some (word_of_int (drop_bit (8 * j) y))" if "j < 4" for j
    using that bs(1) by (metis bs(2) length_map nth_map word_of_byte)
  from this [of "if big then 3 - k else k"] assms(2) show ?thesis
    by (auto simp: word_bytes_def less_Suc_eq numeral_eq_Suc)
qed

text \<open>The shift that brings a byte to the bottom of its word.\<close>

definition byte_shift :: "xcpu \<Rightarrow> nat \<Rightarrow> nat" where
  "byte_shift cpu k = 8 * (if IS_LITTLE_ENDIAN cpu then k else 3 - k)"

lemma shift8_lands:
  assumes g: "guest_cpu big cpu" and a: "holds c a 32 x" "0 \<le> x" "x < 2 ^ 32"
  shows "wp (langref big) (arch_get_shift8 cpu a) (lands c (IntTy 32) (VInt 32 (int (byte_shift cpu (nat (x mod 4)))))) c"
proof -
  have m: "x AND 3 = x mod 4" using int_bits(1) a(2,3) .
  have "x mod 4 \<in> {0, 1, 2, 3}" by auto
  then show ?thesis using g a(1)
    by (cases a; elim insertE emptyE) (simp_all add: arch_get_shift8_def emitters guest_cpu_def lands_def Let_def m byte_shift_def push_bit_eq_mult)
qed

lemma byte_shift_bounds: "k < 4 \<Longrightarrow> byte_shift cpu k < 32"
  by (auto simp: byte_shift_def)

lemma aligned_lands:
  assumes g: "guest_cpu big cpu" and a: "holds c a 32 x" "0 \<le> x" "x < 2 ^ 32"
  shows "wp (langref big) (e_AND (e_ret a) (CONSTw cpu (- 4))) (lands c (IntTy 32) (VInt 32 (x - x mod 4))) c"
  using g a(1) int_bits(2) [OF a(2,3)] by (cases a) (simp_all add: emitters guest_cpu_def lands_def)

lemma load8_lands:
  assumes g: "guest_cpu big cpu" and a: "holds c a 32 x" "0 \<le> x" "x < 2 ^ 32"
    and y: "load_word (\<not> IS_LITTLE_ENDIAN cpu) (ram c) (signed_take_bit 31 x - x mod 4) = Some y"
    and b: "ram c (signed_take_bit 31 x) = Some b"
  shows "wp (langref big) (arch_load8 cpu a) (lands c (IntTy 8) (VInt 8 (uint b))) c"
proof -
  define k where "k = nat (x mod 4)"
  have k: "k < 4" "int k = x mod 4" unfolding k_def by (simp_all add: nat_less_iff)
  have "b = word_of_int (drop_bit (byte_shift cpu k) y)"
    using word_byte_at [OF y k(1)] b by (simp add: k(2) byte_shift_def split: if_splits)
  then have b': "take_bit 8 (drop_bit (byte_shift cpu k) y) = uint b" by (simp add: uint_word_of_int_eq)
  note y' = y [folded int_bits(3) [OF a(2,3)]]
  show ?thesis unfolding arch_load8_def wp_bind
  proof (rule wp_lands [OF shift8_lands [OF g a]], rule wp_lands [OF aligned_lands [OF g _ a(2,3)]], goal_cases)
    case (1 d i)
    then show ?case using lands_keeps [of c _ _ "Result i (IntTy 32)" d] a(1) by (simp add: lands_def)
  next
    case (2 d i e j)
    show ?case
      apply (rule wp_lands [OF load32_lands [OF g, where y = y]])
      using 2 y' byte_shift_bounds [OF k(1)] by (simp_all add: emitters lands_def k_def [symmetric] b')
  qed
qed

lemma replace_byte:
  assumes "length bs = 4" and "j < 4"
  shows "(word_of_bytes bs AND (take_bit 32 (push_bit (8 * j) 255) XOR mask 32)) OR take_bit 32 (push_bit (8 * j) (z AND 255)) =
    word_of_bytes (bs[j := word_of_int z])"
proof (rule bit_eqI)
  fix n
  have m: "bit (255 :: int) i \<longleftrightarrow> i < 8" for i
    using bit_mask_iff [of 8 i, where 'a = int] by (simp add: mask_eq_exp_minus_1)
  have b: "n div 8 < 4 \<longleftrightarrow> n < 32" for n :: nat by auto
  show "bit ((word_of_bytes bs AND (take_bit 32 (push_bit (8 * j) 255) XOR mask 32)) OR take_bit 32 (push_bit (8 * j) (z AND 255))) n =
    bit (word_of_bytes (bs[j := word_of_int z])) n"
  proof (cases "n div 8 = j")
    case True
    then have "n = 8 * j + n mod 8" "8 * j \<le> n" "n - 8 * j = n mod 8" "n < 32"
      using assms(2) mult_div_mod_eq [of 8 n] by (auto simp del: mult_div_mod_eq)
    then show ?thesis using True assms
      by (simp add: bit_or_iff bit_and_iff bit_xor_iff bit_take_bit_iff bit_push_bit_iff bit_word_of_bytes bit_mask_iff m b bit_word_of_int_iff)
  next
    case False
    then have "\<not> (8 * j \<le> n \<and> n - 8 * j < 8)" by auto
    then show ?thesis using False assms
      by (auto simp: bit_or_iff bit_and_iff bit_xor_iff bit_take_bit_iff bit_push_bit_iff bit_word_of_bytes bit_mask_iff m b)
  qed
qed

lemma store_byte:
  assumes y: "load_word big m a = Some y" and k: "k < 4"
  shows "store_word big m a ((y AND (take_bit 32 (push_bit (8 * (if big then 3 - k else k)) 255) XOR mask 32)) OR
      take_bit 32 (push_bit (8 * (if big then 3 - k else k)) (z AND 255))) = Some (m(a + int k \<mapsto> word_of_int z))"
proof -
  let ?j = "if big then 3 - k else k"
  obtain bs where bs: "4 dvd a" "map m (word_bytes big a) = map Some bs" "y = word_of_bytes bs"
    using y by (auto simp: load_word_bytes)
  from bs(2) have l: "length bs = 4" by (metis length_map word_bytes_length(1))
  obtain b0 b1 b2 b3 where b: "bs = [b0, b1, b2, b3]" using four_bytes [OF l] by blast
  have j: "?j < 4" using k by auto
  have "m(word_bytes big a [\<mapsto>] bs[?j := word_of_int z]) = m(a + int k \<mapsto> word_of_int z)"
    using bs(2) k by (auto simp: word_bytes_def b fun_eq_iff less_Suc_eq numeral_eq_Suc)
  moreover have "\<forall>i\<in>set (word_bytes big a). m i \<noteq> None" using bs(2) by (auto simp: word_bytes_def b split: if_splits)
  ultimately show ?thesis
    unfolding bs(3) replace_byte [OF l j] using l bs(1) by (subst store_word_bytes) simp_all
qed

lemma mask_lands:
  assumes "word_size cpu = 32" and "holds c sh 32 (int s)" "s < 32" and "take_bit 32 f = f"
  shows "wp (langref big) (e_XOR (SHL (CONSTw cpu f) (e_ret sh)) (CONSTw cpu (- 1)))
    (lands c (IntTy 32) (VInt 32 (take_bit 32 (push_bit s f) XOR mask 32))) c"
  using assms by (cases sh) (simp_all add: emitters lands_def)

lemma insert_lands:
  assumes "word_size cpu = 32" and "holds c sh 32 (int s)" "s < 32" and "take_bit 32 f = f" and "holds c v 32 z" "holds c old 32 x"
  shows "wp (langref big) (e_OR (e_ret old) (SHL (e_AND (e_ret v) (CONSTw cpu f)) (e_ret sh)))
    (lands c (IntTy 32) (VInt 32 (x OR take_bit 32 (push_bit s (z AND f))))) c"
  using assms by (cases sh; cases v; cases old) (simp_all add: emitters lands_def)

lemma masked_lands:
  assumes g: "guest_cpu big cpu" and a: "holds c a 32 x" and m: "holds c msk 32 w"
    and y: "load_word (\<not> IS_LITTLE_ENDIAN cpu) (ram c) (signed_take_bit 31 x) = Some y"
  shows "wp (langref big) (e_AND (arch_load32_aligned cpu a) (e_ret msk)) (lands c (IntTy 32) (VInt 32 (y AND w))) c"
  unfolding e_binop_def wp_bind
  by (rule wp_lands [OF load32_lands [OF g a y]]) (use m in \<open>cases msk; simp add: emitters lands_def\<close>)

lemma store_field:
  assumes g: "guest_cpu big cpu" and v: "holds c v 32 z" and a: "holds c a 32 x" "0 \<le> x" "x < 2 ^ 32" and f: "take_bit 32 f = f"
    and sh: "wp (langref big) shift (lands c (IntTy 32) (VInt 32 (int s))) c" "s < 32"
    and y: "load_word (\<not> IS_LITTLE_ENDIAN cpu) (ram c) (signed_take_bit 31 x - x mod 4) = Some y"
    and new: "store_word (\<not> IS_LITTLE_ENDIAN cpu) (ram c) (signed_take_bit 31 x - x mod 4)
      ((y AND (take_bit 32 (push_bit s f) XOR mask 32)) OR take_bit 32 (push_bit s (z AND f))) = Some m"
    and Q: "\<And>d. cells d = cells c \<Longrightarrow> ram d = m \<Longrightarrow> Q () d"
  shows "wp (langref big) (e_bind shift (\<lambda>shift.
     e_bind (e_AND (e_ret a) (CONSTw cpu (- 4))) (\<lambda>addr.
     e_bind (e_XOR (SHL (CONSTw cpu f) (e_ret shift)) (CONSTw cpu (- 1))) (\<lambda>mask.
     e_bind (e_AND (arch_load32_aligned cpu addr) (e_ret mask)) (\<lambda>old.
     e_bind (e_OR (e_ret old) (SHL (e_AND (e_ret v) (CONSTw cpu f)) (e_ret shift))) (\<lambda>v.
     arch_store32_aligned cpu v addr)))))) Q c"
proof -
  have ws: "word_size cpu = 32" using g by (simp add: guest_cpu_def)
  note y' = y [folded int_bits(3) [OF a(2,3)]]
  let ?new = "(y AND (take_bit 32 (push_bit s f) XOR mask 32)) OR take_bit 32 (push_bit s (z AND f))"
  have n: "take_bit 32 ?new = ?new" using load_word_bits [OF y] by (simp add: take_bit_or take_bit_and take_bit_xor)
  show ?thesis unfolding wp_bind
  proof (rule wp_lands [OF sh(1)], rule wp_lands [OF aligned_lands [OF g _ a(2,3)]], goal_cases)
    case 1
    then show ?case by (intro holds_later [OF a(1)]) simp_all
  next
    case (2 d i e j)
    then have v': "holds e v 32 z" by (intro holds_later [OF v]) simp_all
    from 2 show ?case
      by (intro wp_lands [OF mask_lands [OF ws _ sh(2) f]] wp_lands [OF masked_lands [OF g, where x = "x - x mod 4" and y = y]]
          wp_lands [OF insert_lands [OF ws _ sh(2) f]] store32 [OF g _ n, where m = m and x = "x - x mod 4"] Q)
        (use new y' in \<open>simp_all add: int_bits(3) [OF a(2,3)] holds_later [OF v']\<close>)
  qed
qed

lemma store8:
  assumes g: "guest_cpu big cpu" and v: "holds c v 32 z" and a: "holds c a 32 x" "0 \<le> x" "x < 2 ^ 32"
    and y: "load_word (\<not> IS_LITTLE_ENDIAN cpu) (ram c) (signed_take_bit 31 x - x mod 4) = Some y"
    and Q: "\<And>d. cells d = cells c \<Longrightarrow> ram d = (ram c)(signed_take_bit 31 x \<mapsto> word_of_int z) \<Longrightarrow> Q () d"
  shows "wp (langref big) (arch_store8 cpu v a) Q c"
proof -
  define k where "k = nat (x mod 4)"
  have k: "k < 4" "int k = x mod 4" unfolding k_def by (simp_all add: nat_less_iff)
  show ?thesis unfolding arch_store8_def
  proof (rule store_field [OF g v a])
    show "take_bit 32 255 = (255 :: int)" by simp
    show "wp (langref big) (arch_get_shift8 cpu a) (lands c (IntTy 32) (VInt 32 (int (byte_shift cpu k)))) c"
      using shift8_lands [OF g a] by (simp only: k_def)
    show "store_word (\<not> IS_LITTLE_ENDIAN cpu) (ram c) (signed_take_bit 31 x - x mod 4)
      ((y AND (take_bit 32 (push_bit (byte_shift cpu k) 255) XOR mask 32)) OR take_bit 32 (push_bit (byte_shift cpu k) (z AND 255))) =
      Some ((ram c)(signed_take_bit 31 x \<mapsto> word_of_int z))"
      using store_byte [OF y k(1), of z] by (simp add: k(2) byte_shift_def split: if_splits)
  qed (use byte_shift_bounds [OF k(1)] y Q in simp_all)
qed


section \<open>Property\<close>

text \<open>
  C7. Byte accesses do what they say although the generated code only ever touches aligned words:
  with the flags \<open>cpu_new\<close> has set, for a guest and a host of either byte order, \<open>arch_load8\<close>
  gives the byte at the address and changes nothing, and \<open>arch_store8\<close> changes that byte and no
  other. The word around it has to lie in the buffer; addresses from 2 GiB on are taken for
  negative offsets.
\<close>

theorem guest_byte_access:
  assumes "llvm big step jump" and "cpu = cpu_new_flags (\<not> big) fp80 fp128 cpu0"
    and "ptr_RAM cpu0 = Address (RamPtr 0) (IntTy 8)" and "word_size cpu0 = 32"
    and "holds c a 32 x" and "0 \<le> x" and "x < 2 ^ 32" and "holds c v 32 z"
    and "\<And>k. k < 4 \<Longrightarrow> ram c (signed_take_bit 31 x - x mod 4 + int k) \<noteq> None"
  shows "wp step (arch_load8 cpu a)
      (\<lambda>r d. \<exists>b. ram c (signed_take_bit 31 x) = Some b \<and> holds d r 8 (uint b) \<and> cells d = cells c \<and> ram d = ram c) c \<and>
    wp step (arch_store8 cpu v a)
      (\<lambda>_ d. cells d = cells c \<and> ram d = (ram c)(signed_take_bit 31 x \<mapsto> word_of_int z)) c"
proof -
  have g: "guest_cpu big cpu"
    using assms(2-4) cpu_new_swaps [of big fp80 fp128 cpu0] by (simp add: guest_cpu_def cpu_new_flags_def)
  let ?a = "signed_take_bit 31 x - x mod 4"
  have four: "ram c ?a \<noteq> None" "ram c (?a + 1) \<noteq> None" "ram c (?a + 2) \<noteq> None" "ram c (?a + 3) \<noteq> None"
    using assms(9) [of 0] assms(9) [of 1] assms(9) [of 2] assms(9) [of 3] by simp_all
  moreover have "4 dvd ?a" using int_bits(4) assms(6,7) .
  ultimately have "\<exists>y. load_word (\<not> IS_LITTLE_ENDIAN cpu) (ram c) ?a = Some y"
    by (cases "IS_LITTLE_ENDIAN cpu") (auto simp: load_word_def word_bytes_def)
  then obtain y where y: "load_word (\<not> IS_LITTLE_ENDIAN cpu) (ram c) ?a = Some y" ..
  have "nat (x mod 4) < 4" "?a + int (nat (x mod 4)) = signed_take_bit 31 x" by (simp_all add: nat_less_iff)
  then obtain b where b: "ram c (signed_take_bit 31 x) = Some b" using assms(9) [of "nat (x mod 4)"] by auto
  have "wp (langref big) (arch_load8 cpu a)
      (\<lambda>r d. \<exists>b. ram c (signed_take_bit 31 x) = Some b \<and> holds d r 8 (uint b) \<and> cells d = cells c \<and> ram d = ram c) c"
    by (rule wp_lands [OF load8_lands [OF g assms(5-7) y b]]) (simp add: b)
  moreover have "wp (langref big) (arch_store8 cpu v a)
      (\<lambda>_ d. cells d = cells c \<and> ram d = (ram c)(signed_take_bit 31 x \<mapsto> word_of_int z)) c"
    by (rule store8 [OF g assms(8,5-7) y]) simp_all
  ultimately show ?thesis by (simp add: llvm.wp_documented [OF assms(1)])
qed

text \<open>The second byte of a word of a big-endian guest on a little-endian host.\<close>

definition big_guest :: xcpu where
  "big_guest = \<lparr>common_flags = 0, word_size = 32, address_size = 32, psr_size = 0, register_bits = [],
     gpr_count = 0, xr_count = 0, flags_layout = [], cpu_flags = 0, ptr_gpr = [], in_ptr_gpr = [], ptr_xr = [], in_ptr_xr = [],
     ptr_FLAG = [], ptr_N = None, ptr_V = None, ptr_Z = None, ptr_C = None, ptr_PC = nullptr,
     ptr_RAM = Address (RamPtr 0) (IntTy 8)\<rparr>"

definition counting :: config where
  "counting = \<lparr>cells = (\<lambda>p. None), ram = (\<lambda>i. Some (word_of_int i)), temps = (\<lambda>i. None), results = (\<lambda>i. VInt 0 0), position = 0\<rparr>"

theorem guest_byte_access_witness:
  "wp (langref False) (arch_load8 (cpu_new_flags True False False big_guest) (ConstantInt 32 5)) (\<lambda>r d. holds d r 8 5) counting \<and>
   wp (langref False) (arch_store8 (cpu_new_flags True False False big_guest) (ConstantInt 32 300) (ConstantInt 32 5))
     (\<lambda>_ d. ram d 5 = Some 44 \<and> ram d 6 = Some 6) counting"
proof -
  have "cpu_new_flags True False False big_guest = cpu_new_flags (\<not> False) False False big_guest" by simp
  moreover have "signed_take_bit 31 5 = (5 :: int)" by (simp add: signed_take_bit_eq_take_bit_shift take_bit_eq_mod)
  ultimately show ?thesis
    using guest_byte_access [OF reference.llvm_axioms, of "cpu_new_flags True False False big_guest" False False False big_guest
      counting "ConstantInt 32 5" 5 "ConstantInt 32 300" 300]
    by (auto simp: big_guest_def counting_def elim!: wp_mono)
qed

end
