(* ===== verification/Fapra_Translate.thy ===== *)
theory Fapra_Translate
  imports Fapra Memory Translate
begin

text \<open>
  The translation half of the FAPRA frontend (\<open>arch/fapra/fapra_translate.cpp\<close>), the parts of the
  CPU it sets up (\<open>fapra_arch.cpp\<close>), and the machine: what each instruction does, written down on
  its own.
\<close>

section \<open>The CPU\<close>

definition arch_fapra_init :: xcpu where
  "arch_fapra_init = \<lparr>
     common_flags = CPU_FLAG_ENDIAN_LITTLE, word_size = 32, address_size = 32, psr_size = 0,
     register_bits = replicate 32 32, gpr_count = 32, xr_count = 0, flags_layout = [], cpu_flags = 0,
     ptr_gpr = [], in_ptr_gpr = [], ptr_xr = [], in_ptr_xr = [],
     ptr_FLAG = [], ptr_N = None, ptr_V = None, ptr_Z = None, ptr_C = None,
     ptr_PC = nullptr, ptr_RAM = nullptr\<rparr>"

text \<open>The same CPU on a host, and with the pointers of a function under construction.\<close>

definition new_fapra :: "bool \<Rightarrow> bool \<Rightarrow> bool \<Rightarrow> xcpu" where
  "new_fapra little fp80 fp128 = cpu_new_flags little fp80 fp128 arch_fapra_init"

definition cpu_fapra :: "bool \<Rightarrow> bool \<Rightarrow> bool \<Rightarrow> xcpu" where
  "cpu_fapra little fp80 fp128 = (new_fapra little fp80 fp128)\<lparr>
     ptr_gpr := map (\<lambda>i. Address (GprPtr i) (IntTy 32)) [0..<32],
     in_ptr_gpr := map (\<lambda>i. Address (RegPtr i) (IntTy 32)) [0..<32],
     ptr_PC := Address PcPtr (IntTy 32), ptr_RAM := Address (RamPtr 0) (IntTy 8)\<rparr>"

section \<open>Translation\<close>

definition arch_fapra_get_imm :: "xcpu \<Rightarrow> 32 word \<Rightarrow> nat \<Rightarrow> bool \<Rightarrow> lval emit" where
  "arch_fapra_get_imm cpu instr bits sext =
     CONSTs (if bits \<noteq> 0 then bits else word_size cpu)
       (if sext then sint (ucast instr :: 16 word) else uint (ucast instr :: 16 word))"

abbreviation IMM :: "xcpu \<Rightarrow> 32 word \<Rightarrow> lval emit" where "IMM cpu instr \<equiv> arch_fapra_get_imm cpu instr 0 True"
abbreviation IMMU :: "xcpu \<Rightarrow> 32 word \<Rightarrow> lval emit" where "IMMU cpu instr \<equiv> arch_fapra_get_imm cpu instr 0 False"

definition LET_PC :: "xcpu \<Rightarrow> lval emit \<Rightarrow> unit emit" where
  "LET_PC cpu v = e_bind v (\<lambda>x. e_store x (ptr_PC cpu))"

definition R_of :: "xcpu \<Rightarrow> 32 word \<Rightarrow> lval emit" where
  "R_of cpu i = R cpu (unat i)"

definition LET_of :: "xcpu \<Rightarrow> 32 word \<Rightarrow> lval emit \<Rightarrow> unit emit" where
  "LET_of cpu i v = e_seq (LET cpu (unat i) v) (e_ret ())"

definition arch_fapra_translate_cond :: "xcpu \<Rightarrow> ram \<Rightarrow> addr \<Rightarrow> lval option emit" where
  "arch_fapra_translate_cond cpu m pc =
     (let instr = RAM32LE m pc; zero = (\<lambda>op. e_bind (e_icmp op (R_of cpu (fapra_ra instr)) (CONSTw cpu 0)) (\<lambda>v. e_ret (Some v))) in
      case fapra_opcode instr of
        Some OP_BZ \<Rightarrow> zero ICMP_EQ
      | Some OP_BNZ \<Rightarrow> zero ICMP_NE
      | _ \<Rightarrow> e_fault ExitFailure)"

fun fapra_emit :: "xcpu \<Rightarrow> addr \<Rightarrow> 32 word \<Rightarrow> fapra_op \<Rightarrow> unit emit" where
  "fapra_emit cpu pc instr OP_LDW =
     e_seq (LOAD32 cpu (unat (fapra_rd instr)) (e_ADD (R_of cpu (fapra_ra instr)) (IMM cpu instr))) (e_ret ())"
| "fapra_emit cpu pc instr OP_STW =
     STORE32 cpu (R_of cpu (fapra_rd instr)) (e_ADD (R_of cpu (fapra_ra instr)) (IMM cpu instr))"
| "fapra_emit cpu pc instr OP_LDB =
     e_seq (LOAD8 cpu (unat (fapra_rd instr)) (e_ADD (R_of cpu (fapra_ra instr)) (IMM cpu instr))) (e_ret ())"
| "fapra_emit cpu pc instr OP_STB =
     STORE8 cpu (R_of cpu (fapra_rd instr)) (e_ADD (R_of cpu (fapra_ra instr)) (IMM cpu instr))"
| "fapra_emit cpu pc instr OP_LDIH =
     LET_of cpu (fapra_rd instr) (e_OR (e_AND (R_of cpu (fapra_rd instr)) (CONSTw cpu 0xFFFF))
       (CONSTw cpu (uint (push_bit 16 (fapra_imm instr)))))"
| "fapra_emit cpu pc instr OP_LDIL =
     LET_of cpu (fapra_rd instr) (e_OR (e_AND (R_of cpu (fapra_rd instr)) (CONSTw cpu 0xFFFF0000)) (IMMU cpu instr))"
| "fapra_emit cpu pc instr OP_JMP = LET_PC cpu (R_of cpu (fapra_ra instr))"
| "fapra_emit cpu pc instr OP_BRA = e_ret ()"
| "fapra_emit cpu pc instr OP_BZ = e_ret ()"
| "fapra_emit cpu pc instr OP_BNZ = e_ret ()"
| "fapra_emit cpu pc instr OP_NOP = e_ret ()"
| "fapra_emit cpu pc instr OP_CALL =
     e_seq (LET_PC cpu (R_of cpu (fapra_ra instr))) (LET_of cpu (fapra_rd instr) (CONSTw cpu (uint (pc + 4))))"
| "fapra_emit cpu pc instr OP_BL = LET_of cpu (fapra_rd instr) (CONSTw cpu (uint (pc + 4)))"
| "fapra_emit cpu pc instr OP_ADDI = LET_of cpu (fapra_rd instr) (e_ADD (R_of cpu (fapra_ra instr)) (IMM cpu instr))"
| "fapra_emit cpu pc instr OP_ADD = LET_of cpu (fapra_rd instr) (e_ADD (R_of cpu (fapra_ra instr)) (R_of cpu (fapra_rb instr)))"
| "fapra_emit cpu pc instr OP_SUB = LET_of cpu (fapra_rd instr) (e_SUB (R_of cpu (fapra_ra instr)) (R_of cpu (fapra_rb instr)))"
| "fapra_emit cpu pc instr OP_AND = LET_of cpu (fapra_rd instr) (e_AND (R_of cpu (fapra_ra instr)) (R_of cpu (fapra_rb instr)))"
| "fapra_emit cpu pc instr OP_OR = LET_of cpu (fapra_rd instr) (e_OR (R_of cpu (fapra_ra instr)) (R_of cpu (fapra_rb instr)))"
| "fapra_emit cpu pc instr OP_NOT = LET_of cpu (fapra_rd instr) (COM cpu (R_of cpu (fapra_ra instr)))"
| "fapra_emit cpu pc instr OP_SAL = LET_of cpu (fapra_rd instr) (SHL (R_of cpu (fapra_ra instr)) (R_of cpu (fapra_rb instr)))"
| "fapra_emit cpu pc instr OP_SAR = LET_of cpu (fapra_rd instr) (ASHR (R_of cpu (fapra_ra instr)) (R_of cpu (fapra_rb instr)))"
| "fapra_emit cpu pc instr OP_MUL = LET_of cpu (fapra_rd instr) (e_MUL (R_of cpu (fapra_ra instr)) (R_of cpu (fapra_rb instr)))"
| "fapra_emit cpu pc instr _ = e_fault ExitFailure"

definition arch_fapra_translate_instr :: "xcpu \<Rightarrow> ram \<Rightarrow> addr \<Rightarrow> int emit" where
  "arch_fapra_translate_instr cpu m pc =
     (let instr = RAM32LE m pc in
      e_seq (case fapra_opcode instr of None \<Rightarrow> e_fault ExitFailure | Some i \<Rightarrow> fapra_emit cpu pc instr i)
        (e_ret INST_SIZE))"

definition arch_func_fapra :: "ram \<Rightarrow> xcpu \<Rightarrow> arch_func" where
  "arch_func_fapra m x = \<lparr>f_tag_instr = arch_fapra_tag_instr m,
     f_translate_cond = arch_fapra_translate_cond x m, f_translate_instr = arch_fapra_translate_instr x m\<rparr>"

section \<open>The machine\<close>

text \<open>
  32 registers, the program counter, and the client's buffer. The machine has no result for a
  shift by 32 or more, a word that is not aligned, and an access outside the buffer or at 2 GiB
  and beyond.
\<close>

record fapra_state =
  freg :: "nat \<Rightarrow> 32 word"
  fpc :: "32 word"
  fmem :: "int \<Rightarrow> byte option"

definition put :: "32 word \<Rightarrow> 32 word \<Rightarrow> fapra_state \<Rightarrow> fapra_state" where
  "put r x s = s\<lparr>freg := (freg s)(unat r := x)\<rparr>"

definition got :: "fapra_state \<Rightarrow> 32 word \<Rightarrow> 32 word" where
  "got s r = freg s (unat r)"

definition word_at :: "fapra_state \<Rightarrow> 32 word \<Rightarrow> 32 word option" where
  "word_at s a = (if uint a < 2 ^ 31 then map_option word_of_int (load_word False (fmem s) (uint a)) else None)"

definition set_word_at :: "32 word \<Rightarrow> 32 word \<Rightarrow> fapra_state \<Rightarrow> fapra_state option" where
  "set_word_at a x s = (if uint a < 2 ^ 31 then map_option (\<lambda>m. s\<lparr>fmem := m\<rparr>) (store_word False (fmem s) (uint a) (uint x)) else None)"

text \<open>The byte accesses of the generated code are to words, all of which has to be there.\<close>

definition byte_at :: "fapra_state \<Rightarrow> 32 word \<Rightarrow> byte option" where
  "byte_at s a = (if uint a < 2 ^ 31 \<and> load_word False (fmem s) (uint a - uint a mod 4) \<noteq> None then fmem s (uint a) else None)"

definition set_byte_at :: "32 word \<Rightarrow> byte \<Rightarrow> fapra_state \<Rightarrow> fapra_state option" where
  "set_byte_at a x s = (if byte_at s a \<noteq> None then Some (s\<lparr>fmem := (fmem s)(uint a \<mapsto> x)\<rparr>) else None)"

fun fapra_exec :: "32 word \<Rightarrow> addr \<Rightarrow> fapra_op \<Rightarrow> fapra_state \<Rightarrow> fapra_state option" where
  "fapra_exec ins pc OP_LDW s = map_option (\<lambda>x. put (fapra_rd ins) x s) (word_at s (got s (fapra_ra ins) + fapra_simm ins))"
| "fapra_exec ins pc OP_STW s = set_word_at (got s (fapra_ra ins) + fapra_simm ins) (got s (fapra_rd ins)) s"
| "fapra_exec ins pc OP_LDB s = map_option (\<lambda>x. put (fapra_rd ins) (ucast x) s) (byte_at s (got s (fapra_ra ins) + fapra_simm ins))"
| "fapra_exec ins pc OP_STB s = set_byte_at (got s (fapra_ra ins) + fapra_simm ins) (ucast (got s (fapra_rd ins))) s"
| "fapra_exec ins pc OP_LDIH s = Some (put (fapra_rd ins) (word_cat (ucast ins :: 16 word) (ucast (got s (fapra_rd ins)) :: 16 word)) s)"
| "fapra_exec ins pc OP_LDIL s =
     Some (put (fapra_rd ins) (word_cat (ucast (drop_bit 16 (got s (fapra_rd ins))) :: 16 word) (ucast ins :: 16 word)) s)"
| "fapra_exec ins pc OP_ADDI s = Some (put (fapra_rd ins) (got s (fapra_ra ins) + fapra_simm ins) s)"
| "fapra_exec ins pc OP_ADD s = Some (put (fapra_rd ins) (got s (fapra_ra ins) + got s (fapra_rb ins)) s)"
| "fapra_exec ins pc OP_SUB s = Some (put (fapra_rd ins) (got s (fapra_ra ins) - got s (fapra_rb ins)) s)"
| "fapra_exec ins pc OP_AND s = Some (put (fapra_rd ins) (got s (fapra_ra ins) AND got s (fapra_rb ins)) s)"
| "fapra_exec ins pc OP_OR s = Some (put (fapra_rd ins) (got s (fapra_ra ins) OR got s (fapra_rb ins)) s)"
| "fapra_exec ins pc OP_NOT s = Some (put (fapra_rd ins) (NOT (got s (fapra_ra ins))) s)"
| "fapra_exec ins pc OP_SAL s = (if got s (fapra_rb ins) < 32
     then Some (put (fapra_rd ins) (push_bit (unat (got s (fapra_rb ins))) (got s (fapra_ra ins))) s) else None)"
| "fapra_exec ins pc OP_SAR s = (if got s (fapra_rb ins) < 32
     then Some (put (fapra_rd ins) (signed_drop_bit (unat (got s (fapra_rb ins))) (got s (fapra_ra ins))) s) else None)"
| "fapra_exec ins pc OP_MUL s = Some (put (fapra_rd ins) (got s (fapra_ra ins) * got s (fapra_rb ins)) s)"
| "fapra_exec ins pc OP_JMP s = Some (s\<lparr>fpc := got s (fapra_ra ins)\<rparr>)"
| "fapra_exec ins pc OP_CALL s = Some (put (fapra_rd ins) (ucast (pc + 4)) (s\<lparr>fpc := got s (fapra_ra ins)\<rparr>))"
| "fapra_exec ins pc OP_BL s = Some (put (fapra_rd ins) (ucast (pc + 4)) s)"
| "fapra_exec ins pc i s = (if i \<in> {OP_BRA, OP_BZ, OP_BNZ, OP_NOP} then Some s else None)"

fun fapra_taken :: "32 word \<Rightarrow> fapra_op \<Rightarrow> fapra_state \<Rightarrow> bool option" where
  "fapra_taken ins OP_BZ s = Some (got s (fapra_ra ins) = 0)"
| "fapra_taken ins OP_BNZ s = Some (got s (fapra_ra ins) \<noteq> 0)"
| "fapra_taken ins _ s = None"

text \<open>One step of the machine; the branches are relative to the branch itself.\<close>

fun fapra_goes :: "32 word \<Rightarrow> addr \<Rightarrow> fapra_op \<Rightarrow> fapra_state \<Rightarrow> fapra_state \<Rightarrow> 32 word" where
  "fapra_goes ins pc OP_JMP s t = fpc t"
| "fapra_goes ins pc OP_CALL s t = fpc t"
| "fapra_goes ins pc OP_BRA s t = ucast (pc + scast (fapra_simm ins))"
| "fapra_goes ins pc OP_BL s t = ucast (pc + scast (fapra_simm ins))"
| "fapra_goes ins pc i s t = ucast (if fapra_taken ins i s = Some True then pc + scast (fapra_simm ins) else pc + 4)"

definition fapra_step :: "ram \<Rightarrow> addr \<Rightarrow> fapra_state \<Rightarrow> fapra_state option" where
  "fapra_step m pc s = (let ins = RAM32LE m pc in
     Option.bind (fapra_opcode ins) (\<lambda>i. map_option (\<lambda>t. t\<lparr>fpc := fapra_goes ins pc i s t\<rparr>) (fapra_exec ins pc i s)))"

end
