(* ===== verification/Fapra_Correct.thy ===== *)
theory Fapra_Correct
  imports Fapra_Translate
begin

declare split_of_bool [split del] split_of_bool_asm [split del]

section \<open>The local variables of a function\<close>

fun rep_fapra :: "fapra_state \<Rightarrow> ptr \<Rightarrow> (nat \<times> int option) option" where
  "rep_fapra s (GprPtr i) = (if i < 32 then Some (32, Some (uint (freg s i))) else None)"
| "rep_fapra s PcPtr = Some (32, Some (uint (fpc s)))"
| "rep_fapra s _ = None"

definition fapra_represents :: "(ptr \<Rightarrow> (nat \<times> int option) option) \<Rightarrow> fapra_state \<Rightarrow> config \<Rightarrow> bool" where
  "fapra_represents b s c \<longleftrightarrow> cells c = b ++ rep_fapra s \<and> ram c = fmem s"

lemma guest_cpu_fapra: "guest_cpu big (cpu_fapra (\<not> big) fp80 fp128)"
  using cpu_new_swaps [of big fp80 fp128 arch_fapra_init]
  by (simp add: guest_cpu_def swaps_def cpu_fapra_def new_fapra_def IS_LITTLE_ENDIAN_def cpu_new_flags_def arch_fapra_init_def)

lemma cpu_fapra_simps [simp]:
  "word_size (cpu_fapra little fp80 fp128) = 32" "address_size (cpu_fapra little fp80 fp128) = 32"
  "ptr_PC (cpu_fapra little fp80 fp128) = Address PcPtr (IntTy 32)" "IS_LITTLE_ENDIAN (cpu_fapra little fp80 fp128)"
  by (simp_all add: cpu_fapra_def new_fapra_def cpu_new_flags_def arch_fapra_init_def IS_LITTLE_ENDIAN_def)

lemma fapra_regs:
  "i < 32 \<Longrightarrow> nth_res (register_bits (cpu_fapra little fp80 fp128)) i = Inr 32"
  "i < 32 \<Longrightarrow> nth_res (ptr_gpr (cpu_fapra little fp80 fp128)) i = Inr (Address (GprPtr i) (IntTy 32))"
  "gpr_count (cpu_fapra little fp80 fp128) = 32" "\<not> HAS_SPECIAL_GPR0 (cpu_fapra little fp80 fp128)"
  by (simp_all add: cpu_fapra_def new_fapra_def cpu_new_flags_def arch_fapra_init_def nth_res_def HAS_SPECIAL_GPR0_def has_def)

lemma wp_R:
  assumes "fapra_represents b s c" and "unat i < 32"
  shows "wp (langref big) (R_of (cpu_fapra little fp80 fp128) i) Q c =
    Q (Result (position c) (IntTy 32)) (push (VInt 32 (uint (got s i))) c)"
  using assms by (simp add: R_of_def R_def arch_get_reg_def Let_def fapra_regs emitters fapra_represents_def got_def)

lemma fapra_represents_push [simp]:
  "fapra_represents b s (push v c) = fapra_represents b s c" "fapra_represents b s (skip c) = fapra_represents b s c"
  by (simp_all add: fapra_represents_def)

lemma rep_put: "unat i < 32 \<Longrightarrow> (b ++ rep_fapra s)(GprPtr (unat i) \<mapsto> (32, Some (uint x))) = b ++ rep_fapra (put i x s)"
proof -
  assume "unat i < 32"
  then have "rep_fapra (put i x s) p = ((rep_fapra s)(GprPtr (unat i) \<mapsto> (32, Some (uint x)))) p" for p
    by (cases p) (auto simp: put_def)
  then show ?thesis by (simp add: fun_eq_iff map_add_def)
qed

lemma rep_fpc: "(b ++ rep_fapra s)(PcPtr \<mapsto> (32, Some (uint x))) = b ++ rep_fapra (s\<lparr>fpc := x\<rparr>)"
proof -
  have "rep_fapra (s\<lparr>fpc := x\<rparr>) p = ((rep_fapra s)(PcPtr \<mapsto> (32, Some (uint x)))) p" for p
    by (cases p) auto
  then show ?thesis by (simp add: fun_eq_iff map_add_def)
qed

lemma wp_put:
  assumes "fapra_represents b s c" and "unat i < 32" and "holds c v 32 (uint x)" and "n = 0 \<or> n = 32"
  shows "wp (langref big) (arch_put_reg (cpu_fapra little fp80 fp128) (unat i) v n sext) (\<lambda>_. fapra_represents b (put i x s)) c"
proof -
  have "fmem (put i x s) = fmem s" by (simp add: put_def)
  moreover have "eval c v = VInt 32 (uint x)" using assms(3) by (simp add: holds_def)
  moreover have "cells c (GprPtr (unat i)) = Some (32, Some (uint (freg s (unat i))))"
    using assms(1,2) by (simp add: fapra_represents_def)
  ultimately show ?thesis
    using assms by (auto simp: arch_put_reg_def Let_def fapra_regs emitters fapra_represents_def rep_put)
qed

lemma wp_put8:
  assumes "fapra_represents b s c" and "unat i < 32" and "holds c v 8 (uint (x :: byte))"
  shows "wp (langref big) (arch_put_reg (cpu_fapra little fp80 fp128) (unat i) v 8 False) (\<lambda>_. fapra_represents b (put i (ucast x) s)) c"
proof -
  have "fmem (put i (ucast x) s) = fmem s" by (simp add: put_def)
  moreover have "eval c v = VInt 8 (uint x)" using assms(3) by (simp add: holds_def)
  moreover have "cells c (GprPtr (unat i)) = Some (32, Some (uint (freg s (unat i))))"
    using assms(1,2) by (simp add: fapra_represents_def)
  moreover have "uint (ucast x :: 32 word) = uint x"
    by (simp add: uint_up_ucast is_up)
  ultimately show ?thesis
    using assms by (auto simp: arch_put_reg_def Let_def fapra_regs emitters fapra_represents_def rep_put [symmetric])
qed

lemma wp_let:
  assumes "wp (langref big) e (\<lambda>v d. fapra_represents b s d \<and> holds d v 32 (uint x)) c" and "unat i < 32"
  shows "wp (langref big) (LET_of (cpu_fapra little fp80 fp128) i e) (\<lambda>_. fapra_represents b (put i x s)) c"
  unfolding LET_of_def LET_def wp_bind wp_ret
  by (rule wp_mono [OF assms(1)]) (use assms(2) in \<open>auto intro: wp_put\<close>)

lemma wp_let_pc:
  assumes "fapra_represents b s c" and "holds c v 32 (uint x)"
  shows "wp (langref big) (e_store v (Address PcPtr (IntTy 32))) (\<lambda>_. fapra_represents b (s\<lparr>fpc := x\<rparr>)) c"
  using assms by (simp add: fapra_represents_def emitters holds_def rep_fpc)


section \<open>The emitted code\<close>

lemma uint_arith32:
  "take_bit 32 (uint x + uint y) = uint (x + y)" "take_bit 32 (uint x - uint y) = uint (x - y)"
  "take_bit 32 (uint x * uint y) = uint (x * y)" "take_bit 32 (uint x) = uint x"
  "uint x AND uint y = uint (x AND y)" "uint x OR uint y = uint (x OR y)" "take_bit 32 (uint z) = uint (ucast z :: 32 word)"
  for x y :: "32 word" and z :: "64 word"
  by (simp_all add: uint_word_ariths take_bit_eq_mod unsigned_and_eq unsigned_or_eq unsigned_ucast_eq)
    (use unsigned_less [of x, where 'a = int] in \<open>simp_all add: mod_pos_pos_trivial\<close>)

lemma wp_IMM:
  "wp (langref big) (IMM (cpu_fapra little fp80 fp128) ins) Q c = Q (ConstantInt 32 (uint (fapra_simm ins))) c"
  "wp (langref big) (IMMU (cpu_fapra little fp80 fp128) ins) Q c = Q (ConstantInt 32 (uint (fapra_imm ins))) c"
proof -
  have "uint (word_of_int k :: 32 word) = take_bit 32 k" for k by (simp add: uint_word_of_int_eq)
  from this [of "sint (ucast ins :: 16 word)"]
  have "take_bit 32 (sint (ucast ins :: 16 word)) = uint (fapra_simm ins)" by (simp only: fapra_simm_sext of_int_sint)
  moreover have "take_bit 32 (uint (ucast ins :: 16 word)) = uint (fapra_imm ins)"
    by (simp add: fapra_imm_def low_half unsigned_ucast_eq unsigned_take_bit_eq)
  ultimately show
    "wp (langref big) (IMM (cpu_fapra little fp80 fp128) ins) Q c = Q (ConstantInt 32 (uint (fapra_simm ins))) c"
    "wp (langref big) (IMMU (cpu_fapra little fp80 fp128) ins) Q c = Q (ConstantInt 32 (uint (fapra_imm ins))) c"
    by (simp_all add: arch_fapra_get_imm_def emitters)
qed

lemmas fapra_wp = wp_R wp_IMM fapra_fields emitters uint_arith32

lemma uint_halves:
  "uint x AND 65535 OR uint (push_bit 16 (fapra_imm ins)) = uint (word_cat (ucast ins :: 16 word) (ucast x :: 16 word) :: 32 word)"
  "uint x AND 4294901760 OR uint (fapra_imm ins) = uint (word_cat (ucast (drop_bit 16 x) :: 16 word) (ucast ins :: 16 word) :: 32 word)"
  for x :: "32 word"
proof -
  have m: "(0xFFFF0000 :: 32 word) = push_bit 16 (mask 16)" by (simp add: mask_eq_exp_minus_1)
  have 1: "word_cat (ucast ins :: 16 word) (ucast x :: 16 word) = (x AND 0xFFFF) OR push_bit 16 (fapra_imm ins)"
    unfolding fapra_imm_def low_half by (rule bit_word_eqI) (auto simp: bit_simps)
  have 2: "word_cat (ucast (drop_bit 16 x) :: 16 word) (ucast ins :: 16 word) = (x AND 0xFFFF0000) OR fapra_imm ins"
    unfolding fapra_imm_def low_half m by (rule bit_word_eqI) (auto simp: bit_simps)
  show "uint x AND 65535 OR uint (push_bit 16 (fapra_imm ins)) = uint (word_cat (ucast ins :: 16 word) (ucast x :: 16 word) :: 32 word)"
    unfolding 1 by (simp add: unsigned_or_eq unsigned_and_eq)
  show "uint x AND 4294901760 OR uint (fapra_imm ins) = uint (word_cat (ucast (drop_bit 16 x) :: 16 word) (ucast ins :: 16 word) :: 32 word)"
    unfolding 2 by (simp add: unsigned_or_eq unsigned_and_eq)
qed

lemma uint_shifts:
  "(x < 32) = (uint x < 32)" "uint x XOR mask 32 = uint (NOT x)"
  "take_bit 32 (push_bit n (uint x)) = uint (push_bit n x)"
  "take_bit 32 (drop_bit n (signed_take_bit 31 (uint x))) = uint (signed_drop_bit n x)"
  for x :: "32 word"
proof -
  show "(x < 32) = (uint x < 32)" by (simp add: word_less_def)
  show "uint x XOR mask 32 = uint (NOT x)"
    by (rule bit_eqI) (auto simp: bit_simps dest: bit_imp_le_length)
  show "take_bit 32 (push_bit n (uint x)) = uint (push_bit n x)" by (simp add: unsigned_push_bit_eq)
  have "uint (word_of_int k :: 32 word) = take_bit 32 k" for k by (simp add: uint_word_of_int_eq)
  moreover have "word_of_int (sint y) = y" for y :: "32 word" by simp
  ultimately have "uint y = take_bit 32 (sint y)" for y :: "32 word" by metis
  from this [of "signed_drop_bit n x"]
  show "take_bit 32 (drop_bit n (signed_take_bit 31 (uint x))) = uint (signed_drop_bit n x)"
    by (simp only: sint_signed_drop_bit_eq) (simp add: sint_uint)
qed

lemma fapra_emit_plain:
  assumes "fapra_represents b s c" and "fapra_exec ins pc i s = Some t"
    and "i \<notin> {OP_LDW, OP_STW, OP_LDB, OP_STB, OP_JMP, OP_CALL}"
  shows "wp (langref big) (fapra_emit (cpu_fapra little fp80 fp128) pc ins i) (\<lambda>_. fapra_represents b t) c"
  using assms
  by (cases i) (auto intro!: wp_let simp: fapra_wp uint_halves uint_shifts split: if_splits)

lemma fapra_emit_jumps:
  assumes "fapra_represents b s c" and "fapra_exec ins pc i s = Some t" and "i \<in> {OP_JMP, OP_CALL}"
  shows "wp (langref big) (fapra_emit (cpu_fapra little fp80 fp128) pc ins i) (\<lambda>_. fapra_represents b t) c"
proof -
  have pc: "wp (langref big) (LET_PC (cpu_fapra little fp80 fp128) (R_of (cpu_fapra little fp80 fp128) (fapra_ra ins)))
      (\<lambda>_. fapra_represents b (s\<lparr>fpc := got s (fapra_ra ins)\<rparr>)) c"
    unfolding LET_PC_def wp_bind wp_R [OF assms(1) fapra_fields(2)] cpu_fapra_simps
    by (rule wp_let_pc) (use assms(1) in simp_all)
  from assms(3) show ?thesis
  proof (elim insertE emptyE)
    assume "i = OP_CALL"
    with assms(2) show ?thesis
      by (auto intro!: wp_mono [OF pc] wp_let simp: fapra_wp)
  qed (use pc assms(2) in simp)
qed

text \<open>Loads and stores.\<close>

lemma address_wp:
  assumes "fapra_represents b s c"
  shows "wp (langref big) (e_ADD (R_of (cpu_fapra little fp80 fp128) (fapra_ra ins)) (IMM (cpu_fapra little fp80 fp128) ins))
    (lands c (IntTy 32) (VInt 32 (uint (got s (fapra_ra ins) + fapra_simm ins)))) c"
  using assms by (simp add: fapra_wp lands_def)

lemma low_addresses:
  assumes "uint a < 2 ^ 31"
  shows "signed_take_bit 31 (uint a) = uint (a :: 32 word)" "0 \<le> uint a" "uint a < 2 ^ 32"
proof -
  show "signed_take_bit 31 (uint a) = uint a"
  proof (rule signed_take_bit_int_eq_self)
    show "- (2 ^ 31) \<le> uint a" by (rule order_trans [of _ 0]) simp_all
  qed (rule assms)
  show "uint a < 2 ^ 32" using unsigned_less [of a, where 'a = int] by simp
qed simp

lemma uint_32: "uint (a :: 32 word) < 4294967296"
  using unsigned_less [of a, where 'a = int] by simp

lemma rep_fmem [simp]: "rep_fapra (s\<lparr>fmem := m\<rparr>) = rep_fapra s"
proof
  show "rep_fapra (s\<lparr>fmem := m\<rparr>) p = rep_fapra s p" for p by (cases p) simp_all
qed

lemma fapra_emit_loads:
  assumes "fapra_represents b s c" and "fapra_exec ins pc i s = Some t" and "i \<in> {OP_LDW, OP_LDB}"
  shows "wp (langref big) (fapra_emit (cpu_fapra (\<not> big) fp80 fp128) pc ins i) (\<lambda>_. fapra_represents b t) c"
proof -
  let ?a = "got s (fapra_ra ins) + fapra_simm ins"
  note rel = assms(1) [unfolded fapra_represents_def]
  from assms(3) show ?thesis
  proof (elim insertE emptyE)
    assume i: "i = OP_LDW"
    with assms(2) obtain y where a: "uint ?a < 2 ^ 31" and y: "load_word False (fmem s) (uint ?a) = Some y"
      and t: "t = put (fapra_rd ins) (word_of_int y) s" by (auto simp: word_at_def split: if_splits)
    have "uint (word_of_int y :: 32 word) = y" using load_word_bits [OF y] by (simp add: uint_word_of_int_eq)
    then show ?thesis
      unfolding i fapra_emit.simps LOAD32_def wp_bind wp_ret t
      by (intro wp_lands [OF address_wp [OF assms(1)]] wp_lands [OF load32_lands [OF guest_cpu_fapra, where x = "uint ?a" and y = y]] wp_put)
        (use y rel fapra_fields in \<open>auto simp: low_addresses [OF a] uint_32 fapra_represents_def\<close>)
  next
    assume i: "i = OP_LDB"
    with assms(2) obtain x y where a: "uint ?a < 2 ^ 31" and y: "load_word False (fmem s) (uint ?a - uint ?a mod 4) = Some y"
      and x: "fmem s (uint ?a) = Some x" and t: "t = put (fapra_rd ins) (ucast x) s" by (auto simp: byte_at_def split: if_splits)
    show ?thesis
      unfolding i fapra_emit.simps LOAD8_def wp_bind wp_ret t
      by (intro wp_lands [OF address_wp [OF assms(1)]] wp_lands [OF load8_lands [OF guest_cpu_fapra, where x = "uint ?a" and y = y and b = x]] wp_put8)
        (use x y rel fapra_fields in \<open>auto simp: low_addresses [OF a] uint_32 fapra_represents_def\<close>)
  qed
qed

lemma fapra_emit_stores:
  assumes "fapra_represents b s c" and "fapra_exec ins pc i s = Some t" and "i \<in> {OP_STW, OP_STB}"
  shows "wp (langref big) (fapra_emit (cpu_fapra (\<not> big) fp80 fp128) pc ins i) (\<lambda>_. fapra_represents b t) c"
proof -
  let ?a = "got s (fapra_ra ins) + fapra_simm ins" and ?x = "got s (fapra_rd ins)"
  note rel = assms(1) [unfolded fapra_represents_def]
  have later: "fapra_represents b s (push v c)" for v using assms(1) by simp
  from assms(3) show ?thesis
  proof (elim insertE emptyE)
    assume i: "i = OP_STW"
    with assms(2) obtain m where a: "uint ?a < 2 ^ 31" and m: "store_word False (fmem s) (uint ?a) (uint ?x) = Some m"
      and t: "t = s\<lparr>fmem := m\<rparr>" by (auto simp: set_word_at_def split: if_splits)
    show ?thesis
      unfolding i fapra_emit.simps STORE32_def wp_bind wp_R [OF assms(1) fapra_fields(1)] t
      by (intro wp_lands [OF address_wp [OF later]] store32 [OF guest_cpu_fapra, where x = "uint ?a" and y = "uint ?x" and m = m])
        (use m rel in \<open>auto simp: low_addresses [OF a] uint_32 fapra_represents_def uint_arith32\<close>)
  next
    assume i: "i = OP_STB"
    with assms(2) obtain y where a: "uint ?a < 2 ^ 31" and y: "load_word False (fmem s) (uint ?a - uint ?a mod 4) = Some y"
      and t: "t = s\<lparr>fmem := (fmem s)(uint ?a \<mapsto> ucast ?x)\<rparr>" by (auto simp: set_byte_at_def byte_at_def split: if_splits)
    have "word_of_int (uint ?x) = (ucast ?x :: byte)" by simp
    then show ?thesis
      unfolding i fapra_emit.simps STORE8_def wp_bind wp_R [OF assms(1) fapra_fields(1)] t
      by (intro wp_lands [OF address_wp [OF later]] store8 [OF guest_cpu_fapra, where x = "uint ?a" and y = y and z = "uint ?x"])
        (use y rel in \<open>auto simp: low_addresses [OF a] uint_32 fapra_represents_def\<close>)
  qed
qed

lemma fapra_emit_correct:
  assumes "fapra_represents b s c" and "fapra_exec ins pc i s = Some t"
  shows "wp (langref big) (fapra_emit (cpu_fapra (\<not> big) fp80 fp128) pc ins i) (\<lambda>_. fapra_represents b t) c"
  using fapra_emit_plain [OF assms] fapra_emit_jumps [OF assms] fapra_emit_loads [OF assms] fapra_emit_stores [OF assms] by blast

lemma fapra_cond_correct:
  assumes "fapra_represents b s c" and "Option.bind (fapra_opcode (RAM32LE m pc)) (\<lambda>i. fapra_taken (RAM32LE m pc) i s) = Some p"
  shows "wp (langref big) (arch_fapra_translate_cond (cpu_fapra little fp80 fp128) m pc)
    (\<lambda>v d. \<exists>w. v = Some w \<and> eval d w = VInt 1 (of_bool p) \<and> fapra_represents b s d) c"
proof -
  from assms(2) obtain i where i: "fapra_opcode (RAM32LE m pc) = Some i" and p: "fapra_taken (RAM32LE m pc) i s = Some p"
    by (auto simp: bind_eq_Some_conv)
  show ?thesis using p assms(1)
    by (cases i) (auto simp: arch_fapra_translate_cond_def i fapra_wp word_uint_eq_iff)
qed

end
