(* ===== verification/Fapra_Step.thy ===== *)
theory Fapra_Step
  imports Fapra_Correct Singlestep
begin

text \<open>
  The FAPRA frontend under the single-step driver. It leaves the register file to the generic
  code, which copies 32 registers in and out one by one.
\<close>

declare split_of_bool [split del] split_of_bool_asm [split del]

section \<open>Entering and leaving a function\<close>

lemma map_upds_cell:
  "inj h \<Longrightarrow> (m(map h ks [\<mapsto>] map g ks)) (h i) = (if i \<in> set ks then Some (g i) else m (h i))"
  "p \<notin> h ` set ks \<Longrightarrow> (m(map h ks [\<mapsto>] map g ks)) p = m p"
  by (induction ks arbitrary: m) (auto simp: inj_eq)

lemma decode_regs:
  assumes "\<And>i. i \<in> set ks \<Longrightarrow> nth_res (register_bits cpu) i = Inr n"
    and "\<And>i. i \<in> set ks \<Longrightarrow> cells c (RegPtr i) = Some (n, Some (f i))"
  shows "wp (langref big) (emit_decode_reg_helper cpu 0 GprPtr ks)
    (\<lambda>r d. r = (map (\<lambda>i. Address (RegPtr i) (IntTy n)) ks, map (\<lambda>i. Address (GprPtr i) (IntTy n)) ks) \<and>
      cells d = (cells c)(map GprPtr ks [\<mapsto>] map (\<lambda>i. (n, Some (f i))) ks) \<and> ram d = ram c) c"
  using assms
proof (induction ks arbitrary: c)
  case (Cons i ks)
  have n: "nth_res (register_bits cpu) i = Inr n" and v: "cells c (RegPtr i) = Some (n, Some (f i))"
    using Cons.prems by auto
  show ?case
    by (simp add: get_struct_member_pointer_def e_alloca_def emitters n v, rule wp_mono [OF Cons.IH])
      (use Cons.prems in \<open>auto simp: fun_upd_def\<close>)
qed simp

lemma spill_regs:
  assumes "\<And>i. i \<in> set ks \<Longrightarrow> cells c (GprPtr i) = Some (n, Some (f i)) \<and> (\<exists>v. cells c (RegPtr i) = Some (n, v))"
  shows "wp (langref big) (spill_reg_state_helper
      (zip (map (\<lambda>i. Address (RegPtr i) (IntTy n)) ks) (map (\<lambda>i. Address (GprPtr i) (IntTy n)) ks)))
    (\<lambda>_ d. cells d = (cells c)(map RegPtr ks [\<mapsto>] map (\<lambda>i. (n, Some (f i))) ks) \<and> ram d = ram c) c"
  using assms
proof (induction ks arbitrary: c)
  case (Cons i ks)
  then obtain v where "cells c (GprPtr i) = Some (n, Some (f i))" "cells c (RegPtr i) = Some (n, v)" by auto
  then show ?case
    by (simp add: emitters, intro wp_mono [OF Cons.IH]) (use Cons.prems in \<open>auto simp: fun_upd_def\<close>)
qed simp

text \<open>The machine state in the register file the client passes (\<open>reg_fapra32_t\<close>).\<close>

definition regfile_fapra :: "fapra_state \<Rightarrow> config \<Rightarrow> bool" where
  "regfile_fapra s c \<longleftrightarrow> (\<forall>i<32. cells c (RegPtr i) = Some (32, Some (uint (freg s i)))) \<and>
     cells c PcPtr = Some (32, Some (uint (fpc s))) \<and> ram c = fmem s"

definition keeps_fapra :: "(ptr \<Rightarrow> (nat \<times> int option) option) \<times> int \<Rightarrow> fapra_state \<Rightarrow> config \<Rightarrow> bool" where
  "keeps_fapra b s c \<longleftrightarrow> fapra_represents (fst b) s c \<and>
     (\<forall>i<32. \<exists>v. fst b (RegPtr i) = Some (32, v)) \<and> fst b ExitPtr = Some (32, Some (snd b))"

lemma keeps_own:
  assumes "\<And>i. i < 32 \<Longrightarrow> cells d (GprPtr i) = Some (32, Some (uint (freg s i)))"
    and "\<And>i. i < 32 \<Longrightarrow> \<exists>v. cells d (RegPtr i) = Some (32, v)"
    and "cells d PcPtr = Some (32, Some (uint (fpc s)))" and "ram d = fmem s"
  shows "keeps_fapra ((cells d)(ExitPtr \<mapsto> (32, Some k)), k) s (set_exit k d)"
proof -
  have "((cells d)(ExitPtr \<mapsto> (32, Some k)) ++ rep_fapra s) p = ((cells d)(ExitPtr \<mapsto> (32, Some k))) p" for p
    by (cases p) (simp_all add: map_add_def assms)
  then show ?thesis using assms(2,4) by (auto simp: keeps_fapra_def fapra_represents_def set_exit_def)
qed

lemma decode_fapra:
  assumes "regfile_fapra s c"
  shows "wp (langref big) (emit_decode_reg ((new_fapra little fp80 fp128)\<lparr>ptr_RAM := Address (RamPtr 0) (IntTy 8)\<rparr>))
    (\<lambda>x d. x = cpu_fapra little fp80 fp128 \<and> (\<forall>k. \<exists>b. snd b = k \<and> keeps_fapra b s (set_exit k d))) c"
proof -
  let ?x = "(new_fapra little fp80 fp128)\<lparr>ptr_RAM := Address (RamPtr 0) (IntTy 8)\<rparr>"
  note init = new_fapra_def cpu_new_flags_def arch_fapra_init_def
  have "wp (langref big) (emit_decode_reg_helper ?x 0 GprPtr [0..<32])
    (\<lambda>r d. r = (map (\<lambda>i. Address (RegPtr i) (IntTy 32)) [0..<32], map (\<lambda>i. Address (GprPtr i) (IntTy 32)) [0..<32]) \<and>
      cells d = (cells c)(map GprPtr [0..<32] [\<mapsto>] map (\<lambda>i. (32, Some (uint (freg s i)))) [0..<32]) \<and> ram d = ram c) c"
    by (rule decode_regs) (use assms in \<open>auto simp: regfile_fapra_def init nth_res_def\<close>)
  moreover have "\<exists>b. snd b = k \<and> keeps_fapra b s (set_exit k d)"
    if "cells d = (cells c)(map GprPtr [0..<32] [\<mapsto>] map (\<lambda>i. (32, Some (uint (freg s i)))) [0..<32])" "ram d = ram c" for d k
    using assms that
    by (intro exI [of _ "((cells d)(ExitPtr \<mapsto> (32, Some k)), k)"] conjI keeps_own)
      (auto simp: regfile_fapra_def map_upds_cell inj_def image_iff)
  ultimately show ?thesis
    unfolding emit_decode_reg_def wp_bind
    by (auto simp: init cpu_fapra_def elim!: wp_mono)
qed

lemma spill_fapra:
  assumes "keeps_fapra b s c"
  shows "wp (langref big) (spill_reg_state (cpu_fapra little fp80 fp128))
    (\<lambda>_ d. regfile_fapra s d \<and> cells d ExitPtr = Some (32, Some (snd b))) c"
proof -
  have own: "fapra_represents (fst b) s c" "fst b ExitPtr = Some (32, Some (snd b))" "\<And>i. i < 32 \<Longrightarrow> \<exists>v. fst b (RegPtr i) = Some (32, v)"
    using assms by (auto simp: keeps_fapra_def)
  have "wp (langref big) (spill_reg_state_helper
      (zip (map (\<lambda>i. Address (RegPtr i) (IntTy 32)) [0..<32]) (map (\<lambda>i. Address (GprPtr i) (IntTy 32)) [0..<32])))
    (\<lambda>_ d. cells d = (cells c)(map RegPtr [0..<32] [\<mapsto>] map (\<lambda>i. (32, Some (uint (freg s i)))) [0..<32]) \<and> ram d = ram c) c"
    by (rule spill_regs) (use own in \<open>auto simp: fapra_represents_def map_add_def\<close>)
  moreover have "regfile_fapra s d \<and> cells d ExitPtr = Some (32, Some (snd b))"
    if "cells d = (cells c)(map RegPtr [0..<32] [\<mapsto>] map (\<lambda>i. (32, Some (uint (freg s i)))) [0..<32])" "ram d = ram c" for d
    using own that by (auto simp: regfile_fapra_def map_upds_cell inj_def image_iff fapra_represents_def map_add_def)
  ultimately show ?thesis
    unfolding spill_reg_state_def wp_bind
    by (auto simp: cpu_fapra_def new_fapra_def cpu_new_flags_def arch_fapra_init_def elim!: wp_mono)
qed


section \<open>The contract\<close>

definition exec_fapra :: "ram \<Rightarrow> addr \<Rightarrow> fapra_state \<Rightarrow> fapra_state option" where
  "exec_fapra m pc s = Option.bind (fapra_opcode (RAM32LE m pc)) (\<lambda>i. fapra_exec (RAM32LE m pc) pc i s)"

definition taken_fapra :: "ram \<Rightarrow> addr \<Rightarrow> fapra_state \<Rightarrow> bool option" where
  "taken_fapra m pc s = Option.bind (fapra_opcode (RAM32LE m pc)) (\<lambda>i. fapra_taken (RAM32LE m pc) i s)"

definition set_pc_fapra :: "addr \<Rightarrow> fapra_state \<Rightarrow> fapra_state" where
  "set_pc_fapra a s = s\<lparr>fpc := ucast a\<rparr>"

lemma keeps_fapra_exit: "keeps_fapra b s c \<Longrightarrow> \<exists>b'. snd b' = k \<and> keeps_fapra b' s (set_exit k c)"
  by (rule exI [of _ "((fst b)(ExitPtr \<mapsto> (32, Some k)), k)"])
     (auto simp: keeps_fapra_def fapra_represents_def set_exit_def map_add_upd_left domIff)

interpretation fapra_guest: guest big "new_fapra (\<not> big) fp80 fp128" "cpu_fapra (\<not> big) fp80 fp128" "arch_func_fapra m"
    keeps_fapra snd regfile_fapra "exec_fapra m" "taken_fapra m" set_pc_fapra
  for big fp80 fp128 m
proof (unfold_locales, goal_cases)
  case (3 s c)
  then show ?case by (rule decode_fapra)
next
  case (4 b s c)
  then show ?case by (rule spill_fapra)
next
  case (6 b s c k)
  then show ?case by (rule keeps_fapra_exit)
next
  case (8 b s c pc t)
  then obtain i where i: "fapra_opcode (RAM32LE m pc) = Some i" and t: "fapra_exec (RAM32LE m pc) pc i s = Some t"
    by (auto simp: exec_fapra_def bind_eq_Some_conv)
  have "fapra_represents (fst b) s c" using 8 by (simp add: keeps_fapra_def)
  from fapra_emit_correct [OF this t] 8 show ?case
    by (auto simp: arch_func_fapra_def arch_fapra_translate_instr_def i keeps_fapra_def elim: wp_mono)
next
  case (9 b s c pc p)
  then have "fapra_represents (fst b) s c" by (simp add: keeps_fapra_def)
  from fapra_cond_correct [OF this 9(2) [unfolded taken_fapra_def]] 9(1) show ?case
    by (auto simp: arch_func_fapra_def keeps_fapra_def elim: wp_mono)
next
  case (10 b s c a)
  have "take_bit 32 (uint a) = uint (ucast a :: 32 word)" by (simp add: unsigned_ucast_eq)
  with 10 show ?case by (simp add: keeps_fapra_def fapra_represents_def emitters set_pc_fapra_def rep_fpc)
qed (auto simp: keeps_fapra_def fapra_represents_def regfile_fapra_def set_exit_def map_add_def)

text \<open>The tags describe the flow of the machine.\<close>

lemma step_fapra:
  assumes "fapra_step m pc s = Some t" and "fapra_relative m pc \<noteq> NEW_PC_NONE"
    and "fapra_opcode (RAM32LE m pc) = Some OP_CALL \<Longrightarrow> fapra_call_target m pc \<noteq> NEW_PC_NONE \<Longrightarrow>
      ucast (fapra_call_target m pc) = got s (fapra_ra (RAM32LE m pc))"
  shows "guest_step (arch_fapra_tag_instr m) (exec_fapra m) (taken_fapra m) set_pc_fapra pc s = Some t"
proof -
  obtain i u where i: "fapra_opcode (RAM32LE m pc) = Some i" and u: "fapra_exec (RAM32LE m pc) pc i s = Some u"
      and t: "t = u\<lparr>fpc := fapra_goes (RAM32LE m pc) pc i s u\<rparr>"
    using assms(1) by (auto simp: fapra_step_def Let_def bind_eq_Some_conv)
  show ?thesis using u t assms(2,3)
    by (cases i) (auto simp: guest_step_def arch_fapra_tag_instr_def i exec_fapra_def taken_fapra_def set_pc_fapra_def
      fapra_relative_def put_def Let_def)
qed

end
