(* ===== verification/Fapra_Single.thy ===== *)
theory Fapra_Single
  imports Fapra_Step Llvm_Types
begin

text \<open>
  What the FAPRA frontend promises: which instructions its three decoders accept and that the
  emitted code is well-typed, what a single step does, and how a call finds its target.
\<close>

declare split_of_bool [split del] split_of_bool_asm [split del]

section \<open>Typing\<close>

lemma R_of_typed:
  "unat i < 32 \<Longrightarrow> wt (R_of (cpu_fapra little fp80 fp128) i) P = wt (e_load (Address (GprPtr (unat i)) (IntTy 32))) P"
  by (simp add: R_of_def R_def arch_get_reg_def fapra_regs Let_def)

lemma put_typed:
  assumes "unat i < 32" and "lty_of v = IntTy (if n = 0 then 32 else n)" and "value_ok ts v" and "n \<in> {0, 8, 32}"
    and "\<And>x us. P x us"
  shows "wt (arch_put_reg (cpu_fapra little fp80 fp128) (unat i) v n sext) P ts"
  using assms by (auto simp: arch_put_reg_def fapra_regs Let_def emitters typing value_ok_append nth_append)

lemma LET_of_typed:
  assumes "unat i < 32" and "wt e (\<lambda>v us. lty_of v = IntTy 32 \<and> value_ok us v) ts" and "\<And>us. P () us"
  shows "wt (LET_of (cpu_fapra little fp80 fp128) i e) P ts"
  unfolding LET_of_def LET_def wt_bind wt_ret
  by (rule wt_mono [OF assms(2)]) (use assms in \<open>auto intro!: put_typed\<close>)

lemma imm_typed: "wt (arch_fapra_get_imm (cpu_fapra little fp80 fp128) ins 0 sext) P ts =
    P (ConstantInt 32 (take_bit 32 (if sext then sint (ucast ins :: 16 word) else uint (ucast ins :: 16 word)))) ts"
  by (simp add: arch_fapra_get_imm_def emitters)

lemmas fapra_wt = R_of_typed imm_typed fapra_fields emitters typing value_ok_append nth_append

lemma load32_typed:
  assumes "lty_of a = IntTy 32" "value_ok ts a" "ptr_RAM cpu = Address (RamPtr 0) (IntTy 8)"
  shows "wt (arch_load32_aligned cpu a) (\<lambda>v us. lty_of v = IntTy 32 \<and> value_ok us v \<and> (\<exists>vs. us = ts @ vs)) ts"
  using assms by (simp add: arch_load32_aligned_def arch_gep32_def arch_bswap_def fapra_wt)

lemma store32_typed:
  assumes "lty_of a = IntTy 32" "value_ok ts a" "lty_of v = IntTy 32" "value_ok ts v" "ptr_RAM cpu = Address (RamPtr 0) (IntTy 8)"
  shows "wt (arch_store32_aligned cpu v a) (\<lambda>_ us. True) ts"
  using assms by (simp add: arch_store32_aligned_def arch_gep32_def arch_bswap_def fapra_wt)

lemma cpu_fapra_ram: "ptr_RAM (cpu_fapra little fp80 fp128) = Address (RamPtr 0) (IntTy 8)"
  by (simp add: cpu_fapra_def)

lemma fapra_address_typed:
  "wt (e_ADD (R_of (cpu_fapra little fp80 fp128) (fapra_ra ins)) (IMM (cpu_fapra little fp80 fp128) ins))
    (\<lambda>v us. lty_of v = IntTy 32 \<and> value_ok us v \<and> (\<exists>vs. us = ts @ vs)) ts"
  by (simp add: fapra_wt)

lemma wt_operand:
  assumes "wt e (\<lambda>v us. lty_of v = t \<and> value_ok us v \<and> (\<exists>vs. us = ts @ vs)) ts"
    and "\<And>v vs. lty_of v = t \<Longrightarrow> value_ok (ts @ vs) v \<Longrightarrow> P v (ts @ vs)"
  shows "wt e P ts"
  using assms(1) by (rule wt_mono) (use assms(2) in blast)

lemma byte_access_typed:
  assumes "lty_of a = IntTy 32" "value_ok ts a"
  shows "wt (arch_load8 (cpu_fapra little fp80 fp128) a) (\<lambda>v us. lty_of v = IntTy 8 \<and> value_ok us v) ts"
    and "lty_of v = IntTy 32 \<Longrightarrow> value_ok ts v \<Longrightarrow> wt (arch_store8 (cpu_fapra little fp80 fp128) v a) (\<lambda>_ _. True) ts"
  using assms
  by (simp_all add: arch_load8_def arch_store8_def arch_get_shift8_def arch_load32_aligned_def arch_store32_aligned_def arch_gep32_def
    arch_bswap_def cpu_fapra_ram Let_def fapra_wt del: append_assoc)

lemma fapra_value_typed:
  "wt (R_of (cpu_fapra little fp80 fp128) (fapra_rd ins)) (\<lambda>v us. lty_of v = IntTy 32 \<and> value_ok us v \<and> (\<exists>vs. us = ts @ vs)) ts"
  by (simp add: fapra_wt)

lemma fapra_access_typed:
  assumes "i \<in> {OP_LDW, OP_STW, OP_LDB, OP_STB}"
  shows "wt (fapra_emit (cpu_fapra little fp80 fp128) pc ins i) (\<lambda>_ _. True) ts"
  using assms
proof (elim insertE emptyE)
  assume "i = OP_LDW"
  then show ?thesis
    by (simp add: LOAD32_def)
      (intro wt_operand [OF fapra_address_typed] wt_operand [OF load32_typed [OF _ _ cpu_fapra_ram]] put_typed; simp add: fapra_fields)
next
  assume "i = OP_LDB"
  then show ?thesis
    by (simp add: LOAD8_def)
      (intro wt_operand [OF fapra_address_typed] wt_mono [OF byte_access_typed(1)] put_typed; simp add: fapra_fields)
next
  assume "i = OP_STW"
  show ?thesis
    unfolding \<open>i = OP_STW\<close> fapra_emit.simps STORE32_def wt_bind
    by (intro wt_operand [OF fapra_value_typed] wt_operand [OF fapra_address_typed] store32_typed [OF _ _ _ _ cpu_fapra_ram])
      (simp_all add: value_ok_append del: append_assoc)
next
  assume "i = OP_STB"
  show ?thesis
    unfolding \<open>i = OP_STB\<close> fapra_emit.simps STORE8_def wt_bind
    by (intro wt_operand [OF fapra_value_typed] wt_operand [OF fapra_address_typed] byte_access_typed(2))
      (simp_all add: value_ok_append del: append_assoc)
qed

lemma fapra_emit_typed:
  assumes "i \<notin> {OP_PERM, OP_RDC8, OP_TGE, OP_TSE, OP_SARI, OP_RFE}"
  shows "wt (fapra_emit (cpu_fapra little fp80 fp128) pc ins i) (\<lambda>_ _. True) ts"
proof (cases "i \<in> {OP_LDW, OP_STW, OP_LDB, OP_STB}")
  case False
  then show ?thesis using assms
    by (cases i) (auto intro!: LET_of_typed simp: fapra_wt LET_PC_def)
qed (rule fapra_access_typed)


section \<open>Properties\<close>

text \<open>
  C18. Which instructions the FAPRA frontend knows. The disassembler names every opcode of the
  instruction set and leaves the process on any other. The tagger leaves it on \<open>rfe\<close>, \<open>perm\<close>,
  \<open>rdc8\<close>, \<open>tge\<close> and \<open>tse\<close> as well, and the translator on \<open>sari\<close>, too, which the tagger
  takes for an ordinary instruction. Whatever the translator accepts gives well-typed code.
\<close>

theorem fapra_accepts:
  "case fapra_opcode (RAM32LE m pc) of
     None \<Rightarrow> arch_fapra_disasm_instr m pc max_line = Inl ExitFailure \<and> arch_fapra_tag_instr m pc = Inl ExitFailure \<and>
       arch_fapra_translate_instr (cpu_fapra little fp80 fp128) m pc n = Inl ExitFailure
   | Some i \<Rightarrow>
       arch_fapra_disasm_instr m pc max_line = Inr (snprintf_text max_line (disas_op i @ [CHR 0x0A]), INST_SIZE) \<and>
       (if i \<in> {OP_RFE, OP_PERM, OP_RDC8, OP_TGE, OP_TSE} then arch_fapra_tag_instr m pc = Inl ExitFailure
        else res_ok (\<lambda>(len, out). len = INST_SIZE \<and> tag_contract out) (arch_fapra_tag_instr m pc)) \<and>
       (if i \<in> {OP_RFE, OP_PERM, OP_RDC8, OP_TGE, OP_TSE, OP_SARI}
        then arch_fapra_translate_instr (cpu_fapra little fp80 fp128) m pc n = Inl ExitFailure
        else wt (arch_fapra_translate_instr (cpu_fapra little fp80 fp128) m pc) (\<lambda>len us. len = INST_SIZE) ts)"
proof (cases "fapra_opcode (RAM32LE m pc)")
  case None
  then show ?thesis
    by (simp add: arch_fapra_disasm_instr_def disas_opc_def arch_fapra_tag_instr_def arch_fapra_translate_instr_def e_bind_def e_fault_def)
next
  case (Some i)
  have "res_ok (\<lambda>(len, out). len = INST_SIZE \<and> tag_contract out) (arch_fapra_tag_instr m pc)"
    if "i \<notin> {OP_RFE, OP_PERM, OP_RDC8, OP_TGE, OP_TSE}"
    using that by (intro res_ok_mono [OF arch_fapra_contract]) (auto simp: fapra_code_def Some)
  moreover have "arch_fapra_tag_instr m pc = Inl ExitFailure" if "i \<in> {OP_RFE, OP_PERM, OP_RDC8, OP_TGE, OP_TSE}"
    using that by (auto simp: arch_fapra_tag_instr_def Some)
  moreover have "arch_fapra_translate_instr (cpu_fapra little fp80 fp128) m pc n = Inl ExitFailure"
    if "i \<in> {OP_RFE, OP_PERM, OP_RDC8, OP_TGE, OP_TSE, OP_SARI}"
    using that by (auto simp: arch_fapra_translate_instr_def e_bind_def e_fault_def Some)
  moreover have "wt (arch_fapra_translate_instr (cpu_fapra little fp80 fp128) m pc) (\<lambda>len us. len = INST_SIZE) ts"
    if "i \<notin> {OP_RFE, OP_PERM, OP_RDC8, OP_TGE, OP_TSE, OP_SARI}"
    using that by (auto simp: arch_fapra_translate_instr_def Some intro!: wt_mono [OF fapra_emit_typed])
  ultimately show ?thesis
    by (simp add: Some arch_fapra_disasm_instr_def disas_opc_def)
qed

text \<open>
  C6. Single-stepping FAPRA code is correct: the function \<open>cpu_translate_function\<close> makes with
  \<open>CPU_DEBUG_SINGLESTEP\<close> set, run on the client's register file and memory by any
  implementation of LLVM, on a host of either byte order, returns \<open>JIT_RETURN_SINGLESTEP\<close>
  within five blocks and leaves registers, program counter and memory as the instruction leaves
  them. Excepted are branches to the address \<open>NEW_PC_NONE\<close> stands for, and calls whose register
  does not hold the constant that the tagger has found in front of them.
\<close>

theorem fapra_singlestep:
  assumes "llvm big step jump" and "regfile_fapra s c" and "fapra_step m pc s = Some t"
    and "has (flags_debug cpu) CPU_DEBUG_SINGLESTEP"
    and "fapra_relative m pc \<noteq> NEW_PC_NONE"
    and "fapra_opcode (RAM32LE m pc) = Some OP_CALL \<Longrightarrow> fapra_call_target m pc \<noteq> NEW_PC_NONE \<Longrightarrow>
      ucast (fapra_call_target m pc) = got s (fapra_ra (RAM32LE m pc))"
  shows "\<exists>bs d. cpu_translate_function (arch_func_fapra m) cpu (new_fapra (\<not> big) fp80 fp128) junk pc = Some (Inr (0, cpu, bs)) \<and>
    exec_fun step jump 5 bs 0 c = Some (JIT_RETURN_SINGLESTEP, d) \<and> regfile_fapra t d"
proof -
  have "guest_step (f_tag_instr (arch_func_fapra m (cpu_fapra (\<not> big) fp80 fp128))) (exec_fapra m) (taken_fapra m) set_pc_fapra pc s = Some t"
    using step_fapra [OF assms(3,5,6)] by (simp add: arch_func_fapra_def)
  from fapra_guest.singlestep_correct [OF assms(2) this assms(4)] show ?thesis
    using llvm.exec_fun_documented [OF assms(1)] by blast
qed

text \<open>A machine whose registers all hold 3, in front of \<open>add r0, r0, r0\<close>.\<close>

definition threes :: fapra_state where
  "threes = \<lparr>freg = (\<lambda>i. 3), fpc = 0, fmem = (\<lambda>a. None)\<rparr>"

definition threes_config :: config where
  "threes_config = \<lparr>cells = (\<lambda>p. case p of RegPtr i \<Rightarrow> Some (32, Some 3) | PcPtr \<Rightarrow> Some (32, Some 0) | _ \<Rightarrow> None),
     ram = (\<lambda>a. None), temps = (\<lambda>i. None), results = (\<lambda>i. VInt 0 0), position = 0\<rparr>"

lemma threes_regfile: "regfile_fapra threes threes_config"
  by (simp add: regfile_fapra_def threes_def threes_config_def)

lemma zero_ins: "RAM32LE (\<lambda>_. 0) a = 0" "fapra_opcode 0 = Some OP_ADD" "fapra_rd 0 = 0" "fapra_ra 0 = 0" "fapra_rb 0 = 0"
  by (simp_all add: RAM32LE_def fapra_opcode_def opc_def fapra_opcodes_def fapra_rd_def fapra_ra_def fapra_rb_def)

theorem fapra_singlestep_witness:
  "\<exists>bs d. exec_fun (langref True) langref_jump 5 bs 0 threes_config = Some (2, d) \<and>
    cells d (RegPtr 0) = Some (32, Some 6) \<and> cells d (RegPtr 1) = Some (32, Some 3) \<and> cells d PcPtr = Some (32, Some 4)"
proof -
  have "fapra_step (\<lambda>_. 0) 0 threes = Some ((put 0 6 threes)\<lparr>fpc := 4\<rparr>)"
    by (simp add: fapra_step_def zero_ins got_def threes_def)
  moreover have "fapra_relative (\<lambda>_. 0) 0 = 0" by (simp add: fapra_relative_def zero_ins fapra_simm_def)
  ultimately obtain bs d where "exec_fun (langref True) langref_jump 5 bs 0 threes_config = Some (2, d)"
      and "regfile_fapra ((put 0 6 threes)\<lparr>fpc := 4\<rparr>) d"
    using fapra_singlestep [OF reference.llvm_axioms threes_regfile, of "\<lambda>_. 0" 0 _ "(area_cpu 4 (\<lambda>_. 0))\<lparr>flags_debug := 1\<rparr>"]
    by (fastforce simp: zero_ins has_one)
  then show ?thesis
    by (intro exI conjI) (assumption, auto simp: regfile_fapra_def put_def threes_def)
qed


text \<open>
  C19. The constant the tagger finds in front of a call is right where the three instructions are
  executed in a row: after \<open>ldih\<close> and \<open>ldil\<close> the call goes to \<open>v_new_pc\<close>, and leaves the address
  behind it in the link register.
\<close>

theorem fapra_call_idiom:
  assumes "fapra_opcode (RAM32LE m pc) = Some OP_CALL" and "fapra_call_target m pc \<noteq> NEW_PC_NONE"
    and "fapra_step m (pc - 8) s = Some s1" and "fapra_step m (pc - 4) s1 = Some s2" and "fapra_step m pc s2 = Some t"
  shows "fpc s1 = ucast (pc - 4) \<and> fpc s2 = ucast pc \<and> fpc t = ucast (fapra_call_target m pc) \<and>
    got t (fapra_rd (RAM32LE m pc)) = ucast (pc + 4) \<and>
    arch_fapra_tag_instr m pc =
      Inr (INST_SIZE, \<lparr>v_tag = Some TAG_CALL, v_new_pc = Some (fapra_call_target m pc), v_next_pc = Some (pc + 4)\<rparr>)"
proof -
  let ?h = "RAM32LE m (pc - 8)" and ?l = "RAM32LE m (pc - 4)"
  have op: "fapra_opcode ?h = Some OP_LDIH" "fapra_opcode ?l = Some OP_LDIL"
      "fapra_rd ?l = fapra_rd ?h" "fapra_ra (RAM32LE m pc) = fapra_rd ?h"
    and target: "fapra_call_target m pc = ucast (push_bit 16 (fapra_imm ?h) OR fapra_imm ?l)"
    using assms(2) by (auto simp: fapra_call_target_def Let_def split: if_splits)
  have "word_cat (ucast (drop_bit 16 (word_cat (ucast ?h :: 16 word) x :: 32 word)) :: 16 word) (ucast ?l :: 16 word) =
      (push_bit 16 (fapra_imm ?h) OR fapra_imm ?l :: 32 word)" for x :: "16 word"
    unfolding fapra_imm_def low_half by (rule bit_word_eqI) (auto simp: bit_simps)
  moreover have "ucast (ucast x :: addr) = x" for x :: "32 word" by (rule bit_word_eqI) (auto simp: bit_simps)
  ultimately show ?thesis
    using assms(1,3-5)
    by (auto simp: fapra_step_def Let_def op target put_def got_def arch_fapra_tag_instr_def)
qed

text \<open>\<open>ldih r0, 0; ldil r0, 8; call r0, r0\<close>.\<close>

definition call_code :: ram where
  "call_code a = (if a \<in> {3, 7, 11} then (if a = 3 then 0x80 else if a = 7 then 0x84 else 0xCC) else if a = 4 then 8 else 0)"

lemma call_words:
  "RAM32LE call_code 0 = 0x80000000" "RAM32LE call_code 4 = 0x84000008" "RAM32LE call_code 8 = 0xCC000000"
  by (simp_all add: RAM32LE_def call_code_def)

lemma call_ops: "fapra_opcode 0x80000000 = Some OP_LDIH" "fapra_opcode 0x84000008 = Some OP_LDIL" "fapra_opcode 0xCC000000 = Some OP_CALL"
  by (simp_all add: fapra_opcode_def opc_def fapra_opcodes_def)

lemma call_target: "fapra_call_target call_code 8 = 8"
  by (simp add: fapra_call_target_def call_words call_ops fapra_rd_def fapra_ra_def fapra_imm_def)

theorem fapra_call_idiom_witness:
  "\<exists>s1 s2 t. fapra_step call_code 0 threes = Some s1 \<and> fapra_step call_code 4 s1 = Some s2 \<and> fapra_step call_code 8 s2 = Some t \<and> fpc t = 8"
proof -
  obtain s1 where 1: "fapra_step call_code (8 - 8) threes = Some s1" by (simp add: fapra_step_def call_words call_ops)
  obtain s2 where 2: "fapra_step call_code (8 - 4) s1 = Some s2" by (simp add: fapra_step_def call_words call_ops)
  obtain t where 3: "fapra_step call_code 8 s2 = Some t" by (simp add: fapra_step_def call_words call_ops)
  have "fapra_opcode (RAM32LE call_code 8) = Some OP_CALL" "fapra_call_target call_code 8 \<noteq> NEW_PC_NONE"
    by (simp_all add: call_words call_ops call_target)
  from fapra_call_idiom [OF this 1 2 3] 1 2 3 show ?thesis by (auto simp: call_target)
qed

text \<open>
  C39. It is wrong for a call that is reached otherwise: a single step of a call goes to the
  constant in front of it whatever its register holds.
\<close>

theorem fapra_call_stale:
  assumes "llvm big step jump" and "regfile_fapra s c" and "has (flags_debug cpu) CPU_DEBUG_SINGLESTEP"
    and "fapra_opcode (RAM32LE m pc) = Some OP_CALL" and "fapra_call_target m pc \<noteq> NEW_PC_NONE"
  shows "\<exists>bs d. cpu_translate_function (arch_func_fapra m) cpu (new_fapra (\<not> big) fp80 fp128) junk pc = Some (Inr (0, cpu, bs)) \<and>
    exec_fun step jump 5 bs 0 c = Some (JIT_RETURN_SINGLESTEP, d) \<and>
    regfile_fapra ((put (fapra_rd (RAM32LE m pc)) (ucast (pc + 4)) s)\<lparr>fpc := ucast (fapra_call_target m pc)\<rparr>) d"
proof -
  have "guest_step (f_tag_instr (arch_func_fapra m (cpu_fapra (\<not> big) fp80 fp128))) (exec_fapra m) (taken_fapra m) set_pc_fapra pc s =
      Some ((put (fapra_rd (RAM32LE m pc)) (ucast (pc + 4)) s)\<lparr>fpc := ucast (fapra_call_target m pc)\<rparr>)"
    using assms(5)
    by (simp add: guest_step_def arch_func_fapra_def arch_fapra_tag_instr_def exec_fapra_def assms(4) set_pc_fapra_def put_def)
  from fapra_guest.singlestep_correct [OF assms(2) this assms(3)] show ?thesis
    using llvm.exec_fun_documented [OF assms(1)] by blast
qed

theorem fapra_call_stale_witness:
  "fpc threes = 0 \<and> got threes (fapra_ra (RAM32LE call_code 8)) = 3 \<and>
   (\<exists>bs d. exec_fun (langref False) langref_jump 5 bs 0 threes_config = Some (2, d) \<and> cells d PcPtr = Some (32, Some 8))"
proof (intro conjI)
  have "fapra_opcode (RAM32LE call_code 8) = Some OP_CALL" "fapra_call_target call_code 8 \<noteq> NEW_PC_NONE"
    by (simp_all add: call_words call_ops call_target)
  from fapra_call_stale [OF reference.llvm_axioms threes_regfile _ this, of "(area_cpu 4 (\<lambda>_. 0))\<lparr>flags_debug := 1\<rparr>" False]
  show "\<exists>bs d. exec_fun (langref False) langref_jump 5 bs 0 threes_config = Some (2, d) \<and> cells d PcPtr = Some (32, Some 8)"
    by (fastforce simp: has_one regfile_fapra_def call_target)
qed (simp_all add: threes_def got_def)

end
