(* ===== verification/X86_Tables.thy ===== *)
theory X86_Tables
  imports Prelude
begin

text \<open>
  The tables of the x86 decoder: the opcodes (\<open>x86_instr.h\<close>, \<open>x86_isa.h\<close>), the flags and
  addressing modes (\<open>x86_decode.h\<close>) and the decoding tables of \<open>x86_decode.cpp\<close>, entry by entry
  as the source writes them.
\<close>

section \<open>Opcodes\<close>

text \<open>\<open>enum arch_x86_opcode\<close>, numbered in the order of \<open>x86_instr.h\<close> from 1.\<close>

abbreviation (input) X86_OPC_ILLEGAL :: "'a::len word" where "X86_OPC_ILLEGAL \<equiv> 0"
abbreviation (input) X86_OPC_AAA :: "'a::len word" where "X86_OPC_AAA \<equiv> 1"
abbreviation (input) X86_OPC_AAD :: "'a::len word" where "X86_OPC_AAD \<equiv> 2"
abbreviation (input) X86_OPC_AAM :: "'a::len word" where "X86_OPC_AAM \<equiv> 3"
abbreviation (input) X86_OPC_AAS :: "'a::len word" where "X86_OPC_AAS \<equiv> 4"
abbreviation (input) X86_OPC_ADC :: "'a::len word" where "X86_OPC_ADC \<equiv> 5"
abbreviation (input) X86_OPC_ADD :: "'a::len word" where "X86_OPC_ADD \<equiv> 6"
abbreviation (input) X86_OPC_AND :: "'a::len word" where "X86_OPC_AND \<equiv> 7"
abbreviation (input) X86_OPC_ARPL :: "'a::len word" where "X86_OPC_ARPL \<equiv> 8"
abbreviation (input) X86_OPC_BOUND :: "'a::len word" where "X86_OPC_BOUND \<equiv> 9"
abbreviation (input) X86_OPC_BSF :: "'a::len word" where "X86_OPC_BSF \<equiv> 10"
abbreviation (input) X86_OPC_BSR :: "'a::len word" where "X86_OPC_BSR \<equiv> 11"
abbreviation (input) X86_OPC_BSWAP :: "'a::len word" where "X86_OPC_BSWAP \<equiv> 12"
abbreviation (input) X86_OPC_BT :: "'a::len word" where "X86_OPC_BT \<equiv> 13"
abbreviation (input) X86_OPC_BTC :: "'a::len word" where "X86_OPC_BTC \<equiv> 14"
abbreviation (input) X86_OPC_BTR :: "'a::len word" where "X86_OPC_BTR \<equiv> 15"
abbreviation (input) X86_OPC_BTS :: "'a::len word" where "X86_OPC_BTS \<equiv> 16"
abbreviation (input) X86_OPC_CALL :: "'a::len word" where "X86_OPC_CALL \<equiv> 17"
abbreviation (input) X86_OPC_CBW :: "'a::len word" where "X86_OPC_CBW \<equiv> 18"
abbreviation (input) X86_OPC_CBTV :: "'a::len word" where "X86_OPC_CBTV \<equiv> 19"
abbreviation (input) X86_OPC_CDQ :: "'a::len word" where "X86_OPC_CDQ \<equiv> 20"
abbreviation (input) X86_OPC_CLC :: "'a::len word" where "X86_OPC_CLC \<equiv> 21"
abbreviation (input) X86_OPC_CLD :: "'a::len word" where "X86_OPC_CLD \<equiv> 22"
abbreviation (input) X86_OPC_CLI :: "'a::len word" where "X86_OPC_CLI \<equiv> 23"
abbreviation (input) X86_OPC_CLTD :: "'a::len word" where "X86_OPC_CLTD \<equiv> 24"
abbreviation (input) X86_OPC_CLTS :: "'a::len word" where "X86_OPC_CLTS \<equiv> 25"
abbreviation (input) X86_OPC_CMC :: "'a::len word" where "X86_OPC_CMC \<equiv> 26"
abbreviation (input) X86_OPC_CMOVA :: "'a::len word" where "X86_OPC_CMOVA \<equiv> 27"
abbreviation (input) X86_OPC_CMOVB :: "'a::len word" where "X86_OPC_CMOVB \<equiv> 28"
abbreviation (input) X86_OPC_CMOVBE :: "'a::len word" where "X86_OPC_CMOVBE \<equiv> 29"
abbreviation (input) X86_OPC_CMOVG :: "'a::len word" where "X86_OPC_CMOVG \<equiv> 30"
abbreviation (input) X86_OPC_CMOVGE :: "'a::len word" where "X86_OPC_CMOVGE \<equiv> 31"
abbreviation (input) X86_OPC_CMOVL :: "'a::len word" where "X86_OPC_CMOVL \<equiv> 32"
abbreviation (input) X86_OPC_CMOVLE :: "'a::len word" where "X86_OPC_CMOVLE \<equiv> 33"
abbreviation (input) X86_OPC_CMOVNB :: "'a::len word" where "X86_OPC_CMOVNB \<equiv> 34"
abbreviation (input) X86_OPC_CMOVNE :: "'a::len word" where "X86_OPC_CMOVNE \<equiv> 35"
abbreviation (input) X86_OPC_CMOVNO :: "'a::len word" where "X86_OPC_CMOVNO \<equiv> 36"
abbreviation (input) X86_OPC_CMOVNS :: "'a::len word" where "X86_OPC_CMOVNS \<equiv> 37"
abbreviation (input) X86_OPC_CMOVO :: "'a::len word" where "X86_OPC_CMOVO \<equiv> 38"
abbreviation (input) X86_OPC_CMOVPE :: "'a::len word" where "X86_OPC_CMOVPE \<equiv> 39"
abbreviation (input) X86_OPC_CMOVPO :: "'a::len word" where "X86_OPC_CMOVPO \<equiv> 40"
abbreviation (input) X86_OPC_CMOVS :: "'a::len word" where "X86_OPC_CMOVS \<equiv> 41"
abbreviation (input) X86_OPC_CMOVZ :: "'a::len word" where "X86_OPC_CMOVZ \<equiv> 42"
abbreviation (input) X86_OPC_CMP :: "'a::len word" where "X86_OPC_CMP \<equiv> 43"
abbreviation (input) X86_OPC_CMPS :: "'a::len word" where "X86_OPC_CMPS \<equiv> 44"
abbreviation (input) X86_OPC_CMPXCHG8B :: "'a::len word" where "X86_OPC_CMPXCHG8B \<equiv> 45"
abbreviation (input) X86_OPC_CMPXCHG :: "'a::len word" where "X86_OPC_CMPXCHG \<equiv> 46"
abbreviation (input) X86_OPC_CPUID :: "'a::len word" where "X86_OPC_CPUID \<equiv> 47"
abbreviation (input) X86_OPC_CWD :: "'a::len word" where "X86_OPC_CWD \<equiv> 48"
abbreviation (input) X86_OPC_CWDE :: "'a::len word" where "X86_OPC_CWDE \<equiv> 49"
abbreviation (input) X86_OPC_CWTD :: "'a::len word" where "X86_OPC_CWTD \<equiv> 50"
abbreviation (input) X86_OPC_CWTL :: "'a::len word" where "X86_OPC_CWTL \<equiv> 51"
abbreviation (input) X86_OPC_DAA :: "'a::len word" where "X86_OPC_DAA \<equiv> 52"
abbreviation (input) X86_OPC_DAS :: "'a::len word" where "X86_OPC_DAS \<equiv> 53"
abbreviation (input) X86_OPC_DEC :: "'a::len word" where "X86_OPC_DEC \<equiv> 54"
abbreviation (input) X86_OPC_DIV :: "'a::len word" where "X86_OPC_DIV \<equiv> 55"
abbreviation (input) X86_OPC_ENTER :: "'a::len word" where "X86_OPC_ENTER \<equiv> 56"
abbreviation (input) X86_OPC_HLT :: "'a::len word" where "X86_OPC_HLT \<equiv> 57"
abbreviation (input) X86_OPC_IDIV :: "'a::len word" where "X86_OPC_IDIV \<equiv> 58"
abbreviation (input) X86_OPC_IMUL :: "'a::len word" where "X86_OPC_IMUL \<equiv> 59"
abbreviation (input) X86_OPC_IN :: "'a::len word" where "X86_OPC_IN \<equiv> 60"
abbreviation (input) X86_OPC_INC :: "'a::len word" where "X86_OPC_INC \<equiv> 61"
abbreviation (input) X86_OPC_INS :: "'a::len word" where "X86_OPC_INS \<equiv> 62"
abbreviation (input) X86_OPC_INT3 :: "'a::len word" where "X86_OPC_INT3 \<equiv> 63"
abbreviation (input) X86_OPC_INT :: "'a::len word" where "X86_OPC_INT \<equiv> 64"
abbreviation (input) X86_OPC_INTO :: "'a::len word" where "X86_OPC_INTO \<equiv> 65"
abbreviation (input) X86_OPC_INVD :: "'a::len word" where "X86_OPC_INVD \<equiv> 66"
abbreviation (input) X86_OPC_INVLPG :: "'a::len word" where "X86_OPC_INVLPG \<equiv> 67"
abbreviation (input) X86_OPC_IRET :: "'a::len word" where "X86_OPC_IRET \<equiv> 68"
abbreviation (input) X86_OPC_JA :: "'a::len word" where "X86_OPC_JA \<equiv> 69"
abbreviation (input) X86_OPC_JAE :: "'a::len word" where "X86_OPC_JAE \<equiv> 70"
abbreviation (input) X86_OPC_JB :: "'a::len word" where "X86_OPC_JB \<equiv> 71"
abbreviation (input) X86_OPC_JBE :: "'a::len word" where "X86_OPC_JBE \<equiv> 72"
abbreviation (input) X86_OPC_JC :: "'a::len word" where "X86_OPC_JC \<equiv> 73"
abbreviation (input) X86_OPC_JCXZ :: "'a::len word" where "X86_OPC_JCXZ \<equiv> 74"
abbreviation (input) X86_OPC_JE :: "'a::len word" where "X86_OPC_JE \<equiv> 75"
abbreviation (input) X86_OPC_JECXZ :: "'a::len word" where "X86_OPC_JECXZ \<equiv> 76"
abbreviation (input) X86_OPC_JG :: "'a::len word" where "X86_OPC_JG \<equiv> 77"
abbreviation (input) X86_OPC_JGE :: "'a::len word" where "X86_OPC_JGE \<equiv> 78"
abbreviation (input) X86_OPC_JL :: "'a::len word" where "X86_OPC_JL \<equiv> 79"
abbreviation (input) X86_OPC_JLE :: "'a::len word" where "X86_OPC_JLE \<equiv> 80"
abbreviation (input) X86_OPC_JMP :: "'a::len word" where "X86_OPC_JMP \<equiv> 81"
abbreviation (input) X86_OPC_JNA :: "'a::len word" where "X86_OPC_JNA \<equiv> 82"
abbreviation (input) X86_OPC_JNAE :: "'a::len word" where "X86_OPC_JNAE \<equiv> 83"
abbreviation (input) X86_OPC_JNB :: "'a::len word" where "X86_OPC_JNB \<equiv> 84"
abbreviation (input) X86_OPC_JNBE :: "'a::len word" where "X86_OPC_JNBE \<equiv> 85"
abbreviation (input) X86_OPC_JNC :: "'a::len word" where "X86_OPC_JNC \<equiv> 86"
abbreviation (input) X86_OPC_JNE :: "'a::len word" where "X86_OPC_JNE \<equiv> 87"
abbreviation (input) X86_OPC_JNG :: "'a::len word" where "X86_OPC_JNG \<equiv> 88"
abbreviation (input) X86_OPC_JNGE :: "'a::len word" where "X86_OPC_JNGE \<equiv> 89"
abbreviation (input) X86_OPC_JNL :: "'a::len word" where "X86_OPC_JNL \<equiv> 90"
abbreviation (input) X86_OPC_JNLE :: "'a::len word" where "X86_OPC_JNLE \<equiv> 91"
abbreviation (input) X86_OPC_JNO :: "'a::len word" where "X86_OPC_JNO \<equiv> 92"
abbreviation (input) X86_OPC_JNP :: "'a::len word" where "X86_OPC_JNP \<equiv> 93"
abbreviation (input) X86_OPC_JNS :: "'a::len word" where "X86_OPC_JNS \<equiv> 94"
abbreviation (input) X86_OPC_JNZ :: "'a::len word" where "X86_OPC_JNZ \<equiv> 95"
abbreviation (input) X86_OPC_JO :: "'a::len word" where "X86_OPC_JO \<equiv> 96"
abbreviation (input) X86_OPC_JP :: "'a::len word" where "X86_OPC_JP \<equiv> 97"
abbreviation (input) X86_OPC_JPE :: "'a::len word" where "X86_OPC_JPE \<equiv> 98"
abbreviation (input) X86_OPC_JPO :: "'a::len word" where "X86_OPC_JPO \<equiv> 99"
abbreviation (input) X86_OPC_JS :: "'a::len word" where "X86_OPC_JS \<equiv> 100"
abbreviation (input) X86_OPC_JZ :: "'a::len word" where "X86_OPC_JZ \<equiv> 101"
abbreviation (input) X86_OPC_LAHF :: "'a::len word" where "X86_OPC_LAHF \<equiv> 102"
abbreviation (input) X86_OPC_LAR :: "'a::len word" where "X86_OPC_LAR \<equiv> 103"
abbreviation (input) X86_OPC_LCALL :: "'a::len word" where "X86_OPC_LCALL \<equiv> 104"
abbreviation (input) X86_OPC_LDS :: "'a::len word" where "X86_OPC_LDS \<equiv> 105"
abbreviation (input) X86_OPC_LEA :: "'a::len word" where "X86_OPC_LEA \<equiv> 106"
abbreviation (input) X86_OPC_LEAVE :: "'a::len word" where "X86_OPC_LEAVE \<equiv> 107"
abbreviation (input) X86_OPC_LES :: "'a::len word" where "X86_OPC_LES \<equiv> 108"
abbreviation (input) X86_OPC_LFS :: "'a::len word" where "X86_OPC_LFS \<equiv> 109"
abbreviation (input) X86_OPC_LGDTD :: "'a::len word" where "X86_OPC_LGDTD \<equiv> 110"
abbreviation (input) X86_OPC_LGDTL :: "'a::len word" where "X86_OPC_LGDTL \<equiv> 111"
abbreviation (input) X86_OPC_LGDTW :: "'a::len word" where "X86_OPC_LGDTW \<equiv> 112"
abbreviation (input) X86_OPC_LGS :: "'a::len word" where "X86_OPC_LGS \<equiv> 113"
abbreviation (input) X86_OPC_LIDTD :: "'a::len word" where "X86_OPC_LIDTD \<equiv> 114"
abbreviation (input) X86_OPC_LIDTL :: "'a::len word" where "X86_OPC_LIDTL \<equiv> 115"
abbreviation (input) X86_OPC_LIDTW :: "'a::len word" where "X86_OPC_LIDTW \<equiv> 116"
abbreviation (input) X86_OPC_LJMP :: "'a::len word" where "X86_OPC_LJMP \<equiv> 117"
abbreviation (input) X86_OPC_LLDT :: "'a::len word" where "X86_OPC_LLDT \<equiv> 118"
abbreviation (input) X86_OPC_LMSW :: "'a::len word" where "X86_OPC_LMSW \<equiv> 119"
abbreviation (input) X86_OPC_LODS :: "'a::len word" where "X86_OPC_LODS \<equiv> 120"
abbreviation (input) X86_OPC_LOOP :: "'a::len word" where "X86_OPC_LOOP \<equiv> 121"
abbreviation (input) X86_OPC_LOOPE :: "'a::len word" where "X86_OPC_LOOPE \<equiv> 122"
abbreviation (input) X86_OPC_LOOPNE :: "'a::len word" where "X86_OPC_LOOPNE \<equiv> 123"
abbreviation (input) X86_OPC_LOOPNZ :: "'a::len word" where "X86_OPC_LOOPNZ \<equiv> 124"
abbreviation (input) X86_OPC_LOOPZ :: "'a::len word" where "X86_OPC_LOOPZ \<equiv> 125"
abbreviation (input) X86_OPC_LRET :: "'a::len word" where "X86_OPC_LRET \<equiv> 126"
abbreviation (input) X86_OPC_LSL :: "'a::len word" where "X86_OPC_LSL \<equiv> 127"
abbreviation (input) X86_OPC_LSS :: "'a::len word" where "X86_OPC_LSS \<equiv> 128"
abbreviation (input) X86_OPC_LTR :: "'a::len word" where "X86_OPC_LTR \<equiv> 129"
abbreviation (input) X86_OPC_MOV :: "'a::len word" where "X86_OPC_MOV \<equiv> 130"
abbreviation (input) X86_OPC_MOVS :: "'a::len word" where "X86_OPC_MOVS \<equiv> 131"
abbreviation (input) X86_OPC_MOVSX :: "'a::len word" where "X86_OPC_MOVSX \<equiv> 132"
abbreviation (input) X86_OPC_MOVSXB :: "'a::len word" where "X86_OPC_MOVSXB \<equiv> 133"
abbreviation (input) X86_OPC_MOVSXW :: "'a::len word" where "X86_OPC_MOVSXW \<equiv> 134"
abbreviation (input) X86_OPC_MOVZX :: "'a::len word" where "X86_OPC_MOVZX \<equiv> 135"
abbreviation (input) X86_OPC_MOVZXB :: "'a::len word" where "X86_OPC_MOVZXB \<equiv> 136"
abbreviation (input) X86_OPC_MOVZXW :: "'a::len word" where "X86_OPC_MOVZXW \<equiv> 137"
abbreviation (input) X86_OPC_MUL :: "'a::len word" where "X86_OPC_MUL \<equiv> 138"
abbreviation (input) X86_OPC_NEG :: "'a::len word" where "X86_OPC_NEG \<equiv> 139"
abbreviation (input) X86_OPC_NOP :: "'a::len word" where "X86_OPC_NOP \<equiv> 140"
abbreviation (input) X86_OPC_NOT :: "'a::len word" where "X86_OPC_NOT \<equiv> 141"
abbreviation (input) X86_OPC_OR :: "'a::len word" where "X86_OPC_OR \<equiv> 142"
abbreviation (input) X86_OPC_OUT :: "'a::len word" where "X86_OPC_OUT \<equiv> 143"
abbreviation (input) X86_OPC_OUTS :: "'a::len word" where "X86_OPC_OUTS \<equiv> 144"
abbreviation (input) X86_OPC_POP :: "'a::len word" where "X86_OPC_POP \<equiv> 145"
abbreviation (input) X86_OPC_POPA :: "'a::len word" where "X86_OPC_POPA \<equiv> 146"
abbreviation (input) X86_OPC_POPF :: "'a::len word" where "X86_OPC_POPF \<equiv> 147"
abbreviation (input) X86_OPC_PUSH :: "'a::len word" where "X86_OPC_PUSH \<equiv> 148"
abbreviation (input) X86_OPC_PUSHA :: "'a::len word" where "X86_OPC_PUSHA \<equiv> 149"
abbreviation (input) X86_OPC_PUSHF :: "'a::len word" where "X86_OPC_PUSHF \<equiv> 150"
abbreviation (input) X86_OPC_RCL :: "'a::len word" where "X86_OPC_RCL \<equiv> 151"
abbreviation (input) X86_OPC_RCR :: "'a::len word" where "X86_OPC_RCR \<equiv> 152"
abbreviation (input) X86_OPC_RDMSR :: "'a::len word" where "X86_OPC_RDMSR \<equiv> 153"
abbreviation (input) X86_OPC_RDPMC :: "'a::len word" where "X86_OPC_RDPMC \<equiv> 154"
abbreviation (input) X86_OPC_RDTSC :: "'a::len word" where "X86_OPC_RDTSC \<equiv> 155"
abbreviation (input) X86_OPC_REP :: "'a::len word" where "X86_OPC_REP \<equiv> 156"
abbreviation (input) X86_OPC_REPE :: "'a::len word" where "X86_OPC_REPE \<equiv> 157"
abbreviation (input) X86_OPC_REPNE :: "'a::len word" where "X86_OPC_REPNE \<equiv> 158"
abbreviation (input) X86_OPC_REPNZ :: "'a::len word" where "X86_OPC_REPNZ \<equiv> 159"
abbreviation (input) X86_OPC_REPZ :: "'a::len word" where "X86_OPC_REPZ \<equiv> 160"
abbreviation (input) X86_OPC_RET :: "'a::len word" where "X86_OPC_RET \<equiv> 161"
abbreviation (input) X86_OPC_RETF :: "'a::len word" where "X86_OPC_RETF \<equiv> 162"
abbreviation (input) X86_OPC_ROL :: "'a::len word" where "X86_OPC_ROL \<equiv> 163"
abbreviation (input) X86_OPC_ROR :: "'a::len word" where "X86_OPC_ROR \<equiv> 164"
abbreviation (input) X86_OPC_RSM :: "'a::len word" where "X86_OPC_RSM \<equiv> 165"
abbreviation (input) X86_OPC_SAHF :: "'a::len word" where "X86_OPC_SAHF \<equiv> 166"
abbreviation (input) X86_OPC_SAL :: "'a::len word" where "X86_OPC_SAL \<equiv> 167"
abbreviation (input) X86_OPC_SAR :: "'a::len word" where "X86_OPC_SAR \<equiv> 168"
abbreviation (input) X86_OPC_SBB :: "'a::len word" where "X86_OPC_SBB \<equiv> 169"
abbreviation (input) X86_OPC_SCAS :: "'a::len word" where "X86_OPC_SCAS \<equiv> 170"
abbreviation (input) X86_OPC_SETA :: "'a::len word" where "X86_OPC_SETA \<equiv> 171"
abbreviation (input) X86_OPC_SETB :: "'a::len word" where "X86_OPC_SETB \<equiv> 172"
abbreviation (input) X86_OPC_SETBE :: "'a::len word" where "X86_OPC_SETBE \<equiv> 173"
abbreviation (input) X86_OPC_SETG :: "'a::len word" where "X86_OPC_SETG \<equiv> 174"
abbreviation (input) X86_OPC_SETGE :: "'a::len word" where "X86_OPC_SETGE \<equiv> 175"
abbreviation (input) X86_OPC_SETL :: "'a::len word" where "X86_OPC_SETL \<equiv> 176"
abbreviation (input) X86_OPC_SETLE :: "'a::len word" where "X86_OPC_SETLE \<equiv> 177"
abbreviation (input) X86_OPC_SETNB :: "'a::len word" where "X86_OPC_SETNB \<equiv> 178"
abbreviation (input) X86_OPC_SETNE :: "'a::len word" where "X86_OPC_SETNE \<equiv> 179"
abbreviation (input) X86_OPC_SETNO :: "'a::len word" where "X86_OPC_SETNO \<equiv> 180"
abbreviation (input) X86_OPC_SETNS :: "'a::len word" where "X86_OPC_SETNS \<equiv> 181"
abbreviation (input) X86_OPC_SETO :: "'a::len word" where "X86_OPC_SETO \<equiv> 182"
abbreviation (input) X86_OPC_SETPE :: "'a::len word" where "X86_OPC_SETPE \<equiv> 183"
abbreviation (input) X86_OPC_SETPO :: "'a::len word" where "X86_OPC_SETPO \<equiv> 184"
abbreviation (input) X86_OPC_SETS :: "'a::len word" where "X86_OPC_SETS \<equiv> 185"
abbreviation (input) X86_OPC_SETZ :: "'a::len word" where "X86_OPC_SETZ \<equiv> 186"
abbreviation (input) X86_OPC_SGDTD :: "'a::len word" where "X86_OPC_SGDTD \<equiv> 187"
abbreviation (input) X86_OPC_SGDTL :: "'a::len word" where "X86_OPC_SGDTL \<equiv> 188"
abbreviation (input) X86_OPC_SGDTW :: "'a::len word" where "X86_OPC_SGDTW \<equiv> 189"
abbreviation (input) X86_OPC_SHL :: "'a::len word" where "X86_OPC_SHL \<equiv> 190"
abbreviation (input) X86_OPC_SHLD :: "'a::len word" where "X86_OPC_SHLD \<equiv> 191"
abbreviation (input) X86_OPC_SHR :: "'a::len word" where "X86_OPC_SHR \<equiv> 192"
abbreviation (input) X86_OPC_SHRD :: "'a::len word" where "X86_OPC_SHRD \<equiv> 193"
abbreviation (input) X86_OPC_SIDTD :: "'a::len word" where "X86_OPC_SIDTD \<equiv> 194"
abbreviation (input) X86_OPC_SIDTL :: "'a::len word" where "X86_OPC_SIDTL \<equiv> 195"
abbreviation (input) X86_OPC_SIDTW :: "'a::len word" where "X86_OPC_SIDTW \<equiv> 196"
abbreviation (input) X86_OPC_SLDT :: "'a::len word" where "X86_OPC_SLDT \<equiv> 197"
abbreviation (input) X86_OPC_SMSW :: "'a::len word" where "X86_OPC_SMSW \<equiv> 198"
abbreviation (input) X86_OPC_STC :: "'a::len word" where "X86_OPC_STC \<equiv> 199"
abbreviation (input) X86_OPC_STD :: "'a::len word" where "X86_OPC_STD \<equiv> 200"
abbreviation (input) X86_OPC_STI :: "'a::len word" where "X86_OPC_STI \<equiv> 201"
abbreviation (input) X86_OPC_STOS :: "'a::len word" where "X86_OPC_STOS \<equiv> 202"
abbreviation (input) X86_OPC_STR :: "'a::len word" where "X86_OPC_STR \<equiv> 203"
abbreviation (input) X86_OPC_SUB :: "'a::len word" where "X86_OPC_SUB \<equiv> 204"
abbreviation (input) X86_OPC_SYSENTER :: "'a::len word" where "X86_OPC_SYSENTER \<equiv> 205"
abbreviation (input) X86_OPC_SYSEXIT :: "'a::len word" where "X86_OPC_SYSEXIT \<equiv> 206"
abbreviation (input) X86_OPC_TEST :: "'a::len word" where "X86_OPC_TEST \<equiv> 207"
abbreviation (input) X86_OPC_UD1 :: "'a::len word" where "X86_OPC_UD1 \<equiv> 208"
abbreviation (input) X86_OPC_UD2 :: "'a::len word" where "X86_OPC_UD2 \<equiv> 209"
abbreviation (input) X86_OPC_VERR :: "'a::len word" where "X86_OPC_VERR \<equiv> 210"
abbreviation (input) X86_OPC_VERW :: "'a::len word" where "X86_OPC_VERW \<equiv> 211"
abbreviation (input) X86_OPC_WBINVD :: "'a::len word" where "X86_OPC_WBINVD \<equiv> 212"
abbreviation (input) X86_OPC_WRMSR :: "'a::len word" where "X86_OPC_WRMSR \<equiv> 213"
abbreviation (input) X86_OPC_XADD :: "'a::len word" where "X86_OPC_XADD \<equiv> 214"
abbreviation (input) X86_OPC_XCHG :: "'a::len word" where "X86_OPC_XCHG \<equiv> 215"
abbreviation (input) X86_OPC_XLATB :: "'a::len word" where "X86_OPC_XLATB \<equiv> 216"
abbreviation (input) X86_OPC_XOR :: "'a::len word" where "X86_OPC_XOR \<equiv> 217"

text \<open>\<open>mnemo[]\<close> of \<open>x86_disasm.cpp\<close>.\<close>

definition mnemo_x86_lo :: "string list" where
  "mnemo_x86_lo = [
    ''aaa'', ''aad'', ''aam'', ''aas'', ''adc'', ''add'', ''and'', ''arpl'', ''bound'', ''bsf'',
    ''bsr'', ''bswap'', ''bt'', ''btc'', ''btr'', ''bts'', ''call'', ''cbw'', ''cbtv'', ''cdq'',
    ''clc'', ''cld'', ''cli'', ''cltd'', ''clts'', ''cmc'', ''cmova'', ''cmovb'', ''cmovbe'',
    ''cmovg'', ''cmovge'', ''cmovl'', ''cmovle'', ''cmovnb'', ''cmovne'', ''cmovno'', ''cmovns'',
    ''cmovo'', ''cmovpe'', ''cmovpo'', ''cmovs'', ''cmovz'', ''cmp'', ''cmps'', ''cmpxchg8b'',
    ''cmpxchg'', ''cpuid'', ''cwd'', ''cwde'', ''cwtd'', ''cwtl'', ''daa'', ''das'', ''dec'',
    ''div'', ''enter'', ''hlt'', ''idiv'', ''imul'', ''in'', ''inc'', ''ins'', ''int3'', ''int'',
    ''into'', ''invd'', ''invlpg'', ''iret'', ''ja'', ''jae'', ''jb'', ''jbe'', ''jc'', ''jcxz'',
    ''je'', ''jecxz'', ''jg'', ''jge'', ''jl'', ''jle'', ''jmp'', ''jna'', ''jnae'', ''jnb'',
    ''jnbe'', ''jnc'', ''jne'', ''jng'', ''jnge'', ''jnl'', ''jnle'', ''jno'', ''jnp'', ''jns'',
    ''jnz'', ''jo'', ''jp'', ''jpe'', ''jpo'', ''js'', ''jz'', ''lahf'', ''lar'', ''lcall'',
    ''lds'', ''lea'', ''leave'', ''les'']"

definition mnemo_x86_hi :: "string list" where
  "mnemo_x86_hi = [
    ''lfs'', ''lgdtd'', ''lgdtl'', ''lgdtw'', ''lgs'', ''lidtd'', ''lidtl'', ''lidtw'', ''ljmp'',
    ''lldt'', ''lmsw'', ''lods'', ''loop'', ''loope'', ''loopne'', ''loopnz'', ''loopz'', ''lret'',
    ''lsl'', ''lss'', ''ltr'', ''mov'', ''movs'', ''movsx'', ''movsb'', ''movsw'', ''movzx'',
    ''movzb'', ''movzw'', ''mul'', ''neg'', ''nop'', ''not'', ''or'', ''out'', ''outs'', ''pop'',
    ''popa'', ''popf'', ''push'', ''pusha'', ''pushf'', ''rcl'', ''rcr'', ''rdmsr'', ''rdpmc'',
    ''rdtsc'', ''rep'', ''repe'', ''repne'', ''repnz'', ''repz'', ''ret'', ''retf'', ''rol'',
    ''ror'', ''rsm'', ''sahf'', ''sal'', ''sar'', ''sbb'', ''scas'', ''seta'', ''setb'', ''setbe'',
    ''setg'', ''setge'', ''setl'', ''setle'', ''setnb'', ''setne'', ''setno'', ''setns'', ''seto'',
    ''setpe'', ''setpo'', ''sets'', ''setz'', ''sgdtd'', ''sgdtl'', ''sgdtw'', ''shl'', ''shld'',
    ''shr'', ''shrd'', ''sidtd'', ''sidtl'', ''sidtw'', ''sldt'', ''smsw'', ''stc'', ''std'',
    ''sti'', ''stos'', ''str'', ''sub'', ''sysenter'', ''sysexit'', ''test'', ''ud1'', ''ud2'',
    ''verr'', ''verw'', ''wbinvd'', ''wrmsr'', ''xadd'', ''xchg'', ''xlatb'', ''xor'']"

definition mnemo_x86 :: "string list" where
  "mnemo_x86 = ''illegal'' # mnemo_x86_lo @ mnemo_x86_hi"

section \<open>Instruction flags\<close>

abbreviation (input) MOD_RM :: "64 word" where "MOD_RM \<equiv> 0x100"
abbreviation (input) SIB :: "64 word" where "SIB \<equiv> 0x200"
abbreviation (input) DIR_REVERSED :: "64 word" where "DIR_REVERSED \<equiv> 0x400"
abbreviation (input) WIDTH_BYTE :: "64 word" where "WIDTH_BYTE \<equiv> 0x800"
abbreviation (input) WIDTH_WORD :: "64 word" where "WIDTH_WORD \<equiv> 0x1000"
abbreviation (input) WIDTH_DWORD :: "64 word" where "WIDTH_DWORD \<equiv> 0x2000"
abbreviation (input) WIDTH_QWORD :: "64 word" where "WIDTH_QWORD \<equiv> 0x4000"
abbreviation (input) WIDTH_MASK :: "64 word" where
  "WIDTH_MASK \<equiv> WIDTH_BYTE OR WIDTH_WORD OR WIDTH_DWORD"
abbreviation (input) SRC_NONE :: "64 word" where "SRC_NONE \<equiv> 0x8000"
abbreviation (input) SRC_IMM :: "64 word" where "SRC_IMM \<equiv> 0x10000"
abbreviation (input) SRC_IMM8 :: "64 word" where "SRC_IMM8 \<equiv> 0x20000"
abbreviation (input) SRC_IMM48 :: "64 word" where "SRC_IMM48 \<equiv> 0x40000"
abbreviation (input) SRC_IMM_MASK :: "64 word" where
  "SRC_IMM_MASK \<equiv> SRC_IMM OR SRC_IMM8 OR SRC_IMM48"
abbreviation (input) SRC_REL :: "64 word" where "SRC_REL \<equiv> 0x80000"
abbreviation (input) SRC_REG :: "64 word" where "SRC_REG \<equiv> 0x100000"
abbreviation (input) SRC_SEG2_REG :: "64 word" where "SRC_SEG2_REG \<equiv> 0x200000"
abbreviation (input) SRC_SEG3_REG :: "64 word" where "SRC_SEG3_REG \<equiv> 0x400000"
abbreviation (input) SRC_ACC :: "64 word" where "SRC_ACC \<equiv> 0x800000"
abbreviation (input) SRC_MEM :: "64 word" where "SRC_MEM \<equiv> 0x1000000"
abbreviation (input) SRC_MOFFSET :: "64 word" where "SRC_MOFFSET \<equiv> 0x2000000"
abbreviation (input) SRC_MEM_DISP_BYTE :: "64 word" where "SRC_MEM_DISP_BYTE \<equiv> 0x4000000"
abbreviation (input) SRC_MEM_DISP_WORD :: "64 word" where "SRC_MEM_DISP_WORD \<equiv> 0x8000000"
abbreviation (input) SRC_MEM_DISP_DWORD :: "64 word" where "SRC_MEM_DISP_DWORD \<equiv> 0x10000000"
abbreviation (input) SRC_MEM_DISP_MASK :: "64 word" where
  "SRC_MEM_DISP_MASK \<equiv> SRC_MEM_DISP_BYTE OR SRC_MEM_DISP_WORD OR SRC_MEM_DISP_DWORD"
abbreviation (input) SRC_CR_REG :: "64 word" where "SRC_CR_REG \<equiv> 0x20000000"
abbreviation (input) SRC_DBG_REG :: "64 word" where "SRC_DBG_REG \<equiv> 0x40000000"
abbreviation (input) SRC_MASK :: "64 word" where
  "SRC_MASK \<equiv> SRC_NONE OR SRC_IMM_MASK OR SRC_REL OR SRC_REG OR SRC_SEG2_REG OR SRC_SEG3_REG OR SRC_ACC OR SRC_MEM OR SRC_MOFFSET OR SRC_MEM_DISP_MASK OR SRC_CR_REG OR SRC_DBG_REG"
abbreviation (input) DST_NONE :: "64 word" where "DST_NONE \<equiv> 0x80000000"
abbreviation (input) DST_IMM16 :: "64 word" where "DST_IMM16 \<equiv> 0x100000000"
abbreviation (input) DST_REG :: "64 word" where "DST_REG \<equiv> 0x200000000"
abbreviation (input) DST_ACC :: "64 word" where "DST_ACC \<equiv> 0x400000000"
abbreviation (input) DST_MEM :: "64 word" where "DST_MEM \<equiv> 0x800000000"
abbreviation (input) DST_MOFFSET :: "64 word" where "DST_MOFFSET \<equiv> 0x1000000000"
abbreviation (input) DST_MEM_DISP_BYTE :: "64 word" where "DST_MEM_DISP_BYTE \<equiv> 0x2000000000"
abbreviation (input) DST_MEM_DISP_WORD :: "64 word" where "DST_MEM_DISP_WORD \<equiv> 0x4000000000"
abbreviation (input) DST_MEM_DISP_DWORD :: "64 word" where "DST_MEM_DISP_DWORD \<equiv> 0x8000000000"
abbreviation (input) DST_MEM_DISP_MASK :: "64 word" where
  "DST_MEM_DISP_MASK \<equiv> DST_MEM_DISP_BYTE OR DST_MEM_DISP_WORD OR DST_MEM_DISP_DWORD"
abbreviation (input) DST_SEG3_REG :: "64 word" where "DST_SEG3_REG \<equiv> 0x10000000000"
abbreviation (input) DST_CR_REG :: "64 word" where "DST_CR_REG \<equiv> 0x20000000000"
abbreviation (input) DST_DBG_REG :: "64 word" where "DST_DBG_REG \<equiv> 0x40000000000"
abbreviation (input) DST_MASK :: "64 word" where
  "DST_MASK \<equiv> DST_NONE OR DST_IMM16 OR DST_REG OR DST_ACC OR DST_MEM OR DST_MOFFSET OR DST_MEM_DISP_MASK OR DST_SEG3_REG OR DST_CR_REG OR DST_DBG_REG"
abbreviation (input) OP3_NONE :: "64 word" where "OP3_NONE \<equiv> 0x80000000000"
abbreviation (input) OP3_IMM :: "64 word" where "OP3_IMM \<equiv> 0x100000000000"
abbreviation (input) OP3_IMM8 :: "64 word" where "OP3_IMM8 \<equiv> 0x200000000000"
abbreviation (input) OP3_CL :: "64 word" where "OP3_CL \<equiv> 0x400000000000"
abbreviation (input) OP3_IMM_MASK :: "64 word" where
  "OP3_IMM_MASK \<equiv> OP3_IMM OR OP3_IMM8"
abbreviation (input) OP3_MASK :: "64 word" where
  "OP3_MASK \<equiv> OP3_NONE OR OP3_IMM_MASK OR OP3_CL"
abbreviation (input) MEM_DISP_MASK :: "64 word" where
  "MEM_DISP_MASK \<equiv> SRC_MEM_DISP_MASK OR DST_MEM_DISP_MASK"
abbreviation (input) MOFFSET_MASK :: "64 word" where
  "MOFFSET_MASK \<equiv> SRC_MOFFSET OR DST_MOFFSET"
abbreviation (input) IMM_MASK :: "64 word" where
  "IMM_MASK \<equiv> SRC_IMM_MASK OR OP3_IMM_MASK"
abbreviation (input) REL_MASK :: "64 word" where
  "REL_MASK \<equiv> SRC_REL"
abbreviation (input) ADDRMOD_MASK :: "64 word" where
  "ADDRMOD_MASK \<equiv> MOD_RM OR DIR_REVERSED OR SRC_MASK OR DST_MASK OR OP3_MASK"

section \<open>Addressing modes\<close>

abbreviation (input) ADDRMOD_ACC_MOFFSET :: "64 word" where "ADDRMOD_ACC_MOFFSET \<equiv> SRC_ACC OR DST_MOFFSET OR OP3_NONE"
abbreviation (input) ADDRMOD_ACC_REG :: "64 word" where "ADDRMOD_ACC_REG \<equiv> SRC_ACC OR DST_REG OR OP3_NONE"
abbreviation (input) ADDRMOD_IMM :: "64 word" where "ADDRMOD_IMM \<equiv> SRC_IMM OR DST_NONE OR OP3_NONE"
abbreviation (input) ADDRMOD_IMM8 :: "64 word" where "ADDRMOD_IMM8 \<equiv> SRC_IMM8 OR DST_NONE OR OP3_NONE"
abbreviation (input) ADDRMOD_IMM8_RM :: "64 word" where "ADDRMOD_IMM8_RM \<equiv> SRC_IMM8 OR MOD_RM OR DIR_REVERSED OR OP3_NONE"
abbreviation (input) ADDRMOD_IMM_RM :: "64 word" where "ADDRMOD_IMM_RM \<equiv> SRC_IMM OR MOD_RM OR DIR_REVERSED OR OP3_NONE"
abbreviation (input) ADDRMOD_IMM_ACC :: "64 word" where "ADDRMOD_IMM_ACC \<equiv> SRC_IMM OR DST_ACC OR OP3_NONE"
abbreviation (input) ADDRMOD_IMM_REG :: "64 word" where "ADDRMOD_IMM_REG \<equiv> SRC_IMM OR DST_REG OR OP3_NONE"
abbreviation (input) ADDRMOD_IMPLIED :: "64 word" where "ADDRMOD_IMPLIED \<equiv> SRC_NONE OR DST_NONE OR OP3_NONE"
abbreviation (input) ADDRMOD_MOFFSET_ACC :: "64 word" where "ADDRMOD_MOFFSET_ACC \<equiv> SRC_MOFFSET OR DST_ACC OR OP3_NONE"
abbreviation (input) ADDRMOD_REG :: "64 word" where "ADDRMOD_REG \<equiv> SRC_REG OR DST_NONE OR OP3_NONE"
abbreviation (input) ADDRMOD_SEG2_REG :: "64 word" where "ADDRMOD_SEG2_REG \<equiv> SRC_SEG2_REG OR DST_NONE OR OP3_NONE"
abbreviation (input) ADDRMOD_SEG3_REG :: "64 word" where "ADDRMOD_SEG3_REG \<equiv> SRC_SEG3_REG OR DST_NONE OR OP3_NONE"
abbreviation (input) ADDRMOD_SEG3_REG_RM :: "64 word" where "ADDRMOD_SEG3_REG_RM \<equiv> SRC_SEG3_REG OR MOD_RM OR DIR_REVERSED OR OP3_NONE"
abbreviation (input) ADDRMOD_RM_SEG3_REG :: "64 word" where "ADDRMOD_RM_SEG3_REG \<equiv> DST_SEG3_REG OR MOD_RM OR OP3_NONE"
abbreviation (input) ADDRMOD_REG_RM :: "64 word" where "ADDRMOD_REG_RM \<equiv> SRC_REG OR MOD_RM OR DIR_REVERSED OR OP3_NONE"
abbreviation (input) ADDRMOD_REL :: "64 word" where "ADDRMOD_REL \<equiv> SRC_REL OR DST_NONE OR OP3_NONE"
abbreviation (input) ADDRMOD_RM_REG :: "64 word" where "ADDRMOD_RM_REG \<equiv> DST_REG OR MOD_RM OR OP3_NONE"
abbreviation (input) ADDRMOD_RM :: "64 word" where "ADDRMOD_RM \<equiv> DST_NONE OR MOD_RM OR OP3_NONE"
abbreviation (input) ADDRMOD_RM_IMM_REG :: "64 word" where "ADDRMOD_RM_IMM_REG \<equiv> DST_REG OR MOD_RM OR OP3_IMM"
abbreviation (input) ADDRMOD_RM_IMM8_REG :: "64 word" where "ADDRMOD_RM_IMM8_REG \<equiv> DST_REG OR MOD_RM OR OP3_IMM8"
abbreviation (input) ADDRMOD_REG_IMM8_RM :: "64 word" where "ADDRMOD_REG_IMM8_RM \<equiv> SRC_REG OR MOD_RM OR DIR_REVERSED OR OP3_IMM8"
abbreviation (input) ADDRMOD_REG_CL_RM :: "64 word" where "ADDRMOD_REG_CL_RM \<equiv> SRC_REG OR MOD_RM OR DIR_REVERSED OR OP3_CL"
abbreviation (input) ADDRMOD_FAR_PTR :: "64 word" where "ADDRMOD_FAR_PTR \<equiv> DST_NONE OR SRC_IMM48 OR OP3_NONE"
abbreviation (input) ADDRMOD_IMM8_IMM16 :: "64 word" where "ADDRMOD_IMM8_IMM16 \<equiv> SRC_IMM8 OR DST_IMM16 OR OP3_NONE"
abbreviation (input) ADDRMOD_CR_RM :: "64 word" where "ADDRMOD_CR_RM \<equiv> SRC_CR_REG OR MOD_RM OR DIR_REVERSED OR OP3_NONE"
abbreviation (input) ADDRMOD_DBG_RM :: "64 word" where "ADDRMOD_DBG_RM \<equiv> SRC_DBG_REG OR MOD_RM OR DIR_REVERSED OR OP3_NONE"
abbreviation (input) ADDRMOD_RM_CR :: "64 word" where "ADDRMOD_RM_CR \<equiv> DST_CR_REG OR MOD_RM OR OP3_NONE"
abbreviation (input) ADDRMOD_RM_DBG :: "64 word" where "ADDRMOD_RM_DBG \<equiv> DST_DBG_REG OR MOD_RM OR OP3_NONE"

section \<open>Decoding markers\<close>

text \<open>
  \<open>GET_FIELD(v, shift:size)\<close> and \<open>SET_FIELD\<close>. An entry whose low byte is zero names no opcode; its
  class then says what it is.
\<close>

definition GET_FIELD :: "64 word \<Rightarrow> nat \<Rightarrow> nat \<Rightarrow> 64 word" where
  "GET_FIELD v shift bits = drop_bit shift v AND (push_bit bits 1 - 1)"

abbreviation (input) X86_OPCODE :: "64 word \<Rightarrow> 64 word" where "X86_OPCODE v \<equiv> GET_FIELD v 0 8"
abbreviation (input) X86_DECODE_CLASS :: "64 word \<Rightarrow> 64 word" where "X86_DECODE_CLASS v \<equiv> GET_FIELD v 61 2"
abbreviation (input) X86_PREFIX_INDEX :: "64 word \<Rightarrow> 64 word" where "X86_PREFIX_INDEX v \<equiv> GET_FIELD v 58 3"
abbreviation (input) X86_PREFIX_VALUE :: "64 word \<Rightarrow> 64 word" where "X86_PREFIX_VALUE v \<equiv> GET_FIELD v 55 3"
abbreviation (input) X86_DECODE_GROUP :: "64 word \<Rightarrow> 64 word" where "X86_DECODE_GROUP v \<equiv> GET_FIELD v 57 4"
abbreviation (input) X86_DIFF_SYNTAX :: "64 word \<Rightarrow> 64 word" where "X86_DIFF_SYNTAX v \<equiv> GET_FIELD v 56 5"

abbreviation (input) X86_DECODE_CLASS_INVALID :: "64 word" where "X86_DECODE_CLASS_INVALID \<equiv> 0"
abbreviation (input) X86_DECODE_CLASS_PREFIX :: "64 word" where "X86_DECODE_CLASS_PREFIX \<equiv> 1"
abbreviation (input) X86_DECODE_CLASS_GROUP :: "64 word" where "X86_DECODE_CLASS_GROUP \<equiv> 2"
abbreviation (input) X86_DECODE_CLASS_DIFF_SYNTAX :: "64 word" where "X86_DECODE_CLASS_DIFF_SYNTAX \<equiv> 3"

abbreviation (input) X86_OPC_UNDEFINED :: "64 word" where
  "X86_OPC_UNDEFINED \<equiv> push_bit 61 X86_DECODE_CLASS_INVALID OR X86_OPC_ILLEGAL"
abbreviation (input) X86_OPC_PREFIX :: "64 word \<Rightarrow> 64 word \<Rightarrow> 64 word" where
  "X86_OPC_PREFIX index val \<equiv> push_bit 61 X86_DECODE_CLASS_PREFIX OR push_bit 58 index OR push_bit 55 val"
abbreviation (input) X86_OPC_GROUP :: "64 word \<Rightarrow> 64 word" where
  "X86_OPC_GROUP g \<equiv> push_bit 61 X86_DECODE_CLASS_GROUP OR push_bit 57 (g + 1)"
abbreviation (input) X86_OPC_DIFF_SYNTAX :: "64 word \<Rightarrow> 64 word" where
  "X86_OPC_DIFF_SYNTAX index \<equiv> push_bit 61 X86_DECODE_CLASS_DIFF_SYNTAX OR push_bit 56 index"

abbreviation (input) Jb :: "64 word" where "Jb \<equiv> ADDRMOD_REL OR WIDTH_BYTE"
abbreviation (input) Jv :: "64 word" where "Jv \<equiv> ADDRMOD_REL OR WIDTH_DWORD"
abbreviation (input) Cv :: "64 word" where "Cv \<equiv> ADDRMOD_RM_REG OR WIDTH_DWORD"
abbreviation (input) Sb :: "64 word" where "Sb \<equiv> ADDRMOD_RM OR WIDTH_BYTE"

abbreviation (input) SEG_OVERRIDE :: "'a::len word" where "SEG_OVERRIDE \<equiv> 0"
abbreviation (input) REP_OVERRIDE :: "'a::len word" where "REP_OVERRIDE \<equiv> 1"
abbreviation (input) LOCK_PREFIX :: "'a::len word" where "LOCK_PREFIX \<equiv> 2"
abbreviation (input) ADDRESS_SIZE_OVERRIDE :: "'a::len word" where "ADDRESS_SIZE_OVERRIDE \<equiv> 3"
abbreviation (input) OPERAND_SIZE_OVERRIDE :: "'a::len word" where "OPERAND_SIZE_OVERRIDE \<equiv> 4"
abbreviation (input) IS_TWO_BYTE_INSTR :: "'a::len word" where "IS_TWO_BYTE_INSTR \<equiv> 5"

abbreviation (input) NO_OVERRIDE :: "'a::len word" where "NO_OVERRIDE \<equiv> 0"
abbreviation (input) ES_OVERRIDE :: "'a::len word" where "ES_OVERRIDE \<equiv> 1"
abbreviation (input) CS_OVERRIDE :: "'a::len word" where "CS_OVERRIDE \<equiv> 2"
abbreviation (input) SS_OVERRIDE :: "'a::len word" where "SS_OVERRIDE \<equiv> 3"
abbreviation (input) DS_OVERRIDE :: "'a::len word" where "DS_OVERRIDE \<equiv> 4"
abbreviation (input) FS_OVERRIDE :: "'a::len word" where "FS_OVERRIDE \<equiv> 5"
abbreviation (input) GS_OVERRIDE :: "'a::len word" where "GS_OVERRIDE \<equiv> 6"
abbreviation (input) REPNZ_PREFIX :: "'a::len word" where "REPNZ_PREFIX \<equiv> 1"
abbreviation (input) REPZ_PREFIX :: "'a::len word" where "REPZ_PREFIX \<equiv> 2"

section \<open>Decoding tables\<close>

definition decode_table_one_lo :: "64 word list" where
  "decode_table_one_lo = [
    X86_OPC_ADD OR ADDRMOD_REG_RM OR WIDTH_BYTE,
    X86_OPC_ADD OR ADDRMOD_REG_RM OR WIDTH_DWORD,
    X86_OPC_ADD OR ADDRMOD_RM_REG OR WIDTH_BYTE,
    X86_OPC_ADD OR ADDRMOD_RM_REG OR WIDTH_DWORD,
    X86_OPC_ADD OR ADDRMOD_IMM_ACC OR WIDTH_BYTE,
    X86_OPC_ADD OR ADDRMOD_IMM_ACC OR WIDTH_DWORD,
    X86_OPC_PUSH OR ADDRMOD_SEG2_REG OR WIDTH_DWORD,
    X86_OPC_POP OR ADDRMOD_SEG2_REG OR WIDTH_DWORD,
    X86_OPC_OR OR ADDRMOD_REG_RM OR WIDTH_BYTE,
    X86_OPC_OR OR ADDRMOD_REG_RM OR WIDTH_DWORD,
    X86_OPC_OR OR ADDRMOD_RM_REG OR WIDTH_BYTE,
    X86_OPC_OR OR ADDRMOD_RM_REG OR WIDTH_DWORD,
    X86_OPC_OR OR ADDRMOD_IMM_ACC OR WIDTH_BYTE,
    X86_OPC_OR OR ADDRMOD_IMM_ACC OR WIDTH_DWORD,
    X86_OPC_PUSH OR ADDRMOD_SEG2_REG OR WIDTH_DWORD,
    X86_OPC_PREFIX IS_TWO_BYTE_INSTR 1,
    X86_OPC_ADC OR ADDRMOD_REG_RM OR WIDTH_BYTE,
    X86_OPC_ADC OR ADDRMOD_REG_RM OR WIDTH_DWORD,
    X86_OPC_ADC OR ADDRMOD_RM_REG OR WIDTH_BYTE,
    X86_OPC_ADC OR ADDRMOD_RM_REG OR WIDTH_DWORD,
    X86_OPC_ADC OR ADDRMOD_IMM_ACC OR WIDTH_BYTE,
    X86_OPC_ADC OR ADDRMOD_IMM_ACC OR WIDTH_DWORD,
    X86_OPC_PUSH OR ADDRMOD_SEG2_REG OR WIDTH_DWORD,
    X86_OPC_POP OR ADDRMOD_SEG2_REG OR WIDTH_DWORD,
    X86_OPC_SBB OR ADDRMOD_REG_RM OR WIDTH_BYTE,
    X86_OPC_SBB OR ADDRMOD_REG_RM OR WIDTH_DWORD,
    X86_OPC_SBB OR ADDRMOD_RM_REG OR WIDTH_BYTE,
    X86_OPC_SBB OR ADDRMOD_RM_REG OR WIDTH_DWORD,
    X86_OPC_SBB OR ADDRMOD_IMM_ACC OR WIDTH_BYTE,
    X86_OPC_SBB OR ADDRMOD_IMM_ACC OR WIDTH_DWORD,
    X86_OPC_PUSH OR ADDRMOD_SEG2_REG OR WIDTH_DWORD,
    X86_OPC_POP OR ADDRMOD_SEG2_REG OR WIDTH_DWORD,
    X86_OPC_AND OR ADDRMOD_REG_RM OR WIDTH_BYTE,
    X86_OPC_AND OR ADDRMOD_REG_RM OR WIDTH_DWORD,
    X86_OPC_AND OR ADDRMOD_RM_REG OR WIDTH_BYTE,
    X86_OPC_AND OR ADDRMOD_RM_REG OR WIDTH_DWORD,
    X86_OPC_AND OR ADDRMOD_IMM_ACC OR WIDTH_BYTE,
    X86_OPC_AND OR ADDRMOD_IMM_ACC OR WIDTH_DWORD,
    X86_OPC_PREFIX SEG_OVERRIDE ES_OVERRIDE,
    X86_OPC_DAA OR ADDRMOD_IMPLIED,
    X86_OPC_SUB OR ADDRMOD_REG_RM OR WIDTH_BYTE,
    X86_OPC_SUB OR ADDRMOD_REG_RM OR WIDTH_DWORD,
    X86_OPC_SUB OR ADDRMOD_RM_REG OR WIDTH_BYTE,
    X86_OPC_SUB OR ADDRMOD_RM_REG OR WIDTH_DWORD,
    X86_OPC_SUB OR ADDRMOD_IMM_ACC OR WIDTH_BYTE,
    X86_OPC_SUB OR ADDRMOD_IMM_ACC OR WIDTH_DWORD,
    X86_OPC_PREFIX SEG_OVERRIDE CS_OVERRIDE,
    X86_OPC_DAS OR ADDRMOD_IMPLIED,
    X86_OPC_XOR OR ADDRMOD_REG_RM OR WIDTH_BYTE,
    X86_OPC_XOR OR ADDRMOD_REG_RM OR WIDTH_DWORD,
    X86_OPC_XOR OR ADDRMOD_RM_REG OR WIDTH_BYTE,
    X86_OPC_XOR OR ADDRMOD_RM_REG OR WIDTH_DWORD,
    X86_OPC_XOR OR ADDRMOD_IMM_ACC OR WIDTH_BYTE,
    X86_OPC_XOR OR ADDRMOD_IMM_ACC OR WIDTH_DWORD,
    X86_OPC_PREFIX SEG_OVERRIDE SS_OVERRIDE,
    X86_OPC_AAA OR ADDRMOD_IMPLIED,
    X86_OPC_CMP OR ADDRMOD_REG_RM OR WIDTH_BYTE,
    X86_OPC_CMP OR ADDRMOD_REG_RM OR WIDTH_DWORD,
    X86_OPC_CMP OR ADDRMOD_RM_REG OR WIDTH_BYTE,
    X86_OPC_CMP OR ADDRMOD_RM_REG OR WIDTH_DWORD,
    X86_OPC_CMP OR ADDRMOD_IMM_ACC OR WIDTH_BYTE,
    X86_OPC_CMP OR ADDRMOD_IMM_ACC OR WIDTH_DWORD,
    X86_OPC_PREFIX SEG_OVERRIDE DS_OVERRIDE,
    X86_OPC_AAS OR ADDRMOD_IMPLIED,
    X86_OPC_INC OR ADDRMOD_REG OR WIDTH_DWORD,
    X86_OPC_INC OR ADDRMOD_REG OR WIDTH_DWORD,
    X86_OPC_INC OR ADDRMOD_REG OR WIDTH_DWORD,
    X86_OPC_INC OR ADDRMOD_REG OR WIDTH_DWORD,
    X86_OPC_INC OR ADDRMOD_REG OR WIDTH_DWORD,
    X86_OPC_INC OR ADDRMOD_REG OR WIDTH_DWORD,
    X86_OPC_INC OR ADDRMOD_REG OR WIDTH_DWORD,
    X86_OPC_INC OR ADDRMOD_REG OR WIDTH_DWORD,
    X86_OPC_DEC OR ADDRMOD_REG OR WIDTH_DWORD,
    X86_OPC_DEC OR ADDRMOD_REG OR WIDTH_DWORD,
    X86_OPC_DEC OR ADDRMOD_REG OR WIDTH_DWORD,
    X86_OPC_DEC OR ADDRMOD_REG OR WIDTH_DWORD,
    X86_OPC_DEC OR ADDRMOD_REG OR WIDTH_DWORD,
    X86_OPC_DEC OR ADDRMOD_REG OR WIDTH_DWORD,
    X86_OPC_DEC OR ADDRMOD_REG OR WIDTH_DWORD,
    X86_OPC_DEC OR ADDRMOD_REG OR WIDTH_DWORD,
    X86_OPC_PUSH OR ADDRMOD_REG OR WIDTH_DWORD,
    X86_OPC_PUSH OR ADDRMOD_REG OR WIDTH_DWORD,
    X86_OPC_PUSH OR ADDRMOD_REG OR WIDTH_DWORD,
    X86_OPC_PUSH OR ADDRMOD_REG OR WIDTH_DWORD,
    X86_OPC_PUSH OR ADDRMOD_REG OR WIDTH_DWORD,
    X86_OPC_PUSH OR ADDRMOD_REG OR WIDTH_DWORD,
    X86_OPC_PUSH OR ADDRMOD_REG OR WIDTH_DWORD,
    X86_OPC_PUSH OR ADDRMOD_REG OR WIDTH_DWORD,
    X86_OPC_POP OR ADDRMOD_REG OR WIDTH_DWORD,
    X86_OPC_POP OR ADDRMOD_REG OR WIDTH_DWORD,
    X86_OPC_POP OR ADDRMOD_REG OR WIDTH_DWORD,
    X86_OPC_POP OR ADDRMOD_REG OR WIDTH_DWORD,
    X86_OPC_POP OR ADDRMOD_REG OR WIDTH_DWORD,
    X86_OPC_POP OR ADDRMOD_REG OR WIDTH_DWORD,
    X86_OPC_POP OR ADDRMOD_REG OR WIDTH_DWORD,
    X86_OPC_POP OR ADDRMOD_REG OR WIDTH_DWORD,
    X86_OPC_PUSHA OR ADDRMOD_IMPLIED OR WIDTH_DWORD,
    X86_OPC_POPA OR ADDRMOD_IMPLIED OR WIDTH_DWORD,
    X86_OPC_DIFF_SYNTAX 0 OR ADDRMOD_RM_REG,
    X86_OPC_ARPL OR ADDRMOD_REG_RM OR WIDTH_WORD,
    X86_OPC_PREFIX SEG_OVERRIDE FS_OVERRIDE,
    X86_OPC_PREFIX SEG_OVERRIDE GS_OVERRIDE,
    X86_OPC_PREFIX OPERAND_SIZE_OVERRIDE 1,
    X86_OPC_PREFIX ADDRESS_SIZE_OVERRIDE 1,
    X86_OPC_PUSH OR ADDRMOD_IMM OR WIDTH_DWORD,
    X86_OPC_IMUL OR ADDRMOD_RM_IMM_REG OR WIDTH_DWORD,
    X86_OPC_PUSH OR ADDRMOD_IMM OR WIDTH_BYTE,
    X86_OPC_IMUL OR ADDRMOD_RM_IMM8_REG OR WIDTH_DWORD,
    X86_OPC_INS OR ADDRMOD_IMPLIED OR WIDTH_BYTE,
    X86_OPC_INS OR ADDRMOD_IMPLIED OR WIDTH_DWORD,
    X86_OPC_OUTS OR ADDRMOD_IMPLIED OR WIDTH_BYTE,
    X86_OPC_OUTS OR ADDRMOD_IMPLIED OR WIDTH_DWORD,
    X86_OPC_JO OR Jb,
    X86_OPC_JNO OR Jb,
    X86_OPC_JB OR Jb,
    X86_OPC_JNB OR Jb,
    X86_OPC_JZ OR Jb,
    X86_OPC_JNE OR Jb,
    X86_OPC_JBE OR Jb,
    X86_OPC_JA OR Jb,
    X86_OPC_JS OR Jb,
    X86_OPC_JNS OR Jb,
    X86_OPC_JPE OR Jb,
    X86_OPC_JPO OR Jb,
    X86_OPC_JL OR Jb,
    X86_OPC_JGE OR Jb,
    X86_OPC_JLE OR Jb,
    X86_OPC_JG OR Jb]"

definition decode_table_one_hi :: "64 word list" where
  "decode_table_one_hi = [
    X86_OPC_GROUP 1 OR ADDRMOD_IMM8_RM OR WIDTH_BYTE,
    X86_OPC_GROUP 1 OR ADDRMOD_IMM_RM OR WIDTH_DWORD,
    X86_OPC_GROUP 1 OR ADDRMOD_IMM8_RM OR WIDTH_BYTE,
    X86_OPC_GROUP 1 OR ADDRMOD_IMM8_RM OR WIDTH_DWORD,
    X86_OPC_TEST OR ADDRMOD_REG_RM OR WIDTH_BYTE,
    X86_OPC_TEST OR ADDRMOD_REG_RM OR WIDTH_DWORD,
    X86_OPC_XCHG OR ADDRMOD_REG_RM OR WIDTH_BYTE,
    X86_OPC_XCHG OR ADDRMOD_REG_RM OR WIDTH_DWORD,
    X86_OPC_MOV OR ADDRMOD_REG_RM OR WIDTH_BYTE,
    X86_OPC_MOV OR ADDRMOD_REG_RM OR WIDTH_DWORD,
    X86_OPC_MOV OR ADDRMOD_RM_REG OR WIDTH_BYTE,
    X86_OPC_MOV OR ADDRMOD_RM_REG OR WIDTH_DWORD,
    X86_OPC_MOV OR ADDRMOD_SEG3_REG_RM OR WIDTH_WORD,
    X86_OPC_LEA OR ADDRMOD_RM_REG OR WIDTH_DWORD,
    X86_OPC_MOV OR ADDRMOD_RM_SEG3_REG OR WIDTH_WORD,
    X86_OPC_POP OR ADDRMOD_RM OR WIDTH_DWORD,
    X86_OPC_NOP OR ADDRMOD_IMPLIED,
    X86_OPC_XCHG OR ADDRMOD_ACC_REG OR WIDTH_DWORD,
    X86_OPC_XCHG OR ADDRMOD_ACC_REG OR WIDTH_DWORD,
    X86_OPC_XCHG OR ADDRMOD_ACC_REG OR WIDTH_DWORD,
    X86_OPC_XCHG OR ADDRMOD_ACC_REG OR WIDTH_DWORD,
    X86_OPC_XCHG OR ADDRMOD_ACC_REG OR WIDTH_DWORD,
    X86_OPC_XCHG OR ADDRMOD_ACC_REG OR WIDTH_DWORD,
    X86_OPC_XCHG OR ADDRMOD_ACC_REG OR WIDTH_DWORD,
    X86_OPC_DIFF_SYNTAX 1 OR ADDRMOD_IMPLIED,
    X86_OPC_DIFF_SYNTAX 2 OR ADDRMOD_IMPLIED,
    X86_OPC_DIFF_SYNTAX 3 OR ADDRMOD_FAR_PTR OR WIDTH_DWORD,
    X86_OPC_UNDEFINED,
    X86_OPC_PUSHF OR ADDRMOD_IMPLIED,
    X86_OPC_POPF OR ADDRMOD_IMPLIED,
    X86_OPC_SAHF OR ADDRMOD_IMPLIED,
    X86_OPC_LAHF OR ADDRMOD_IMPLIED,
    X86_OPC_MOV OR ADDRMOD_MOFFSET_ACC OR WIDTH_BYTE,
    X86_OPC_MOV OR ADDRMOD_MOFFSET_ACC OR WIDTH_DWORD,
    X86_OPC_MOV OR ADDRMOD_ACC_MOFFSET OR WIDTH_BYTE,
    X86_OPC_MOV OR ADDRMOD_ACC_MOFFSET OR WIDTH_DWORD,
    X86_OPC_MOVS OR ADDRMOD_IMPLIED OR WIDTH_BYTE,
    X86_OPC_MOVS OR ADDRMOD_IMPLIED OR WIDTH_DWORD,
    X86_OPC_CMPS OR ADDRMOD_IMPLIED OR WIDTH_BYTE,
    X86_OPC_CMPS OR ADDRMOD_IMPLIED OR WIDTH_DWORD,
    X86_OPC_TEST OR ADDRMOD_IMM_ACC OR WIDTH_BYTE,
    X86_OPC_TEST OR ADDRMOD_IMM_ACC OR WIDTH_DWORD,
    X86_OPC_STOS OR ADDRMOD_IMPLIED OR WIDTH_BYTE,
    X86_OPC_STOS OR ADDRMOD_IMPLIED OR WIDTH_DWORD,
    X86_OPC_LODS OR ADDRMOD_IMPLIED OR WIDTH_BYTE,
    X86_OPC_LODS OR ADDRMOD_IMPLIED OR WIDTH_DWORD,
    X86_OPC_SCAS OR ADDRMOD_IMPLIED OR WIDTH_BYTE,
    X86_OPC_SCAS OR ADDRMOD_IMPLIED OR WIDTH_DWORD,
    X86_OPC_MOV OR ADDRMOD_IMM_REG OR WIDTH_BYTE,
    X86_OPC_MOV OR ADDRMOD_IMM_REG OR WIDTH_BYTE,
    X86_OPC_MOV OR ADDRMOD_IMM_REG OR WIDTH_BYTE,
    X86_OPC_MOV OR ADDRMOD_IMM_REG OR WIDTH_BYTE,
    X86_OPC_MOV OR ADDRMOD_IMM_REG OR WIDTH_BYTE,
    X86_OPC_MOV OR ADDRMOD_IMM_REG OR WIDTH_BYTE,
    X86_OPC_MOV OR ADDRMOD_IMM_REG OR WIDTH_BYTE,
    X86_OPC_MOV OR ADDRMOD_IMM_REG OR WIDTH_BYTE,
    X86_OPC_MOV OR ADDRMOD_IMM_REG OR WIDTH_DWORD,
    X86_OPC_MOV OR ADDRMOD_IMM_REG OR WIDTH_DWORD,
    X86_OPC_MOV OR ADDRMOD_IMM_REG OR WIDTH_DWORD,
    X86_OPC_MOV OR ADDRMOD_IMM_REG OR WIDTH_DWORD,
    X86_OPC_MOV OR ADDRMOD_IMM_REG OR WIDTH_DWORD,
    X86_OPC_MOV OR ADDRMOD_IMM_REG OR WIDTH_DWORD,
    X86_OPC_MOV OR ADDRMOD_IMM_REG OR WIDTH_DWORD,
    X86_OPC_MOV OR ADDRMOD_IMM_REG OR WIDTH_DWORD,
    X86_OPC_GROUP 2 OR ADDRMOD_IMM8_RM OR WIDTH_BYTE,
    X86_OPC_GROUP 2 OR ADDRMOD_IMM8_RM OR WIDTH_DWORD,
    X86_OPC_RET OR ADDRMOD_IMM OR WIDTH_WORD,
    X86_OPC_RET OR ADDRMOD_IMPLIED,
    X86_OPC_LES OR ADDRMOD_RM_REG OR WIDTH_DWORD,
    X86_OPC_LDS OR ADDRMOD_RM_REG OR WIDTH_DWORD,
    X86_OPC_MOV OR ADDRMOD_IMM8_RM OR WIDTH_BYTE,
    X86_OPC_MOV OR ADDRMOD_IMM_RM OR WIDTH_DWORD,
    X86_OPC_ENTER OR ADDRMOD_IMM8_IMM16 OR WIDTH_WORD,
    X86_OPC_LEAVE OR ADDRMOD_IMPLIED,
    X86_OPC_DIFF_SYNTAX 4 OR ADDRMOD_IMM OR WIDTH_WORD,
    X86_OPC_DIFF_SYNTAX 5 OR ADDRMOD_IMPLIED,
    X86_OPC_INT3 OR ADDRMOD_IMPLIED,
    X86_OPC_INT OR ADDRMOD_IMM OR WIDTH_BYTE,
    X86_OPC_INTO OR ADDRMOD_IMPLIED,
    X86_OPC_IRET OR ADDRMOD_IMPLIED,
    X86_OPC_GROUP 2 OR ADDRMOD_RM OR WIDTH_BYTE,
    X86_OPC_GROUP 2 OR ADDRMOD_RM OR WIDTH_DWORD,
    X86_OPC_GROUP 2 OR ADDRMOD_RM OR WIDTH_BYTE,
    X86_OPC_GROUP 2 OR ADDRMOD_RM OR WIDTH_DWORD,
    X86_OPC_AAM OR ADDRMOD_IMM OR WIDTH_BYTE,
    X86_OPC_AAD OR ADDRMOD_IMM OR WIDTH_BYTE,
    X86_OPC_UNDEFINED,
    X86_OPC_XLATB OR ADDRMOD_IMPLIED,
    X86_OPC_UNDEFINED,
    X86_OPC_UNDEFINED,
    X86_OPC_UNDEFINED,
    X86_OPC_UNDEFINED,
    X86_OPC_UNDEFINED,
    X86_OPC_UNDEFINED,
    X86_OPC_UNDEFINED,
    X86_OPC_UNDEFINED,
    X86_OPC_LOOPNE OR ADDRMOD_REL OR WIDTH_BYTE,
    X86_OPC_LOOPE OR ADDRMOD_REL OR WIDTH_BYTE,
    X86_OPC_LOOP OR ADDRMOD_REL OR WIDTH_BYTE,
    X86_OPC_JECXZ OR Jb,
    X86_OPC_IN OR ADDRMOD_IMM OR WIDTH_BYTE,
    X86_OPC_IN OR ADDRMOD_IMM8 OR WIDTH_DWORD,
    X86_OPC_OUT OR ADDRMOD_IMM OR WIDTH_BYTE,
    X86_OPC_OUT OR ADDRMOD_IMM8 OR WIDTH_DWORD,
    X86_OPC_CALL OR Jv,
    X86_OPC_JMP OR Jv,
    X86_OPC_DIFF_SYNTAX 6 OR ADDRMOD_FAR_PTR OR WIDTH_DWORD,
    X86_OPC_JMP OR Jb,
    X86_OPC_IN OR ADDRMOD_IMPLIED OR WIDTH_BYTE,
    X86_OPC_IN OR ADDRMOD_IMPLIED OR WIDTH_DWORD,
    X86_OPC_OUT OR ADDRMOD_IMPLIED OR WIDTH_BYTE,
    X86_OPC_OUT OR ADDRMOD_IMPLIED OR WIDTH_DWORD,
    X86_OPC_PREFIX LOCK_PREFIX 1,
    X86_OPC_UNDEFINED,
    X86_OPC_PREFIX REP_OVERRIDE REPNZ_PREFIX,
    X86_OPC_PREFIX REP_OVERRIDE REPZ_PREFIX,
    X86_OPC_HLT OR ADDRMOD_IMPLIED,
    X86_OPC_CMC OR ADDRMOD_IMPLIED,
    X86_OPC_GROUP 3 OR ADDRMOD_RM OR WIDTH_BYTE,
    X86_OPC_GROUP 3 OR ADDRMOD_RM OR WIDTH_DWORD,
    X86_OPC_CLC OR ADDRMOD_IMPLIED,
    X86_OPC_STC OR ADDRMOD_IMPLIED,
    X86_OPC_CLI OR ADDRMOD_IMPLIED,
    X86_OPC_STI OR ADDRMOD_IMPLIED,
    X86_OPC_CLD OR ADDRMOD_IMPLIED,
    X86_OPC_STD OR ADDRMOD_IMPLIED,
    X86_OPC_GROUP 4 OR ADDRMOD_RM OR WIDTH_BYTE,
    X86_OPC_GROUP 5 OR ADDRMOD_RM OR WIDTH_DWORD]"

definition decode_table_one :: "64 word list" where
  "decode_table_one = decode_table_one_lo @ decode_table_one_hi"

definition decode_table_two_lo :: "64 word list" where
  "decode_table_two_lo = [
    X86_OPC_GROUP 6 OR ADDRMOD_RM OR WIDTH_WORD,
    X86_OPC_GROUP 7 OR ADDRMOD_RM OR WIDTH_DWORD,
    X86_OPC_LAR OR ADDRMOD_RM_REG OR WIDTH_DWORD,
    X86_OPC_LSL OR ADDRMOD_RM_REG OR WIDTH_DWORD,
    X86_OPC_UNDEFINED,
    X86_OPC_UNDEFINED,
    X86_OPC_CLTS OR ADDRMOD_IMPLIED,
    X86_OPC_UNDEFINED,
    X86_OPC_INVD OR ADDRMOD_IMPLIED,
    X86_OPC_WBINVD OR ADDRMOD_IMPLIED,
    X86_OPC_UNDEFINED,
    X86_OPC_UD2 OR ADDRMOD_IMPLIED,
    X86_OPC_UNDEFINED,
    X86_OPC_UNDEFINED,
    X86_OPC_UNDEFINED,
    X86_OPC_UNDEFINED,
    X86_OPC_UNDEFINED,
    X86_OPC_UNDEFINED,
    X86_OPC_UNDEFINED,
    X86_OPC_UNDEFINED,
    X86_OPC_UNDEFINED,
    X86_OPC_UNDEFINED,
    X86_OPC_UNDEFINED,
    X86_OPC_UNDEFINED,
    X86_OPC_UNDEFINED,
    X86_OPC_UNDEFINED,
    X86_OPC_UNDEFINED,
    X86_OPC_UNDEFINED,
    X86_OPC_UNDEFINED,
    X86_OPC_UNDEFINED,
    X86_OPC_UNDEFINED,
    X86_OPC_UNDEFINED,
    X86_OPC_MOV OR ADDRMOD_CR_RM OR WIDTH_DWORD,
    X86_OPC_MOV OR ADDRMOD_DBG_RM OR WIDTH_DWORD,
    X86_OPC_MOV OR ADDRMOD_RM_CR OR WIDTH_DWORD,
    X86_OPC_MOV OR ADDRMOD_RM_DBG OR WIDTH_DWORD,
    X86_OPC_UNDEFINED,
    X86_OPC_UNDEFINED,
    X86_OPC_UNDEFINED,
    X86_OPC_UNDEFINED,
    X86_OPC_UNDEFINED,
    X86_OPC_UNDEFINED,
    X86_OPC_UNDEFINED,
    X86_OPC_UNDEFINED,
    X86_OPC_UNDEFINED,
    X86_OPC_UNDEFINED,
    X86_OPC_UNDEFINED,
    X86_OPC_UNDEFINED,
    X86_OPC_WRMSR OR ADDRMOD_IMPLIED,
    X86_OPC_RDTSC OR ADDRMOD_IMPLIED,
    X86_OPC_RDMSR OR ADDRMOD_IMPLIED,
    X86_OPC_RDPMC OR ADDRMOD_IMPLIED,
    X86_OPC_SYSENTER OR ADDRMOD_IMPLIED,
    X86_OPC_SYSEXIT OR ADDRMOD_IMPLIED,
    X86_OPC_UNDEFINED,
    X86_OPC_UNDEFINED,
    X86_OPC_UNDEFINED,
    X86_OPC_UNDEFINED,
    X86_OPC_UNDEFINED,
    X86_OPC_UNDEFINED,
    X86_OPC_UNDEFINED,
    X86_OPC_UNDEFINED,
    X86_OPC_UNDEFINED,
    X86_OPC_UNDEFINED,
    X86_OPC_CMOVO OR Cv,
    X86_OPC_CMOVNO OR Cv,
    X86_OPC_CMOVB OR Cv,
    X86_OPC_CMOVNB OR Cv,
    X86_OPC_CMOVZ OR Cv,
    X86_OPC_CMOVNE OR Cv,
    X86_OPC_CMOVBE OR Cv,
    X86_OPC_CMOVA OR Cv,
    X86_OPC_CMOVS OR Cv,
    X86_OPC_CMOVNS OR Cv,
    X86_OPC_CMOVPE OR Cv,
    X86_OPC_CMOVPO OR Cv,
    X86_OPC_CMOVL OR Cv,
    X86_OPC_CMOVGE OR Cv,
    X86_OPC_CMOVLE OR Cv,
    X86_OPC_CMOVG OR Cv,
    X86_OPC_UNDEFINED,
    X86_OPC_UNDEFINED,
    X86_OPC_UNDEFINED,
    X86_OPC_UNDEFINED,
    X86_OPC_UNDEFINED,
    X86_OPC_UNDEFINED,
    X86_OPC_UNDEFINED,
    X86_OPC_UNDEFINED,
    X86_OPC_UNDEFINED,
    X86_OPC_UNDEFINED,
    X86_OPC_UNDEFINED,
    X86_OPC_UNDEFINED,
    X86_OPC_UNDEFINED,
    X86_OPC_UNDEFINED,
    X86_OPC_UNDEFINED,
    X86_OPC_UNDEFINED,
    X86_OPC_UNDEFINED,
    X86_OPC_UNDEFINED,
    X86_OPC_UNDEFINED,
    X86_OPC_UNDEFINED,
    X86_OPC_UNDEFINED,
    X86_OPC_UNDEFINED,
    X86_OPC_UNDEFINED,
    X86_OPC_UNDEFINED,
    X86_OPC_UNDEFINED,
    X86_OPC_UNDEFINED,
    X86_OPC_UNDEFINED,
    X86_OPC_UNDEFINED,
    X86_OPC_UNDEFINED,
    X86_OPC_UNDEFINED,
    X86_OPC_UNDEFINED,
    X86_OPC_UNDEFINED,
    X86_OPC_UNDEFINED,
    X86_OPC_UNDEFINED,
    X86_OPC_UNDEFINED,
    X86_OPC_UNDEFINED,
    X86_OPC_UNDEFINED,
    X86_OPC_UNDEFINED,
    X86_OPC_UNDEFINED,
    X86_OPC_UNDEFINED,
    X86_OPC_UNDEFINED,
    X86_OPC_UNDEFINED,
    X86_OPC_UNDEFINED,
    X86_OPC_UNDEFINED,
    X86_OPC_UNDEFINED,
    X86_OPC_UNDEFINED,
    X86_OPC_UNDEFINED,
    X86_OPC_UNDEFINED]"

definition decode_table_two_hi :: "64 word list" where
  "decode_table_two_hi = [
    X86_OPC_JO OR Jv,
    X86_OPC_JNO OR Jv,
    X86_OPC_JB OR Jv,
    X86_OPC_JNB OR Jv,
    X86_OPC_JZ OR Jv,
    X86_OPC_JNE OR Jv,
    X86_OPC_JBE OR Jv,
    X86_OPC_JA OR Jv,
    X86_OPC_JS OR Jv,
    X86_OPC_JNS OR Jv,
    X86_OPC_JPE OR Jv,
    X86_OPC_JPO OR Jv,
    X86_OPC_JL OR Jv,
    X86_OPC_JGE OR Jv,
    X86_OPC_JLE OR Jv,
    X86_OPC_JG OR Jv,
    X86_OPC_SETO OR Sb,
    X86_OPC_SETNO OR Sb,
    X86_OPC_SETB OR Sb,
    X86_OPC_SETNB OR Sb,
    X86_OPC_SETZ OR Sb,
    X86_OPC_SETNE OR Sb,
    X86_OPC_SETBE OR Sb,
    X86_OPC_SETA OR Sb,
    X86_OPC_SETS OR Sb,
    X86_OPC_SETNS OR Sb,
    X86_OPC_SETPE OR Sb,
    X86_OPC_SETPO OR Sb,
    X86_OPC_SETL OR Sb,
    X86_OPC_SETGE OR Sb,
    X86_OPC_SETLE OR Sb,
    X86_OPC_SETG OR Sb,
    X86_OPC_PUSH OR ADDRMOD_SEG3_REG OR WIDTH_DWORD,
    X86_OPC_POP OR ADDRMOD_SEG3_REG OR WIDTH_DWORD,
    X86_OPC_CPUID OR ADDRMOD_IMPLIED,
    X86_OPC_BT OR ADDRMOD_REG_RM OR WIDTH_DWORD,
    X86_OPC_SHLD OR ADDRMOD_REG_IMM8_RM OR WIDTH_DWORD,
    X86_OPC_SHLD OR ADDRMOD_REG_CL_RM OR WIDTH_DWORD,
    X86_OPC_UNDEFINED,
    X86_OPC_UNDEFINED,
    X86_OPC_PUSH OR ADDRMOD_SEG3_REG OR WIDTH_DWORD,
    X86_OPC_POP OR ADDRMOD_SEG3_REG OR WIDTH_DWORD,
    X86_OPC_RSM OR ADDRMOD_IMPLIED,
    X86_OPC_BTS OR ADDRMOD_REG_RM OR WIDTH_DWORD,
    X86_OPC_SHRD OR ADDRMOD_REG_IMM8_RM OR WIDTH_DWORD,
    X86_OPC_SHRD OR ADDRMOD_REG_CL_RM OR WIDTH_DWORD,
    X86_OPC_UNDEFINED,
    X86_OPC_IMUL OR ADDRMOD_RM_REG OR WIDTH_DWORD,
    X86_OPC_CMPXCHG OR ADDRMOD_REG_RM OR WIDTH_BYTE,
    X86_OPC_CMPXCHG OR ADDRMOD_REG_RM OR WIDTH_DWORD,
    X86_OPC_LSS OR ADDRMOD_RM_REG OR WIDTH_DWORD,
    X86_OPC_BTR OR ADDRMOD_REG_RM OR WIDTH_DWORD,
    X86_OPC_LFS OR ADDRMOD_RM_REG OR WIDTH_DWORD,
    X86_OPC_LGS OR ADDRMOD_RM_REG OR WIDTH_DWORD,
    X86_OPC_DIFF_SYNTAX 7 OR ADDRMOD_RM_REG OR WIDTH_DWORD,
    X86_OPC_DIFF_SYNTAX 8 OR ADDRMOD_RM_REG OR WIDTH_DWORD,
    X86_OPC_UNDEFINED,
    X86_OPC_UD1 OR ADDRMOD_IMPLIED,
    X86_OPC_GROUP 8 OR ADDRMOD_IMM8_RM OR WIDTH_DWORD,
    X86_OPC_BTC OR ADDRMOD_REG_RM OR WIDTH_DWORD,
    X86_OPC_BSF OR ADDRMOD_RM_REG OR WIDTH_DWORD,
    X86_OPC_BSR OR ADDRMOD_RM_REG OR WIDTH_DWORD,
    X86_OPC_DIFF_SYNTAX 9 OR ADDRMOD_RM_REG OR WIDTH_DWORD,
    X86_OPC_DIFF_SYNTAX 10 OR ADDRMOD_RM_REG OR WIDTH_DWORD,
    X86_OPC_XADD OR ADDRMOD_REG_RM OR WIDTH_BYTE,
    X86_OPC_XADD OR ADDRMOD_REG_RM OR WIDTH_DWORD,
    X86_OPC_UNDEFINED,
    X86_OPC_UNDEFINED,
    X86_OPC_UNDEFINED,
    X86_OPC_UNDEFINED,
    X86_OPC_UNDEFINED,
    X86_OPC_GROUP 9 OR ADDRMOD_RM OR WIDTH_QWORD,
    X86_OPC_BSWAP OR ADDRMOD_REG OR WIDTH_DWORD,
    X86_OPC_BSWAP OR ADDRMOD_REG OR WIDTH_DWORD,
    X86_OPC_BSWAP OR ADDRMOD_REG OR WIDTH_DWORD,
    X86_OPC_BSWAP OR ADDRMOD_REG OR WIDTH_DWORD,
    X86_OPC_BSWAP OR ADDRMOD_REG OR WIDTH_DWORD,
    X86_OPC_BSWAP OR ADDRMOD_REG OR WIDTH_DWORD,
    X86_OPC_BSWAP OR ADDRMOD_REG OR WIDTH_DWORD,
    X86_OPC_BSWAP OR ADDRMOD_REG OR WIDTH_DWORD,
    X86_OPC_UNDEFINED,
    X86_OPC_UNDEFINED,
    X86_OPC_UNDEFINED,
    X86_OPC_UNDEFINED,
    X86_OPC_UNDEFINED,
    X86_OPC_UNDEFINED,
    X86_OPC_UNDEFINED,
    X86_OPC_UNDEFINED,
    X86_OPC_UNDEFINED,
    X86_OPC_UNDEFINED,
    X86_OPC_UNDEFINED,
    X86_OPC_UNDEFINED,
    X86_OPC_UNDEFINED,
    X86_OPC_UNDEFINED,
    X86_OPC_UNDEFINED,
    X86_OPC_UNDEFINED,
    X86_OPC_UNDEFINED,
    X86_OPC_UNDEFINED,
    X86_OPC_UNDEFINED,
    X86_OPC_UNDEFINED,
    X86_OPC_UNDEFINED,
    X86_OPC_UNDEFINED,
    X86_OPC_UNDEFINED,
    X86_OPC_UNDEFINED,
    X86_OPC_UNDEFINED,
    X86_OPC_UNDEFINED,
    X86_OPC_UNDEFINED,
    X86_OPC_UNDEFINED,
    X86_OPC_UNDEFINED,
    X86_OPC_UNDEFINED,
    X86_OPC_UNDEFINED,
    X86_OPC_UNDEFINED,
    X86_OPC_UNDEFINED,
    X86_OPC_UNDEFINED,
    X86_OPC_UNDEFINED,
    X86_OPC_UNDEFINED,
    X86_OPC_UNDEFINED,
    X86_OPC_UNDEFINED,
    X86_OPC_UNDEFINED,
    X86_OPC_UNDEFINED,
    X86_OPC_UNDEFINED,
    X86_OPC_UNDEFINED,
    X86_OPC_UNDEFINED,
    X86_OPC_UNDEFINED,
    X86_OPC_UNDEFINED,
    X86_OPC_UNDEFINED,
    X86_OPC_UNDEFINED,
    X86_OPC_UNDEFINED]"

definition decode_table_two :: "64 word list" where
  "decode_table_two = decode_table_two_lo @ decode_table_two_hi"

definition grp1_decode_table :: "64 word list" where
  "grp1_decode_table = [
    X86_OPC_ADD,
    X86_OPC_OR,
    X86_OPC_ADC,
    X86_OPC_SBB,
    X86_OPC_AND,
    X86_OPC_SUB,
    X86_OPC_XOR,
    X86_OPC_CMP]"

definition grp2_decode_table :: "64 word list" where
  "grp2_decode_table = [
    X86_OPC_ROL,
    X86_OPC_ROR,
    X86_OPC_RCL,
    X86_OPC_RCR,
    X86_OPC_SHL,
    X86_OPC_SHR,
    X86_OPC_UNDEFINED,
    X86_OPC_SAR]"

definition grp3_decode_table :: "64 word list" where
  "grp3_decode_table = [
    X86_OPC_TEST OR ADDRMOD_IMM_RM,
    X86_OPC_UNDEFINED,
    X86_OPC_NOT,
    X86_OPC_NEG,
    X86_OPC_MUL,
    X86_OPC_IMUL,
    X86_OPC_DIV,
    X86_OPC_IDIV]"

definition grp4_decode_table :: "64 word list" where
  "grp4_decode_table = [
    X86_OPC_INC,
    X86_OPC_DEC,
    X86_OPC_UNDEFINED,
    X86_OPC_UNDEFINED,
    X86_OPC_UNDEFINED,
    X86_OPC_UNDEFINED,
    X86_OPC_UNDEFINED,
    X86_OPC_UNDEFINED]"

definition grp5_decode_table :: "64 word list" where
  "grp5_decode_table = [
    X86_OPC_INC,
    X86_OPC_DEC,
    X86_OPC_CALL,
    X86_OPC_DIFF_SYNTAX 11,
    X86_OPC_JMP,
    X86_OPC_DIFF_SYNTAX 12,
    X86_OPC_PUSH,
    X86_OPC_UNDEFINED]"

definition grp6_decode_table :: "64 word list" where
  "grp6_decode_table = [
    X86_OPC_SLDT,
    X86_OPC_STR,
    X86_OPC_LLDT,
    X86_OPC_LTR,
    X86_OPC_VERR,
    X86_OPC_VERW,
    X86_OPC_UNDEFINED,
    X86_OPC_UNDEFINED]"

definition grp7_decode_table :: "64 word list" where
  "grp7_decode_table = [
    X86_OPC_DIFF_SYNTAX 13,
    X86_OPC_DIFF_SYNTAX 14,
    X86_OPC_DIFF_SYNTAX 15,
    X86_OPC_DIFF_SYNTAX 16,
    X86_OPC_SMSW OR WIDTH_WORD,
    X86_OPC_UNDEFINED,
    X86_OPC_LMSW OR WIDTH_WORD,
    X86_OPC_INVLPG OR WIDTH_BYTE]"

definition grp8_decode_table :: "64 word list" where
  "grp8_decode_table = [
    X86_OPC_UNDEFINED,
    X86_OPC_UNDEFINED,
    X86_OPC_UNDEFINED,
    X86_OPC_UNDEFINED,
    X86_OPC_BT,
    X86_OPC_BTS,
    X86_OPC_BTR,
    X86_OPC_BTC]"

definition grp9_decode_table :: "64 word list" where
  "grp9_decode_table = [
    X86_OPC_UNDEFINED,
    X86_OPC_CMPXCHG8B,
    X86_OPC_UNDEFINED,
    X86_OPC_UNDEFINED,
    X86_OPC_UNDEFINED,
    X86_OPC_UNDEFINED,
    X86_OPC_UNDEFINED,
    X86_OPC_UNDEFINED]"

definition decode_tables :: "64 word list list" where
  "decode_tables = [decode_table_one, decode_table_two, grp1_decode_table, grp2_decode_table,
     grp3_decode_table, grp4_decode_table, grp5_decode_table, grp6_decode_table, grp7_decode_table,
     grp8_decode_table, grp9_decode_table]"

definition diff_syntax_flags_0x62 :: "64 word list" where
  "diff_syntax_flags_0x62 = [WIDTH_DWORD, WIDTH_WORD, WIDTH_QWORD, WIDTH_DWORD]"

definition diff_syntax_opcodes :: "64 word list list" where
  "diff_syntax_opcodes = [
    [X86_OPC_BOUND, X86_OPC_BOUND, X86_OPC_BOUND, X86_OPC_BOUND],
    [X86_OPC_CWTL, X86_OPC_CBTV, X86_OPC_CWDE, X86_OPC_CBW],
    [X86_OPC_CLTD, X86_OPC_CWTD, X86_OPC_CDQ, X86_OPC_CWD],
    [X86_OPC_LCALL, X86_OPC_LCALL, X86_OPC_CALL, X86_OPC_CALL],
    [X86_OPC_LRET, X86_OPC_LRET, X86_OPC_RETF, X86_OPC_RETF],
    [X86_OPC_LRET, X86_OPC_LRET, X86_OPC_RETF, X86_OPC_RETF],
    [X86_OPC_LJMP, X86_OPC_LJMP, X86_OPC_JMP, X86_OPC_JMP],
    [X86_OPC_MOVZXB, X86_OPC_MOVZXB, X86_OPC_MOVZX, X86_OPC_MOVZX],
    [X86_OPC_MOVZXW, X86_OPC_MOVZXW, X86_OPC_MOVZX, X86_OPC_MOVZX],
    [X86_OPC_MOVSXB, X86_OPC_MOVSXB, X86_OPC_MOVSX, X86_OPC_MOVSX],
    [X86_OPC_MOVSXW, X86_OPC_MOVSXW, X86_OPC_MOVSX, X86_OPC_MOVSX],
    [X86_OPC_LCALL, X86_OPC_LCALL, X86_OPC_CALL, X86_OPC_CALL],
    [X86_OPC_LJMP, X86_OPC_LJMP, X86_OPC_JMP, X86_OPC_JMP],
    [X86_OPC_SGDTL, X86_OPC_SGDTW, X86_OPC_SGDTD, X86_OPC_SGDTW],
    [X86_OPC_SIDTL, X86_OPC_SIDTW, X86_OPC_SIDTD, X86_OPC_SIDTW],
    [X86_OPC_LGDTL, X86_OPC_LGDTW, X86_OPC_LGDTD, X86_OPC_LGDTW],
    [X86_OPC_LIDTL, X86_OPC_LIDTW, X86_OPC_LIDTD, X86_OPC_LIDTW]]"

end
