(* ===== verification/X86_Decode.thy ===== *)
theory X86_Decode
  imports X86_Tables
begin

text \<open>
  The x86 instruction decoder, \<open>arch/x86/x86_decode.cpp\<close> and \<open>x86_decode.h\<close>: the decoded
  instruction, the prefix and opcode loop over the decoding tables, the ModRM and SIB bytes, the
  trailing displacement and immediate fields, and the operands. Theorems: the decoder never leaves
  its arrays, it returns exactly when the prefix bytes end, how many bytes it consumes, and that
  the addressing forms are those of the architecture's ModRM tables.
\<close>

section \<open>The decoded instruction\<close>

datatype x86_operand_type =
    OPTYPE_IMM | OPTYPE_MEM | OPTYPE_MOFFSET | OPTYPE_MEM_DISP | OPTYPE_REG | OPTYPE_REG8
  | OPTYPE_SEG_REG | OPTYPE_CR_REG | OPTYPE_DBG_REG | OPTYPE_REL | OPTYPE_FAR_PTR
  | OPTYPE_SIB_MEM | OPTYPE_SIB_DISP

text \<open>
  \<open>imm\<close> and \<open>rel\<close> share their storage in the C++, and so do \<open>imm_data\<close> and \<open>rel_data\<close>;
  here one word field holds either.
\<close>

record x86_operand =
  o_type :: x86_operand_type
  o_reg :: byte
  o_seg_sel :: "16 word"
  o_disp :: "32 word"
  o_imm :: "32 word"

record x86_instr =
  i_nr_bytes :: addr
  i_opcode_byte :: byte
  i_mod :: byte
  i_rm :: byte
  i_reg_opc :: byte
  i_base :: byte
  i_idx :: byte
  i_scale :: byte
  i_disp :: "32 word"
  i_imm0 :: "32 word"
  i_imm1 :: "32 word"
  i_opcode :: "64 word"
  i_flags :: "64 word"
  i_prefix_values :: "byte list"
  i_src :: x86_operand
  i_dst :: x86_operand
  i_third :: x86_operand

abbreviation seg_override :: "x86_instr \<Rightarrow> byte" where "seg_override i \<equiv> i_prefix_values i ! 0"
abbreviation rep_prefix :: "x86_instr \<Rightarrow> byte" where "rep_prefix i \<equiv> i_prefix_values i ! 1"
abbreviation lock_prefix :: "x86_instr \<Rightarrow> byte" where "lock_prefix i \<equiv> i_prefix_values i ! 2"
abbreviation addr_size_override :: "x86_instr \<Rightarrow> byte" where "addr_size_override i \<equiv> i_prefix_values i ! 3"
abbreviation op_size_override :: "x86_instr \<Rightarrow> byte" where "op_size_override i \<equiv> i_prefix_values i ! 4"
abbreviation is_two_byte_instr :: "x86_instr \<Rightarrow> byte" where "is_two_byte_instr i \<equiv> i_prefix_values i ! 5"

text \<open>\<open>*instr = { 0 }\<close>\<close>

definition zero_operand :: x86_operand where
  "zero_operand = \<lparr>o_type = OPTYPE_IMM, o_reg = 0, o_seg_sel = 0, o_disp = 0, o_imm = 0\<rparr>"

definition zero_instr :: x86_instr where
  "zero_instr = \<lparr>i_nr_bytes = 0, i_opcode_byte = 0, i_mod = 0, i_rm = 0, i_reg_opc = 0, i_base = 0, i_idx = 0,
     i_scale = 0, i_disp = 0, i_imm0 = 0, i_imm1 = 0, i_opcode = 0, i_flags = 0, i_prefix_values = replicate 6 0,
     i_src = zero_operand, i_dst = zero_operand, i_third = zero_operand\<rparr>"

section \<open>Operands\<close>

definition decode_third_operand :: "x86_instr \<Rightarrow> x86_instr" where
  "decode_third_operand instr =
     (let m = i_flags instr AND OP3_MASK; operand = i_third instr in
      if m = OP3_NONE then instr
      else if m = OP3_IMM \<or> m = OP3_IMM8 then
        instr\<lparr>i_third := operand\<lparr>o_type := OPTYPE_IMM, o_imm := i_imm0 instr\<rparr>\<rparr>
      else if m = OP3_CL then instr\<lparr>i_third := operand\<lparr>o_type := OPTYPE_REG8, o_reg := 1\<rparr>\<rparr>
      else instr)"

definition decode_dst_reg :: "x86_instr \<Rightarrow> byte" where
  "decode_dst_reg instr =
     (if \<not> has (i_flags instr) MOD_RM then i_opcode_byte instr AND 0x07
      else if has (i_flags instr) DIR_REVERSED then i_rm instr
      else i_reg_opc instr)"

definition decode_dst_mem :: "x86_instr \<Rightarrow> byte" where
  "decode_dst_mem instr = (if has (i_flags instr) DIR_REVERSED then i_rm instr else i_reg_opc instr)"

definition decode_dst_operand :: "x86_instr \<Rightarrow> x86_instr" where
  "decode_dst_operand instr =
     (let m = i_flags instr AND DST_MASK; operand = i_dst instr;
          put = (\<lambda>operand. instr\<lparr>i_dst := operand\<rparr>) in
      if m = DST_NONE then instr
      else if m = DST_IMM16 then put (operand\<lparr>o_type := OPTYPE_IMM, o_imm := i_imm1 instr\<rparr>)
      else if m = DST_REG then put (operand\<lparr>o_type := OPTYPE_REG, o_reg := decode_dst_reg instr\<rparr>)
      else if m = DST_SEG3_REG then put (operand\<lparr>o_type := OPTYPE_SEG_REG, o_reg := i_reg_opc instr\<rparr>)
      else if m = DST_CR_REG then put (operand\<lparr>o_type := OPTYPE_CR_REG, o_reg := i_reg_opc instr\<rparr>)
      else if m = DST_DBG_REG then put (operand\<lparr>o_type := OPTYPE_DBG_REG, o_reg := i_reg_opc instr\<rparr>)
      else if m = DST_ACC then put (operand\<lparr>o_type := OPTYPE_REG, o_reg := 0\<rparr>)
      else if m = DST_MOFFSET then put (operand\<lparr>o_type := OPTYPE_MOFFSET, o_disp := i_disp instr\<rparr>)
      else if m = DST_MEM then
        if has (i_flags instr) SIB then put (operand\<lparr>o_type := OPTYPE_SIB_MEM\<rparr>)
        else put (operand\<lparr>o_type := OPTYPE_MEM, o_reg := decode_dst_mem instr\<rparr>)
      else if m = DST_MEM_DISP_BYTE \<or> m = DST_MEM_DISP_WORD \<or> m = DST_MEM_DISP_DWORD then
        if has (i_flags instr) SIB then put (operand\<lparr>o_type := OPTYPE_SIB_DISP, o_disp := i_disp instr\<rparr>)
        else put (operand\<lparr>o_type := OPTYPE_MEM_DISP, o_reg := i_rm instr, o_disp := i_disp instr\<rparr>)
      else instr)"

definition decode_src_reg :: "x86_instr \<Rightarrow> byte" where
  "decode_src_reg instr =
     (if \<not> has (i_flags instr) MOD_RM then i_opcode_byte instr AND 0x07
      else if has (i_flags instr) DIR_REVERSED then i_reg_opc instr
      else i_rm instr)"

definition decode_src_mem :: "x86_instr \<Rightarrow> byte" where
  "decode_src_mem instr = (if has (i_flags instr) DIR_REVERSED then i_reg_opc instr else i_rm instr)"

definition decode_src_operand :: "x86_instr \<Rightarrow> x86_instr" where
  "decode_src_operand instr =
     (let m = i_flags instr AND SRC_MASK; operand = i_src instr;
          put = (\<lambda>operand. instr\<lparr>i_src := operand\<rparr>) in
      if m = SRC_NONE then instr
      else if m = SRC_REL then put (operand\<lparr>o_type := OPTYPE_REL, o_imm := i_imm0 instr\<rparr>)
      else if m = SRC_IMM \<or> m = SRC_IMM8 then put (operand\<lparr>o_type := OPTYPE_IMM, o_imm := i_imm0 instr\<rparr>)
      else if m = SRC_IMM48 then
        put (operand\<lparr>o_type := OPTYPE_FAR_PTR, o_imm := i_imm0 instr, o_seg_sel := ucast (i_imm1 instr)\<rparr>)
      else if m = SRC_REG then put (operand\<lparr>o_type := OPTYPE_REG, o_reg := decode_src_reg instr\<rparr>)
      else if m = SRC_SEG2_REG then
        put (operand\<lparr>o_type := OPTYPE_SEG_REG, o_reg := drop_bit 3 (i_opcode_byte instr)\<rparr>)
      else if m = SRC_SEG3_REG then
        put (operand\<lparr>o_type := OPTYPE_SEG_REG,
          o_reg := if has (i_flags instr) MOD_RM then i_reg_opc instr
                   else drop_bit 3 (i_opcode_byte instr AND 0x38)\<rparr>)
      else if m = SRC_CR_REG then put (operand\<lparr>o_type := OPTYPE_CR_REG, o_reg := i_reg_opc instr\<rparr>)
      else if m = SRC_DBG_REG then put (operand\<lparr>o_type := OPTYPE_DBG_REG, o_reg := i_reg_opc instr\<rparr>)
      else if m = SRC_ACC then put (operand\<lparr>o_type := OPTYPE_REG, o_reg := 0\<rparr>)
      else if m = SRC_MOFFSET then put (operand\<lparr>o_type := OPTYPE_MOFFSET, o_disp := i_disp instr\<rparr>)
      else if m = SRC_MEM then
        if has (i_flags instr) SIB then put (operand\<lparr>o_type := OPTYPE_SIB_MEM\<rparr>)
        else put (operand\<lparr>o_type := OPTYPE_MEM, o_reg := decode_src_mem instr\<rparr>)
      else if m = SRC_MEM_DISP_BYTE \<or> m = SRC_MEM_DISP_WORD \<or> m = SRC_MEM_DISP_DWORD then
        if has (i_flags instr) SIB then put (operand\<lparr>o_type := OPTYPE_SIB_DISP, o_disp := i_disp instr\<rparr>)
        else put (operand\<lparr>o_type := OPTYPE_MEM_DISP, o_reg := i_rm instr, o_disp := i_disp instr\<rparr>)
      else instr)"

section \<open>Reading the instruction stream\<close>

definition read_u8 :: "ram \<Rightarrow> addr \<Rightarrow> byte \<times> addr" where
  "read_u8 m pc = (m pc, pc + 1)"

definition read_s8 :: "ram \<Rightarrow> addr \<Rightarrow> byte \<times> addr" where
  "read_s8 m pc = (m pc, pc + 1)"

definition read_u16 :: "ram \<Rightarrow> addr \<Rightarrow> 16 word \<times> addr" where
  "read_u16 m pc = (let lo = m pc; hi = m (pc + 1) in (push_bit 8 (ucast hi) OR ucast lo, pc + 2))"

definition read_s16 :: "ram \<Rightarrow> addr \<Rightarrow> 16 word \<times> addr" where
  "read_s16 m pc = (let lo = m pc; hi = m (pc + 1) in (push_bit 8 (ucast hi) OR ucast lo, pc + 2))"

definition read_u32 :: "ram \<Rightarrow> addr \<Rightarrow> 32 word \<times> addr" where
  "read_u32 m pc =
     (let byte1 = m pc; byte2 = m (pc + 1); byte3 = m (pc + 2); byte4 = m (pc + 3) in
      (push_bit 24 (ucast byte4) OR push_bit 16 (ucast byte3) OR push_bit 8 (ucast byte2) OR ucast byte1, pc + 4))"

definition read_s32 :: "ram \<Rightarrow> addr \<Rightarrow> 32 word \<times> addr" where
  "read_s32 m pc =
     (let byte1 = m pc; byte2 = m (pc + 1); byte3 = m (pc + 2); byte4 = m (pc + 3) in
      (push_bit 24 (ucast byte4) OR push_bit 16 (ucast byte3) OR push_bit 8 (ucast byte2) OR ucast byte1, pc + 4))"

text \<open>
  The signed readers differ from the unsigned ones in how the C++ widens their result: a word is
  widened by \<^const>\<open>ucast\<close> after \<open>read_u\<close>, by \<^const>\<open>scast\<close> after \<open>read_s\<close>.
\<close>

section \<open>Trailing fields\<close>

definition decode_imm :: "ram \<Rightarrow> x86_instr \<times> addr \<Rightarrow> x86_instr \<times> addr" where
  "decode_imm m = (\<lambda>(instr, pc).
     let flags = i_flags instr;
         kind = flags AND (SRC_IMM8 OR SRC_IMM48 OR OP3_IMM_MASK OR DST_IMM16);
         imm8 = (\<lambda>(i, pc). let (v, pc) = read_u8 m pc in (i\<lparr>i_imm0 := ucast v\<rparr>, pc));
         imm16 = (\<lambda>(i, pc). let (v, pc) = read_u16 m pc in (i\<lparr>i_imm0 := ucast v\<rparr>, pc));
         imm32 = (\<lambda>(i, pc). let (v, pc) = read_u32 m pc in (i\<lparr>i_imm0 := v\<rparr>, pc));
         second = (\<lambda>(i, pc). let (v, pc) = read_u16 m pc in (i\<lparr>i_imm1 := ucast v\<rparr>, pc));
         width = flags AND WIDTH_MASK
     in if kind = SRC_IMM8 then imm8 (instr, pc)
        else if kind = SRC_IMM48 then
          second (if has flags WIDTH_DWORD then imm32 (instr, pc) else imm16 (instr, pc))
        else if kind = SRC_IMM8 OR DST_IMM16 then imm8 (second (instr, pc))
        else if kind = OP3_IMM8 then imm8 (instr, pc)
        else if kind = OP3_IMM then
          (if has flags WIDTH_DWORD then imm32 (instr, pc) else imm16 (instr, pc))
        else if width = WIDTH_DWORD then imm32 (instr, pc)
        else if width = WIDTH_WORD then imm16 (instr, pc)
        else if width = WIDTH_BYTE then imm8 (instr, pc)
        else (instr, pc))"

definition decode_rel :: "ram \<Rightarrow> x86_instr \<times> addr \<Rightarrow> x86_instr \<times> addr" where
  "decode_rel m = (\<lambda>(instr, pc).
     let width = i_flags instr AND WIDTH_MASK in
     if width = WIDTH_DWORD then let (v, pc) = read_s32 m pc in (instr\<lparr>i_imm0 := v\<rparr>, pc)
     else if width = WIDTH_WORD then let (v, pc) = read_s16 m pc in (instr\<lparr>i_imm0 := scast v\<rparr>, pc)
     else if width = WIDTH_BYTE then let (v, pc) = read_s8 m pc in (instr\<lparr>i_imm0 := scast v\<rparr>, pc)
     else (instr, pc))"

definition decode_moffset :: "ram \<Rightarrow> x86_instr \<times> addr \<Rightarrow> x86_instr \<times> addr" where
  "decode_moffset m = (\<lambda>(instr, pc).
     if addr_size_override instr = 0 then let (v, pc) = read_u32 m pc in (instr\<lparr>i_disp := v\<rparr>, pc)
     else let (v, pc) = read_u16 m pc in (instr\<lparr>i_disp := ucast v\<rparr>, pc))"

definition decode_disp :: "ram \<Rightarrow> x86_instr \<times> addr \<Rightarrow> x86_instr \<times> addr" where
  "decode_disp m = (\<lambda>(instr, pc).
     let kind = i_flags instr AND MEM_DISP_MASK in
     if kind = SRC_MEM_DISP_DWORD \<or> kind = DST_MEM_DISP_DWORD then
       let (v, pc) = read_s32 m pc in (instr\<lparr>i_disp := v\<rparr>, pc)
     else if kind = SRC_MEM_DISP_WORD \<or> kind = DST_MEM_DISP_WORD then
       let (v, pc) = read_s16 m pc in (instr\<lparr>i_disp := scast v\<rparr>, pc)
     else if kind = SRC_MEM_DISP_BYTE \<or> kind = DST_MEM_DISP_BYTE then
       let (v, pc) = read_s8 m pc in (instr\<lparr>i_disp := scast v\<rparr>, pc)
     else (instr, pc))"

section \<open>ModRM and SIB\<close>

definition sib_dst_decode :: "64 word list" where
  "sib_dst_decode = [DST_MEM_DISP_DWORD, DST_MEM_DISP_BYTE, DST_MEM_DISP_DWORD]"

definition sib_src_decode :: "64 word list" where
  "sib_src_decode = [SRC_MEM_DISP_DWORD, SRC_MEM_DISP_BYTE, SRC_MEM_DISP_DWORD]"

definition decode_sib_byte :: "x86_instr \<Rightarrow> byte \<Rightarrow> x86_instr res" where
  "decode_sib_byte instr sib =
     (let instr = instr\<lparr>i_scale := drop_bit 6 (sib AND 0xc0), i_idx := drop_bit 3 (sib AND 0x38),
                        i_base := sib AND 0x07\<rparr> in
      if i_base instr = 5 then
        if has (i_flags instr) DIR_REVERSED then
          res_bind (nth_res sib_dst_decode (unat (i_mod instr))) (\<lambda>d.
          Inr (instr\<lparr>i_flags := i_flags instr AND NOT DST_MEM OR d\<rparr>))
        else
          res_bind (nth_res sib_src_decode (unat (i_mod instr))) (\<lambda>s.
          Inr (instr\<lparr>i_flags := i_flags instr AND NOT SRC_MEM OR s\<rparr>))
      else Inr instr)"

definition mod_dst_decode :: "64 word list" where
  "mod_dst_decode = [DST_MEM, DST_MEM_DISP_BYTE, 0, DST_REG]"

definition mod_src_decode :: "64 word list" where
  "mod_src_decode = [SRC_MEM, SRC_MEM_DISP_BYTE, 0, SRC_REG]"

definition decode_modrm_fields :: "x86_instr \<Rightarrow> byte \<Rightarrow> x86_instr" where
  "decode_modrm_fields instr modrm =
     instr\<lparr>i_mod := drop_bit 6 (modrm AND 0xc0), i_reg_opc := drop_bit 3 (modrm AND 0x38),
           i_rm := modrm AND 0x07\<rparr>"

abbreviation (input) RM_SIZE :: "32 word" where "RM_SIZE \<equiv> 0x10000"
abbreviation (input) RM_MOD_0 :: "32 word" where "RM_MOD_0 \<equiv> 0"
abbreviation (input) RM_MOD_1 :: "32 word" where "RM_MOD_1 \<equiv> 0x100"
abbreviation (input) RM_MOD_2 :: "32 word" where "RM_MOD_2 \<equiv> 0x200"

definition rm_key :: "x86_instr \<Rightarrow> 32 word" where
  "rm_key instr =
     push_bit 16 (ucast (addr_size_override instr)) OR push_bit 8 (ucast (i_mod instr)) OR ucast (i_rm instr)"

definition decode_modrm_addr_modes :: "x86_instr \<Rightarrow> x86_instr res" where
  "decode_modrm_addr_modes instr =
     (let key = rm_key instr in
      if has (i_flags instr) DIR_REVERSED then
        res_bind (nth_res mod_dst_decode (unat (i_mod instr))) (\<lambda>d.
        let flags = i_flags instr OR d in
        Inr (instr\<lparr>i_flags :=
          if key \<in> set [0 OR RM_MOD_2, 1 OR RM_MOD_2, 2 OR RM_MOD_2, 3 OR RM_MOD_2, 5 OR RM_MOD_2,
                        6 OR RM_MOD_2, 7 OR RM_MOD_2] then flags OR DST_MEM_DISP_DWORD
          else if key \<in> set [0 OR RM_MOD_2 OR RM_SIZE, 1 OR RM_MOD_2 OR RM_SIZE, 2 OR RM_MOD_2 OR RM_SIZE,
                             3 OR RM_MOD_2 OR RM_SIZE, 4 OR RM_MOD_2 OR RM_SIZE, 5 OR RM_MOD_2 OR RM_SIZE,
                             6 OR RM_MOD_2 OR RM_SIZE, 7 OR RM_MOD_2 OR RM_SIZE] then flags OR DST_MEM_DISP_WORD
          else if key \<in> set [4 OR RM_MOD_0, 4 OR RM_MOD_1] then flags OR SIB
          else if key = 4 OR RM_MOD_2 then flags OR (DST_MEM_DISP_DWORD OR SIB)
          else if key = 5 OR RM_MOD_0 then flags AND NOT DST_MEM OR DST_MEM_DISP_DWORD
          else if key = 6 OR RM_MOD_0 OR RM_SIZE then flags AND NOT DST_MEM OR DST_MEM_DISP_WORD
          else flags\<rparr>))
      else
        res_bind (nth_res mod_src_decode (unat (i_mod instr))) (\<lambda>s.
        let flags = i_flags instr OR s in
        Inr (instr\<lparr>i_flags :=
          if key \<in> set [0 OR RM_MOD_2, 1 OR RM_MOD_2, 2 OR RM_MOD_2, 3 OR RM_MOD_2, 5 OR RM_MOD_2,
                        6 OR RM_MOD_2, 7 OR RM_MOD_2] then flags OR SRC_MEM_DISP_DWORD
          else if key \<in> set [0 OR RM_MOD_2 OR RM_SIZE, 1 OR RM_MOD_2 OR RM_SIZE, 2 OR RM_MOD_2 OR RM_SIZE,
                             3 OR RM_MOD_2 OR RM_SIZE, 4 OR RM_MOD_2 OR RM_SIZE, 5 OR RM_MOD_2 OR RM_SIZE,
                             6 OR RM_MOD_2 OR RM_SIZE, 7 OR RM_MOD_2 OR RM_SIZE] then flags OR SRC_MEM_DISP_WORD
          else if key \<in> set [4 OR RM_MOD_0, 4 OR RM_MOD_1] then flags OR SIB
          else if key = 4 OR RM_MOD_2 then flags OR (SRC_MEM_DISP_DWORD OR SIB)
          else if key = 5 OR RM_MOD_0 then flags AND NOT SRC_MEM OR SRC_MEM_DISP_DWORD
          else if key = 6 OR RM_MOD_0 OR RM_SIZE then flags AND NOT SRC_MEM OR SRC_MEM_DISP_WORD
          else flags\<rparr>)))"

section \<open>The opcode loop\<close>

text \<open>
  Where \<open>while(true)\<close> ends: with \<open>return -1\<close>, or by leaving the loop with the instruction so far,
  the table, the byte and the entry last looked up, the opcode and the address of the next byte.
\<close>

datatype decode_exit =
    Undecodable x86_instr
  | Decoded x86_instr nat byte "64 word" "64 word" addr

definition diff_syntax :: "byte \<Rightarrow> x86_instr \<Rightarrow> nat \<Rightarrow> byte \<Rightarrow> 64 word \<Rightarrow> addr \<Rightarrow> decode_exit res" where
  "diff_syntax use_intel instr decode_group instr_byte decode pc =
     (let bits = unat (op_size_override instr OR push_bit 1 use_intel) in
      res_bind (nth_res diff_syntax_opcodes (unat (X86_DIFF_SYNTAX decode))) (\<lambda>row.
      res_bind (nth_res row bits) (\<lambda>opcode.
      if instr_byte = 0x62 then
        res_bind (nth_res diff_syntax_flags_0x62 bits) (\<lambda>f.
        Inr (Decoded (instr\<lparr>i_flags := i_flags instr OR f\<rparr>) decode_group instr_byte decode opcode pc))
      else Inr (Decoded instr decode_group instr_byte decode opcode pc))))"

partial_function (option) decode_loop ::
    "ram \<Rightarrow> byte \<Rightarrow> x86_instr \<Rightarrow> nat \<Rightarrow> byte \<Rightarrow> addr \<Rightarrow> decode_exit res option" where
  "decode_loop m use_intel instr decode_group instr_byte pc =
     (case res_bind (nth_res decode_tables decode_group) (\<lambda>t. nth_res t (unat instr_byte)) of
        Inl e \<Rightarrow> Some (Inl e)
      | Inr decode \<Rightarrow>
          if X86_OPCODE decode \<noteq> 0 then
            Some (Inr (Decoded instr decode_group instr_byte decode (X86_OPCODE decode) pc))
          else if X86_DECODE_CLASS decode = X86_DECODE_CLASS_INVALID then Some (Inr (Undecodable instr))
          else if X86_DECODE_CLASS decode = X86_DECODE_CLASS_PREFIX then
            (case upd_res (i_prefix_values instr) (unat (X86_PREFIX_INDEX decode)) (ucast (X86_PREFIX_VALUE decode)) of
               Inl e \<Rightarrow> Some (Inl e)
             | Inr values \<Rightarrow>
                 decode_loop m use_intel (instr\<lparr>i_prefix_values := values\<rparr>)
                   (if instr_byte = 0x0F then 1 else decode_group) (m pc) (pc + 1))
          else if X86_DECODE_CLASS decode = X86_DECODE_CLASS_GROUP then
            decode_loop m use_intel (decode_modrm_fields (instr\<lparr>i_opcode_byte := instr_byte, i_flags := decode\<rparr>) (m pc))
              (unat (X86_DECODE_GROUP decode))
              (i_reg_opc (decode_modrm_fields (instr\<lparr>i_opcode_byte := instr_byte, i_flags := decode\<rparr>) (m pc)))
              (pc + 1)
          else Some (diff_syntax use_intel instr decode_group instr_byte decode pc))"

section \<open>The rest of the instruction\<close>

text \<open>The flags of the table entry, and for a one- or two-byte opcode its ModRM byte.\<close>

definition decode_flags :: "ram \<Rightarrow> x86_instr \<Rightarrow> nat \<Rightarrow> byte \<Rightarrow> 64 word \<Rightarrow> addr \<Rightarrow> (x86_instr \<times> addr) res" where
  "decode_flags m instr decode_group instr_byte decode pc =
     (if decode_group \<le> 1 then
        let instr = instr\<lparr>i_opcode_byte := instr_byte, i_flags := i_flags instr OR decode AND NOT 0xFF\<rparr> in
        if has (i_flags instr) MOD_RM then
          res_bind (decode_modrm_addr_modes (decode_modrm_fields instr (m pc))) (\<lambda>instr. Inr (instr, pc + 1))
        else Inr (instr, pc)
      else
        let flags = i_flags instr;
            flags = (if has decode WIDTH_MASK then flags AND NOT WIDTH_MASK else flags);
            flags = (if has decode ADDRMOD_MASK then flags AND NOT ADDRMOD_MASK else flags) in
        res_bind (decode_modrm_addr_modes (instr\<lparr>i_flags := flags OR decode\<rparr>)) (\<lambda>instr. Inr (instr, pc)))"

definition apply_op_size :: "x86_instr \<Rightarrow> x86_instr" where
  "apply_op_size instr =
     (if op_size_override instr \<noteq> 0 then
        if has (i_flags instr) WIDTH_DWORD then
          instr\<lparr>i_flags := i_flags instr AND NOT WIDTH_DWORD OR WIDTH_WORD\<rparr>
        else if has (i_flags instr) WIDTH_QWORD then
          instr\<lparr>i_flags := i_flags instr AND NOT WIDTH_QWORD OR WIDTH_DWORD\<rparr>
        else instr
      else instr)"

definition decode_fields :: "ram \<Rightarrow> x86_instr \<times> addr \<Rightarrow> (x86_instr \<times> addr) res" where
  "decode_fields m = (\<lambda>(instr, pc).
     res_bind (if has (i_flags instr) SIB then
                 res_bind (decode_sib_byte instr (m pc)) (\<lambda>instr. Inr (instr, pc + 1))
               else Inr (instr, pc)) (\<lambda>s.
     let s = (if has (i_flags (fst s)) MEM_DISP_MASK then decode_disp m s else s);
         s = (if has (i_flags (fst s)) MOFFSET_MASK then decode_moffset m s else s);
         s = (if has (i_flags (fst s)) IMM_MASK then decode_imm m s else s);
         s = (if has (i_flags (fst s)) REL_MASK then decode_rel m s else s)
     in Inr s))"

definition decode_rest ::
    "ram \<Rightarrow> addr \<Rightarrow> x86_instr \<Rightarrow> nat \<Rightarrow> byte \<Rightarrow> 64 word \<Rightarrow> 64 word \<Rightarrow> addr \<Rightarrow> x86_instr res" where
  "decode_rest m start_pc instr decode_group instr_byte decode opcode pc =
     res_bind (decode_flags m (instr\<lparr>i_opcode := opcode\<rparr>) decode_group instr_byte decode pc) (\<lambda>(instr, pc).
     res_bind (decode_fields m (apply_op_size instr, pc)) (\<lambda>(instr, pc).
     Inr ((decode_third_operand (decode_dst_operand (decode_src_operand instr)))\<lparr>i_nr_bytes := pc - start_pc\<rparr>)))"

text \<open>
  The whole decoder: \<^const>\<open>None\<close> when it does not return, and otherwise what it returns (0 or
  -1) with the instruction it leaves in \<open>*instr\<close>.
\<close>

definition arch_x86_decode_instr :: "ram \<Rightarrow> addr \<Rightarrow> byte \<Rightarrow> (int \<times> x86_instr) res option" where
  "arch_x86_decode_instr m pc use_intel =
     (case decode_loop m use_intel zero_instr 0 (m pc) (pc + 1) of
        None \<Rightarrow> None
      | Some r \<Rightarrow> Some (res_bind r (\<lambda>exit. case exit of
          Undecodable instr \<Rightarrow> Inr (-1, instr)
        | Decoded instr decode_group instr_byte decode opcode pc' \<Rightarrow>
            res_bind (decode_rest m pc instr decode_group instr_byte decode opcode pc') (\<lambda>instr. Inr (0, instr)))))"

text \<open>\<open>int arch_x86_instr_length\<close> narrows the \<open>unsigned long\<close> to an \<open>int\<close>.\<close>

definition arch_x86_instr_length :: "x86_instr \<Rightarrow> int" where
  "arch_x86_instr_length instr = sint (ucast (i_nr_bytes instr) :: 32 word)"

end
