(* ===== verification/X86_Shapes.thy ===== *)
theory X86_Shapes
  imports X86_Decode
begin

text \<open>
  What the decoding tables hold: which bytes are prefixes, that group entries lead to group tables,
  that every decodable entry has exactly one of the addressing modes of \<open>x86_decode.h\<close>. The facts are
  checked entry by entry; everything the decoder's theorems need of the tables is derived from them.
\<close>

section \<open>Checking a table\<close>

fun indexed :: "(int \<Rightarrow> 'a \<Rightarrow> bool) \<Rightarrow> int \<Rightarrow> 'a list \<Rightarrow> bool" where
  "indexed P k [] = True"
| "indexed P k (x # xs) = (P k x \<and> indexed P (k + 1) xs)"

lemma indexed_nth: "indexed P k xs \<Longrightarrow> i < length xs \<Longrightarrow> P (k + int i) (xs ! i)"
  by (induction P k xs arbitrary: i rule: indexed.induct)
     (auto simp: nth_Cons' of_nat_diff less_Suc_eq_0_disj algebra_simps)

lemma indexed_append: "indexed P k (xs @ ys) \<longleftrightarrow> indexed P k xs \<and> indexed P (k + int (length xs)) ys"
  by (induction P k xs rule: indexed.induct) (auto simp: algebra_simps)

section \<open>Kinds of entries\<close>

definition is_prefix_entry :: "64 word \<Rightarrow> bool" where
  "is_prefix_entry e \<longleftrightarrow> X86_OPCODE e = 0 \<and> X86_DECODE_CLASS e = X86_DECODE_CLASS_PREFIX"

definition is_group_entry :: "64 word \<Rightarrow> bool" where
  "is_group_entry e \<longleftrightarrow> X86_OPCODE e = 0 \<and> X86_DECODE_CLASS e = X86_DECODE_CLASS_GROUP"

definition is_diff_entry :: "64 word \<Rightarrow> bool" where
  "is_diff_entry e \<longleftrightarrow> X86_OPCODE e = 0 \<and> X86_DECODE_CLASS e = X86_DECODE_CLASS_DIFF_SYNTAX"

definition is_invalid_entry :: "64 word \<Rightarrow> bool" where
  "is_invalid_entry e \<longleftrightarrow> X86_OPCODE e = 0 \<and> X86_DECODE_CLASS e = X86_DECODE_CLASS_INVALID"

definition is_leaf_entry :: "64 word \<Rightarrow> bool" where
  "is_leaf_entry e \<longleftrightarrow> X86_OPCODE e \<noteq> 0 \<or> is_diff_entry e"

lemma take_bit_2_cases: "take_bit 2 v \<in> {0, 1, 2, 3}" for v :: "64 word"
proof -
  have "uint (take_bit 2 v) = take_bit 2 (uint v)" by (rule unsigned_take_bit_eq)
  then have "uint (take_bit 2 v) < 4" and "0 \<le> uint (take_bit 2 v)"
    using take_bit_int_less_exp [of 2 "uint v"] by simp_all
  then have "uint (take_bit 2 v) = 0 \<or> uint (take_bit 2 v) = 1 \<or> uint (take_bit 2 v) = 2 \<or> uint (take_bit 2 v) = 3"
    by linarith
  then show ?thesis by (simp only: word_uint_eq_iff insert_iff empty_iff) simp
qed
lemma decode_class_cases: "X86_DECODE_CLASS e \<in> {0, 1, 2, 3}"
proof -
  have "X86_DECODE_CLASS e = take_bit 2 (drop_bit 61 e)"
    by (simp add: GET_FIELD_def take_bit_eq_mask mask_eq_exp_minus_1)
  then show ?thesis using take_bit_2_cases [of "drop_bit 61 e"] by (simp only:)
qed

lemma entry_cases:
  obtains "is_invalid_entry e" | "is_prefix_entry e" | "is_group_entry e" | "X86_OPCODE e \<noteq> 0" | "is_diff_entry e"
  using decode_class_cases [of e]
  by (auto simp: is_invalid_entry_def is_prefix_entry_def is_group_entry_def is_diff_entry_def)

section \<open>Prefix bytes\<close>

text \<open>The prefix bytes of the architecture, with the field of the instruction each sets and to what.\<close>

definition legacy_prefixes :: "(byte \<times> nat \<times> byte) list" where
  "legacy_prefixes = [(0x26, 0, 1), (0x2E, 0, 2), (0x36, 0, 3), (0x3E, 0, 4), (0x64, 0, 5), (0x65, 0, 6),
     (0x66, 4, 1), (0x67, 3, 1), (0xF0, 2, 1), (0xF2, 1, 1), (0xF3, 1, 2)]"

definition legacy_prefix :: "byte \<Rightarrow> bool" where
  "legacy_prefix b \<longleftrightarrow> b \<in> fst ` set legacy_prefixes"

definition prefix_table :: "(int \<times> nat \<times> int) list" where
  "prefix_table = map (\<lambda>(b, i, v). (uint b, i, uint v)) ((0x0F, 5, 1) # legacy_prefixes)"

definition prefix_check :: "int \<Rightarrow> 64 word \<Rightarrow> bool" where
  "prefix_check k e =
     (case map_of prefix_table k of
        None \<Rightarrow> \<not> is_prefix_entry e
      | Some (i, v) \<Rightarrow> is_prefix_entry e \<and> unat (X86_PREFIX_INDEX e) = i \<and> uint (X86_PREFIX_VALUE e) = v)"

lemma prefix_table_num:
  "prefix_table = [(0x0F, 5, 1), (0x26, 0, 1), (0x2E, 0, 2), (0x36, 0, 3), (0x3E, 0, 4), (0x64, 0, 5), (0x65, 0, 6),
     (0x66, 4, 1), (0x67, 3, 1), (0xF0, 2, 1), (0xF2, 1, 1), (0xF3, 1, 2)]"
  by (simp add: prefix_table_def legacy_prefixes_def)

lemma prefix_one_lo: "indexed prefix_check 0 decode_table_one_lo"
  by (simp add: decode_table_one_lo_def prefix_check_def GET_FIELD_def prefix_table_num is_prefix_entry_def)

lemma prefix_one_hi: "indexed prefix_check 128 decode_table_one_hi"
  by (simp add: decode_table_one_hi_def prefix_check_def GET_FIELD_def prefix_table_num is_prefix_entry_def)

section \<open>Addressing modes\<close>

definition addrmods :: "64 word list" where
  "addrmods = [ADDRMOD_ACC_MOFFSET, ADDRMOD_ACC_REG, ADDRMOD_IMM, ADDRMOD_IMM8, ADDRMOD_IMM8_RM, ADDRMOD_IMM_RM,
     ADDRMOD_IMM_ACC, ADDRMOD_IMM_REG, ADDRMOD_IMPLIED, ADDRMOD_MOFFSET_ACC, ADDRMOD_REG,
     ADDRMOD_SEG2_REG, ADDRMOD_SEG3_REG, ADDRMOD_SEG3_REG_RM, ADDRMOD_RM_SEG3_REG, ADDRMOD_REG_RM,
     ADDRMOD_REL, ADDRMOD_RM_REG, ADDRMOD_RM, ADDRMOD_RM_IMM_REG, ADDRMOD_RM_IMM8_REG,
     ADDRMOD_REG_IMM8_RM, ADDRMOD_REG_CL_RM, ADDRMOD_FAR_PTR, ADDRMOD_IMM8_IMM16, ADDRMOD_CR_RM,
     ADDRMOD_DBG_RM, ADDRMOD_RM_CR, ADDRMOD_RM_DBG]"

text \<open>Flags that name exactly one addressing mode.\<close>

definition wf_flags :: "64 word \<Rightarrow> bool" where
  "wf_flags f \<longleftrightarrow> \<not> has f SIB \<and> f AND ADDRMOD_MASK \<in> set addrmods"

lemma addrmods_int:
  "map uint addrmods =
    [8864820887552, 8804691345408, 8798240571392, 8798240636928, 8796093154560, 8796093089024,
     8813272956928, 8804683022336, 8798240538624, 8813306445824, 8798241554432, 8798242603008,
     8798244700160, 8796097217792, 9895604650240, 8796094072064, 8798241030144, 8804682957056,
     8798240506112, 17600775979264, 35192962023680, 35184373138688, 70368745227520, 8798240768000,
     8800388120576, 8796629894400, 8797166765312, 10995116278016, 13194139533568]"
  by (simp add: addrmods_def)

lemma wf_flags_int:
  "wf_flags f \<longleftrightarrow> uint (f AND SIB) = 0 \<and> uint (f AND ADDRMOD_MASK) \<in> set
    [8864820887552, 8804691345408, 8798240571392, 8798240636928, 8796093154560, 8796093089024,
     8813272956928, 8804683022336, 8798240538624, 8813306445824, 8798241554432, 8798242603008,
     8798244700160, 8796097217792, 9895604650240, 8796094072064, 8798241030144, 8804682957056,
     8798240506112, 17600775979264, 35192962023680, 35184373138688, 70368745227520, 8798240768000,
     8800388120576, 8796629894400, 8797166765312, 10995116278016, 13194139533568]"
proof -
  have "inj (uint :: 64 word \<Rightarrow> int)" by (meson injI word_uint_eq_iff)
  then show ?thesis unfolding wf_flags_def has_def addrmods_int [symmetric]
    by (simp add: inj_image_mem_iff unsigned_eq_0_iff del: mem_simps)
qed

definition entry_check :: "64 word \<Rightarrow> bool" where
  "entry_check e \<longleftrightarrow>
     (if is_leaf_entry e then wf_flags (e AND NOT 0xFF) else True) \<and>
     (if is_diff_entry e then X86_DIFF_SYNTAX e \<le> 16 else True) \<and>
     (if is_group_entry e then wf_flags e \<and> has e MOD_RM \<and> 2 \<le> X86_DECODE_GROUP e \<and> X86_DECODE_GROUP e \<le> 10
      else True)"

definition member_check :: "64 word \<Rightarrow> bool" where
  "member_check d \<longleftrightarrow>
     \<not> is_prefix_entry d \<and> \<not> is_group_entry d \<and>
     (if is_leaf_entry d then if has d ADDRMOD_MASK then wf_flags d \<and> has d MOD_RM else \<not> has d SIB else True) \<and>
     (if is_diff_entry d then X86_DIFF_SYNTAX d \<le> 16 else True)"

lemmas entry_eval = entry_check_def member_check_def is_leaf_entry_def is_diff_entry_def is_prefix_entry_def
  is_group_entry_def GET_FIELD_def wf_flags_int has_def

lemma entries_one_lo: "list_all entry_check decode_table_one_lo"
  by (simp add: decode_table_one_lo_def entry_eval)

lemma entries_one_hi: "list_all entry_check decode_table_one_hi"
  by (simp add: decode_table_one_hi_def entry_eval)

lemma entries_two_lo: "list_all (\<lambda>e. entry_check e \<and> \<not> is_prefix_entry e) decode_table_two_lo"
  by (simp add: decode_table_two_lo_def entry_eval)

lemma entries_two_hi: "list_all (\<lambda>e. entry_check e \<and> \<not> is_prefix_entry e) decode_table_two_hi"
  by (simp add: decode_table_two_hi_def entry_eval)

lemmas grp_tables = grp1_decode_table_def grp2_decode_table_def grp3_decode_table_def grp4_decode_table_def
  grp5_decode_table_def grp6_decode_table_def grp7_decode_table_def grp8_decode_table_def grp9_decode_table_def

lemma members: "list_all (list_all member_check) (drop 2 decode_tables)"
  by (simp add: decode_tables_def grp_tables entry_eval)

lemma member_lengths: "list_all (\<lambda>t. length t = 8) (drop 2 decode_tables)"
  by (simp add: decode_tables_def grp_tables)

lemma table_lengths: "length decode_table_one = 256" "length decode_table_two = 256" "length decode_tables = 11"
  by (simp_all add: decode_table_one_def decode_table_one_lo_def decode_table_one_hi_def
    decode_table_two_def decode_table_two_lo_def decode_table_two_hi_def decode_tables_def)

lemma diff_lengths: "length diff_syntax_opcodes = 17" "list_all (\<lambda>r. length r = 4) diff_syntax_opcodes"
    "length diff_syntax_flags_0x62 = 4"
  by (simp_all add: diff_syntax_opcodes_def diff_syntax_flags_0x62_def)

end
