(* ===== verification/X86_Loop.thy ===== *)
theory X86_Loop
  imports X86_Shapes
begin

text \<open>
  The prefix and opcode loop of \<open>arch_x86_decode_instr\<close>, unrolled: the prefix bytes are consumed
  one by one, then one opcode is looked up in at most two tables. The loop ends exactly when the
  prefix bytes do, and it never leaves the tables.
\<close>

section \<open>What the checks give\<close>

lemma byte_lt: "unat (b :: byte) < 256"
  using unsigned_less [of b, where 'a = nat] by simp

lemma table_one_prefix: "prefix_check (uint b) (decode_table_one ! unat b)" for b :: byte
proof -
  have "length decode_table_one_lo = 128" by (simp add: decode_table_one_lo_def)
  then have "indexed prefix_check 0 decode_table_one"
    using prefix_one_lo prefix_one_hi by (simp add: decode_table_one_def indexed_append)
  then show ?thesis
    using indexed_nth [of prefix_check 0 decode_table_one "unat b"] byte_lt [of b]
    by (simp add: table_lengths)
qed

lemma map_of_prefix_table:
  "map_of prefix_table (uint b) =
     (if b = 0x0F then Some (5, 1) else map_option (\<lambda>(i, v). (i, uint v)) (map_of legacy_prefixes b))"
proof -
  have "map_of (map (\<lambda>(b, i, v). (uint b, i, uint v)) xs) (uint b) = map_option (\<lambda>(i, v). (i, uint v)) (map_of xs b)"
    for xs :: "(byte \<times> nat \<times> byte) list"
    by (induction xs) (auto simp: word_uint_eq_iff)
  note this [of "(0x0F, 5, 1) # legacy_prefixes"]
  then show ?thesis unfolding prefix_table_def by auto
qed

lemma legacy_prefix_cases:
  "legacy_prefix b \<longleftrightarrow> (\<exists>i v. map_of legacy_prefixes b = Some (i, v))"
proof -
  have "legacy_prefix b \<longleftrightarrow> map_of legacy_prefixes b \<noteq> None"
    by (simp add: legacy_prefix_def map_of_eq_None_iff)
  then show ?thesis by auto
qed

lemma legacy_prefix_field: "map_of legacy_prefixes b = Some (i, v) \<Longrightarrow> i < 5"
  by (auto simp: legacy_prefixes_def split: if_splits)

lemma legacy_prefix_not_0F: "\<not> legacy_prefix 0x0F"
  by (simp add: legacy_prefix_def legacy_prefixes_def)

lemma prefix_entry:
  assumes "map_of legacy_prefixes b = Some (i, v)"
  shows "is_prefix_entry (decode_table_one ! unat b)"
    and "unat (X86_PREFIX_INDEX (decode_table_one ! unat b)) = i"
    and "ucast (X86_PREFIX_VALUE (decode_table_one ! unat b)) = v"
proof -
  have "b \<noteq> 0x0F" using assms legacy_prefix_cases legacy_prefix_not_0F by auto
  with table_one_prefix [of b] assms
  have *: "is_prefix_entry (decode_table_one ! unat b)"
      "unat (X86_PREFIX_INDEX (decode_table_one ! unat b)) = i"
      "uint (X86_PREFIX_VALUE (decode_table_one ! unat b)) = uint v"
    by (simp_all add: prefix_check_def map_of_prefix_table)
  then show "is_prefix_entry (decode_table_one ! unat b)"
    "unat (X86_PREFIX_INDEX (decode_table_one ! unat b)) = i" by simp_all
  show "ucast (X86_PREFIX_VALUE (decode_table_one ! unat b)) = v"
    using *(3) by (metis word_of_int_uint unsigned_ucast_eq word_uint_eq_iff ucast_eq)
qed

lemma two_byte_entry:
  "is_prefix_entry (decode_table_one ! 0x0F)"
  "unat (X86_PREFIX_INDEX (decode_table_one ! 0x0F)) = 5"
  "ucast (X86_PREFIX_VALUE (decode_table_one ! 0x0F)) = (1 :: byte)"
proof -
  have *: "is_prefix_entry (decode_table_one ! 0x0F)"
      "unat (X86_PREFIX_INDEX (decode_table_one ! 0x0F)) = 5"
      "uint (X86_PREFIX_VALUE (decode_table_one ! 0x0F)) = uint (1 :: byte)"
    using table_one_prefix [of "0x0F"] map_of_prefix_table [of "0x0F"] by (simp_all add: prefix_check_def)
  then show "is_prefix_entry (decode_table_one ! 0x0F)"
    "unat (X86_PREFIX_INDEX (decode_table_one ! 0x0F)) = 5" by simp_all
  show "ucast (X86_PREFIX_VALUE (decode_table_one ! 0x0F)) = (1 :: byte)"
    using *(3) by (metis word_of_int_uint unsigned_ucast_eq word_uint_eq_iff ucast_eq)
qed

lemma other_entry:
  fixes b :: byte
  assumes "\<not> legacy_prefix b" and "b \<noteq> 0x0F"
  shows "\<not> is_prefix_entry (decode_table_one ! unat b)"
  using table_one_prefix [of b] assms
  by (auto simp: prefix_check_def map_of_prefix_table legacy_prefix_cases split: option.splits)

lemma table_one_check: "entry_check (decode_table_one ! unat b)" for b :: byte
proof -
  have "list_all entry_check decode_table_one"
    using entries_one_lo entries_one_hi by (simp add: decode_table_one_def)
  then show ?thesis using byte_lt [of b] by (simp add: list_all_length table_lengths)
qed

lemma table_two_check:
  fixes b :: byte
  shows  "entry_check (decode_table_two ! unat b)" "\<not> is_prefix_entry (decode_table_two ! unat b)"
proof -
  have "list_all (\<lambda>e. entry_check e \<and> \<not> is_prefix_entry e) decode_table_two"
    using entries_two_lo entries_two_hi by (simp add: decode_table_two_def)
  then show "entry_check (decode_table_two ! unat b)" "\<not> is_prefix_entry (decode_table_two ! unat b)"
    using byte_lt [of b] by (simp_all add: list_all_length table_lengths)
qed

lemma group_table:
  assumes "2 \<le> g" and "g \<le> 10"
  shows "length (decode_tables ! g) = 8" and "r < 8 \<Longrightarrow> member_check (decode_tables ! g ! r)"
proof -
  have "g = 2 + (g - 2)" and "g - 2 < length (drop 2 decode_tables)"
    using assms by (simp_all add: table_lengths)
  then have t: "decode_tables ! g = drop 2 decode_tables ! (g - 2)" 
    using nth_drop [of 2 decode_tables "g - 2"] by (simp add: table_lengths)
  show l: "length (decode_tables ! g) = 8"
    using member_lengths \<open>g - 2 < _\<close> unfolding t by (simp add: list_all_length)
  show "member_check (decode_tables ! g ! r)" if "r < 8"
    using members l that \<open>g - 2 < _\<close> unfolding t by (simp add: list_all_length)
qed

lemma tables_0_1: "decode_tables ! 0 = decode_table_one" "decode_tables ! Suc 0 = decode_table_two"
  by (simp_all add: decode_tables_def)

section \<open>The loop, unrolled\<close>

text \<open>
  \<open>prefix_run m pc n\<close>: exactly \<open>n\<close> prefix bytes stand at \<open>pc\<close>; \<open>prefix_values m pc n v\<close> is
  what they leave in the instruction.
\<close>

primrec prefix_run :: "ram \<Rightarrow> addr \<Rightarrow> nat \<Rightarrow> bool" where
  "prefix_run m pc 0 = (\<not> legacy_prefix (m pc))"
| "prefix_run m pc (Suc n) = (legacy_prefix (m pc) \<and> prefix_run m (pc + 1) n)"

definition set_prefix :: "byte \<Rightarrow> byte list \<Rightarrow> byte list" where
  "set_prefix b values = (case map_of legacy_prefixes b of None \<Rightarrow> values | Some (i, v) \<Rightarrow> values[i := v])"

primrec prefix_values :: "ram \<Rightarrow> addr \<Rightarrow> nat \<Rightarrow> byte list \<Rightarrow> byte list" where
  "prefix_values m pc 0 values = values"
| "prefix_values m pc (Suc n) values = prefix_values m (pc + 1) n (set_prefix (m pc) values)"

text \<open>Looking an opcode byte up: in its own table, and at most once more in a group table.\<close>

definition leaf_step :: "byte \<Rightarrow> x86_instr \<Rightarrow> nat \<Rightarrow> byte \<Rightarrow> 64 word \<Rightarrow> addr \<Rightarrow> decode_exit res" where
  "leaf_step use_intel instr g b e pc =
     (if X86_OPCODE e \<noteq> 0 then Inr (Decoded instr g b e (X86_OPCODE e) pc)
      else if is_diff_entry e then diff_syntax use_intel instr g b e pc
      else Inr (Undecodable instr))"

definition table_step :: "ram \<Rightarrow> byte \<Rightarrow> x86_instr \<Rightarrow> nat \<Rightarrow> byte \<Rightarrow> addr \<Rightarrow> decode_exit res" where
  "table_step m use_intel instr g b pc =
     (let e = decode_tables ! g ! unat b in
      if is_group_entry e then
        let instr = decode_modrm_fields (instr\<lparr>i_opcode_byte := b, i_flags := e\<rparr>) (m pc);
            g = unat (X86_DECODE_GROUP e);
            r = i_reg_opc instr
        in leaf_step use_intel instr g r (decode_tables ! g ! unat r) (pc + 1)
      else leaf_step use_intel instr g b e pc)"

definition opcode_step :: "ram \<Rightarrow> byte \<Rightarrow> x86_instr \<Rightarrow> addr \<Rightarrow> decode_exit res" where
  "opcode_step m use_intel instr pc =
     (if m pc = 0x0F then
        table_step m use_intel (instr\<lparr>i_prefix_values := (i_prefix_values instr)[5 := 1]\<rparr>) 1 (m (pc + 1)) (pc + 2)
      else table_step m use_intel instr 0 (m pc) (pc + 1))"

lemma set_prefix_length [simp]: "length (set_prefix b values) = length values"
  by (auto simp: set_prefix_def split: option.splits)

lemma loop_leaf:
  assumes "g < 11" and "unat b < length (decode_tables ! g)"
    and "\<not> is_prefix_entry (decode_tables ! g ! unat b)" and "\<not> is_group_entry (decode_tables ! g ! unat b)"
  shows "decode_loop m ui instr g b pc = Some (leaf_step ui instr g b (decode_tables ! g ! unat b) pc)"
  using assms entry_cases [of "decode_tables ! g ! unat b"]
  by (subst decode_loop.simps)
     (auto simp: table_lengths leaf_step_def is_prefix_entry_def is_group_entry_def is_diff_entry_def is_invalid_entry_def)

lemma reg_opc_lt: "unat (i_reg_opc (decode_modrm_fields instr modrm)) < 8"
proof -
  have "\<not> bit (drop_bit 3 (modrm AND 0x38)) n" if "3 \<le> n" for n
  proof -
    have "drop_bit 3 (0x38 :: byte) = mask 3" by (simp add: mask_eq_exp_minus_1)
    then have "drop_bit 3 (modrm AND 0x38) = drop_bit 3 modrm AND mask 3" by simp
    then show ?thesis using that by (simp add: bit_simps)
  qed
  then show ?thesis
    using small_word_iff [of "drop_bit 3 (modrm AND 0x38)" 3] by (auto simp: decode_modrm_fields_def not_le)
qed

lemma loop_group:
  assumes "g \<le> 1" and "is_group_entry (decode_tables ! g ! unat b)"
  shows "decode_loop m ui instr g b pc = Some (table_step m ui instr g b pc)"
proof -
  let ?e = "decode_tables ! g ! unat b"
  let ?i = "decode_modrm_fields (instr\<lparr>i_opcode_byte := b, i_flags := ?e\<rparr>) (m pc)"
  let ?g = "unat (X86_DECODE_GROUP ?e)"
  have l: "g < 11" "unat b < length (decode_tables ! g)"
    using assms(1) byte_lt [of b] by (cases g; simp add: tables_0_1 table_lengths)+
  have "entry_check ?e"
    using assms(1) table_one_check [of b] table_two_check(1) [of b] by (cases g; simp add: tables_0_1)
  with assms(2) have "2 \<le> X86_DECODE_GROUP ?e" "X86_DECODE_GROUP ?e \<le> 10" by (simp_all add: entry_check_def)
  then have g: "2 \<le> ?g" "?g \<le> 10" by (simp_all add: word_le_nat_alt)
  have "decode_loop m ui instr g b pc = decode_loop m ui ?i ?g (i_reg_opc ?i) (pc + 1)"
    using assms(2) l by (subst decode_loop.simps) (simp add: table_lengths is_group_entry_def)
  also have "\<dots> = Some (leaf_step ui ?i ?g (i_reg_opc ?i) (decode_tables ! ?g ! unat (i_reg_opc ?i)) (pc + 1))"
    using group_table [OF g] reg_opc_lt [of "instr\<lparr>i_opcode_byte := b, i_flags := ?e\<rparr>" "m pc"] g
    by (intro loop_leaf) (auto simp: member_check_def)
  finally show ?thesis using assms(2) by (simp add: table_step_def Let_def)
qed

lemma loop_table:
  assumes "g \<le> 1" and "\<not> is_prefix_entry (decode_tables ! g ! unat b)"
  shows "decode_loop m ui instr g b pc = Some (table_step m ui instr g b pc)"
proof (cases "is_group_entry (decode_tables ! g ! unat b)")
  case True
  with assms(1) show ?thesis by (rule loop_group)
next
  case False
  have "g < 11" "unat b < length (decode_tables ! g)"
    using assms(1) byte_lt [of b] by (cases g; simp add: tables_0_1 table_lengths)+
  with assms(2) False show ?thesis by (simp add: loop_leaf table_step_def Let_def)
qed

lemma loop_prefix:
  assumes "legacy_prefix b" and "length (i_prefix_values instr) = 6"
  shows "decode_loop m ui instr 0 b pc =
    decode_loop m ui (instr\<lparr>i_prefix_values := set_prefix b (i_prefix_values instr)\<rparr>) 0 (m pc) (pc + 1)"
proof -
  obtain i v where iv: "map_of legacy_prefixes b = Some (i, v)" using assms(1) legacy_prefix_cases by blast
  note e = prefix_entry [OF iv]
  have "b \<noteq> 0x0F" using assms(1) legacy_prefix_not_0F by auto
  moreover have "i < 6" using legacy_prefix_field [OF iv] by simp
  ultimately show ?thesis
    using e assms(2) iv byte_lt [of b]
    by (subst decode_loop.simps)
       (simp add: tables_0_1 table_lengths is_prefix_entry_def set_prefix_def upd_res_def)
qed

lemma loop_two_byte:
  assumes "length (i_prefix_values instr) = 6"
  shows "decode_loop m ui instr 0 0x0F pc =
    decode_loop m ui (instr\<lparr>i_prefix_values := (i_prefix_values instr)[5 := 1]\<rparr>) 1 (m pc) (pc + 1)"
  using two_byte_entry assms
  by (subst decode_loop.simps) (simp add: tables_0_1 table_lengths is_prefix_entry_def upd_res_def)

lemma loop_opcode:
  assumes "\<not> legacy_prefix (m pc)" and "length (i_prefix_values instr) = 6"
  shows "decode_loop m ui instr 0 (m pc) (pc + 1) = Some (opcode_step m ui instr pc)"
proof (cases "m pc = 0x0F")
  case True
  then show ?thesis
    using loop_table [of 1 "m (pc + 1)"] table_two_check(2) [of "m (pc + 1)"] assms(2)
    by (simp add: loop_two_byte opcode_step_def tables_0_1 add.commute)
next
  case False
  then show ?thesis
    using loop_table [of 0 "m pc"] other_entry [OF assms(1)] by (simp add: opcode_step_def tables_0_1)
qed

lemma loop_run:
  assumes "prefix_run m pc n" and "length (i_prefix_values instr) = 6"
  shows "decode_loop m ui instr 0 (m pc) (pc + 1) =
    Some (opcode_step m ui (instr\<lparr>i_prefix_values := prefix_values m pc n (i_prefix_values instr)\<rparr>) (pc + of_nat n))"
  using assms
proof (induction n arbitrary: pc instr)
  case 0
  then show ?case by (simp add: loop_opcode)
next
  case (Suc n)
  let ?i = "instr\<lparr>i_prefix_values := set_prefix (m pc) (i_prefix_values instr)\<rparr>"
  from Suc.prems have "decode_loop m ui instr 0 (m pc) (pc + 1) = decode_loop m ui ?i 0 (m (pc + 1)) (pc + 1 + 1)"
    by (simp add: loop_prefix)
  also have "\<dots> = Some (opcode_step m ui (?i\<lparr>i_prefix_values := prefix_values m (pc + 1) n (i_prefix_values ?i)\<rparr>) (pc + 1 + of_nat n))"
    using Suc.prems by (intro Suc.IH) simp_all
  finally show ?case by (simp add: add.assoc)
qed

text \<open>Without an end to the prefix bytes, the loop has none.\<close>

lemma loop_diverges:
  assumes "decode_loop m ui instr g b pc = Some r"
  shows "\<not> (g = 0 \<and> legacy_prefix b \<and> length (i_prefix_values instr) = 6 \<and> (\<forall>n. legacy_prefix (m (pc + of_nat n))))"
proof (rule decode_loop.raw_induct [where P = "\<lambda>m ui instr g b pc r. \<not> (g = 0 \<and> legacy_prefix b \<and>
    length (i_prefix_values instr) = 6 \<and> (\<forall>n. legacy_prefix (m (pc + of_nat n))))", OF _ assms], rule notI)
  fix f m ui instr g b pc r
  assume IH: "\<And>m ui instr g b pc r. f m ui instr g b pc = Some r \<Longrightarrow>
      \<not> (g = 0 \<and> legacy_prefix b \<and> length (i_prefix_values instr) = 6 \<and> (\<forall>n. legacy_prefix (m (pc + of_nat n))))"
    and body: "(case res_bind (nth_res decode_tables g) (\<lambda>t. nth_res t (unat b)) of
        Inl e \<Rightarrow> Some (Inl e)
      | Inr decode \<Rightarrow>
          if X86_OPCODE decode \<noteq> 0 then
            Some (Inr (Decoded instr g b decode (X86_OPCODE decode) pc))
          else if X86_DECODE_CLASS decode = X86_DECODE_CLASS_INVALID then Some (Inr (Undecodable instr))
          else if X86_DECODE_CLASS decode = X86_DECODE_CLASS_PREFIX then
            (case upd_res (i_prefix_values instr) (unat (X86_PREFIX_INDEX decode)) (ucast (X86_PREFIX_VALUE decode)) of
               Inl e \<Rightarrow> Some (Inl e)
             | Inr values \<Rightarrow>
                 f m ui (instr\<lparr>i_prefix_values := values\<rparr>) (if b = 0x0F then 1 else g) (m pc) (pc + 1))
          else if X86_DECODE_CLASS decode = X86_DECODE_CLASS_GROUP then
            f m ui (decode_modrm_fields (instr\<lparr>i_opcode_byte := b, i_flags := decode\<rparr>) (m pc))
              (unat (X86_DECODE_GROUP decode))
              (i_reg_opc (decode_modrm_fields (instr\<lparr>i_opcode_byte := b, i_flags := decode\<rparr>) (m pc)))
              (pc + 1)
          else Some (diff_syntax ui instr g b decode pc)) = Some r"
    and "g = 0 \<and> legacy_prefix b \<and> length (i_prefix_values instr) = 6 \<and> (\<forall>n. legacy_prefix (m (pc + of_nat n)))"
  then have g: "g = 0" and lp: "legacy_prefix b" and len: "length (i_prefix_values instr) = 6"
    and all: "\<forall>n. legacy_prefix (m (pc + of_nat n))" by simp_all
  obtain i v where iv: "map_of legacy_prefixes b = Some (i, v)" using lp legacy_prefix_cases by blast
  have b: "b \<noteq> 0x0F" "i < 6"
    using lp legacy_prefix_not_0F legacy_prefix_field [OF iv] by auto
  have tail: "\<forall>n. legacy_prefix (m ((pc + 1) + of_nat n))"
  proof
    fix n
    show "legacy_prefix (m (pc + 1 + of_nat n))"
      using spec [OF all, of "Suc n"] by (simp add: add.assoc)
  qed
  have head: "legacy_prefix (m pc)" using spec [OF all, of 0] by simp
  have look: "res_bind (nth_res decode_tables g) (\<lambda>t. nth_res t (unat b)) = Inr (decode_table_one ! unat b)"
    using byte_lt [of b] g by (simp add: tables_0_1 table_lengths)
  have step: "upd_res (i_prefix_values instr) (unat (X86_PREFIX_INDEX (decode_table_one ! unat b)))
      (ucast (X86_PREFIX_VALUE (decode_table_one ! unat b))) = Inr (set_prefix b (i_prefix_values instr))"
    using prefix_entry [OF iv] iv b(2) len by (simp add: upd_res_def set_prefix_def)
  have "f m ui (instr\<lparr>i_prefix_values := set_prefix b (i_prefix_values instr)\<rparr>) 0 (m pc) (pc + 1) = Some r"
    using body g prefix_entry(1) [OF iv] b(1) unfolding look sum.case step is_prefix_entry_def by simp
  from IH [OF this] show False using tail head len by simp
qed

end
