(* ===== verification/X86_Modes.thy ===== *)
theory X86_Modes
  imports X86_Loop
begin

text \<open>
  The second half of \<open>arch_x86_decode_instr\<close>: what the flags of an instruction say, what the ModRM
  and SIB bytes add to them, and the fields that follow. The two \<open>switch\<close> statements over ModRM
  and the SIB fix-up are shown to follow the architecture's addressing tables.
\<close>

section \<open>What an addressing mode implies\<close>

lemma mode_and: "X AND M = X \<Longrightarrow> f AND X = (f AND M) AND X" for X :: "64 word"
  by (metis and.assoc and.commute)

lemma mode_has: "X AND M = X \<Longrightarrow> has f X \<longleftrightarrow> has (f AND M) X" for X :: "64 word"
  by (metis mode_and has_def)

definition mode_facts :: "64 word \<Rightarrow> bool" where
  "mode_facts a \<longleftrightarrow>
     (if has a MOD_RM then
        (if has a DIR_REVERSED then a AND DST_MASK = 0 else a AND SRC_MASK = 0) \<and> \<not> has a (MOFFSET_MASK OR REL_MASK)
      else True) \<and>
     \<not> has a (SRC_MEM OR DST_MEM OR MEM_DISP_MASK)"

lemma mode_facts_all: "list_all mode_facts addrmods"
  by (simp add: addrmods_def mode_facts_def has_def)

lemma wf_facts:
  assumes "wf_flags f"
  shows "\<not> has f SIB" "\<not> has f SRC_MEM" "\<not> has f DST_MEM" "\<not> has f MEM_DISP_MASK"
    and "has f MOD_RM \<Longrightarrow> has f DIR_REVERSED \<Longrightarrow> f AND DST_MASK = 0"
    and "has f MOD_RM \<Longrightarrow> \<not> has f DIR_REVERSED \<Longrightarrow> f AND SRC_MASK = 0"
    and "has f MOD_RM \<Longrightarrow> \<not> has f MOFFSET_MASK" "has f MOD_RM \<Longrightarrow> \<not> has f REL_MASK"
proof -
  have m: "mode_facts (f AND ADDRMOD_MASK)"
    using assms mode_facts_all by (simp add: wf_flags_def list_all_iff)
  have t: "has f X \<longleftrightarrow> has (f AND ADDRMOD_MASK) X" "f AND X = (f AND ADDRMOD_MASK) AND X"
    if "X AND ADDRMOD_MASK = X" for X
    using mode_has [OF that] mode_and [OF that] by blast+
  show "\<not> has f SIB" using assms by (simp add: wf_flags_def)
  have none: "\<not> has f (SRC_MEM OR DST_MEM OR MEM_DISP_MASK)"
    using m by (subst t) (simp_all add: mode_facts_def)
  then show "\<not> has f SRC_MEM" "\<not> has f DST_MEM" "\<not> has f MEM_DISP_MASK"
    unfolding has_or_mask by blast+
  show "f AND DST_MASK = 0" if "has f MOD_RM" "has f DIR_REVERSED"
    using m that t(1) [of MOD_RM] t(1) [of DIR_REVERSED] t(2) [of DST_MASK] by (simp add: mode_facts_def)
  show "f AND SRC_MASK = 0" if "has f MOD_RM" "\<not> has f DIR_REVERSED"
    using m that t(1) [of MOD_RM] t(1) [of DIR_REVERSED] t(2) [of SRC_MASK] by (simp add: mode_facts_def)
  have "\<not> has f (MOFFSET_MASK OR REL_MASK)" if "has f MOD_RM"
    using m that t(1) [of MOD_RM] t(1) [of "MOFFSET_MASK OR REL_MASK"] by (simp add: mode_facts_def)
  then show "has f MOD_RM \<Longrightarrow> \<not> has f MOFFSET_MASK" "has f MOD_RM \<Longrightarrow> \<not> has f REL_MASK"
    unfolding has_or_mask by blast+
qed

section \<open>Effective addresses\<close>

text \<open>
  The ModRM and SIB tables of the architecture: from the address size, the fields \<open>mod\<close> and
  \<open>rm\<close> of the ModRM byte and the base field of the SIB byte, what kind of operand there is, how
  wide its displacement is and whether a SIB byte follows.
\<close>

datatype ea_form = EA_Reg | EA_Mem | EA_Disp8 | EA_Disp16 | EA_Disp32

definition ea_sib :: "bool \<Rightarrow> byte \<Rightarrow> byte \<Rightarrow> bool" where
  "ea_sib a16 md rm \<longleftrightarrow> \<not> a16 \<and> md \<noteq> 3 \<and> rm = 4"

definition ea_form :: "bool \<Rightarrow> byte \<Rightarrow> byte \<Rightarrow> byte \<Rightarrow> ea_form" where
  "ea_form a16 md rm base =
     (if md = 3 then EA_Reg
      else if md = 1 then EA_Disp8
      else if md = 2 then if a16 then EA_Disp16 else EA_Disp32
      else if a16 then if rm = 6 then EA_Disp16 else EA_Mem
      else if rm = 5 \<or> rm = 4 \<and> base = 5 then EA_Disp32 else EA_Mem)"

fun ea_bytes :: "ea_form \<Rightarrow> nat" where
  "ea_bytes EA_Reg = 0"
| "ea_bytes EA_Mem = 0"
| "ea_bytes EA_Disp8 = 1"
| "ea_bytes EA_Disp16 = 2"
| "ea_bytes EA_Disp32 = 4"

fun form_bit :: "bool \<Rightarrow> ea_form \<Rightarrow> 64 word" where
  "form_bit dir EA_Reg = (if dir then DST_REG else SRC_REG)"
| "form_bit dir EA_Mem = (if dir then DST_MEM else SRC_MEM)"
| "form_bit dir EA_Disp8 = (if dir then DST_MEM_DISP_BYTE else SRC_MEM_DISP_BYTE)"
| "form_bit dir EA_Disp16 = (if dir then DST_MEM_DISP_WORD else SRC_MEM_DISP_WORD)"
| "form_bit dir EA_Disp32 = (if dir then DST_MEM_DISP_DWORD else SRC_MEM_DISP_DWORD)"

definition ea_flags :: "bool \<Rightarrow> bool \<Rightarrow> byte \<Rightarrow> byte \<Rightarrow> byte \<Rightarrow> 64 word" where
  "ea_flags dir a16 md rm base = form_bit dir (ea_form a16 md rm base) OR (if ea_sib a16 md rm then SIB else 0)"

lemma clear_set: "f AND M = 0 \<Longrightarrow> (f OR M) AND NOT M = f" for f :: "64 word"
proof (rule bit_word_eqI)
  fix n
  assume "f AND M = 0"
  then have "\<not> bit (f AND M) n" by simp
  then show "bit ((f OR M) AND NOT M) n \<longleftrightarrow> bit f n" if "n < LENGTH(64)"
    using that by (auto simp: bit_simps)
qed

lemma and_0_trans: "f AND M = 0 \<Longrightarrow> X AND M = X \<Longrightarrow> f AND X = 0" for f :: "64 word"
  by (simp add: mode_and [of X M])

lemma small_byte_cases:
  "unat b < 4 \<Longrightarrow> b \<in> {0, 1, 2, 3}" "unat b < 8 \<Longrightarrow> b \<in> {0, 1, 2, 3, 4, 5, 6, 7}" for b :: byte
proof -
  show "b \<in> {0, 1, 2, 3}" if "unat b < 4"
  proof -
    from that have "unat b = 0 \<or> unat b = 1 \<or> unat b = 2 \<or> unat b = 3" by linarith
    then show ?thesis by (simp only: word_unat_eq_iff insert_iff empty_iff) simp
  qed
  show "b \<in> {0, 1, 2, 3, 4, 5, 6, 7}" if "unat b < 8"
  proof -
    from that have "unat b = 0 \<or> unat b = 1 \<or> unat b = 2 \<or> unat b = 3 \<or> unat b = 4 \<or> unat b = 5 \<or>
      unat b = 6 \<or> unat b = 7" by linarith
    then show ?thesis by (simp only: word_unat_eq_iff insert_iff empty_iff) simp
  qed
qed

text \<open>The fields of a decoded instruction that the addressing forms depend on.\<close>

definition ea_ready :: "x86_instr \<Rightarrow> bool" where
  "ea_ready i \<longleftrightarrow> unat (i_mod i) < 4 \<and> unat (i_rm i) < 8 \<and> addr_size_override i \<in> {0, 1}"


lemma rm_key_uint:
  assumes "ea_ready i"
  shows "uint (rm_key i) = 65536 * uint (addr_size_override i) + 256 * uint (i_mod i) + uint (i_rm i)"
proof -
  have md: "i_mod i \<in> {0, 1, 2, 3}" and rm: "i_rm i \<in> {0, 1, 2, 3, 4, 5, 6, 7}" and a: "addr_size_override i \<in> {0, 1}"
    using assms small_byte_cases by (auto simp: ea_ready_def)
  then show ?thesis by (elim insertE emptyE; simp add: rm_key_def)
qed

text \<open>The cases of the two \<open>switch\<close> statements, by the fields the key is made of.\<close>

lemma rm_key_cases:
  assumes "ea_ready i"
  shows "rm_key i \<in> set [0 OR RM_MOD_2, 1 OR RM_MOD_2, 2 OR RM_MOD_2, 3 OR RM_MOD_2, 5 OR RM_MOD_2,
      6 OR RM_MOD_2, 7 OR RM_MOD_2] \<longleftrightarrow> addr_size_override i = 0 \<and> i_mod i = 2 \<and> i_rm i \<noteq> 4"
    and "rm_key i \<in> set [0 OR RM_MOD_2 OR RM_SIZE, 1 OR RM_MOD_2 OR RM_SIZE, 2 OR RM_MOD_2 OR RM_SIZE,
      3 OR RM_MOD_2 OR RM_SIZE, 4 OR RM_MOD_2 OR RM_SIZE, 5 OR RM_MOD_2 OR RM_SIZE,
      6 OR RM_MOD_2 OR RM_SIZE, 7 OR RM_MOD_2 OR RM_SIZE] \<longleftrightarrow> addr_size_override i = 1 \<and> i_mod i = 2"
    and "rm_key i \<in> set [4 OR RM_MOD_0, 4 OR RM_MOD_1] \<longleftrightarrow>
      addr_size_override i = 0 \<and> (i_mod i = 0 \<or> i_mod i = 1) \<and> i_rm i = 4"
    and "rm_key i = 4 OR RM_MOD_2 \<longleftrightarrow> addr_size_override i = 0 \<and> i_mod i = 2 \<and> i_rm i = 4"
    and "rm_key i = 5 OR RM_MOD_0 \<longleftrightarrow> addr_size_override i = 0 \<and> i_mod i = 0 \<and> i_rm i = 5"
    and "rm_key i = 6 OR RM_MOD_0 OR RM_SIZE \<longleftrightarrow> addr_size_override i = 1 \<and> i_mod i = 0 \<and> i_rm i = 6"
proof -
  have f: "i_mod i \<in> {0, 1, 2, 3}" "i_rm i \<in> {0, 1, 2, 3, 4, 5, 6, 7}" "addr_size_override i \<in> {0, 1}"
    using assms small_byte_cases by (auto simp: ea_ready_def)
  show "rm_key i \<in> set [0 OR RM_MOD_2, 1 OR RM_MOD_2, 2 OR RM_MOD_2, 3 OR RM_MOD_2, 5 OR RM_MOD_2,
      6 OR RM_MOD_2, 7 OR RM_MOD_2] \<longleftrightarrow> addr_size_override i = 0 \<and> i_mod i = 2 \<and> i_rm i \<noteq> 4"
    using f by (elim insertE emptyE; simp add: rm_key_def)
  show "rm_key i \<in> set [0 OR RM_MOD_2 OR RM_SIZE, 1 OR RM_MOD_2 OR RM_SIZE, 2 OR RM_MOD_2 OR RM_SIZE,
      3 OR RM_MOD_2 OR RM_SIZE, 4 OR RM_MOD_2 OR RM_SIZE, 5 OR RM_MOD_2 OR RM_SIZE,
      6 OR RM_MOD_2 OR RM_SIZE, 7 OR RM_MOD_2 OR RM_SIZE] \<longleftrightarrow> addr_size_override i = 1 \<and> i_mod i = 2"
    using f by (elim insertE emptyE; simp add: rm_key_def)
  show "rm_key i \<in> set [4 OR RM_MOD_0, 4 OR RM_MOD_1] \<longleftrightarrow>
      addr_size_override i = 0 \<and> (i_mod i = 0 \<or> i_mod i = 1) \<and> i_rm i = 4"
    using f by (elim insertE emptyE; simp add: rm_key_def)
  show "rm_key i = 4 OR RM_MOD_2 \<longleftrightarrow> addr_size_override i = 0 \<and> i_mod i = 2 \<and> i_rm i = 4"
    using f by (elim insertE emptyE; simp add: rm_key_def)
  show "rm_key i = 5 OR RM_MOD_0 \<longleftrightarrow> addr_size_override i = 0 \<and> i_mod i = 0 \<and> i_rm i = 5"
    using f by (elim insertE emptyE; simp add: rm_key_def)
  show "rm_key i = 6 OR RM_MOD_0 OR RM_SIZE \<longleftrightarrow> addr_size_override i = 1 \<and> i_mod i = 0 \<and> i_rm i = 6"
    using f by (elim insertE emptyE; simp add: rm_key_def)
qed

text \<open>Both \<open>switch\<close> statements, with the flag bits of the direction abstracted.\<close>

lemma switch_form:
  fixes f M D8 D16 D32 R S :: "64 word" and a md rm :: byte
  assumes "f AND M = 0" and md: "md \<in> {0, 1, 2, 3}" and a: "a \<in> {0, 1}"
  defines "d \<equiv> (if md = 0 then M else if md = 1 then D8 else if md = 2 then 0 else R)"
  shows "(if a = 0 \<and> md = 2 \<and> rm \<noteq> 4 then (f OR d) OR D32
     else if a = 1 \<and> md = 2 then (f OR d) OR D16
     else if a = 0 \<and> (md = 0 \<or> md = 1) \<and> rm = 4 then (f OR d) OR S
     else if a = 0 \<and> md = 2 \<and> rm = 4 then (f OR d) OR (D32 OR S)
     else if a = 0 \<and> md = 0 \<and> rm = 5 then (f OR d) AND NOT M OR D32
     else if a = 1 \<and> md = 0 \<and> rm = 6 then (f OR d) AND NOT M OR D16
     else f OR d) =
   f OR ((case ea_form (a = 1) md rm 0 of EA_Reg \<Rightarrow> R | EA_Mem \<Rightarrow> M | EA_Disp8 \<Rightarrow> D8 | EA_Disp16 \<Rightarrow> D16 | EA_Disp32 \<Rightarrow> D32) OR
     (if ea_sib (a = 1) md rm then S else 0))"
  using md a unfolding d_def
  by (elim insertE emptyE; simp add: ea_form_def ea_sib_def clear_set [OF assms(1)] or.assoc)

lemma form_bit_case:
  "form_bit True e = (case e of EA_Reg \<Rightarrow> DST_REG | EA_Mem \<Rightarrow> DST_MEM | EA_Disp8 \<Rightarrow> DST_MEM_DISP_BYTE
     | EA_Disp16 \<Rightarrow> DST_MEM_DISP_WORD | EA_Disp32 \<Rightarrow> DST_MEM_DISP_DWORD)"
  "form_bit False e = (case e of EA_Reg \<Rightarrow> SRC_REG | EA_Mem \<Rightarrow> SRC_MEM | EA_Disp8 \<Rightarrow> SRC_MEM_DISP_BYTE
     | EA_Disp16 \<Rightarrow> SRC_MEM_DISP_WORD | EA_Disp32 \<Rightarrow> SRC_MEM_DISP_DWORD)"
  by (cases e; simp)+

lemma mod_decode:
  assumes "md \<in> {0, 1, 2, 3 :: byte}"
  shows "nth_res mod_dst_decode (unat md) =
      Inr (if md = 0 then DST_MEM else if md = 1 then DST_MEM_DISP_BYTE else if md = 2 then 0 else DST_REG)"
    and "nth_res mod_src_decode (unat md) =
      Inr (if md = 0 then SRC_MEM else if md = 1 then SRC_MEM_DISP_BYTE else if md = 2 then 0 else SRC_REG)"
  using assms by (elim insertE emptyE; simp add: mod_dst_decode_def mod_src_decode_def)+

lemma modrm_addr_modes:
  assumes "ea_ready i" and "wf_flags (i_flags i)"
  shows "decode_modrm_addr_modes i =
    Inr (i\<lparr>i_flags := i_flags i OR
      ea_flags (has (i_flags i) DIR_REVERSED) (addr_size_override i = 1) (i_mod i) (i_rm i) 0\<rparr>)"
proof -
  have md: "i_mod i \<in> {0, 1, 2, 3}" and a: "addr_size_override i \<in> {0, 1}"
    using assms(1) small_byte_cases by (auto simp: ea_ready_def)
  note none = wf_facts(2,3) [OF assms(2), unfolded has_def not_not]
  show ?thesis
    unfolding decode_modrm_addr_modes_def Let_def rm_key_cases [OF assms(1)] mod_decode [OF md] res_bind_simps
      switch_form [OF none(1) md a] switch_form [OF none(2) md a] ea_flags_def form_bit_case [symmetric]
    by (cases "has (i_flags i) DIR_REVERSED") (simp_all only: if_True if_False HOL.simp_thms)
qed

section \<open>Operand size and SIB byte\<close>

definition op_flags :: "byte \<Rightarrow> 64 word \<Rightarrow> 64 word" where
  "op_flags v f =
     (if v \<noteq> 0 then
        if has f WIDTH_DWORD then f AND NOT WIDTH_DWORD OR WIDTH_WORD
        else if has f WIDTH_QWORD then f AND NOT WIDTH_QWORD OR WIDTH_DWORD else f
      else f)"

lemma apply_op_size_flags: "apply_op_size i = i\<lparr>i_flags := op_flags (op_size_override i) (i_flags i)\<rparr>"
  by (simp add: apply_op_size_def op_flags_def)

lemma op_flags_other:
  assumes "X AND WIDTH_DWORD = 0" and "X AND WIDTH_WORD = 0" and "X AND WIDTH_QWORD = 0"
  shows "op_flags v f AND X = f AND X" and "op_flags v (f OR X) = op_flags v f OR X"
proof -
  have drop: "(f AND NOT M OR N) AND X = f AND X" if "X AND M = 0" "X AND N = 0" for M N
  proof (rule bit_word_eqI)
    fix n
    assume "n < LENGTH(64)"
    moreover have "\<not> bit (X AND M) n" "\<not> bit (X AND N) n" using that by simp_all
    ultimately show "bit ((f AND NOT M OR N) AND X) n \<longleftrightarrow> bit (f AND X) n" by (auto simp: bit_simps)
  qed
  have add: "(f OR X) AND NOT M OR N = (f AND NOT M OR N) OR X" if "X AND M = 0" for M N
  proof (rule bit_word_eqI)
    fix n
    assume "n < LENGTH(64)"
    moreover have "\<not> bit (X AND M) n" using that by simp
    ultimately show "bit ((f OR X) AND NOT M OR N) n \<longleftrightarrow> bit ((f AND NOT M OR N) OR X) n"
      by (auto simp: bit_simps)
  qed
  have no: "has (f OR X) M \<longleftrightarrow> has f M" if "X AND M = 0" for M
    using that by (simp add: has_or) (simp add: has_def)
  show "op_flags v f AND X = f AND X"
    unfolding op_flags_def by (auto simp only: drop [OF assms(1,2)] drop [OF assms(3,1)] split: if_splits)
  show "op_flags v (f OR X) = op_flags v f OR X"
    unfolding op_flags_def no [OF assms(1)] no [OF assms(3)] add [OF assms(1)] add [OF assms(3)] by simp
qed

lemma op_flags_wf: "wf_flags f \<Longrightarrow> wf_flags (op_flags v f)"
  unfolding wf_flags_def has_def by (subst (1 2) op_flags_other(1)) simp_all

lemma op_flags_has:
  "has (op_flags v f) MOD_RM \<longleftrightarrow> has f MOD_RM" "has (op_flags v f) DIR_REVERSED \<longleftrightarrow> has f DIR_REVERSED"
  unfolding has_def by (subst op_flags_other(1); simp)+

lemma op_flags_ea: "op_flags v (f OR ea_flags dir a16 md rm base) = op_flags v f OR ea_flags dir a16 md rm base"
  by (rule op_flags_other(2); cases "ea_form a16 md rm base"; simp add: ea_flags_def)

lemma disjoint_bits: "F AND M = 0 \<Longrightarrow> \<not> (bit F n \<and> bit M n)" for F :: "64 word"
  by (metis bit_and_iff bit_0_eq bot_apply bot_bool_def)

lemma sib_clear: "F AND M = 0 \<Longrightarrow> S AND M = 0 \<Longrightarrow> (F OR (M OR S)) AND NOT M OR D = F OR (D OR S)" for F :: "64 word"
  using disjoint_bits [of F M] disjoint_bits [of S M] by (intro bit_word_eqI) (auto simp: bit_simps)

lemma sib_keep: "F AND M = 0 \<Longrightarrow> S AND M = 0 \<Longrightarrow> D AND M = 0 \<Longrightarrow> (F OR (D OR S)) AND NOT M OR D = F OR (D OR S)" for F :: "64 word"
  using disjoint_bits [of F M] disjoint_bits [of S M] disjoint_bits [of D M]
  by (intro bit_word_eqI) (auto simp: bit_simps)

definition sib_fields :: "byte \<Rightarrow> x86_instr \<Rightarrow> x86_instr" where
  "sib_fields sib i = i\<lparr>i_scale := drop_bit 6 (sib AND 0xc0), i_idx := drop_bit 3 (sib AND 0x38), i_base := sib AND 0x07\<rparr>"

lemma sib_switch:
  fixes F M D8 D32 S :: "64 word" and md :: byte
  assumes "F AND M = 0" "S AND M = 0" "D8 AND M = 0" "D32 AND M = 0" and md: "md \<in> {0, 1, 2}"
  shows "res_bind (nth_res [D32, D8, D32] (unat md)) (\<lambda>d.
      Inr (h ((F OR ((if md = 0 then M else if md = 1 then D8 else D32) OR S)) AND NOT M OR d))) =
    Inr (h (F OR ((if md = 1 then D8 else D32) OR S)))"
  using md by (elim insertE emptyE; simp add: nth_res_def sib_clear [OF assms(1,2)] sib_keep [OF assms(1,2,3)] sib_keep [OF assms(1,2,4)])

lemma ea_flags_sib:
  assumes "ea_sib a16 md rm" and "md \<in> {0, 1, 2, 3}"
  shows "md \<in> {0, 1, 2}"
    and "base \<noteq> 5 \<Longrightarrow> ea_flags True a16 md rm base =
      (if md = 0 then DST_MEM else if md = 1 then DST_MEM_DISP_BYTE else DST_MEM_DISP_DWORD) OR SIB"
    and "base \<noteq> 5 \<Longrightarrow> ea_flags False a16 md rm base =
      (if md = 0 then SRC_MEM else if md = 1 then SRC_MEM_DISP_BYTE else SRC_MEM_DISP_DWORD) OR SIB"
    and "ea_flags True a16 md rm 5 = (if md = 1 then DST_MEM_DISP_BYTE else DST_MEM_DISP_DWORD) OR SIB"
    and "ea_flags False a16 md rm 5 = (if md = 1 then SRC_MEM_DISP_BYTE else SRC_MEM_DISP_DWORD) OR SIB"
proof -
  have s: "\<not> a16" "rm = 4" "md \<noteq> 3" using assms(1) by (simp_all add: ea_sib_def)
  show m: "md \<in> {0, 1, 2}" using assms(2) s(3) by blast
  show "base \<noteq> 5 \<Longrightarrow> ea_flags True a16 md rm base =
      (if md = 0 then DST_MEM else if md = 1 then DST_MEM_DISP_BYTE else DST_MEM_DISP_DWORD) OR SIB"
    "base \<noteq> 5 \<Longrightarrow> ea_flags False a16 md rm base =
      (if md = 0 then SRC_MEM else if md = 1 then SRC_MEM_DISP_BYTE else SRC_MEM_DISP_DWORD) OR SIB"
    "ea_flags True a16 md rm 5 = (if md = 1 then DST_MEM_DISP_BYTE else DST_MEM_DISP_DWORD) OR SIB"
    "ea_flags False a16 md rm 5 = (if md = 1 then SRC_MEM_DISP_BYTE else SRC_MEM_DISP_DWORD) OR SIB"
    using m s by (elim insertE emptyE; simp add: ea_flags_def ea_form_def ea_sib_def)+
qed

lemma sib_byte:
  assumes "ea_ready i" and "wf_flags F" and "ea_sib a16 (i_mod i) (i_rm i)"
    and "i_flags i = F OR ea_flags (has F DIR_REVERSED) a16 (i_mod i) (i_rm i) 0"
  shows "decode_sib_byte i sib =
    Inr ((sib_fields sib i)\<lparr>i_flags := F OR ea_flags (has F DIR_REVERSED) a16 (i_mod i) (i_rm i) (sib AND 7)\<rparr>)"
proof -
  have md: "i_mod i \<in> {0, 1, 2, 3}" using assms(1) small_byte_cases by (auto simp: ea_ready_def)
  note ea = ea_flags_sib [OF assms(3) md]
  have dir: "has (i_flags i) DIR_REVERSED \<longleftrightarrow> has F DIR_REVERSED"
  proof -
    have "\<not> has (ea_flags d a16 (i_mod i) (i_rm i) 0) DIR_REVERSED" for d
      by (cases "ea_form a16 (i_mod i) (i_rm i) 0"; simp add: ea_flags_def has_def)
    then show ?thesis unfolding assms(4) has_or by blast
  qed
  note none = wf_facts(2,3) [OF assms(2), unfolded has_def not_not]
  show ?thesis
  proof (cases "sib AND 7 = 5")
    case False
    then have "ea_flags d a16 (i_mod i) (i_rm i) 0 = ea_flags d a16 (i_mod i) (i_rm i) (sib AND 7)" for d
      using ea(2,3) by (cases d) simp_all
    with False show ?thesis by (simp add: decode_sib_byte_def sib_fields_def Let_def assms(4))
  next
    case True
    show ?thesis
    proof (cases "has F DIR_REVERSED")
      case d: True
      show ?thesis
        using sib_switch [OF none(2) _ _ _ ea(1), of SIB DST_MEM_DISP_BYTE DST_MEM_DISP_DWORD "\<lambda>f. (sib_fields sib i)\<lparr>i_flags := f\<rparr>"]
          dir d True assms(4) ea(2) [of 0] ea(4)
        by (simp add: decode_sib_byte_def sib_fields_def Let_def sib_dst_decode_def)
    next
      case d: False
      show ?thesis
        using sib_switch [OF none(1) _ _ _ ea(1), of SIB SRC_MEM_DISP_BYTE SRC_MEM_DISP_DWORD "\<lambda>f. (sib_fields sib i)\<lparr>i_flags := f\<rparr>"]
          dir d True assms(4) ea(3) [of 0] ea(5)
        by (simp add: decode_sib_byte_def sib_fields_def Let_def sib_src_decode_def)
    qed
  qed
qed

section \<open>Trailing fields\<close>

text \<open>
  The bytes that follow the addressing bytes, from the flags of the instruction: immediate,
  relative target or absolute address.
\<close>

definition op_width :: "64 word \<Rightarrow> nat" where
  "op_width f =
     (if f AND WIDTH_MASK = WIDTH_DWORD then 4 else if f AND WIDTH_MASK = WIDTH_WORD then 2
      else if f AND WIDTH_MASK = WIDTH_BYTE then 1 else 0)"

definition imm_length :: "64 word \<Rightarrow> nat" where
  "imm_length f =
     (if has f (SRC_IMM8 OR OP3_IMM8) then 1 else 0) + (if has f DST_IMM16 then 2 else 0) +
     (if has f SRC_IMM48 then 2 else 0) +
     (if has f (SRC_IMM48 OR OP3_IMM) then if has f WIDTH_DWORD then 4 else 2 else 0) +
     (if has f SRC_IMM then op_width f else 0)"

definition tail_length :: "64 word \<Rightarrow> bool \<Rightarrow> nat" where
  "tail_length f a16 =
     (if has f MOFFSET_MASK then if a16 then 2 else 4 else 0) + imm_length f +
     (if has f REL_MASK then op_width f else 0)"

text \<open>What reading a field leaves alone.\<close>

definition same_head :: "x86_instr \<Rightarrow> x86_instr \<Rightarrow> bool" where
  "same_head i j \<longleftrightarrow>
     i_opcode_byte j = i_opcode_byte i \<and> i_mod j = i_mod i \<and> i_rm j = i_rm i \<and> i_reg_opc j = i_reg_opc i \<and>
     i_opcode j = i_opcode i \<and> i_prefix_values j = i_prefix_values i \<and>
     i_src j = i_src i \<and> i_dst j = i_dst i \<and> i_third j = i_third i"

lemma same_head_refl [simp]: "same_head i i"
  by (simp add: same_head_def)

lemma same_head_trans: "same_head i j \<Longrightarrow> same_head j k \<Longrightarrow> same_head i k"
  by (simp add: same_head_def)

definition kind_facts :: "64 word \<Rightarrow> bool" where
  "kind_facts a \<longleftrightarrow>
     (let k = a AND (SRC_IMM8 OR SRC_IMM48 OR OP3_IMM_MASK OR DST_IMM16) in
      (k = 0 \<or> k = SRC_IMM8 \<or> k = SRC_IMM48 \<or> k = SRC_IMM8 OR DST_IMM16 \<or> k = OP3_IMM8 \<or> k = OP3_IMM) \<and>
      (if has a SRC_IMM then k = 0 else True) \<and>
      (if has a IMM_MASK then True else k = 0) \<and> (if has a DST_IMM16 then has a IMM_MASK else True) \<and>
      (if has a IMM_MASK then \<not> has a (MOFFSET_MASK OR REL_MASK) else True) \<and>
      (if has a MOFFSET_MASK then \<not> has a REL_MASK else True) \<and>
      (if has a (SRC_IMM48 OR DST_IMM16) then \<not> has a MOD_RM else True) \<and>
      \<not> (has a MOFFSET_MASK \<and> has a MOD_RM))"

lemma kind_facts_all: "list_all kind_facts addrmods"
  by (simp add: addrmods_def kind_facts_def has_def Let_def)

lemma wf_kind: "wf_flags f \<Longrightarrow> kind_facts (f AND ADDRMOD_MASK)"
  using kind_facts_all by (simp add: wf_flags_def list_all_iff)

abbreviation KIND :: "64 word" where
  "KIND \<equiv> SRC_IMM8 OR SRC_IMM48 OR OP3_IMM_MASK OR DST_IMM16"

lemma kind_cases:
  assumes "kind_facts (f AND ADDRMOD_MASK)"
  obtains "f AND KIND = 0" | "f AND KIND = SRC_IMM8" | "f AND KIND = SRC_IMM48"
    | "f AND KIND = SRC_IMM8 OR DST_IMM16" | "f AND KIND = OP3_IMM8" | "f AND KIND = OP3_IMM"
proof -
  have "f AND KIND = (f AND ADDRMOD_MASK) AND KIND" by (rule mode_and) simp
  with assms that show thesis unfolding kind_facts_def Let_def by metis
qed

lemma decode_imm_length:
  assumes k: "kind_facts (f AND ADDRMOD_MASK)" and f: "i_flags i = f" and imm: "has f IMM_MASK"
  shows "\<exists>j. decode_imm m (i, pc) = (j, pc + of_nat (imm_length f)) \<and> same_head i j \<and>
    i_flags j = f \<and> i_disp j = i_disp i \<and> i_base j = i_base i \<and> i_idx j = i_idx i \<and> i_scale j = i_scale i"
proof -
  have sub: "has f X \<longleftrightarrow> has (f AND KIND) X" if "X AND KIND = X" for X by (rule mode_has [OF that])
  have bits: "has f (SRC_IMM8 OR OP3_IMM8) \<longleftrightarrow> has (f AND KIND) (SRC_IMM8 OR OP3_IMM8)"
    "has f DST_IMM16 \<longleftrightarrow> has (f AND KIND) DST_IMM16" "has f SRC_IMM48 \<longleftrightarrow> has (f AND KIND) SRC_IMM48"
    "has f (SRC_IMM48 OR OP3_IMM) \<longleftrightarrow> has (f AND KIND) (SRC_IMM48 OR OP3_IMM)"
    by (rule sub; simp)+
  have simm: "has f SRC_IMM \<longleftrightarrow> f AND KIND = 0"
  proof -
    have t: "has f X \<longleftrightarrow> has (f AND ADDRMOD_MASK) X" "f AND X = (f AND ADDRMOD_MASK) AND X"
      if "X AND ADDRMOD_MASK = X" for X using mode_has [OF that] mode_and [OF that] by blast+
    have e: "IMM_MASK = SRC_IMM OR (SRC_IMM8 OR SRC_IMM48 OR OP3_IMM_MASK)" by simp
    have "has f SRC_IMM \<or> has f (SRC_IMM8 OR SRC_IMM48 OR OP3_IMM_MASK)" using imm unfolding e has_or_mask by blast
    moreover have "\<not> has f (SRC_IMM8 OR SRC_IMM48 OR OP3_IMM_MASK)" if "f AND KIND = 0"
      using sub [of "SRC_IMM8 OR SRC_IMM48 OR OP3_IMM_MASK"] that by (simp add: has_def)
    moreover have "f AND KIND = 0" if "has f SRC_IMM"
      using k that t(1) [of SRC_IMM] t(2) [of KIND] by (simp add: kind_facts_def Let_def)
    ultimately show ?thesis by blast
  qed
  define kind where "kind = f AND KIND"
  have kc: "kind = 0 \<or> kind = SRC_IMM8 \<or> kind = SRC_IMM48 \<or> kind = SRC_IMM8 OR DST_IMM16 \<or> kind = OP3_IMM8 \<or>
      kind = OP3_IMM"
    unfolding kind_def by (rule kind_cases [OF k]) blast+
  have len: "imm_length f =
      (if kind = 0 then op_width f else if kind = SRC_IMM8 then 1
       else if kind = SRC_IMM48 then if has f WIDTH_DWORD then 6 else 4
       else if kind = SRC_IMM8 OR DST_IMM16 then 3 else if kind = OP3_IMM8 then 1
       else if has f WIDTH_DWORD then 4 else 2)"
    unfolding imm_length_def bits simm kind_def [symmetric]
    using kc by (elim disjE; simp add: has_def)
  have imm: "decode_imm m (i, pc) =
      (if kind = SRC_IMM8 then (i\<lparr>i_imm0 := ucast (m pc)\<rparr>, pc + 1)
       else if kind = SRC_IMM48 then
         if has f WIDTH_DWORD then (i\<lparr>i_imm0 := fst (read_u32 m pc), i_imm1 := ucast (fst (read_u16 m (pc + 4)))\<rparr>, pc + 6)
         else (i\<lparr>i_imm0 := ucast (fst (read_u16 m pc)), i_imm1 := ucast (fst (read_u16 m (pc + 2)))\<rparr>, pc + 4)
       else if kind = SRC_IMM8 OR DST_IMM16 then
         (i\<lparr>i_imm1 := ucast (fst (read_u16 m pc)), i_imm0 := ucast (m (pc + 2))\<rparr>, pc + 3)
       else if kind = OP3_IMM8 then (i\<lparr>i_imm0 := ucast (m pc)\<rparr>, pc + 1)
       else if kind = OP3_IMM then
         if has f WIDTH_DWORD then (i\<lparr>i_imm0 := fst (read_u32 m pc)\<rparr>, pc + 4)
         else (i\<lparr>i_imm0 := ucast (fst (read_u16 m pc))\<rparr>, pc + 2)
       else if f AND WIDTH_MASK = WIDTH_DWORD then (i\<lparr>i_imm0 := fst (read_u32 m pc)\<rparr>, pc + 4)
       else if f AND WIDTH_MASK = WIDTH_WORD then (i\<lparr>i_imm0 := ucast (fst (read_u16 m pc))\<rparr>, pc + 2)
       else if f AND WIDTH_MASK = WIDTH_BYTE then (i\<lparr>i_imm0 := ucast (m pc)\<rparr>, pc + 1)
       else (i, pc))"
    unfolding decode_imm_def Let_def prod.case f kind_def [symmetric]
    using kc by (elim disjE; simp add: read_u8_def read_u16_def read_u32_def Let_def)
  show ?thesis
    unfolding len imm using kc f by (elim disjE; simp add: same_head_def op_width_def)
qed

end
