(* ===== verification/X86_Fields.thy ===== *)
theory X86_Fields
  imports X86_Modes
begin

text \<open>
  The fields behind the addressing bytes, and the second half of the decoder from the static flags
  of the instruction on: what each stage reads, what it leaves alone, and how far it moves on.
\<close>

section \<open>Fields after the addressing bytes\<close>

abbreviation EA_BITS :: "64 word" where
  "EA_BITS \<equiv> SRC_REG OR DST_REG OR SRC_MEM OR DST_MEM OR MEM_DISP_MASK OR SIB"

lemma ea_flags_bits: "ea_flags dir a16 md rm base AND EA_BITS = ea_flags dir a16 md rm base"
  by (cases "ea_form a16 md rm base"; simp add: ea_flags_def)

lemma ea_flags_other:
  assumes "X AND EA_BITS = 0"
  shows "(F OR ea_flags dir a16 md rm base) AND X = F AND X"
    and "has (F OR ea_flags dir a16 md rm base) X \<longleftrightarrow> has F X"
proof -
  define E where "E = ea_flags dir a16 md rm base"
  have "E AND X = (E AND EA_BITS) AND X" unfolding E_def ea_flags_bits ..
  also have "\<dots> = E AND (X AND EA_BITS)" by (simp only: ac_simps)
  finally have "E AND X = 0" by (simp only: assms and_zero_eq)
  then show "(F OR E) AND X = F AND X" by (simp add: bit.conj_disj_distrib2)
  then show "has (F OR E) X \<longleftrightarrow> has F X" by (simp add: has_def)
qed

fun disp_value :: "ram \<Rightarrow> addr \<Rightarrow> ea_form \<Rightarrow> 32 word" where
  "disp_value m pc EA_Disp8 = scast (m pc)"
| "disp_value m pc EA_Disp16 = scast (fst (read_s16 m pc))"
| "disp_value m pc EA_Disp32 = fst (read_s32 m pc)"
| "disp_value m pc _ = 0"

definition has_disp :: "ea_form \<Rightarrow> bool" where
  "has_disp e \<longleftrightarrow> e \<in> set [EA_Disp8, EA_Disp16, EA_Disp32]"

lemma ea_flags_disp:
  assumes "F AND MEM_DISP_MASK = 0"
  shows "(F OR ea_flags dir a16 md rm base) AND MEM_DISP_MASK =
    (if has_disp (ea_form a16 md rm base) then form_bit dir (ea_form a16 md rm base) else 0)"
  using assms
  by (cases "ea_form a16 md rm base")
     (simp_all add: bit.conj_disj_distrib2 [of F] ea_flags_def has_disp_def)

lemma ea_flags_SIB:
  assumes "\<not> has F SIB"
  shows "has (F OR ea_flags dir a16 md rm base) SIB \<longleftrightarrow> ea_sib a16 md rm"
  using assms
  by (cases "ea_form a16 md rm base")
     (simp_all only: has_or ea_flags_def, simp_all add: has_def)

lemma decode_disp_form:
  assumes "i_flags i AND MEM_DISP_MASK = (if has_disp e then form_bit dir e else 0)"
  shows "(if has (i_flags i) MEM_DISP_MASK then decode_disp m (i, pc) else (i, pc)) =
    (if has_disp e then (i\<lparr>i_disp := disp_value m pc e\<rparr>, pc + of_nat (ea_bytes e)) else (i, pc))"
proof -
  have "has (i_flags i) MEM_DISP_MASK \<longleftrightarrow> has_disp e"
    unfolding has_def assms by (cases e; simp add: has_disp_def)
  moreover have "decode_disp m (i, pc) = (i\<lparr>i_disp := disp_value m pc e\<rparr>, pc + of_nat (ea_bytes e))" if "has_disp e"
    using that unfolding decode_disp_def prod.case Let_def assms
    by (cases e; cases dir; simp add: has_disp_def read_s8_def read_s16_def read_s32_def Let_def)
  ultimately show ?thesis by simp
qed

lemma decode_imm_flags:
  assumes "i_flags i AND KIND = F AND KIND" and "i_flags i AND WIDTH_MASK = F AND WIDTH_MASK"
    and "has (i_flags i) WIDTH_DWORD \<longleftrightarrow> has F WIDTH_DWORD"
  shows "decode_imm m (i, pc) =
    (case decode_imm m (i\<lparr>i_flags := F\<rparr>, pc) of (j, pc') \<Rightarrow> (j\<lparr>i_flags := i_flags i\<rparr>, pc'))"
proof -
  have id: "i\<lparr>i_flags := i_flags i\<rparr> = i" by simp
  show ?thesis
    unfolding decode_imm_def Let_def prod.case assms x86_instr.simps
    by (simp add: read_u8_def read_u16_def read_u32_def Let_def id)
qed

text \<open>What reading a field after the displacement leaves alone.\<close>

definition same_fields :: "x86_instr \<Rightarrow> x86_instr \<Rightarrow> bool" where
  "same_fields i j \<longleftrightarrow> same_head i j \<and> i_flags j = i_flags i \<and> i_base j = i_base i \<and> i_idx j = i_idx i \<and> i_scale j = i_scale i"

lemma same_fields_refl [simp]: "same_fields i i"
  by (simp add: same_fields_def)

lemma same_fields_trans: "same_fields i j \<Longrightarrow> same_fields j k \<Longrightarrow> same_fields i k"
  by (auto simp: same_fields_def intro: same_head_trans)

text \<open>Flags that agree outside the bits the addressing bytes set.\<close>

definition agree :: "64 word \<Rightarrow> 64 word \<Rightarrow> bool" where
  "agree f F \<longleftrightarrow> f AND NOT EA_BITS = F AND NOT EA_BITS"

lemma agree_and:
  assumes "agree f F" and "X AND EA_BITS = 0"
  shows "f AND X = F AND X" and "has f X \<longleftrightarrow> has F X"
proof -
  have x: "X = NOT B AND X" if "X AND B = 0" for B :: "64 word"
    using disjoint_bits [OF that] by (intro bit_word_eqI) (auto simp: bit_simps)
  have "f AND (NOT B AND X) = F AND (NOT B AND X)" if "f AND NOT B = F AND NOT B" for B
    using that by (simp only: and.assoc [symmetric])
  from this [OF assms(1) [unfolded agree_def]] show "f AND X = F AND X"
    unfolding x [OF assms(2), symmetric] .
  then show "has f X \<longleftrightarrow> has F X" by (simp add: has_def)
qed

lemma agree_ea: "agree (F OR ea_flags dir a16 md rm base) F"
  unfolding agree_def by (rule ea_flags_other) (simp only: and.commute bit.conj_cancel_right)

lemma agree_refl: "agree f f"
  by (simp add: agree_def)

lemma agree_has:
  assumes "agree f F"
  shows "has f MOFFSET_MASK \<longleftrightarrow> has F MOFFSET_MASK" "has f IMM_MASK \<longleftrightarrow> has F IMM_MASK"
    "has f REL_MASK \<longleftrightarrow> has F REL_MASK" "has f WIDTH_DWORD \<longleftrightarrow> has F WIDTH_DWORD"
    "f AND WIDTH_MASK = F AND WIDTH_MASK" "f AND KIND = F AND KIND" "op_width f = op_width F"
    "has f MOD_RM \<longleftrightarrow> has F MOD_RM" "has f DIR_REVERSED \<longleftrightarrow> has F DIR_REVERSED"
proof -
  note a = agree_and [OF assms]
  show "has f MOFFSET_MASK \<longleftrightarrow> has F MOFFSET_MASK" "has f IMM_MASK \<longleftrightarrow> has F IMM_MASK"
    "has f REL_MASK \<longleftrightarrow> has F REL_MASK" "has f WIDTH_DWORD \<longleftrightarrow> has F WIDTH_DWORD"
    "has f MOD_RM \<longleftrightarrow> has F MOD_RM" "has f DIR_REVERSED \<longleftrightarrow> has F DIR_REVERSED"
    by (rule a(2); simp)+
  show w: "f AND WIDTH_MASK = F AND WIDTH_MASK" by (rule a(1)) simp
  show "f AND KIND = F AND KIND" by (rule a(1)) simp
  show "op_width f = op_width F" unfolding op_width_def w ..
qed

lemma moffset_step:
  "\<exists>j. decode_moffset m (i, pc) = (j, pc + of_nat (if addr_size_override i = 0 then 4 else 2)) \<and> same_fields i j"
  by (simp add: decode_moffset_def read_u16_def read_u32_def Let_def same_fields_def same_head_def)

lemma imm_step:
  assumes "wf_flags F" and "agree (i_flags i) F" and "has F IMM_MASK"
  shows "\<exists>j. decode_imm m (i, pc) = (j, pc + of_nat (imm_length F)) \<and> same_fields i j \<and> i_disp j = i_disp i"
proof -
  note a = agree_has [OF assms(2)]
  obtain j where j: "decode_imm m (i\<lparr>i_flags := F\<rparr>, pc) = (j, pc + of_nat (imm_length F))"
      "same_head (i\<lparr>i_flags := F\<rparr>) j" "i_disp j = i_disp i" "i_base j = i_base i" "i_idx j = i_idx i"
      "i_scale j = i_scale i"
    using decode_imm_length [OF wf_kind [OF assms(1)], of "i\<lparr>i_flags := F\<rparr>" m pc] assms(3) by auto
  then show ?thesis
    unfolding decode_imm_flags [OF a(6) a(5) a(4)] by (simp add: same_fields_def same_head_def)
qed

definition rel_value :: "ram \<Rightarrow> addr \<Rightarrow> nat \<Rightarrow> 32 word" where
  "rel_value m a w =
     (if w = 1 then scast (m a) else if w = 2 then scast (fst (read_s16 m a)) else fst (read_s32 m a))"

lemma rel_step:
  assumes "agree (i_flags i) F"
  shows "\<exists>j. decode_rel m (i, pc) = (j, pc + of_nat (op_width F)) \<and> same_fields i j \<and> i_disp j = i_disp i \<and>
    (op_width F \<noteq> 0 \<longrightarrow> i_imm0 j = rel_value m pc (op_width F))"
  unfolding agree_has(7) [OF assms, symmetric]
  by (simp add: decode_rel_def op_width_def rel_value_def read_s8_def read_s16_def read_s32_def Let_def same_fields_def same_head_def)

definition tail_fields :: "ram \<Rightarrow> x86_instr \<times> addr \<Rightarrow> x86_instr \<times> addr" where
  "tail_fields m s =
     (let s = (if has (i_flags (fst s)) MOFFSET_MASK then decode_moffset m s else s);
          s = (if has (i_flags (fst s)) IMM_MASK then decode_imm m s else s);
          s = (if has (i_flags (fst s)) REL_MASK then decode_rel m s else s)
      in s)"

lemma decode_fields_split:
  "decode_fields m (i, pc) =
     res_bind (if has (i_flags i) SIB then res_bind (decode_sib_byte i (m pc)) (\<lambda>instr. Inr (instr, pc + 1))
               else Inr (i, pc)) (\<lambda>s.
     Inr (tail_fields m (if has (i_flags (fst s)) MEM_DISP_MASK then decode_disp m s else s)))"
  by (simp only: decode_fields_def tail_fields_def Let_def prod.case)

lemma decode_tail:
  assumes "wf_flags F" and "agree (i_flags i) F" and "addr_size_override i \<in> {0, 1}"
  shows "\<exists>j.
    tail_fields m (i, pc) = (j, pc + of_nat (tail_length F (addr_size_override i = 1))) \<and>
    same_fields i j \<and> (\<not> has F MOFFSET_MASK \<longrightarrow> i_disp j = i_disp i) \<and>
    (has F REL_MASK \<and> op_width F \<noteq> 0 \<longrightarrow>
      i_imm0 j = rel_value m (pc + of_nat (tail_length F (addr_size_override i = 1)) - of_nat (op_width F)) (op_width F))"
proof -
  obtain j1 where j1: "(if has (i_flags i) MOFFSET_MASK then decode_moffset m (i, pc) else (i, pc)) =
      (j1, pc + of_nat (if has F MOFFSET_MASK then if addr_size_override i = 1 then 2 else 4 else 0))"
      "same_fields i j1" "\<not> has F MOFFSET_MASK \<longrightarrow> i_disp j1 = i_disp i"
    using moffset_step [of m i pc] assms(3) unfolding agree_has(1) [OF assms(2)]
    by (cases "has F MOFFSET_MASK") auto
  define p1 where "p1 = pc + of_nat (if has F MOFFSET_MASK then if addr_size_override i = 1 then 2 else 4 else 0)"
  have a1: "agree (i_flags j1) F" using assms(2) j1(2) by (simp add: same_fields_def)
  have imm0: "imm_length F = 0" if "\<not> has F IMM_MASK"
  proof -
    have k: "kind_facts (F AND ADDRMOD_MASK)" by (rule wf_kind [OF assms(1)])
    have "has F X \<longleftrightarrow> has (F AND ADDRMOD_MASK) X" if "X AND ADDRMOD_MASK = X" for X by (rule mode_has [OF that])
    from this [of IMM_MASK] this [of DST_IMM16] k that have "\<not> has F DST_IMM16"
      unfolding kind_facts_def Let_def by (simp split: if_splits)
    moreover have e: "IMM_MASK = (SRC_IMM OR SRC_IMM48) OR (SRC_IMM8 OR OP3_IMM8) OR (SRC_IMM48 OR OP3_IMM)" by simp
    ultimately show ?thesis using that unfolding imm_length_def e has_or_mask by simp
  qed
  obtain j2 where j2: "(if has (i_flags j1) IMM_MASK then decode_imm m (j1, p1) else (j1, p1)) =
      (j2, p1 + of_nat (imm_length F))" "same_fields j1 j2" "i_disp j2 = i_disp j1"
    using imm_step [OF assms(1) a1, of m p1] imm0 unfolding agree_has(2) [OF a1]
    by (cases "has F IMM_MASK") auto
  have a2: "agree (i_flags j2) F" using a1 j2(2) by (simp add: same_fields_def)
  obtain j3 where j3: "(if has (i_flags j2) REL_MASK then decode_rel m (j2, p1 + of_nat (imm_length F))
      else (j2, p1 + of_nat (imm_length F))) = (j3, p1 + of_nat (imm_length F) + of_nat (if has F REL_MASK then op_width F else 0))"
      "same_fields j2 j3" "i_disp j3 = i_disp j2"
      "has F REL_MASK \<and> op_width F \<noteq> 0 \<longrightarrow> i_imm0 j3 = rel_value m (p1 + of_nat (imm_length F)) (op_width F)"
    using rel_step [OF a2, of m "p1 + of_nat (imm_length F)"] unfolding agree_has(3) [OF a2]
    by (cases "has F REL_MASK") auto
  have "same_fields i j3" using j1(2) j2(2) j3(2) by (blast intro: same_fields_trans)
  moreover have fin: "pc + of_nat (tail_length F (addr_size_override i = 1)) =
      p1 + of_nat (imm_length F) + of_nat (if has F REL_MASK then op_width F else 0)"
    unfolding p1_def tail_length_def by (simp add: add.assoc)
  moreover have "p1 + of_nat (imm_length F) = pc + of_nat (tail_length F (addr_size_override i = 1)) - of_nat (op_width F)"
    if "has F REL_MASK"
    unfolding fin using that by simp
  ultimately show ?thesis
    unfolding tail_fields_def Let_def fst_conv j1(1) p1_def [symmetric] j2(1) j3(1) using j1(3) j2(3) j3(3,4) by auto
qed

section \<open>From the flags to the end of the instruction\<close>

text \<open>
  The address operand of an instruction with static flags \<open>F\<close> whose ModRM fields are \<open>md\<close> and
  \<open>rm\<close> and whose next byte is \<open>sib\<close>.
\<close>

definition sib_base :: "bool \<Rightarrow> byte \<Rightarrow> byte \<Rightarrow> byte \<Rightarrow> byte" where
  "sib_base a16 md rm sib = (if ea_sib a16 md rm then sib AND 7 else 0)"

definition modrm_flags :: "64 word \<Rightarrow> bool \<Rightarrow> byte \<Rightarrow> byte \<Rightarrow> byte \<Rightarrow> 64 word" where
  "modrm_flags F a16 md rm base =
     (if has F MOD_RM then F OR ea_flags (has F DIR_REVERSED) a16 md rm base else F)"

definition addr_bytes :: "64 word \<Rightarrow> bool \<Rightarrow> byte \<Rightarrow> byte \<Rightarrow> byte \<Rightarrow> nat" where
  "addr_bytes F a16 md rm sib =
     (if has F MOD_RM then (if ea_sib a16 md rm then 1 else 0) + ea_bytes (ea_form a16 md rm (sib_base a16 md rm sib)) else 0)"

lemma agree_modrm: "agree (modrm_flags F a16 md rm base) F"
  by (simp add: modrm_flags_def agree_ea agree_refl)

lemma modrm_flags_disp:
  assumes "wf_flags F"
  shows "modrm_flags F a16 md rm base AND MEM_DISP_MASK =
    (if has F MOD_RM \<and> has_disp (ea_form a16 md rm base) then form_bit (has F DIR_REVERSED) (ea_form a16 md rm base) else 0)"
  using ea_flags_disp [OF wf_facts(4) [OF assms, unfolded has_def not_not]] wf_facts(4) [OF assms, unfolded has_def not_not]
  unfolding modrm_flags_def by (cases "has F MOD_RM") (simp_all only: if_True if_False simp_thms)

lemma modrm_flags_SIB: "wf_flags F \<Longrightarrow> has (modrm_flags F a16 md rm base) SIB \<longleftrightarrow> has F MOD_RM \<and> ea_sib a16 md rm"
  using ea_flags_SIB [OF wf_facts(1)] wf_facts(1) by (simp add: modrm_flags_def)

lemma decode_fields_ok:
  assumes F: "wf_flags F" and i: "ea_ready i" and a16: "a16 = (addr_size_override i = 1)"
    and f: "i_flags i = modrm_flags F a16 (i_mod i) (i_rm i) 0"
    and base: "base = sib_base a16 (i_mod i) (i_rm i) (m pc)"
    and e: "e = ea_form a16 (i_mod i) (i_rm i) base"
    and p: "p = pc + (if has F MOD_RM \<and> ea_sib a16 (i_mod i) (i_rm i) then 1 else 0)"
  shows "\<exists>j. decode_fields m (i, pc) = Inr (j, pc + of_nat (addr_bytes F a16 (i_mod i) (i_rm i) (m pc) + tail_length F a16)) \<and>
    same_head i j \<and> i_flags j = modrm_flags F a16 (i_mod i) (i_rm i) base \<and>
    (has F MOD_RM \<and> has_disp e \<longrightarrow> i_disp j = disp_value m p e) \<and>
    (has F MOD_RM \<and> ea_sib a16 (i_mod i) (i_rm i) \<longrightarrow> i_base j = m pc AND 7 \<and>
       i_idx j = drop_bit 3 (m pc AND 0x38) \<and> i_scale j = drop_bit 6 (m pc AND 0xc0)) \<and>
    (has F REL_MASK \<and> op_width F \<noteq> 0 \<longrightarrow> i_imm0 j = rel_value m
       (pc + of_nat (addr_bytes F a16 (i_mod i) (i_rm i) (m pc) + tail_length F a16) - of_nat (op_width F)) (op_width F))"
proof -
  let ?md = "i_mod i" and ?rm = "i_rm i"
  let ?sib = "has F MOD_RM \<and> ea_sib a16 ?md ?rm"
  define k where "k = (if ?sib then (sib_fields (m pc) i)\<lparr>i_flags := modrm_flags F a16 ?md ?rm base\<rparr> else i)"
  have k_flags: "i_flags k = modrm_flags F a16 ?md ?rm base"
    using f base by (auto simp: k_def sib_base_def modrm_flags_def)
  have k_head: "same_head i k" by (simp add: k_def same_head_def sib_fields_def)
  have step1: "(if has (i_flags i) SIB then res_bind (decode_sib_byte i (m pc)) (\<lambda>instr. Inr (instr, pc + 1)) else Inr (i, pc)) =
      Inr (k, p)"
  proof (cases ?sib)
    case True
    then have "decode_sib_byte i (m pc) = Inr k"
      using sib_byte [OF i F, of a16 "m pc"] f base by (simp add: k_def modrm_flags_def sib_base_def)
    moreover have "has (i_flags i) SIB" using modrm_flags_SIB [OF F] True f by simp
    ultimately show ?thesis using True p by simp
  next
    case False
    then have "\<not> has (i_flags i) SIB" using modrm_flags_SIB [OF F] f by simp
    with False show ?thesis using p by (auto simp: k_def)
  qed
  define l where "l = (if has F MOD_RM \<and> has_disp e then k\<lparr>i_disp := disp_value m p e\<rparr> else k)"
  define q where "q = p + of_nat (if has F MOD_RM then ea_bytes e else 0)"
  have none: "i_flags k AND MEM_DISP_MASK = (if has F MOD_RM \<and> has_disp e then form_bit (has F DIR_REVERSED) e else 0)"
    unfolding k_flags e by (rule modrm_flags_disp [OF F])
  have step2: "(if has (i_flags k) MEM_DISP_MASK then decode_disp m (k, p) else (k, p)) = (l, q)"
  proof (cases "has F MOD_RM")
    case True
    then have "i_flags k AND MEM_DISP_MASK = (if has_disp e then form_bit (has F DIR_REVERSED) e else 0)"
      using none by (simp only: simp_thms)
    from decode_disp_form [OF this, of m p] True show ?thesis
      by (cases e; simp add: l_def q_def has_disp_def)
  next
    case False
    then have "\<not> has (i_flags k) MEM_DISP_MASK" using none unfolding has_def by (simp only: simp_thms if_False)
    with False show ?thesis by (simp only: l_def q_def simp_thms if_False) simp
  qed
  have l: "same_head i l" "i_flags l = modrm_flags F a16 ?md ?rm base" "i_base l = i_base k" "i_idx l = i_idx k" "i_scale l = i_scale k"
    using k_head k_flags by (auto simp: l_def same_head_def)
  have "addr_size_override l \<in> {0, 1}" "(addr_size_override l = 1) = a16"
    using i l(1) a16 by (simp_all add: ea_ready_def same_head_def)
  then obtain j where j: "tail_fields m (l, q) = (j, q + of_nat (tail_length F a16))"
      "same_fields l j" "\<not> has F MOFFSET_MASK \<longrightarrow> i_disp j = i_disp l"
      "has F REL_MASK \<and> op_width F \<noteq> 0 \<longrightarrow> i_imm0 j = rel_value m (q + of_nat (tail_length F a16) - of_nat (op_width F)) (op_width F)"
    using decode_tail [OF F, where i = l and m = m and pc = q] agree_modrm [of F] l(2) by fastforce
  have "decode_fields m (i, pc) = Inr (j, q + of_nat (tail_length F a16))"
    unfolding decode_fields_split step1 res_bind_simps fst_conv step2 j(1) ..
  moreover have fin: "q + of_nat (tail_length F a16) =
      pc + of_nat (addr_bytes F a16 ?md ?rm (m pc) + tail_length F a16)"
    by (simp add: q_def p addr_bytes_def e base)
  moreover have "same_head i j" "i_flags j = modrm_flags F a16 ?md ?rm base" "i_base j = i_base l" "i_idx j = i_idx l" "i_scale j = i_scale l"
    using l j(2) by (auto simp: same_fields_def intro: same_head_trans)
  moreover have "i_disp j = disp_value m p e" if "has F MOD_RM" "has_disp e"
    using that wf_facts(7) [OF F] j(3) by (simp add: l_def)
  ultimately show ?thesis using l j(4) unfolding fin by (auto simp: k_def sib_fields_def)
qed

end
