(* ===== verification/X86_Layout.thy ===== *)
theory X86_Layout
  imports X86_Fields
begin

text \<open>
  From an opcode entry to the end of the instruction: every entry the loop can stop at gives
  well-formed flags, and the instruction decoded from it is laid out as opcode, ModRM byte, SIB
  byte, displacement and trailing fields.
\<close>

section \<open>Static flags\<close>

text \<open>The flags an instruction has before its ModRM byte is looked at.\<close>

definition group_flags :: "64 word \<Rightarrow> 64 word \<Rightarrow> 64 word" where
  "group_flags f d =
     (let f = (if has d WIDTH_MASK then f AND NOT WIDTH_MASK else f);
          f = (if has d ADDRMOD_MASK then f AND NOT ADDRMOD_MASK else f) in f OR d)"

definition static_flags :: "x86_instr \<Rightarrow> nat \<Rightarrow> 64 word \<Rightarrow> 64 word" where
  "static_flags i g e = (if g \<le> 1 then i_flags i OR e AND NOT 0xFF else group_flags (i_flags i) e)"

lemma and_drop: "X AND M = 0 \<Longrightarrow> (f AND NOT M) AND X = f AND X" for X :: "64 word"
  using disjoint_bits [of X M] by (intro bit_word_eqI) (auto simp: bit_simps)

lemma group_flags_wf:
  assumes "wf_flags f" and "has f MOD_RM" and "member_check d" and "is_leaf_entry d"
  shows "wf_flags (group_flags f d)" and "has (group_flags f d) MOD_RM"
proof -
  define f' where "f' = (if has d WIDTH_MASK then f AND NOT WIDTH_MASK else f)"
  have f': "f' AND X = f AND X" if "X AND WIDTH_MASK = 0" for X
    using and_drop [OF that] by (simp add: f'_def)
  have G: "group_flags f d = (if has d ADDRMOD_MASK then f' AND NOT ADDRMOD_MASK OR d else f' OR d)"
    by (simp only: group_flags_def Let_def f'_def if_distrib [of "\<lambda>x. x OR d"])
  have sib: "f AND SIB = 0" using assms(1) by (simp add: wf_flags_def has_def)
  have "wf_flags (group_flags f d) \<and> has (group_flags f d) MOD_RM"
  proof (cases "has d ADDRMOD_MASK")
    case True
    then have d: "wf_flags d" "has d MOD_RM" using assms(3,4) by (simp_all add: member_check_def)
    have "group_flags f d AND ADDRMOD_MASK = d AND ADDRMOD_MASK"
      unfolding G if_P [OF True] by (rule bit_word_eqI) (auto simp: bit_simps)
    moreover have "(f' AND NOT ADDRMOD_MASK) AND SIB = f' AND SIB" by (rule and_drop) simp
    then have "group_flags f d AND SIB = d AND SIB"
      unfolding G if_P [OF True] bit.conj_disj_distrib2 using f' [of SIB] sib by (simp only: or.left_neutral) simp
    moreover have "has (group_flags f d) MOD_RM" unfolding G if_P [OF True] has_or using d(2) by blast
    ultimately show ?thesis using d(1) by (simp only: wf_flags_def has_def simp_thms)
  next
    case False
    then have d: "d AND ADDRMOD_MASK = 0" "d AND SIB = 0"
      using assms(3,4) unfolding member_check_def has_def by (simp_all only: if_True if_False simp_thms) 
    have "group_flags f d AND ADDRMOD_MASK = f AND ADDRMOD_MASK"
      unfolding G if_not_P [OF False] bit.conj_disj_distrib2 d(1) or.right_neutral by (rule f') simp
    moreover have "group_flags f d AND SIB = f AND SIB"
      unfolding G if_not_P [OF False] bit.conj_disj_distrib2 d(2) or.right_neutral by (rule f') simp
    moreover have "f' AND MOD_RM = f AND MOD_RM" by (rule f') simp
    then have "has (group_flags f d) MOD_RM"
      unfolding G if_not_P [OF False] has_or using assms(2) by (simp add: has_def)
    ultimately show ?thesis using assms(1) by (simp only: wf_flags_def has_def simp_thms)
  qed
  then show "wf_flags (group_flags f d)" and "has (group_flags f d) MOD_RM" by blast+
qed

lemma wf_flags_width:
  assumes "wf_flags f" and "w AND ADDRMOD_MASK = 0" and "w AND SIB = 0"
  shows "wf_flags (w OR f)"
  using assms unfolding wf_flags_def has_def bit.conj_disj_distrib2 by (simp only: or.left_neutral simp_thms)

section \<open>Where the opcode leads\<close>

definition opcode_length :: "ram \<Rightarrow> addr \<Rightarrow> nat" where
  "opcode_length m p = (if m p = 0x0F then 2 else 1)"

definition opcode_values :: "ram \<Rightarrow> addr \<Rightarrow> byte list \<Rightarrow> byte list" where
  "opcode_values m p values = (if m p = 0x0F then values[5 := 1] else values)"

definition wf_prefixes :: "byte list \<Rightarrow> bool" where
  "wf_prefixes values \<longleftrightarrow> list_all2 (\<le>) values [6, 2, 1, 1, 1, 1]"

definition modrm_fields :: "byte \<Rightarrow> x86_instr \<Rightarrow> bool" where
  "modrm_fields b i \<longleftrightarrow> i_mod i = drop_bit 6 (b AND 0xc0) \<and> i_reg_opc i = drop_bit 3 (b AND 0x38) \<and> i_rm i = b AND 7"

fun exit_ok :: "ram \<Rightarrow> addr \<Rightarrow> byte list \<Rightarrow> decode_exit \<Rightarrow> bool" where
  "exit_ok m p values (Undecodable i) \<longleftrightarrow> True"
| "exit_ok m p values (Decoded i g b e opcode q) \<longleftrightarrow>
     i_prefix_values i = opcode_values m p values \<and> wf_flags (static_flags i g e) \<and>
     (if g \<le> 1 then q = p + of_nat (opcode_length m p)
      else q = p + of_nat (opcode_length m p) + 1 \<and> has (static_flags i g e) MOD_RM \<and> modrm_fields (m (q - 1)) i)"

lemma wf_prefixes_set: "wf_prefixes values \<Longrightarrow> wf_prefixes (set_prefix b values)"
  unfolding wf_prefixes_def set_prefix_def legacy_prefixes_def
  by (auto simp: list_all2_Cons2 split: if_splits)

lemma wf_prefixes_values: "wf_prefixes vals \<Longrightarrow> wf_prefixes (prefix_values m pc n vals)"
  by (induction n arbitrary: pc vals) (simp_all add: wf_prefixes_set)

lemma wf_prefixes_opcode: "wf_prefixes values \<Longrightarrow> wf_prefixes (opcode_values m p values)"
  unfolding wf_prefixes_def opcode_values_def by (auto simp: list_all2_Cons2)

lemma wf_prefixes_zero: "wf_prefixes (replicate 6 0)"
  by (simp add: wf_prefixes_def numeral_eq_Suc)

lemma byte_le_1: "b \<le> 1 \<longleftrightarrow> b \<in> {0, 1}" for b :: byte
  using word_le_nat_alt [of b 1] by (auto simp: word_unat_eq_iff)

lemma wf_prefixesD:
  assumes "wf_prefixes values"
  shows "length values = 6" "values ! 3 \<in> {0, 1}" "values ! 4 \<in> {0, 1}"
  using assms by (auto simp: wf_prefixes_def list_all2_Cons2 byte_le_1)

lemma res_ok_leaf:
  assumes "is_leaf_entry e \<or> is_invalid_entry e"
    and "is_leaf_entry e \<Longrightarrow> exit_ok m p vals (Decoded i g b e (X86_OPCODE e) q)"
    and "is_diff_entry e \<Longrightarrow> X86_DIFF_SYNTAX e \<le> 16" and "op_size_override i \<in> {0, 1}" and "ui \<in> {0, 1}"
    and "b = 0x62 \<Longrightarrow> g \<le> 1"
  shows "res_ok (exit_ok m p vals) (leaf_step ui i g b e q)"
proof (cases "is_diff_entry e")
  case False
  with assms(1,2) show ?thesis
    by (auto simp: leaf_step_def is_leaf_entry_def is_invalid_entry_def)
next
  case True
  then have leaf: "is_leaf_entry e" and "X86_OPCODE e = 0" by (simp_all add: is_leaf_entry_def is_diff_entry_def)
  have bits: "unat (op_size_override i OR push_bit 1 ui) < 4"
    using assms(4,5) by auto
  have idx: "unat (X86_DIFF_SYNTAX e) < 17" using assms(3) [OF True] by (simp add: word_le_nat_alt)
  have row: "length (diff_syntax_opcodes ! unat (X86_DIFF_SYNTAX e)) = 4"
    using diff_lengths(1,2) idx by (simp add: list_all_length)
  have f62: "diff_syntax_flags_0x62 ! k AND ADDRMOD_MASK = 0" "diff_syntax_flags_0x62 ! k AND SIB = 0" if "k < 4" for k
  proof -
    have "list_all (\<lambda>w. w AND ADDRMOD_MASK = 0 \<and> w AND SIB = 0) diff_syntax_flags_0x62"
      by (simp add: diff_syntax_flags_0x62_def)
    then show "diff_syntax_flags_0x62 ! k AND ADDRMOD_MASK = 0" "diff_syntax_flags_0x62 ! k AND SIB = 0"
      using that by (simp_all add: list_all_length diff_lengths)
  qed
  have ok: "exit_ok m p vals (Decoded i g b e opcode q)" for opcode using assms(2) [OF leaf] unfolding exit_ok.simps .
  have ok62: "exit_ok m p vals (Decoded (i\<lparr>i_flags := i_flags i OR w\<rparr>) g b e opcode q)"
    if "b = 0x62" "w AND ADDRMOD_MASK = 0" "w AND SIB = 0" for w opcode
  proof -
    have g: "g \<le> 1" by (rule assms(6) [OF that(1)])
    have "wf_flags (w OR (i_flags i OR e AND NOT 0xFF))"
      using ok [of opcode] g by (intro wf_flags_width [OF _ that(2,3)]) (simp add: static_flags_def)
    moreover have "w OR (i_flags i OR e AND NOT 0xFF) = (i_flags i OR w) OR e AND NOT 0xFF" by (simp only: ac_simps)
    ultimately show ?thesis using ok [of opcode] g by (simp add: static_flags_def)
  qed
  have "leaf_step ui i g b e q = diff_syntax ui i g b e q"
    using True \<open>X86_OPCODE e = 0\<close> by (simp add: leaf_step_def)
  moreover have "res_ok (exit_ok m p vals) (diff_syntax ui i g b e q)"
    using ok ok62 f62 bits by (simp add: diff_syntax_def Let_def diff_lengths idx row del: exit_ok.simps)
  ultimately show ?thesis by simp
qed

lemma modrm_fields_decoded: "modrm_fields b (decode_modrm_fields i b)"
  by (simp add: modrm_fields_def decode_modrm_fields_def)

lemma res_ok_table:
  assumes g: "g \<le> 1" and np: "\<not> is_prefix_entry (decode_tables ! g ! unat b)"
    and i: "i_flags i = 0" "i_prefix_values i = opcode_values m p vals" "wf_prefixes vals"
    and ui: "ui \<in> {0, 1}" and q: "q = p + of_nat (opcode_length m p)"
  shows "res_ok (exit_ok m p vals) (table_step m ui i g b q)"
proof -
  define e where "e = decode_tables ! g ! unat b"
  have check: "entry_check e"
    using g table_one_check [of b] table_two_check(1) [of b] by (cases g; simp add: tables_0_1 e_def)
  have size: "op_size_override i \<in> {0, 1}"
    using wf_prefixesD(3) [OF wf_prefixes_opcode [OF i(3)]] i(2) by simp
  show ?thesis
  proof (cases "is_group_entry e")
    case False
    have "res_ok (exit_ok m p vals) (leaf_step ui i g b e q)"
    proof (rule res_ok_leaf)
      show "is_leaf_entry e \<or> is_invalid_entry e"
        using entry_cases [of e] False np by (auto simp: is_leaf_entry_def e_def)
      show "exit_ok m p vals (Decoded i g b e (X86_OPCODE e) q)" if "is_leaf_entry e"
        using check that i q g by (simp add: entry_check_def static_flags_def)
      show "X86_DIFF_SYNTAX e \<le> 16" if "is_diff_entry e" using check that by (simp add: entry_check_def)
    qed (use g size ui in simp_all)
    with False show ?thesis by (simp add: table_step_def Let_def e_def)
  next
    case True
    define j where "j = decode_modrm_fields (i\<lparr>i_opcode_byte := b, i_flags := e\<rparr>) (m q)"
    define g' where "g' = unat (X86_DECODE_GROUP e)"
    define d where "d = decode_tables ! g' ! unat (i_reg_opc j)"
    have e: "wf_flags e" "has e MOD_RM" "2 \<le> X86_DECODE_GROUP e" "X86_DECODE_GROUP e \<le> 10"
      using check True by (simp_all add: entry_check_def)
    then have g': "2 \<le> g'" "g' \<le> 10" by (simp_all add: g'_def word_le_nat_alt)
    have r: "unat (i_reg_opc j) < 8" unfolding j_def by (rule reg_opc_lt)
    have d: "member_check d" unfolding d_def by (rule group_table(2) [OF g' r])
    have jf: "i_flags j = e" "i_prefix_values j = i_prefix_values i"
      by (simp_all add: j_def decode_modrm_fields_def)
    have "res_ok (exit_ok m p vals) (leaf_step ui j g' (i_reg_opc j) d (q + 1))"
    proof (rule res_ok_leaf)
      show "is_leaf_entry d \<or> is_invalid_entry d"
        using entry_cases [of d] d by (auto simp: is_leaf_entry_def member_check_def)
      show "exit_ok m p vals (Decoded j g' (i_reg_opc j) d (X86_OPCODE d) (q + 1))" if "is_leaf_entry d"
        using group_flags_wf [OF e(1,2) d that] jf i(2) g' q modrm_fields_decoded [of "m q"]
        by (simp add: static_flags_def j_def)
      show "X86_DIFF_SYNTAX d \<le> 16" if "is_diff_entry d" using d that by (simp add: member_check_def)
      show "g' \<le> 1" if "i_reg_opc j = 0x62" using r that by simp
    qed (use size ui jf in simp_all)
    with True show ?thesis by (simp add: table_step_def Let_def e_def j_def g'_def d_def)
  qed
qed

lemma opcode_step_ok:
  assumes "\<not> legacy_prefix (m p)" and "i_flags i = 0" and "i_prefix_values i = vals" and "wf_prefixes vals" and "ui \<in> {0, 1}"
  shows "res_ok (exit_ok m p vals) (opcode_step m ui i p)"
proof (cases "m p = 0x0F")
  case True
  then show ?thesis
    unfolding opcode_step_def if_P [OF True]
    using assms table_two_check(2) [of "m (p + 1)"]
    by (intro res_ok_table) (simp_all add: tables_0_1 opcode_values_def opcode_length_def)
next
  case False
  then show ?thesis
    unfolding opcode_step_def if_not_P [OF False]
    using assms other_entry [OF assms(1)]
    by (intro res_ok_table) (simp_all add: tables_0_1 opcode_values_def opcode_length_def)
qed

section \<open>The whole decoder\<close>

text \<open>
  \<open>layout m p vals F j n\<close>: the instruction \<open>j\<close>, its operands not yet filled in, has the static
  flags \<open>F\<close>, the prefix values \<open>vals\<close> and \<open>n\<close> bytes from its opcode at \<open>p\<close> on, laid out as
  opcode, ModRM byte, SIB byte, displacement and trailing fields.
\<close>

definition layout :: "ram \<Rightarrow> addr \<Rightarrow> byte list \<Rightarrow> 64 word \<Rightarrow> x86_instr \<Rightarrow> nat \<Rightarrow> bool" where
  "layout m p vals F j n \<longleftrightarrow>
     (let a16 = (vals ! 3 = 1); q = p + of_nat (opcode_length m p); sib = m (q + 1);
          md = i_mod j; rm = i_rm j; base = sib_base a16 md rm sib; e = ea_form a16 md rm base;
          d = q + 1 + (if ea_sib a16 md rm then 1 else 0)
      in wf_flags F \<and> i_prefix_values j = vals \<and> i_flags j = modrm_flags F a16 md rm base \<and>
         n = opcode_length m p + (if has F MOD_RM then 1 else 0) + addr_bytes F a16 md rm sib + tail_length F a16 \<and>
         (has F MOD_RM \<longrightarrow> modrm_fields (m q) j \<and> (has_disp e \<longrightarrow> i_disp j = disp_value m d e) \<and>
            (ea_sib a16 md rm \<longrightarrow> i_base j = sib AND 7 \<and> i_idx j = drop_bit 3 (sib AND 0x38) \<and>
               i_scale j = drop_bit 6 (sib AND 0xc0))) \<and>
         (has F REL_MASK \<and> op_width F \<noteq> 0 \<longrightarrow>
            i_imm0 j = rel_value m (p + of_nat n - of_nat (op_width F)) (op_width F)))"

definition fill_operands :: "x86_instr \<Rightarrow> x86_instr" where
  "fill_operands j = decode_third_operand (decode_dst_operand (decode_src_operand j))"

lemma drop_bit_mask_lt:
  fixes b :: byte
  shows "unat (drop_bit 6 (b AND 0xc0)) < 4" "unat (b AND 7) < 8"
proof -
  have "drop_bit 6 (b AND 0xc0) = drop_bit 6 b AND mask 2" "b AND 7 = b AND mask 3"
    by (simp_all add: mask_eq_exp_minus_1)
  then show "unat (drop_bit 6 (b AND 0xc0)) < 4" "unat (b AND 7) < 8"
    using small_word_iff [of "drop_bit 6 (b AND 0xc0)" 2] small_word_iff [of "b AND 7" 3]
    by (auto simp: bit_simps)
qed

lemma modrm_fields_lt: "modrm_fields b i \<Longrightarrow> unat (i_mod i) < 4 \<and> unat (i_rm i) < 8"
  by (simp only: modrm_fields_def drop_bit_mask_lt simp_thms)

lemma decode_flags_ok:
  assumes ok: "exit_ok m p vals (Decoded i g b e opcode q)" and vals: "opcode_values m p vals ! 3 \<in> {0, 1}"
    and F: "F = static_flags i g e" and p': "p' = p + of_nat (opcode_length m p)"
  shows "\<exists>k. decode_flags m (i\<lparr>i_opcode := opcode\<rparr>) g b e q = Inr (k, if has F MOD_RM then p' + 1 else p') \<and>
    i_flags k = modrm_flags F (opcode_values m p vals ! 3 = 1) (i_mod k) (i_rm k) 0 \<and>
    i_prefix_values k = opcode_values m p vals \<and> (has F MOD_RM \<longrightarrow> modrm_fields (m p') k) \<and>
    i_opcode k = opcode \<and> i_opcode_byte k = (if g \<le> 1 then b else i_opcode_byte i)"
proof (cases "g \<le> 1")
  case True
  define j where "j = i\<lparr>i_opcode := opcode, i_opcode_byte := b, i_flags := F\<rparr>"
  have Fs: "wf_flags F" "q = p'" "i_prefix_values i = opcode_values m p vals" using ok True F p' by simp_all
  have eq: "decode_flags m (i\<lparr>i_opcode := opcode\<rparr>) g b e q =
      (if has F MOD_RM then res_bind (decode_modrm_addr_modes (decode_modrm_fields j (m q))) (\<lambda>instr. Inr (instr, q + 1))
       else Inr (j, q))"
    using True F by (simp add: decode_flags_def static_flags_def j_def Let_def)
  show ?thesis
  proof (cases "has F MOD_RM")
    case mod: True
    define k where "k = decode_modrm_fields j (m q)"
    have kf: "i_flags k = F" "i_prefix_values k = opcode_values m p vals" "modrm_fields (m q) k"
      "i_opcode k = opcode" "i_opcode_byte k = b"
      using Fs(3) by (simp_all add: k_def decode_modrm_fields_def j_def modrm_fields_def)
    have "ea_ready k" using kf vals modrm_fields_lt [OF kf(3)] by (simp add: ea_ready_def)
    from modrm_addr_modes [OF this] kf(1) Fs(1) mod
    have "decode_modrm_addr_modes k = Inr (k\<lparr>i_flags := modrm_flags F (opcode_values m p vals ! 3 = 1) (i_mod k) (i_rm k) 0\<rparr>)"
      using kf(2) by (simp add: modrm_flags_def)
    then show ?thesis
      unfolding eq if_P [OF mod] k_def [symmetric] using mod Fs(2) kf True by (simp add: modrm_fields_def)
  next
    case False
    with Fs True show ?thesis unfolding eq if_not_P [OF False] by (simp add: j_def modrm_flags_def)
  qed
next
  case False
  define j where "j = i\<lparr>i_opcode := opcode, i_flags := F\<rparr>"
  have Fs: "wf_flags F" "has F MOD_RM" "q = p' + 1" "i_prefix_values i = opcode_values m p vals" "modrm_fields (m p') i"
    using ok False F p' by auto
  have eq: "decode_flags m (i\<lparr>i_opcode := opcode\<rparr>) g b e q = res_bind (decode_modrm_addr_modes j) (\<lambda>instr. Inr (instr, q))"
    using False F by (simp add: decode_flags_def static_flags_def group_flags_def j_def Let_def)
  have jf: "i_flags j = F" "i_prefix_values j = opcode_values m p vals" "modrm_fields (m p') j"
      "i_opcode j = opcode" "i_opcode_byte j = i_opcode_byte i"
    using Fs by (simp_all add: j_def modrm_fields_def)
  have "ea_ready j" using jf vals modrm_fields_lt [OF jf(3)] by (simp add: ea_ready_def)
  from modrm_addr_modes [OF this] jf(1) Fs(1,2)
  have "decode_modrm_addr_modes j = Inr (j\<lparr>i_flags := modrm_flags F (opcode_values m p vals ! 3 = 1) (i_mod j) (i_rm j) 0\<rparr>)"
    using jf(2) by (simp add: modrm_flags_def)
  then show ?thesis unfolding eq using Fs jf False by (simp add: modrm_fields_def)
qed

lemma op_flags_modrm:
  "op_flags v (modrm_flags F a16 md rm base) = modrm_flags (op_flags v F) a16 md rm base"
  by (simp add: modrm_flags_def op_flags_has op_flags_ea)

lemma decode_rest_ok:
  assumes ok: "exit_ok m p vals (Decoded i g b e opcode q)" and vals: "opcode_values m p vals ! 3 \<in> {0, 1}"
  shows "\<exists>F j n. decode_rest m start i g b e opcode q = Inr ((fill_operands j)\<lparr>i_nr_bytes := p - start + of_nat n\<rparr>) \<and>
    layout m p (opcode_values m p vals) F j n \<and> F = op_flags (opcode_values m p vals ! 4) (static_flags i g e) \<and>
    i_opcode j = opcode \<and> i_opcode_byte j = (if g \<le> 1 then b else i_opcode_byte i)"
proof -
  define F0 where "F0 = static_flags i g e"
  define p' where "p' = p + of_nat (opcode_length m p)"
  define a16 where "a16 = (opcode_values m p vals ! 3 = 1)"
  obtain k where k: "decode_flags m (i\<lparr>i_opcode := opcode\<rparr>) g b e q = Inr (k, if has F0 MOD_RM then p' + 1 else p')"
      "i_flags k = modrm_flags F0 a16 (i_mod k) (i_rm k) 0" "i_prefix_values k = opcode_values m p vals"
      "has F0 MOD_RM \<longrightarrow> modrm_fields (m p') k"
      "i_opcode k = opcode" "i_opcode_byte k = (if g \<le> 1 then b else i_opcode_byte i)"
    using decode_flags_ok [OF ok vals F0_def p'_def] unfolding a16_def by blast
  define F where "F = op_flags (op_size_override k) F0"
  define k' where "k' = apply_op_size k"
  have F: "wf_flags F" "has F MOD_RM \<longleftrightarrow> has F0 MOD_RM"
    using ok op_flags_wf by (simp_all add: F_def F0_def op_flags_has)
  have k': "i_flags k' = modrm_flags F a16 (i_mod k') (i_rm k') 0" "i_prefix_values k' = opcode_values m p vals"
      "has F MOD_RM \<longrightarrow> modrm_fields (m p') k'"
      "i_opcode k' = opcode" "i_opcode_byte k' = (if g \<le> 1 then b else i_opcode_byte i)"
    using k(2-6) F(2) by (simp_all add: k'_def apply_op_size_flags op_flags_modrm F_def modrm_fields_def)
  define r where "r = (if has F MOD_RM then p' + 1 else p')"
  define base where "base = sib_base a16 (i_mod k') (i_rm k') (m r)"
  show ?thesis
  proof (cases "has F MOD_RM")
    case True
    then have "ea_ready k'" using k' vals modrm_fields_lt [of "m p'" k'] by (simp add: ea_ready_def)
    note fields = decode_fields_ok [where i = k' and m = m and pc = r and ?a16.0 = a16 and base = base,
      OF F(1) this _ _ base_def refl refl]
    obtain j where j: "decode_fields m (k', r) =
        Inr (j, r + of_nat (addr_bytes F a16 (i_mod k') (i_rm k') (m r) + tail_length F a16))"
      "same_head k' j" "i_flags j = modrm_flags F a16 (i_mod k') (i_rm k') base"
      "has_disp (ea_form a16 (i_mod k') (i_rm k') base) \<longrightarrow>
        i_disp j = disp_value m (r + (if ea_sib a16 (i_mod k') (i_rm k') then 1 else 0)) (ea_form a16 (i_mod k') (i_rm k') base)"
      "ea_sib a16 (i_mod k') (i_rm k') \<longrightarrow> i_base j = m r AND 7 \<and> i_idx j = drop_bit 3 (m r AND 0x38) \<and>
         i_scale j = drop_bit 6 (m r AND 0xc0)"
      "has F REL_MASK \<and> op_width F \<noteq> 0 \<longrightarrow> i_imm0 j = rel_value m (r +
         of_nat (addr_bytes F a16 (i_mod k') (i_rm k') (m r) + tail_length F a16) - of_nat (op_width F)) (op_width F)"
      using fields True k'(1,2) by (auto simp: a16_def)
    have r: "r = p' + 1" "p' = p + of_nat (opcode_length m p)" using True by (simp_all add: r_def p'_def)
    have rel: "has F REL_MASK \<and> op_width F \<noteq> 0 \<longrightarrow> i_imm0 j = rel_value m (p + of_nat
        (opcode_length m p + 1 + addr_bytes F a16 (i_mod k') (i_rm k') (m r) + tail_length F a16) - of_nat (op_width F)) (op_width F)"
      using j(6) by (simp add: r add_ac)
    show ?thesis
    proof (intro exI conjI)
      show "decode_rest m start i g b e opcode q = Inr ((fill_operands j)\<lparr>i_nr_bytes := p - start + of_nat
          (opcode_length m p + 1 + addr_bytes F a16 (i_mod k') (i_rm k') (m r) + tail_length F a16)\<rparr>)"
        using F(2) True j(1) by (simp add: decode_rest_def k(1) k'_def [symmetric] r_def fill_operands_def p'_def)
      show "layout m p (opcode_values m p vals) F j
          (opcode_length m p + 1 + addr_bytes F a16 (i_mod k') (i_rm k') (m r) + tail_length F a16)"
        using F(1) True j(2-5) k'(2,3) rel
        by (simp add: layout_def Let_def same_head_def a16_def [symmetric] r(1) p'_def [symmetric] base_def modrm_fields_def)
      show "F = op_flags (opcode_values m p vals ! 4) (static_flags i g e)" using k(3) by (simp add: F_def F0_def)
      show "i_opcode j = opcode" "i_opcode_byte j = (if g \<le> 1 then b else i_opcode_byte i)"
        using j(2) k'(4,5) by (simp_all add: same_head_def)
    qed
  next
    case False
    then have "\<not> has (i_flags k') SIB" "\<not> has (i_flags k') MEM_DISP_MASK"
      unfolding k'(1) has_def [of _ MEM_DISP_MASK] using modrm_flags_SIB [OF F(1)] modrm_flags_disp [OF F(1)]
      by (simp_all only: simp_thms if_False)
    then have "decode_fields m (k', p') = Inr (tail_fields m (k', p'))"
      unfolding decode_fields_split by simp
    moreover obtain j where j: "tail_fields m (k', p') = (j, p' + of_nat (tail_length F a16))" "same_fields k' j"
        "has F REL_MASK \<and> op_width F \<noteq> 0 \<longrightarrow> i_imm0 j = rel_value m (p' + of_nat (tail_length F a16) - of_nat (op_width F)) (op_width F)"
      using decode_tail [OF F(1), where i = k' and m = m and pc = p'] agree_modrm [of F] k'(1,2) vals
      unfolding a16_def by fastforce
    show ?thesis
    proof (intro exI conjI)
      show "decode_rest m start i g b e opcode q = Inr ((fill_operands j)\<lparr>i_nr_bytes := p - start + of_nat
          (opcode_length m p + tail_length F a16)\<rparr>)"
        using F(2) False j(1) calculation by (simp add: decode_rest_def k(1) k'_def [symmetric] fill_operands_def p'_def)
      show "layout m p (opcode_values m p vals) F j (opcode_length m p + tail_length F a16)"
        using F(1) False j(2,3) k'(1,2)
        by (simp add: layout_def Let_def same_fields_def same_head_def a16_def [symmetric] addr_bytes_def modrm_flags_def p'_def add.assoc)
      show "F = op_flags (opcode_values m p vals ! 4) (static_flags i g e)" using k(3) by (simp add: F_def F0_def)
      show "i_opcode j = opcode" "i_opcode_byte j = (if g \<le> 1 then b else i_opcode_byte i)"
        using j(2) k'(4,5) by (simp_all add: same_fields_def same_head_def)
    qed
  qed
qed

end
