(* ===== verification/X86_Correct.thy ===== *)
theory X86_Correct
  imports X86_Layout
begin

text \<open>
  The correctness of \<open>arch_x86_decode_instr\<close>: when it returns, that it stays in bounds, which
  opcodes it decodes, how many bytes it consumes and which operand the addressing bytes give.
\<close>

section \<open>What is decodable\<close>

definition opcode_entry :: "ram \<Rightarrow> addr \<Rightarrow> 64 word" where
  "opcode_entry m p =
     (let e = (if m p = 0x0F then decode_table_two ! unat (m (p + 1)) else decode_table_one ! unat (m p));
          modrm = m (p + of_nat (opcode_length m p))
      in if is_group_entry e then decode_tables ! unat (X86_DECODE_GROUP e) ! unat (drop_bit 3 (modrm AND 0x38)) else e)"

definition decodable :: "ram \<Rightarrow> addr \<Rightarrow> bool" where
  "decodable m p \<longleftrightarrow> is_leaf_entry (opcode_entry m p)"

lemma leaf_step_undecodable:
  "(case leaf_step ui i g b e q of Inl _ \<Rightarrow> False | Inr (Undecodable _) \<Rightarrow> True | Inr (Decoded _ _ _ _ _ _) \<Rightarrow> False) \<longleftrightarrow> \<not> is_leaf_entry e"
  by (auto simp: leaf_step_def is_leaf_entry_def diff_syntax_def Let_def res_bind_def split: sum.splits)

lemma opcode_step_undecodable:
  "(case opcode_step m ui i p of Inl _ \<Rightarrow> False | Inr (Undecodable _) \<Rightarrow> True | Inr (Decoded _ _ _ _ _ _) \<Rightarrow> False) \<longleftrightarrow> \<not> decodable m p"
  by (simp add: opcode_step_def table_step_def leaf_step_undecodable decodable_def opcode_entry_def opcode_length_def
    tables_0_1 Let_def decode_modrm_fields_def)

section \<open>One run of the decoder\<close>

abbreviation (input) run_values :: "ram \<Rightarrow> addr \<Rightarrow> nat \<Rightarrow> byte list" where
  "run_values m pc n \<equiv> opcode_values m (pc + of_nat n) (prefix_values m pc n (replicate 6 0))"

lemma loop_from_start:
  assumes "prefix_run m pc n"
  shows "decode_loop m ui zero_instr 0 (m pc) (pc + 1) =
    Some (opcode_step m ui (zero_instr\<lparr>i_prefix_values := prefix_values m pc n (replicate 6 0)\<rparr>) (pc + of_nat n))"
  using loop_run [OF assms, of zero_instr ui] by (simp add: zero_instr_def)

lemma prefix_run_end: "prefix_run m pc n \<Longrightarrow> \<not> legacy_prefix (m (pc + of_nat n))"
proof (induction n arbitrary: pc)
  case (Suc n)
  then have "\<not> legacy_prefix (m (pc + 1 + of_nat n))" by simp
  then show ?case by (simp add: add.assoc)
qed simp

lemma prefix_run_exists:
  assumes "\<not> legacy_prefix (m (pc + of_nat n))"
  shows "\<exists>k. prefix_run m pc k"
  using assms
proof (induction n arbitrary: pc)
  case 0
  then show ?case by (intro exI [of _ 0]) simp
next
  case (Suc n)
  show ?case
  proof (cases "legacy_prefix (m pc)")
    case True
    from Suc.IH [of "pc + 1"] Suc.prems obtain k where "prefix_run m (pc + 1) k" by (auto simp: add.assoc)
    with True show ?thesis by (intro exI [of _ "Suc k"]) simp
  next
    case False
    then show ?thesis by (intro exI [of _ 0]) simp
  qed
qed

lemma decode_run:
  assumes "prefix_run m pc n" and "ui \<in> {0, 1}"
  obtains (no) i where "\<not> decodable m (pc + of_nat n)" and "arch_x86_decode_instr m pc ui = Some (Inr (- 1, i))"
  | (yes) F j k i g b e q where "decodable m (pc + of_nat n)"
      and "arch_x86_decode_instr m pc ui = Some (Inr (0, (fill_operands j)\<lparr>i_nr_bytes := of_nat (n + k)\<rparr>))"
      and "layout m (pc + of_nat n) (run_values m pc n) F j k" and "wf_prefixes (run_values m pc n)"
      and "opcode_step m ui (zero_instr\<lparr>i_prefix_values := prefix_values m pc n (replicate 6 0)\<rparr>) (pc + of_nat n) =
        Inr (Decoded i g b e (i_opcode j) q)"
      and "i_opcode_byte j = (if g \<le> 1 then b else i_opcode_byte i)"
      and "F = op_flags (run_values m pc n ! 4) (static_flags i g e)"
      and "exit_ok m (pc + of_nat n) (prefix_values m pc n (replicate 6 0)) (Decoded i g b e (i_opcode j) q)"
proof -
  let ?vals = "prefix_values m pc n (replicate 6 0)" and ?p = "pc + of_nat n"
  let ?i = "zero_instr\<lparr>i_prefix_values := ?vals\<rparr>"
  have vals: "wf_prefixes ?vals" by (rule wf_prefixes_values [OF wf_prefixes_zero])
  have "res_ok (exit_ok m ?p ?vals) (opcode_step m ui ?i ?p)"
    by (rule opcode_step_ok [where m = m and p = "?p", OF prefix_run_end [OF assms(1)] _ _ vals assms(2)]) (simp_all add: zero_instr_def)
  then obtain x where x: "opcode_step m ui ?i ?p = Inr x" "exit_ok m ?p ?vals x" by (rule res_okE)
  have un: "(case x of Undecodable _ \<Rightarrow> True | Decoded _ _ _ _ _ _ \<Rightarrow> False) \<longleftrightarrow> \<not> decodable m ?p"
    using opcode_step_undecodable [of m ui ?i ?p] x(1) by simp
  show thesis
  proof (cases x)
    case (Undecodable i)
    with un x(1) show thesis by (intro no) (simp_all add: arch_x86_decode_instr_def loop_from_start [OF assms(1)])
  next
    case (Decoded i g b e opcode q)
    have v: "wf_prefixes (run_values m pc n)" by (rule wf_prefixes_opcode [OF vals])
    obtain F j k where r: "decode_rest m pc i g b e opcode q = Inr ((fill_operands j)\<lparr>i_nr_bytes := ?p - pc + of_nat k\<rparr>)"
        "layout m ?p (run_values m pc n) F j k" "i_opcode j = opcode" "i_opcode_byte j = (if g \<le> 1 then b else i_opcode_byte i)"
        "F = op_flags (run_values m pc n ! 4) (static_flags i g e)"
      using decode_rest_ok [OF x(2) [unfolded Decoded] wf_prefixesD(2) [OF v]] by blast
    show thesis
    proof (rule yes)
      show "decodable m ?p" using un Decoded by simp
      show "arch_x86_decode_instr m pc ui = Some (Inr (0, (fill_operands j)\<lparr>i_nr_bytes := of_nat (n + k)\<rparr>))"
        using x(1) Decoded r(1) by (simp add: arch_x86_decode_instr_def loop_from_start [OF assms(1)])
      show "opcode_step m ui ?i ?p = Inr (Decoded i g b e (i_opcode j) q)" using x(1) Decoded r(3) by simp
      show "exit_ok m ?p ?vals (Decoded i g b e (i_opcode j) q)" using x(2) unfolding Decoded r(3) .
    qed (fact r(2), fact v, fact r(4), fact r(5))
  qed
qed

lemma decode_diverges:
  assumes "\<And>n. legacy_prefix (m (pc + of_nat n))"
  shows "arch_x86_decode_instr m pc ui = None"
proof -
  have "decode_loop m ui zero_instr 0 (m pc) (pc + 1) = None"
  proof (rule ccontr)
    assume "decode_loop m ui zero_instr 0 (m pc) (pc + 1) \<noteq> None"
    then obtain r where "decode_loop m ui zero_instr 0 (m pc) (pc + 1) = Some r" by blast
    moreover have "legacy_prefix (m pc)" using assms [of 0] by simp
    moreover have "legacy_prefix (m (pc + 1 + of_nat n))" for n using assms [of "Suc n"] by (simp add: add.assoc)
    moreover have "length (i_prefix_values zero_instr) = 6" by (simp add: zero_instr_def)
    ultimately show False using loop_diverges [of m ui zero_instr 0 "m pc" "pc + 1" r] by blast
  qed
  then show ?thesis by (simp add: arch_x86_decode_instr_def)
qed

lemma decode_cases:
  assumes "ui \<in> {0, 1}"
  obtains (diverges) "arch_x86_decode_instr m pc ui = None" and "\<And>n. legacy_prefix (m (pc + of_nat n))"
  | (run) n where "prefix_run m pc n"
proof (cases "\<exists>n. \<not> legacy_prefix (m (pc + of_nat n))")
  case True
  then obtain n where "\<not> legacy_prefix (m (pc + of_nat n))" ..
  from prefix_run_exists [where m = m and pc = pc and n = n, OF this] obtain k where "prefix_run m pc k" ..
  then show thesis by (rule run)
next
  case False
  then have "legacy_prefix (m (pc + of_nat n))" for n by simp
  from diverges [OF decode_diverges [where m = m and pc = pc, OF this] this] show thesis .
qed

definition only_src :: "x86_instr \<Rightarrow> x86_instr \<Rightarrow> bool" where
  "only_src i j \<longleftrightarrow> (\<exists>operand. j = i\<lparr>i_src := operand\<rparr>)"

definition only_dst :: "x86_instr \<Rightarrow> x86_instr \<Rightarrow> bool" where
  "only_dst i j \<longleftrightarrow> (\<exists>operand. j = i\<lparr>i_dst := operand\<rparr>)"

definition only_third :: "x86_instr \<Rightarrow> x86_instr \<Rightarrow> bool" where
  "only_third i j \<longleftrightarrow> (\<exists>operand. j = i\<lparr>i_third := operand\<rparr>)"

lemma only_rules:
  "only_src i i" "only_src i (i\<lparr>i_src := operand\<rparr>)" "only_src i j \<Longrightarrow> only_src i k \<Longrightarrow> only_src i (if b then j else k)"
  "only_dst i i" "only_dst i (i\<lparr>i_dst := operand\<rparr>)" "only_dst i j \<Longrightarrow> only_dst i k \<Longrightarrow> only_dst i (if b then j else k)"
  "only_third i i" "only_third i (i\<lparr>i_third := operand\<rparr>)" "only_third i j \<Longrightarrow> only_third i k \<Longrightarrow> only_third i (if b then j else k)"
proof -
  have "i = i\<lparr>i_src := i_src i\<rparr>" "i = i\<lparr>i_dst := i_dst i\<rparr>" "i = i\<lparr>i_third := i_third i\<rparr>" by simp_all
  then show "only_src i i" "only_dst i i" "only_third i i" unfolding only_src_def only_dst_def only_third_def by blast+
qed (auto simp: only_src_def only_dst_def only_third_def)

lemma decode_operand_only:
  "only_src i (decode_src_operand i)" "only_dst i (decode_dst_operand i)" "only_third i (decode_third_operand i)"
  unfolding decode_src_operand_def decode_dst_operand_def decode_third_operand_def Let_def
  by (rule only_rules | assumption)+

lemma fill_operands_updates:
  "\<exists>s d t. fill_operands j = j\<lparr>i_src := s, i_dst := d, i_third := t\<rparr>"
proof -
  obtain s where s: "decode_src_operand j = j\<lparr>i_src := s\<rparr>" using decode_operand_only(1) [of j] by (auto simp: only_src_def)
  obtain d where d: "decode_dst_operand (j\<lparr>i_src := s\<rparr>) = j\<lparr>i_src := s, i_dst := d\<rparr>"
    using decode_operand_only(2) [of "j\<lparr>i_src := s\<rparr>"] by (auto simp: only_dst_def)
  obtain t where "decode_third_operand (j\<lparr>i_src := s, i_dst := d\<rparr>) = j\<lparr>i_src := s, i_dst := d, i_third := t\<rparr>"
    using decode_operand_only(3) [of "j\<lparr>i_src := s, i_dst := d\<rparr>"] by (auto simp: only_third_def)
  then show ?thesis unfolding fill_operands_def s d by blast
qed

lemma fill_operands_frame:
  "i_flags (fill_operands j) = i_flags j" "i_mod (fill_operands j) = i_mod j" "i_rm (fill_operands j) = i_rm j"
  "i_reg_opc (fill_operands j) = i_reg_opc j" "i_base (fill_operands j) = i_base j" "i_idx (fill_operands j) = i_idx j"
  "i_scale (fill_operands j) = i_scale j" "i_opcode (fill_operands j) = i_opcode j"
  "i_opcode_byte (fill_operands j) = i_opcode_byte j" "i_prefix_values (fill_operands j) = i_prefix_values j"
  "i_imm0 (fill_operands j) = i_imm0 j" "i_imm1 (fill_operands j) = i_imm1 j" "i_disp (fill_operands j) = i_disp j"
proof -
  obtain s d t where "fill_operands j = j\<lparr>i_src := s, i_dst := d, i_third := t\<rparr>" using fill_operands_updates by blast
  then show "i_flags (fill_operands j) = i_flags j" "i_mod (fill_operands j) = i_mod j" "i_rm (fill_operands j) = i_rm j"
    "i_reg_opc (fill_operands j) = i_reg_opc j" "i_base (fill_operands j) = i_base j" "i_idx (fill_operands j) = i_idx j"
    "i_scale (fill_operands j) = i_scale j" "i_opcode (fill_operands j) = i_opcode j"
    "i_opcode_byte (fill_operands j) = i_opcode_byte j" "i_prefix_values (fill_operands j) = i_prefix_values j"
    "i_imm0 (fill_operands j) = i_imm0 j" "i_imm1 (fill_operands j) = i_imm1 j" "i_disp (fill_operands j) = i_disp j"
    by simp_all
qed

section \<open>Lengths\<close>

lemma tail_length_flags: "agree f F \<Longrightarrow> tail_length f a16 = tail_length F a16"
proof -
  assume a: "agree f F"
  note b = agree_has [OF a]
  have "has f X \<longleftrightarrow> has F X" if "X AND EA_BITS = 0" for X by (rule agree_and(2) [OF a that])
  from this [of "SRC_IMM8 OR OP3_IMM8"] this [of DST_IMM16] this [of SRC_IMM48] this [of "SRC_IMM48 OR OP3_IMM"] this [of SRC_IMM]
  show ?thesis unfolding tail_length_def imm_length_def b by simp
qed

lemma op_width_le: "op_width f \<le> 4"
  by (simp add: op_width_def)

definition length_facts :: "64 word \<Rightarrow> bool" where
  "length_facts a \<longleftrightarrow>
     (if has a MOFFSET_MASK then \<not> has a (IMM_MASK OR DST_IMM16 OR REL_MASK) else True) \<and>
     (if has a REL_MASK then \<not> has a (IMM_MASK OR DST_IMM16) else True) \<and>
     (if has a SRC_IMM48 then \<not> has a (SRC_IMM OR SRC_IMM8 OR OP3_IMM_MASK OR DST_IMM16 OR MOD_RM) else True) \<and>
     (if has a DST_IMM16 then \<not> has a (SRC_IMM OR OP3_IMM_MASK OR MOD_RM) else True) \<and>
     (if has a OP3_IMM then \<not> has a (SRC_IMM OR SRC_IMM8 OR OP3_IMM8) else True) \<and>
     (if has a SRC_IMM then \<not> has a (SRC_IMM8 OR OP3_IMM8) else True)"

lemma length_facts_all: "list_all length_facts addrmods"
  by (simp add: addrmods_def length_facts_def has_def)

lemma tail_length_le:
  assumes "wf_flags F"
  shows "tail_length F a16 \<le> (if has F MOD_RM then 4 else 6)"
proof -
  define a where "a = F AND ADDRMOD_MASK"
  have facts: "length_facts a" using assms length_facts_all by (simp add: a_def wf_flags_def list_all_iff)
  have h: "has F X \<longleftrightarrow> has a X" if "X AND ADDRMOD_MASK = X" for X
    unfolding a_def by (rule mode_has [OF that])
  have hs: "has F MOFFSET_MASK \<longleftrightarrow> has a MOFFSET_MASK" "has F REL_MASK \<longleftrightarrow> has a REL_MASK"
    "has F (SRC_IMM8 OR OP3_IMM8) \<longleftrightarrow> has a (SRC_IMM8 OR OP3_IMM8)" "has F DST_IMM16 \<longleftrightarrow> has a DST_IMM16"
    "has F SRC_IMM48 \<longleftrightarrow> has a SRC_IMM48" "has F (SRC_IMM48 OR OP3_IMM) \<longleftrightarrow> has a (SRC_IMM48 OR OP3_IMM)"
    "has F SRC_IMM \<longleftrightarrow> has a SRC_IMM" "has F MOD_RM \<longleftrightarrow> has a MOD_RM"
    by (rule h; simp)+
  show ?thesis
    using facts op_width_le [of F]
    unfolding tail_length_def imm_length_def unfolding hs unfolding length_facts_def has_or_mask by (auto split: if_splits)
qed

section \<open>The address operand\<close>

text \<open>The addressing form the ModRM byte at \<open>q\<close> and the byte after it select, and whether the latter is a SIB byte.\<close>

definition ea_at :: "ram \<Rightarrow> addr \<Rightarrow> bool \<Rightarrow> ea_form" where
  "ea_at m q a16 = ea_form a16 (drop_bit 6 (m q)) (m q AND 7) (m (q + 1) AND 7)"

definition sib_at :: "ram \<Rightarrow> addr \<Rightarrow> bool \<Rightarrow> bool" where
  "sib_at m q a16 \<longleftrightarrow> ea_sib a16 (drop_bit 6 (m q)) (m q AND 7)"

definition ea_length :: "ram \<Rightarrow> addr \<Rightarrow> bool \<Rightarrow> nat" where
  "ea_length m q a16 = 1 + (if sib_at m q a16 then 1 else 0) + ea_bytes (ea_at m q a16)"

definition ea_type :: "ea_form \<Rightarrow> bool \<Rightarrow> x86_operand_type" where
  "ea_type e sib =
     (case e of EA_Reg \<Rightarrow> OPTYPE_REG
      | EA_Mem \<Rightarrow> (if sib then OPTYPE_SIB_MEM else OPTYPE_MEM)
      | _ \<Rightarrow> (if sib then OPTYPE_SIB_DISP else OPTYPE_MEM_DISP))"

definition address_operand :: "x86_instr \<Rightarrow> x86_operand" where
  "address_operand i = (if has (i_flags i) DIR_REVERSED then i_dst i else i_src i)"

lemma modrm_top: "drop_bit 6 (b AND 0xc0) = drop_bit 6 b" for b :: byte
proof -
  have "drop_bit 6 (b AND 0xc0) = drop_bit 6 b AND mask 2" by (simp add: mask_eq_exp_minus_1)
  also have "\<dots> = drop_bit 6 b"
    by (rule bit_word_eqI) (auto simp: bit_simps dest: bit_imp_le_length)
  finally show ?thesis .
qed

lemma ea_form_base: "ea_form a16 md rm (sib_base a16 md rm b) = ea_form a16 md rm (b AND 7)"
  by (simp add: ea_form_def sib_base_def ea_sib_def)

lemma fill_src: "i_src (fill_operands j) = i_src (decode_src_operand j)"
proof -
  obtain d where d: "decode_dst_operand (decode_src_operand j) = (decode_src_operand j)\<lparr>i_dst := d\<rparr>"
    using decode_operand_only(2) unfolding only_dst_def by blast
  obtain t where "decode_third_operand ((decode_src_operand j)\<lparr>i_dst := d\<rparr>) = (decode_src_operand j)\<lparr>i_dst := d, i_third := t\<rparr>"
    using decode_operand_only(3) unfolding only_third_def by blast
  with d show ?thesis by (simp add: fill_operands_def)
qed

lemma fill_dst: "\<exists>s. i_dst (fill_operands j) = i_dst (decode_dst_operand (j\<lparr>i_src := s\<rparr>))"
proof -
  obtain s where s: "decode_src_operand j = j\<lparr>i_src := s\<rparr>" using decode_operand_only(1) unfolding only_src_def by blast
  obtain t where "decode_third_operand (decode_dst_operand (j\<lparr>i_src := s\<rparr>)) = (decode_dst_operand (j\<lparr>i_src := s\<rparr>))\<lparr>i_third := t\<rparr>"
    using decode_operand_only(3) unfolding only_third_def by blast
  with s show ?thesis by (auto simp: fill_operands_def)
qed

text \<open>The operand a form gives, whichever side of the instruction it is on.\<close>

definition is_ea_operand :: "x86_operand \<Rightarrow> ea_form \<Rightarrow> bool \<Rightarrow> byte \<Rightarrow> 32 word \<Rightarrow> bool" where
  "is_ea_operand operand e sib rm d \<longleftrightarrow>
     o_type operand = ea_type e sib \<and> (\<not> sib \<longrightarrow> o_reg operand = rm) \<and> (has_disp e \<longrightarrow> o_disp operand = d)"

lemma src_ea_operand:
  assumes "i_flags j AND SRC_MASK = form_bit False e" and "has (i_flags j) SIB \<longleftrightarrow> sib"
    and "sib \<longrightarrow> e \<noteq> EA_Reg" and "has (i_flags j) MOD_RM" and "\<not> has (i_flags j) DIR_REVERSED"
  shows "is_ea_operand (i_src (decode_src_operand j)) e sib (i_rm j) (i_disp j)"
  unfolding decode_src_operand_def Let_def assms(1)
  using assms(2-5)
  by (cases e; cases sib; simp add: is_ea_operand_def ea_type_def has_disp_def decode_src_reg_def decode_src_mem_def)

lemma dst_ea_operand:
  assumes "i_flags j AND DST_MASK = form_bit True e" and "has (i_flags j) SIB \<longleftrightarrow> sib"
    and "sib \<longrightarrow> e \<noteq> EA_Reg" and "has (i_flags j) MOD_RM" and "has (i_flags j) DIR_REVERSED"
  shows "is_ea_operand (i_dst (decode_dst_operand j)) e sib (i_rm j) (i_disp j)"
  unfolding decode_dst_operand_def Let_def assms(1)
  using assms(2-5)
  by (cases e; cases sib; simp add: is_ea_operand_def ea_type_def has_disp_def decode_dst_reg_def decode_dst_mem_def)

lemma modrm_flags_side:
  assumes "wf_flags F" and "has F MOD_RM"
  shows "\<not> has F DIR_REVERSED \<Longrightarrow> modrm_flags F a16 md rm base AND SRC_MASK = form_bit False (ea_form a16 md rm base)"
    and "has F DIR_REVERSED \<Longrightarrow> modrm_flags F a16 md rm base AND DST_MASK = form_bit True (ea_form a16 md rm base)"
proof -
  have e: "ea_flags False a16 md rm base AND SRC_MASK = form_bit False (ea_form a16 md rm base)"
    "ea_flags True a16 md rm base AND DST_MASK = form_bit True (ea_form a16 md rm base)"
    by (cases "ea_form a16 md rm base"; simp add: ea_flags_def)+
  show "modrm_flags F a16 md rm base AND SRC_MASK = form_bit False (ea_form a16 md rm base)" if "\<not> has F DIR_REVERSED"
    unfolding modrm_flags_def if_P [OF assms(2)] bit.conj_disj_distrib2 wf_facts(6) [OF assms that] or.left_neutral
    using e(1) that by (simp only: )
  show "modrm_flags F a16 md rm base AND DST_MASK = form_bit True (ea_form a16 md rm base)" if "has F DIR_REVERSED"
    unfolding modrm_flags_def if_P [OF assms(2)] bit.conj_disj_distrib2 wf_facts(5) [OF assms that] or.left_neutral
    using e(2) that by (simp only: )
qed

lemma layout_operand:
  assumes l: "layout m p vals F j k" and r: "has F MOD_RM" and q: "q = p + of_nat (opcode_length m p)"
  shows "is_ea_operand (address_operand (fill_operands j)) (ea_at m q (vals ! 3 = 1)) (sib_at m q (vals ! 3 = 1)) (m q AND 7)
    (disp_value m (q + 1 + (if sib_at m q (vals ! 3 = 1) then 1 else 0)) (ea_at m q (vals ! 3 = 1)))"
proof -
  define a16 where "a16 = (vals ! 3 = 1)"
  define e where "e = ea_at m q a16"
  define sib where "sib = sib_at m q a16"
  have F: "wf_flags F" and mod: "modrm_fields (m q) j" using l r q by (auto simp: layout_def Let_def)
  then have md: "i_mod j = drop_bit 6 (m q)" "i_rm j = m q AND 7" using modrm_top [of "m q"] by (auto simp: modrm_fields_def)
  have e': "ea_form a16 (i_mod j) (i_rm j) (sib_base a16 (i_mod j) (i_rm j) (m (q + 1))) = e" "ea_sib a16 (i_mod j) (i_rm j) = sib"
    unfolding ea_form_base md by (simp_all add: e_def ea_at_def sib_def sib_at_def)
  have flags: "i_flags j = modrm_flags F a16 (i_mod j) (i_rm j) (sib_base a16 (i_mod j) (i_rm j) (m (q + 1)))"
    and disp: "has_disp e \<longrightarrow> i_disp j = disp_value m (q + 1 + (if sib then 1 else 0)) e"
    using l r unfolding layout_def Let_def a16_def [symmetric] q [symmetric] e' by auto
  have has: "has (i_flags j) SIB = sib" "has (i_flags j) MOD_RM" "has (i_flags j) DIR_REVERSED = has F DIR_REVERSED"
    using modrm_flags_SIB [OF F] r e'(2) agree_has(8,9) [OF agree_modrm] unfolding flags by simp_all
  have reg: "sib \<longrightarrow> e \<noteq> EA_Reg" by (auto simp: e_def ea_at_def sib_def sib_at_def ea_form_def ea_sib_def)
  show ?thesis
  proof (cases "has F DIR_REVERSED")
    case True
    obtain s where s: "i_dst (fill_operands j) = i_dst (decode_dst_operand (j\<lparr>i_src := s\<rparr>))" using fill_dst by blast
    have "is_ea_operand (i_dst (decode_dst_operand (j\<lparr>i_src := s\<rparr>))) e sib (i_rm j) (i_disp j)"
      using dst_ea_operand [of "j\<lparr>i_src := s\<rparr>" e sib] modrm_flags_side(2) [OF F r True] flags e' has reg True by simp
    then show ?thesis
      using s True has(3) disp md(2) unfolding a16_def [symmetric] e_def [symmetric] sib_def [symmetric]
      by (simp add: address_operand_def fill_operands_frame is_ea_operand_def)
  next
    case False
    have "is_ea_operand (i_src (decode_src_operand j)) e sib (i_rm j) (i_disp j)"
      using src_ea_operand [of j e sib] modrm_flags_side(1) [OF F r False] flags e' has reg False by simp
    then show ?thesis
      using fill_src [of j] False has(3) disp md(2) unfolding a16_def [symmetric] e_def [symmetric] sib_def [symmetric]
      by (simp add: address_operand_def fill_operands_frame is_ea_operand_def)
  qed
qed

section \<open>Lengths of layouts\<close>

lemma layout_length:
  assumes l: "layout m p vals F j k" and q: "q = p + of_nat (opcode_length m p)"
  shows "k = opcode_length m p + (if has F MOD_RM then ea_length m q (vals ! 3 = 1) else 0) + tail_length F (vals ! 3 = 1)"
    and "k \<le> 12" and "1 \<le> k"
proof -
  have F: "wf_flags F" and mod: "has F MOD_RM \<longrightarrow> modrm_fields (m q) j" using l q by (auto simp: layout_def Let_def)
  have md: "i_mod j = drop_bit 6 (m q)" "i_rm j = m q AND 7" if "has F MOD_RM"
    using mod that modrm_top [of "m q"] by (auto simp: modrm_fields_def)
  have k: "k = opcode_length m p + (if has F MOD_RM then 1 else 0) +
      addr_bytes F (vals ! 3 = 1) (i_mod j) (i_rm j) (m (q + 1)) + tail_length F (vals ! 3 = 1)"
    using l unfolding layout_def Let_def q [symmetric] by blast
  then show *: "k = opcode_length m p + (if has F MOD_RM then ea_length m q (vals ! 3 = 1) else 0) + tail_length F (vals ! 3 = 1)"
    using md by (simp add: addr_bytes_def ea_length_def ea_form_base ea_at_def sib_at_def)
  have "ea_length m q (vals ! 3 = 1) \<le> 6"
    by (cases "ea_at m q (vals ! 3 = 1)"; simp add: ea_length_def)
  moreover have "opcode_length m p \<le> 2" "1 \<le> opcode_length m p" by (simp_all add: opcode_length_def)
  ultimately show "k \<le> 12" "1 \<le> k"
    using * tail_length_le [OF F, of "vals ! 3 = 1"] by (cases "has F MOD_RM"; simp)+
qed

lemma decoded_length:
  assumes "prefix_run m pc n" and "use_intel \<in> {0, 1}" and "n < 2 ^ 30"
    and "arch_x86_decode_instr m pc use_intel = Some (Inr (0, i))"
  shows "arch_x86_instr_length i = int (unat (i_nr_bytes i)) \<and>
    n + 1 \<le> unat (i_nr_bytes i) \<and> unat (i_nr_bytes i) \<le> n + 12"
  using assms(1,2)
proof (cases rule: decode_run)
  case (no i')
  with assms(4) show ?thesis by simp
next
  case (yes F j k i' g b e q')
  then have i: "i_nr_bytes i = of_nat (n + k)" using assms(4) by auto
  have k: "k \<le> 12" "1 \<le> k" using layout_length(2,3) [OF yes(3) refl] by blast+
  with assms(3) have "n + k < 2 ^ 31" by simp
  then have u: "unat (i_nr_bytes i) = n + k"
    unfolding i unat_of_nat by (simp del: of_nat_add)
  have "sint (ucast (i_nr_bytes i) :: 32 word) = int (n + k)"
  proof -
    have "(ucast (i_nr_bytes i) :: 32 word) = of_nat (unat (i_nr_bytes i))" by simp
    then have "(ucast (i_nr_bytes i) :: 32 word) = of_nat (n + k)" unfolding u .
    moreover have "sint (of_nat (n + k) :: 32 word) = signed_take_bit 31 (int (n + k))" by (simp add: signed_of_nat del: of_nat_add)
    moreover have "signed_take_bit 31 (int (n + k)) = int (n + k)"
      using \<open>n + k < 2 ^ 31\<close> by (intro signed_take_bit_int_eq_self) simp_all
    ultimately show ?thesis by simp
  qed
  with u k show ?thesis by (simp add: arch_x86_instr_length_def)
qed

section \<open>Properties\<close>

text \<open>
  C22. The decoder returns exactly when the prefix bytes end: its loop puts no limit on them, and
  on memory that holds nothing but prefix bytes it runs forever.
\<close>

theorem x86_decode_returns:
  "(\<exists>r. arch_x86_decode_instr m pc use_intel = Some r) \<longleftrightarrow> (\<exists>n. \<not> legacy_prefix (m (pc + of_nat n)))"
proof
  assume r: "\<exists>r. arch_x86_decode_instr m pc use_intel = Some r"
  show "\<exists>n. \<not> legacy_prefix (m (pc + of_nat n))"
  proof (rule ccontr)
    assume "\<not> (\<exists>n. \<not> legacy_prefix (m (pc + of_nat n)))"
    then have "legacy_prefix (m (pc + of_nat n))" for n by simp
    from decode_diverges [where m = m and pc = pc, OF this] r show False by simp
  qed
next
  assume "\<exists>n. \<not> legacy_prefix (m (pc + of_nat n))"
  then obtain n where "\<not> legacy_prefix (m (pc + of_nat n))" ..
  from prefix_run_exists [where m = m and pc = pc and n = n, OF this] obtain k where "prefix_run m pc k" ..
  then show "\<exists>r. arch_x86_decode_instr m pc use_intel = Some r"
    by (simp add: arch_x86_decode_instr_def loop_from_start)
qed

text \<open>
  C23. Whatever the bytes, the decoder stays inside its tables: no lookup by opcode, group, prefix
  field, syntax or \<open>mod\<close> is out of bounds, and it returns 0 exactly when the opcode after the
  prefixes is defined, -1 otherwise.
\<close>

theorem x86_decode_safe:
  assumes "prefix_run m pc n" and "use_intel \<in> {0, 1}"
  shows "\<exists>i. arch_x86_decode_instr m pc use_intel = Some (Inr (if decodable m (pc + of_nat n) then 0 else - 1, i))"
  using assms by (rule decode_run) auto

text \<open>
  C24. The length of a decoded instruction is that of its parts: the prefixes, the opcode of one
  or two bytes, for an instruction with a ModRM byte that byte with the SIB byte and the
  displacement the architecture's tables ask for, and the immediate, relative or absolute field its
  flags name.
\<close>

theorem x86_decode_length:
  assumes "prefix_run m pc n" and "use_intel \<in> {0, 1}"
    and "arch_x86_decode_instr m pc use_intel = Some (Inr (0, i))"
  shows "i_nr_bytes i = of_nat (n + opcode_length m (pc + of_nat n) +
     (if has (i_flags i) MOD_RM
      then ea_length m (pc + of_nat n + of_nat (opcode_length m (pc + of_nat n))) (addr_size_override i = 1) else 0) +
     tail_length (i_flags i) (addr_size_override i = 1))"
  using assms(1,2)
proof (cases rule: decode_run)
  case (no i')
  with assms(3) show ?thesis by simp
next
  case (yes F j k i' g b e q')
  then have i: "i = (fill_operands j)\<lparr>i_nr_bytes := of_nat (n + k)\<rparr>" using assms(3) by simp
  have "agree (i_flags j) F" and "i_prefix_values j = run_values m pc n"
    using yes(3) agree_modrm by (auto simp: layout_def Let_def)
  with layout_length(1) [OF yes(3) refl] show ?thesis
    by (simp add: i fill_operands_frame tail_length_flags agree_has(8))
qed

text \<open>
  C25. An instruction has between one and twelve bytes after its prefixes, so with up to three
  prefixes it is within the fifteen bytes the architecture allows, and the \<open>int\<close> that
  \<open>arch_x86_instr_length\<close> returns is the number of bytes consumed.
\<close>

theorem x86_length_bound:
  assumes "prefix_run m pc n" and "use_intel \<in> {0, 1}" and "n < 2 ^ 30"
    and "arch_x86_decode_instr m pc use_intel = Some (Inr (0, i))"
  shows "arch_x86_instr_length i = int (unat (i_nr_bytes i)) \<and>
    n + 1 \<le> unat (i_nr_bytes i) \<and> unat (i_nr_bytes i) \<le> n + 12"
  using assms by (rule decoded_length)

text \<open>
  C26. The operand a ModRM byte describes is the one the architecture's ModRM and SIB tables give:
  register, memory, memory with displacement, with or without SIB byte, on the destination side for
  the reversed instructions and on the source side for the others, with the register number of the
  \<open>rm\<close> field and the displacement sign-extended from its bytes.
\<close>

theorem x86_effective_address:
  assumes "prefix_run m pc n" and "use_intel \<in> {0, 1}"
    and "arch_x86_decode_instr m pc use_intel = Some (Inr (0, i))" and "has (i_flags i) MOD_RM"
    and "a16 = (addr_size_override i = 1)"
    and "q = pc + of_nat n + of_nat (opcode_length m (pc + of_nat n))"
  shows "is_ea_operand (address_operand i) (ea_at m q a16) (sib_at m q a16) (m q AND 7)
    (disp_value m (q + 1 + (if sib_at m q a16 then 1 else 0)) (ea_at m q a16))"
  using assms(1,2)
proof (cases rule: decode_run)
  case (no i')
  with assms(3) show ?thesis by simp
next
  case (yes F j k i' g b e q')
  then have i: "i = (fill_operands j)\<lparr>i_nr_bytes := of_nat (n + k)\<rparr>" using assms(3) by simp
  have j: "agree (i_flags j) F" "i_prefix_values j = run_values m pc n"
    using yes(3) agree_modrm by (auto simp: layout_def Let_def)
  have "has F MOD_RM" using assms(4) agree_has(8) [OF j(1)] by (simp add: i fill_operands_frame)
  moreover have "(run_values m pc n ! 3 = 1) = a16" using assms(5) j(2) by (simp add: i fill_operands_frame)
  moreover have "address_operand i = address_operand (fill_operands j)" by (simp add: i address_operand_def)
  ultimately show ?thesis using layout_operand [OF yes(3) _ assms(6)] by simp
qed

section \<open>Witnesses\<close>

text \<open>Memory full of \<open>0x89\<close>, a \<open>MOV\<close> with a ModRM byte.\<close>

lemma entry_89: "decode_table_one ! 0x89 = X86_OPC_MOV OR ADDRMOD_REG_RM OR WIDTH_DWORD"
  by (simp add: decode_table_one_def decode_table_one_lo_def decode_table_one_hi_def nth_append)

lemma run_89: "prefix_run (\<lambda>_. 0x89) pc 0"
  by (simp add: legacy_prefix_def legacy_prefixes_def)

lemma decodable_89: "decodable (\<lambda>_. 0x89) pc"
  by (simp add: decodable_def opcode_entry_def entry_89 is_leaf_entry_def is_group_entry_def GET_FIELD_def)

theorem x86_decode_safe_witness:
  "\<exists>i. arch_x86_decode_instr (\<lambda>_. 0x89) 0 1 = Some (Inr (0, i))"
  using x86_decode_safe [OF run_89, of 1 0] decodable_89 by simp


definition mov_89 :: x86_instr where
  "mov_89 = (fill_operands
     \<lparr>i_nr_bytes = 0, i_opcode_byte = 0x89, i_mod = 2, i_rm = 1, i_reg_opc = 1, i_base = 0, i_idx = 0, i_scale = 0,
       i_disp = 0x89898989, i_imm0 = 0, i_imm1 = 0, i_opcode = X86_OPC_MOV,
       i_flags = ADDRMOD_REG_RM OR WIDTH_DWORD OR DST_MEM_DISP_DWORD, i_prefix_values = replicate 6 0,
       i_src = zero_operand, i_dst = zero_operand, i_third = zero_operand\<rparr>)\<lparr>i_nr_bytes := 6\<rparr>"

lemmas decode_eval = opcode_step_def table_step_def leaf_step_def is_group_entry_def
  is_diff_entry_def GET_FIELD_def tables_0_1 decode_rest_def decode_flags_def decode_modrm_fields_def
  decode_modrm_addr_modes_def rm_key_def mod_dst_decode_def mod_src_decode_def apply_op_size_def decode_fields_def
  decode_sib_byte_def sib_dst_decode_def sib_src_decode_def decode_disp_def decode_moffset_def decode_imm_def decode_rel_def
  read_u8_def read_s8_def read_u16_def read_s16_def read_u32_def read_s32_def zero_instr_def has_def

lemma decode_89: "arch_x86_decode_instr (\<lambda>_. 0x89) 0 1 = Some (Inr (0, mov_89))"
proof -
  have "decode_loop (\<lambda>_. 0x89) 1 zero_instr 0 0x89 1 =
     Some (opcode_step (\<lambda>_. 0x89) 1 (zero_instr\<lparr>i_prefix_values := replicate 6 0\<rparr>) 0)"
    using loop_from_start [OF run_89, of 1 0] by simp
  then show ?thesis
    by (simp add: arch_x86_decode_instr_def) (simp add: decode_eval entry_89 mov_89_def fill_operands_def)
qed

lemma mov_89_simps [simp]:
  "i_prefix_values mov_89 = replicate 6 0" "i_flags mov_89 = ADDRMOD_REG_RM OR WIDTH_DWORD OR DST_MEM_DISP_DWORD"
  by (simp_all add: mov_89_def fill_operands_frame)

lemma ea_89 [simp]: "opcode_length (\<lambda>_. 0x89) p = 1" "ea_at (\<lambda>_. 0x89) q False = EA_Disp32" "\<not> sib_at (\<lambda>_. 0x89) q False"
  by (simp_all add: opcode_length_def ea_at_def sib_at_def ea_form_def ea_sib_def)

theorem x86_decode_length_witness: "i_nr_bytes mov_89 = 6"
  using x86_decode_length [OF run_89 _ decode_89]
  by (simp add: ea_length_def tail_length_def imm_length_def has_def)

theorem x86_length_bound_witness: "arch_x86_instr_length mov_89 = int (unat (i_nr_bytes mov_89)) \<and> unat (i_nr_bytes mov_89) \<le> 12"
  using x86_length_bound [OF run_89 _ _ decode_89] by simp

theorem x86_effective_address_witness:
  "o_type (address_operand mov_89) = OPTYPE_MEM_DISP \<and> o_reg (address_operand mov_89) = 1 \<and>
   o_disp (address_operand mov_89) = 0x89898989"
  using x86_effective_address [OF run_89 _ decode_89, where ?a16.0 = False]
  by (simp add: has_def is_ea_operand_def ea_type_def has_disp_def read_s32_def)

end
