(* ===== verification/X86_Flow.thy ===== *)
theory X86_Flow
  imports X86_Correct
begin

text \<open>
  What the decoding tables say of control flow: which opcodes carry a relative address, and which
  byte selects a jump, a call or a system call. The facts are checked entry by entry, and carried
  over to the instruction the decoder returns.
\<close>

section \<open>What the tables say of control flow\<close>

text \<open>The opcodes an entry can stand for: its own, or those of the row of the syntax table it names.\<close>

definition opcodes_of :: "64 word \<Rightarrow> 64 word list" where
  "opcodes_of e =
     (if X86_OPCODE e \<noteq> 0 then [X86_OPCODE e]
      else if is_diff_entry e then diff_syntax_opcodes ! unat (X86_DIFF_SYNTAX e) else [])"

definition cond_jump_ints :: "int list" where
  "cond_jump_ints = [96, 92, 71, 84, 101, 87, 72, 69, 100, 94, 98, 99, 79, 78, 80, 77, 121, 122, 123]"

abbreviation WIDTHS :: "64 word" where "WIDTHS \<equiv> WIDTH_MASK OR WIDTH_QWORD"

definition flow_class :: "int \<Rightarrow> bool \<Rightarrow> int \<Rightarrow> bool" where
  "flow_class k rel v \<longleftrightarrow>
     v < 218 \<and>
     (if v \<in> set [81, 117] then (if rel then k \<in> set [0xE9, 0xEB] else k \<in> set [0xEA, 0xFF])
      else if v \<in> set [17, 104, 205] then (if rel then k = 0xE8 else k \<in> set [0x34, 0x9A, 0xFF])
      else rel = (v \<in> set (76 # cond_jump_ints)))"

definition rel_width_check :: "int \<Rightarrow> 64 word \<Rightarrow> bool" where
  "rel_width_check k e \<longleftrightarrow>
     (if uint (e AND REL_MASK) \<noteq> 0 then
        k \<noteq> 0x62 \<and> uint (e AND WIDTHS) \<in> set [uint (WIDTH_DWORD :: 64 word), uint (WIDTH_BYTE :: 64 word)]
      else True)"

definition flow_entry_check :: "int \<Rightarrow> 64 word \<Rightarrow> bool" where
  "flow_entry_check k e =
     (if is_group_entry e then
        list_all (\<lambda>d. list_all (\<lambda>v. flow_class k False (uint v)) (opcodes_of d)) (decode_tables ! unat (X86_DECODE_GROUP e))
      else list_all (\<lambda>v. flow_class k (uint (e AND REL_MASK) \<noteq> 0) (uint v)) (opcodes_of e) \<and> rel_width_check k e)"

lemmas flow_eval = flow_entry_check_def flow_class_def rel_width_check_def cond_jump_ints_def opcodes_of_def is_group_entry_def
  is_diff_entry_def GET_FIELD_def decode_tables_def grp_tables diff_syntax_opcodes_def

lemma flow_one: "indexed flow_entry_check 0 decode_table_one"
  unfolding decode_table_one_def indexed_append
proof
  show "indexed flow_entry_check 0 decode_table_one_lo"
    by (simp add: decode_table_one_lo_def flow_eval)
  have "length decode_table_one_lo = 128" by (simp add: decode_table_one_lo_def)
  moreover have "indexed flow_entry_check 128 decode_table_one_hi"
    by (simp add: decode_table_one_hi_def flow_eval)
  ultimately show "indexed flow_entry_check (0 + int (length decode_table_one_lo)) decode_table_one_hi" by simp
qed

lemma flow_two: "indexed flow_entry_check 0 decode_table_two"
  unfolding decode_table_two_def indexed_append
proof
  show "indexed flow_entry_check 0 decode_table_two_lo"
    by (simp add: decode_table_two_lo_def flow_eval)
  have "length decode_table_two_lo = 128" by (simp add: decode_table_two_lo_def)
  moreover have "indexed flow_entry_check 128 decode_table_two_hi"
    by (simp add: decode_table_two_hi_def flow_eval)
  ultimately show "indexed flow_entry_check (0 + int (length decode_table_two_lo)) decode_table_two_hi" by simp
qed

lemma flow_entry: "g \<le> 1 \<Longrightarrow> flow_entry_check (uint b) (decode_tables ! g ! unat b)" for b :: byte
  using indexed_nth [OF flow_one, of "unat b"] indexed_nth [OF flow_two, of "unat b"] byte_lt [of b]
  by (cases g) (simp_all add: tables_0_1 table_lengths)

lemma leaf_opcode:
  assumes "leaf_step ui i g b e q = Inr (Decoded i' g' b' e' opcode q')"
  shows "g' = g" "b' = b" "e' = e" "opcode \<in> set (opcodes_of e)" "i_opcode_byte i' = i_opcode_byte i"
    and "b \<noteq> 0x62 \<longrightarrow> i' = i"
    and "i_flags i' = i_flags i \<or> (\<exists>f \<in> set diff_syntax_flags_0x62. i_flags i' = i_flags i OR f)"
  using assms
  by (auto simp: leaf_step_def opcodes_of_def diff_syntax_def Let_def res_bind_Inr_iff nth_res_Inr_iff split: if_splits)

lemma leaf_not_group: "leaf_step ui i g b e q = Inr (Decoded i' g' b' e' opcode q') \<Longrightarrow> \<not> is_group_entry e"
  by (cases "X86_OPCODE e = 0") (auto simp: leaf_step_def is_group_entry_def is_diff_entry_def)

lemma diff_flags_rel: "f \<in> set diff_syntax_flags_0x62 \<Longrightarrow> \<not> has f REL_MASK"
  by (auto simp: diff_syntax_flags_0x62_def has_def)

lemma table_opcode:
  assumes g: "g \<le> 1" and ui: "ui \<in> {0, 1}"
    and step: "table_step m ui i g b q = Inr (Decoded i' g' b' e opcode q')"
  defines "k \<equiv> if g' \<le> 1 then b' else i_opcode_byte i'"
  shows "flow_class (uint k) (g' \<le> 1 \<and> has e REL_MASK) (uint opcode)"
    and "g' \<le> 1 \<Longrightarrow> i_flags i = 0 \<Longrightarrow> \<not> has (i_flags i') REL_MASK"
    and "g' \<le> 1 \<Longrightarrow> has e REL_MASK \<Longrightarrow> i_flags i' = i_flags i \<and> (e AND WIDTHS = WIDTH_DWORD \<or> e AND WIDTHS = WIDTH_BYTE)"
proof -
  define d where "d = decode_tables ! g ! unat b"
  have check: "flow_entry_check (uint b) d" unfolding d_def by (rule flow_entry [OF g])
  have rel: "uint (x AND REL_MASK) \<noteq> 0 \<longleftrightarrow> has x REL_MASK" for x :: "64 word"
    by (simp add: has_def unsigned_eq_0_iff)
  have group: "2 \<le> unat (X86_DECODE_GROUP d)" "unat (X86_DECODE_GROUP d) \<le> 10" if "is_group_entry d"
  proof -
    have "entry_check d" using g table_one_check [of b] table_two_check(1) [of b] by (cases g; simp add: tables_0_1 d_def)
    with that show "2 \<le> unat (X86_DECODE_GROUP d)" "unat (X86_DECODE_GROUP d) \<le> 10"
      by (simp_all add: entry_check_def word_le_nat_alt)
  qed
  have direct: "leaf_step ui i g b d q = Inr (Decoded i' g' b' e opcode q')" if "g' \<le> 1"
  proof (cases "is_group_entry d")
    case True
    with step have "g' = unat (X86_DECODE_GROUP d)" unfolding table_step_def Let_def d_def [symmetric] if_P [OF True]
      by (elim leaf_opcode(1))
    with group [OF True] that show ?thesis by simp
  next
    case False
    with step show ?thesis unfolding table_step_def Let_def d_def [symmetric] by simp
  qed
  show "flow_class (uint k) (g' \<le> 1 \<and> has e REL_MASK) (uint opcode)"
  proof (cases "is_group_entry d")
    case True
    define j where "j = decode_modrm_fields (i\<lparr>i_opcode_byte := b, i_flags := d\<rparr>) (m q)"
    define h where "h = unat (X86_DECODE_GROUP d)"
    have h: "2 \<le> h" "h \<le> 10" using group [OF True] by (simp_all add: h_def)
    from step True have l: "leaf_step ui j h (i_reg_opc j) (decode_tables ! h ! unat (i_reg_opc j)) (q + 1) =
        Inr (Decoded i' g' b' e opcode q')" by (simp add: table_step_def Let_def d_def j_def h_def)
    note f = leaf_opcode [OF l]
    have "decode_tables ! h ! unat (i_reg_opc j) \<in> set (decode_tables ! h)"
      using reg_opc_lt [of "i\<lparr>i_opcode_byte := b, i_flags := d\<rparr>" "m q"] group_table(1) [OF h] by (simp add: j_def)
    with check f(3,4) True have "flow_class (uint b) False (uint opcode)"
      by (auto simp: flow_entry_check_def list_all_iff h_def)
    moreover have "k = b" "\<not> g' \<le> 1" using f(1,5) h by (simp_all add: k_def j_def decode_modrm_fields_def)
    ultimately show ?thesis by simp
  next
    case False
    with step have "leaf_step ui i g b d q = Inr (Decoded i' g' b' e opcode q')" by (simp add: table_step_def d_def)
    from leaf_opcode [OF this] check False show ?thesis
      using g by (auto simp: flow_entry_check_def list_all_iff rel k_def)
  qed
  show "\<not> has (i_flags i') REL_MASK" if "g' \<le> 1" "i_flags i = 0"
    using leaf_opcode(7) [OF direct [OF that(1)]] that(2) diff_flags_rel by auto
  show "i_flags i' = i_flags i \<and> (e AND WIDTHS = WIDTH_DWORD \<or> e AND WIDTHS = WIDTH_BYTE)" if "g' \<le> 1" "has e REL_MASK"
  proof -
    note l = direct [OF that(1)]
    have "rel_width_check (uint b) e"
      using check leaf_opcode(3) [OF l] leaf_not_group [OF l] by (simp add: flow_entry_check_def)
    then have *: "uint b \<noteq> 0x62 \<and> uint (e AND WIDTHS) \<in> {uint (WIDTH_DWORD :: 64 word), uint (WIDTH_BYTE :: 64 word)}"
      unfolding rel_width_check_def rel if_P [OF that(2)] list.set .
    then have "b \<noteq> 0x62" by auto
    with leaf_opcode(6) [OF l] have "i' = i" by blast
    moreover from * have "e AND WIDTHS = WIDTH_DWORD \<or> e AND WIDTHS = WIDTH_BYTE"
      unfolding word_uint_eq_iff by blast
    ultimately show ?thesis by blast
  qed
qed

section \<open>Decoded instructions\<close>

lemma op_flags_rel: "has (op_flags v f) REL_MASK \<longleftrightarrow> has f REL_MASK"
  unfolding has_def by (subst op_flags_other(1); simp)

lemma op_width_rel:
  assumes "f AND WIDTHS = WIDTH_DWORD \<or> f AND WIDTHS = WIDTH_BYTE"
  shows "op_width (op_flags v f) \<noteq> 0"
proof -
  note sub = mode_and [where M = WIDTHS and f = f]
  have "f AND WIDTHS = WIDTH_BYTE \<Longrightarrow> \<not> has f WIDTH_DWORD \<and> \<not> has f WIDTH_QWORD \<and> f AND WIDTH_MASK = WIDTH_BYTE"
    using sub [of WIDTH_DWORD] sub [of WIDTH_QWORD] sub [of WIDTH_MASK] by (simp add: has_def)
  moreover have "has f WIDTH_DWORD \<and> f AND WIDTH_MASK = WIDTH_DWORD \<and>
      (f AND NOT WIDTH_DWORD OR WIDTH_WORD) AND WIDTH_MASK = WIDTH_WORD" if w: "f AND WIDTHS = WIDTH_DWORD"
  proof (intro conjI)
    show m: "f AND WIDTH_MASK = WIDTH_DWORD" "has f WIDTH_DWORD"
      using sub [of WIDTH_DWORD] sub [of WIDTH_MASK] w by (simp_all add: has_def)
    have "(f AND NOT WIDTH_DWORD OR WIDTH_WORD) AND WIDTH_MASK = (f AND WIDTH_MASK) AND NOT WIDTH_DWORD OR WIDTH_WORD AND WIDTH_MASK"
      by (rule bit_word_eqI) (simp only: bit_simps, blast)
    then show "(f AND NOT WIDTH_DWORD OR WIDTH_WORD) AND WIDTH_MASK = WIDTH_WORD" unfolding m(1) by simp
  qed
  ultimately show ?thesis using assms by (auto simp: op_flags_def op_width_def)
qed

text \<open>
  A decoded instruction: whether it has a relative field follows from its opcode, and the field
  is the last of the instruction.
\<close>

definition is_rel :: "x86_instr \<Rightarrow> bool" where
  "is_rel i \<longleftrightarrow> has (i_flags i) REL_MASK"

lemma decoded_flow:
  assumes run: "prefix_run m pc n" and ui: "ui \<in> {0, 1}"
    and dec: "arch_x86_decode_instr m pc ui = Some (Inr (0, i))"
  shows "flow_class (uint (i_opcode_byte i)) (is_rel i) (uint (i_opcode i))"
    and "is_rel i \<Longrightarrow> op_width (i_flags i) \<noteq> 0 \<and>
      i_imm0 i = rel_value m (pc + i_nr_bytes i - of_nat (op_width (i_flags i))) (op_width (i_flags i))"
proof -
  from run ui have "flow_class (uint (i_opcode_byte i)) (is_rel i) (uint (i_opcode i)) \<and>
    (is_rel i \<longrightarrow> op_width (i_flags i) \<noteq> 0 \<and>
      i_imm0 i = rel_value m (pc + i_nr_bytes i - of_nat (op_width (i_flags i))) (op_width (i_flags i)))"
  proof (cases rule: decode_run)
    case (no i')
    with dec show ?thesis by simp
  next
    case (yes F j k i' g b e q)
    define i0 where "i0 = zero_instr\<lparr>i_prefix_values := prefix_values m pc n (replicate 6 0)\<rparr>"
    have i: "i = (fill_operands j)\<lparr>i_nr_bytes := of_nat (n + k)\<rparr>" using dec yes(2) by simp
    define i2 where "i2 = i0\<lparr>i_prefix_values := (i_prefix_values i0)[5 := 1]\<rparr>"
    have flags0: "i_flags i0 = 0" "i_flags i2 = 0" by (simp_all add: i0_def i2_def zero_instr_def)
    obtain i1 h c q0 where "h \<le> 1" and step: "table_step m ui i1 h c q0 = Inr (Decoded i' g b e (i_opcode j) q)" and i1: "i_flags i1 = 0"
    proof (cases "m (pc + of_nat n) = 0x0F")
      case True
      with yes(5) flags0 show thesis by (intro that [of 1 i2]) (simp_all add: opcode_step_def i0_def i2_def zero_instr_def)
    next
      case False
      with yes(5) flags0 show thesis by (intro that [of 0 i0]) (simp_all add: opcode_step_def i0_def zero_instr_def)
    qed
    note flow = table_opcode [OF this(1) ui this(2)]
    have F: "agree (i_flags j) F" "i_flags j = i_flags i" "i_opcode j = i_opcode i" "i_opcode_byte j = i_opcode_byte i" "i_imm0 j = i_imm0 i"
      using yes(3) agree_modrm by (auto simp: layout_def Let_def i fill_operands_frame)
    have rel: "is_rel i \<longleftrightarrow> has F REL_MASK" "op_width (i_flags i) = op_width F"
      using agree_has(3,7) [OF F(1)] by (simp_all add: is_rel_def F(2))
    have F': "F = op_flags (run_values m pc n ! 4) (static_flags i' g e)" by (rule yes(7))
    have wf: "wf_flags (static_flags i' g e)" "\<not> g \<le> 1 \<Longrightarrow> has (static_flags i' g e) MOD_RM"
      using yes(8) by (auto split: if_splits)
    have rel_e: "is_rel i \<longleftrightarrow> g \<le> 1 \<and> has e REL_MASK"
    proof (cases "g \<le> 1")
      case True
      have "has (e AND NOT 0xFF) REL_MASK \<longleftrightarrow> has e REL_MASK"
        unfolding has_def by (subst and_drop; simp)
      then show ?thesis
        using True flow(2) [OF True i1] unfolding rel F' op_flags_rel static_flags_def if_P [OF True] has_or by simp
    next
      case False
      with wf_facts(8) [OF wf(1) wf(2)] show ?thesis unfolding rel F' op_flags_rel by simp
    qed
    have "op_width F \<noteq> 0" if "is_rel i"
    proof -
      have g: "g \<le> 1" "has e REL_MASK" using that rel_e by simp_all
      note w = flow(3) [OF this]
      have "(e AND NOT 0xFF) AND WIDTHS = e AND WIDTHS" by (rule and_drop) simp
      with w have "static_flags i' g e AND WIDTHS = WIDTH_DWORD \<or> static_flags i' g e AND WIDTHS = WIDTH_BYTE"
        by (simp only: static_flags_def if_P [OF g(1)] i1 or.left_neutral)
      then show ?thesis unfolding F' by (rule op_width_rel)
    qed
    moreover have "has F REL_MASK \<and> op_width F \<noteq> 0 \<longrightarrow>
        i_imm0 j = rel_value m (pc + of_nat n + of_nat k - of_nat (op_width F)) (op_width F)"
      using yes(3) unfolding layout_def Let_def by blast
    ultimately show ?thesis
      using flow(1) yes(6) rel rel_e F(3-5) by (simp add: i add.assoc)
  qed
  then show "flow_class (uint (i_opcode_byte i)) (is_rel i) (uint (i_opcode i))"
    "is_rel i \<Longrightarrow> op_width (i_flags i) \<noteq> 0 \<and>
      i_imm0 i = rel_value m (pc + i_nr_bytes i - of_nat (op_width (i_flags i))) (op_width (i_flags i))" by blast+
qed

end
