(* ===== verification/X86_Tag.thy ===== *)
theory X86_Tag
  imports X86_Flow Tagger
begin

text \<open>
  The x86 frontend of code discovery, \<open>arch/x86/x86_tag.cpp\<close>: the tag of an instruction, the
  address it leads to and the address after it.
\<close>

section \<open>The frontend\<close>

definition use_intel :: "32 word \<Rightarrow> byte" where
  "use_intel debug = ucast (drop_bit 6 (debug AND CPU_DEBUG_INTEL_SYNTAX))"

definition cond_branch_opcodes :: "64 word list" where
  "cond_branch_opcodes =
     [X86_OPC_JO, X86_OPC_JNO, X86_OPC_JB, X86_OPC_JNB, X86_OPC_JZ, X86_OPC_JNE, X86_OPC_JBE, X86_OPC_JA,
      X86_OPC_JS, X86_OPC_JNS, X86_OPC_JPE, X86_OPC_JPO, X86_OPC_JL, X86_OPC_JGE, X86_OPC_JLE, X86_OPC_JG,
      X86_OPC_LOOP, X86_OPC_LOOPE, X86_OPC_LOOPNE]"

definition tag_switch :: "x86_instr \<Rightarrow> addr \<Rightarrow> tag \<times> addr option" where
  "tag_switch instr target =
     (let opcode = i_opcode instr; byte = i_opcode_byte instr in
      if opcode \<in> set cond_branch_opcodes then (TAG_COND_BRANCH, Some target)
      else if opcode \<in> set [X86_OPC_JMP, X86_OPC_LJMP] then
        (TAG_BRANCH,
         if byte \<in> set [0xE9, 0xEB] then Some target
         else if byte = 0xEA then Some NEW_PC_NONE
         else if byte = 0xFF then Some NEW_PC_NONE
         else None)
      else if opcode \<in> set [X86_OPC_CALL, X86_OPC_LCALL, X86_OPC_SYSENTER] then
        (TAG_CALL,
         if byte = 0x34 then Some NEW_PC_NONE
         else if byte = 0x9A then Some NEW_PC_NONE
         else if byte = 0xE8 then Some target
         else if byte = 0xFF then Some NEW_PC_NONE
         else None)
      else if opcode \<in> set [X86_OPC_RET, X86_OPC_LRET, X86_OPC_RETF, X86_OPC_IRET, X86_OPC_SYSEXIT] then (TAG_RET, None)
      else if opcode \<in> set [X86_OPC_INT, X86_OPC_INTO, X86_OPC_INT3, X86_OPC_BOUND] then (TAG_TRAP, None)
      else (TAG_CONTINUE, None))"

definition arch_x86_tag_instr :: "32 word \<Rightarrow> ram \<Rightarrow> tag_fn" where
  "arch_x86_tag_instr debug m pc =
     (case arch_x86_decode_instr m pc (use_intel debug) of
        None \<Rightarrow> Inl Diverges
      | Some r \<Rightarrow> res_bind r (\<lambda>(ret, instr).
          if ret \<noteq> 0 then Inr (-1, no_vars)
          else
            let len = arch_x86_instr_length instr;
                (tag, new_pc) = tag_switch instr (pc + word_of_int len + scast (i_imm0 instr))
            in Inr (len, \<lparr>v_tag = Some tag, v_new_pc = new_pc, v_next_pc = Some (pc + word_of_int len)\<rparr>)))"

section \<open>What the switch gives\<close>

lemma use_intel_bit: "use_intel fd \<in> {0, 1}"
proof -
  have "drop_bit 6 (fd AND CPU_DEBUG_INTEL_SYNTAX) = drop_bit 6 fd AND 1" by simp
  moreover have "x AND 1 = 0 \<or> x AND 1 = 1" for x :: "32 word"
    by (simp add: and_one_eq mod2_eq_if)
  ultimately show ?thesis unfolding use_intel_def by (metis insertCI ucast_0 ucast_1)
qed

lemma switch_class:
  assumes "flow_class (uint (i_opcode_byte i)) rel (uint (i_opcode i))" and "tag_switch i target = (t, new)"
  shows "if rel \<and> i_opcode i \<noteq> X86_OPC_JECXZ then t \<in> {TAG_COND_BRANCH, TAG_BRANCH, TAG_CALL} \<and> new = Some target
    else t \<in> {TAG_BRANCH, TAG_CALL} \<and> new = Some NEW_PC_NONE \<or> t \<in> {TAG_RET, TAG_TRAP, TAG_CONTINUE} \<and> new = None"
  using assms
  by (auto simp: flow_class_def cond_jump_ints_def tag_switch_def cond_branch_opcodes_def Let_def word_uint_eq_iff split: if_splits)

lemma switch_contract:
  assumes "flow_class (uint (i_opcode_byte i)) rel (uint (i_opcode i))" and "tag_switch i target = (t, new)"
  shows "tag_contract \<lparr>v_tag = Some t, v_new_pc = new, v_next_pc = Some next_pc\<rparr>"
  using switch_class [OF assms] by (auto simp: tag_contract_def bits split: if_splits)

lemma tag_instr_decoded:
  assumes "arch_x86_decode_instr m pc (use_intel debug) = Some (Inr (0, i))"
    and "tag_switch i (pc + word_of_int (arch_x86_instr_length i) + scast (i_imm0 i)) = (t, new)"
  shows "arch_x86_tag_instr debug m pc = Inr (arch_x86_instr_length i,
    \<lparr>v_tag = Some t, v_new_pc = new, v_next_pc = Some (pc + word_of_int (arch_x86_instr_length i))\<rparr>)"
  using assms by (simp add: arch_x86_tag_instr_def Let_def)

text \<open>The code the decoder accepts: a run of prefix bytes that ends before a defined opcode.\<close>

definition x86_code :: "ram \<Rightarrow> addr \<Rightarrow> bool" where
  "x86_code m pc \<longleftrightarrow> (\<exists>n. prefix_run m pc n \<and> decodable m (pc + of_nat n))"

lemma tag_instr_outcome:
  assumes "prefix_run m pc n"
  shows "res_ok (\<lambda>(len, v). if decodable m (pc + of_nat n)
      then tag_contract v \<and> v_next_pc v = Some (pc + word_of_int len) else len = - 1 \<and> v = no_vars)
    (arch_x86_tag_instr debug m pc)"
  using assms use_intel_bit [of debug]
proof (cases rule: decode_run)
  case (no i)
  then show ?thesis by (simp add: arch_x86_tag_instr_def)
next
  case (yes F j k i g b e q)
  define x where "x = (fill_operands j)\<lparr>i_nr_bytes := of_nat (n + k)\<rparr>"
  obtain t new where sw: "tag_switch x (pc + word_of_int (arch_x86_instr_length x) + scast (i_imm0 x)) = (t, new)" by fastforce
  from tag_instr_decoded [OF yes(2) [folded x_def] sw]
    switch_contract [OF decoded_flow(1) [OF assms use_intel_bit yes(2) [folded x_def]] sw] yes(1)
  show ?thesis by simp
qed

interpretation x86: tag_frontend "arch_x86_tag_instr debug m" "x86_code m" for debug m
proof
  fix pc
  assume "x86_code m pc"
  then obtain n where "prefix_run m pc n" "decodable m (pc + of_nat n)" by (auto simp: x86_code_def)
  then show "res_ok (\<lambda>(len, v). tag_contract v) (arch_x86_tag_instr debug m pc)"
    using tag_instr_outcome [of m pc n debug] by (auto elim: res_ok_mono)
qed

section \<open>Properties\<close>

text \<open>
  C27. The x86 frontend honours its contract wherever the decoder accepts the bytes: it writes a
  tag without internal bits, the address after the instruction and, for calls and branches, a
  target. Where the decoder does not, it returns -1 and writes nothing.
\<close>

theorem x86_tag_contract:
  assumes "prefix_run m pc n"
  shows "res_ok (\<lambda>(len, v). if decodable m (pc + of_nat n)
      then tag_contract v \<and> v_next_pc v = Some (pc + word_of_int len) else len = - 1 \<and> v = no_vars)
    (arch_x86_tag_instr debug m pc)"
  using assms by (rule tag_instr_outcome)

text \<open>
  C28. An instruction with a relative field, \<open>JECXZ\<close> apart, is tagged as a branch or a call to the
  address after it plus the sign-extended field, which is read from its last one, two or four bytes.
  Every other instruction has no target, or the mark for an unknown one.
\<close>

theorem x86_branch_targets:
  assumes "prefix_run m pc n" and "n < 2 ^ 30"
    and "arch_x86_decode_instr m pc (use_intel debug) = Some (Inr (0, i))"
    and "next_pc = pc + i_nr_bytes i" and "w = op_width (i_flags i)"
  shows "\<exists>t new. arch_x86_tag_instr debug m pc =
      Inr (int (unat (i_nr_bytes i)), \<lparr>v_tag = Some t, v_new_pc = new, v_next_pc = Some next_pc\<rparr>) \<and>
    (if is_rel i \<and> i_opcode i \<noteq> X86_OPC_JECXZ
     then has t (TAG_BRANCH OR TAG_CALL) \<and> w \<in> {1, 2, 4} \<and> new = Some (next_pc + scast (rel_value m (next_pc - of_nat w) w))
     else new = None \<or> new = Some NEW_PC_NONE)"
proof -
  have len: "arch_x86_instr_length i = int (unat (i_nr_bytes i))"
    using decoded_length [OF assms(1) use_intel_bit assms(2,3)] by blast
  then have next_pc: "pc + word_of_int (arch_x86_instr_length i) = next_pc" by (simp add: assms(4))
  note flow = decoded_flow [OF assms(1) use_intel_bit assms(3)]
  obtain t new where sw: "tag_switch i (next_pc + scast (i_imm0 i)) = (t, new)" by fastforce
  have "w \<in> {0, 1, 2, 4}" by (simp add: assms(5) op_width_def)
  with flow(2) have rel: "w \<in> {1, 2, 4} \<and> i_imm0 i = rel_value m (next_pc - of_nat w) w" if "is_rel i"
    using that by (auto simp: assms(4,5))
  show ?thesis
  proof (intro exI conjI)
    show "arch_x86_tag_instr debug m pc =
        Inr (int (unat (i_nr_bytes i)), \<lparr>v_tag = Some t, v_new_pc = new, v_next_pc = Some next_pc\<rparr>)"
      using tag_instr_decoded [OF assms(3), unfolded next_pc, OF sw] unfolding len .
    show "if is_rel i \<and> i_opcode i \<noteq> X86_OPC_JECXZ
       then has t (TAG_BRANCH OR TAG_CALL) \<and> w \<in> {1, 2, 4} \<and> new = Some (next_pc + scast (rel_value m (next_pc - of_nat w) w))
       else new = None \<or> new = Some NEW_PC_NONE"
      using switch_class [OF flow(1) sw] rel by (auto simp: bits split: if_splits)
  qed
qed

lemma entry_rel8:
  "decode_table_one ! 0xE3 = X86_OPC_JECXZ OR ADDRMOD_REL OR WIDTH_BYTE"
  "decode_table_one ! 0xEB = X86_OPC_JMP OR ADDRMOD_REL OR WIDTH_BYTE"
  by (simp_all add: decode_table_one_def decode_table_one_lo_def decode_table_one_hi_def nth_append)

lemma decode_rel8:
  assumes "m pc = b" and "b = 0xE3 \<and> opcode = X86_OPC_JECXZ \<or> b = 0xEB \<and> opcode = X86_OPC_JMP"
  shows "\<exists>i. arch_x86_decode_instr m pc ui = Some (Inr (0, i)) \<and> i_nr_bytes i = 2 \<and> i_opcode i = opcode \<and>
    i_opcode_byte i = b \<and> i_flags i = ADDRMOD_REL OR WIDTH_BYTE \<and> i_imm0 i = scast (m (pc + 1))"
proof -
  have run: "prefix_run m pc 0" using assms by (auto simp: legacy_prefix_def legacy_prefixes_def)
  have rest: "decode_rest m start i g b e opcode q =
     res_bind (decode_flags m (i\<lparr>i_opcode := opcode\<rparr>) g b e q) (\<lambda>(i, q).
     res_bind (decode_fields m (apply_op_size i, q)) (\<lambda>(i, q). Inr ((fill_operands i)\<lparr>i_nr_bytes := q - start\<rparr>)))"
    for start i g b e opcode q by (simp add: decode_rest_def fill_operands_def)
  define i0 where "i0 = zero_instr\<lparr>i_prefix_values := replicate 6 0\<rparr>"
  have i0: "i_flags i0 = 0" "i_prefix_values i0 = replicate 6 0" by (simp_all add: i0_def zero_instr_def)
  have "decode_loop m ui zero_instr 0 (m pc) (pc + 1) = Some (opcode_step m ui i0 pc)"
    using loop_from_start [OF run, of ui] by (simp add: i0_def)
  then have "arch_x86_decode_instr m pc ui = Some (res_bind (opcode_step m ui i0 pc) (\<lambda>x. case x of
      Undecodable i \<Rightarrow> Inr (-1, i)
    | Decoded i g b e opcode q \<Rightarrow> res_bind (decode_rest m pc i g b e opcode q) (\<lambda>i. Inr (0, i))))"
    by (simp add: arch_x86_decode_instr_def)
  moreover have "opcode_step m ui i0 pc = Inr (Decoded i0 0 b (decode_table_one ! unat b) opcode (pc + 1))"
    using assms by (auto simp: opcode_step_def table_step_def leaf_step_def tables_0_1 entry_rel8 is_group_entry_def GET_FIELD_def)
  moreover have "decode_flags m (i0\<lparr>i_opcode := opcode\<rparr>) 0 b (decode_table_one ! unat b) (pc + 1) =
      Inr (i0\<lparr>i_opcode := opcode, i_opcode_byte := b, i_flags := ADDRMOD_REL OR WIDTH_BYTE\<rparr>, pc + 1)"
    using assms(2) i0 by (auto simp: decode_flags_def entry_rel8 has_def)
  moreover have "decode_fields m (apply_op_size (i0\<lparr>i_opcode := opcode, i_opcode_byte := b, i_flags := ADDRMOD_REL OR WIDTH_BYTE\<rparr>), pc + 1) =
      Inr (i0\<lparr>i_opcode := opcode, i_opcode_byte := b, i_flags := ADDRMOD_REL OR WIDTH_BYTE, i_imm0 := scast (m (pc + 1))\<rparr>, pc + 2)"
    using i0 by (simp add: decode_fields_def apply_op_size_def has_def decode_rel_def read_s8_def)
  ultimately show ?thesis by (simp add: rest fill_operands_frame)
qed

text \<open>
  C29. \<open>JECXZ\<close> is a conditional branch, but its opcode is not in the switch: it is tagged as an
  ordinary instruction, so the search never looks at its target.
\<close>

theorem x86_jecxz:
  assumes "m pc = 0xE3"
  shows "arch_x86_tag_instr debug m pc = Inr (2, \<lparr>v_tag = Some TAG_CONTINUE, v_new_pc = None, v_next_pc = Some (pc + 2)\<rparr>)"
proof -
  obtain i where i: "arch_x86_decode_instr m pc (use_intel debug) = Some (Inr (0, i))" "i_nr_bytes i = 2"
      "i_opcode i = X86_OPC_JECXZ"
    using decode_rel8 [where m = m and pc = pc and ui = "use_intel debug" and b = "0xE3" and opcode = X86_OPC_JECXZ] assms by auto
  then have len: "arch_x86_instr_length i = 2" by (simp add: arch_x86_instr_length_def)
  have "tag_switch i target = (TAG_CONTINUE, None)" for target
    by (simp add: tag_switch_def cond_branch_opcodes_def i(3))
  from tag_instr_decoded [OF i(1) this] show ?thesis by (simp add: len)
qed

section \<open>Witnesses\<close>

theorem x86_tag_contract_witness:
  "res_ok (\<lambda>(len, v). tag_contract v) (arch_x86_tag_instr 0 (\<lambda>_. 0x89) 0)"
  by (rule res_ok_mono [OF x86_tag_contract [OF run_89]]) (use decodable_89 in auto)

theorem x86_branch_targets_witness:
  "\<exists>len v. arch_x86_tag_instr 0 (\<lambda>_. 0xEB) 0x100 = Inr (len, v) \<and> v_new_pc v = Some 0xED"
proof -
  have run: "prefix_run (\<lambda>_. 0xEB) 0x100 0" by (simp add: legacy_prefix_def legacy_prefixes_def)
  obtain i where i: "arch_x86_decode_instr (\<lambda>_. 0xEB) 0x100 (use_intel 0) = Some (Inr (0, i))" "i_nr_bytes i = 2"
      "i_opcode i = X86_OPC_JMP" "i_flags i = ADDRMOD_REL OR WIDTH_BYTE"
    using decode_rel8 [of "\<lambda>_. 0xEB" "0x100" "0xEB" X86_OPC_JMP "use_intel 0"] by auto
  from x86_branch_targets [OF run _ i(1) refl refl] show ?thesis
    by (auto simp: i is_rel_def has_def op_width_def rel_value_def)
qed

theorem x86_jecxz_witness:
  "arch_x86_tag_instr 0 (\<lambda>_. 0xE3) 5 = Inr (2, \<lparr>v_tag = Some TAG_CONTINUE, v_new_pc = None, v_next_pc = Some 7\<rparr>)"
  using x86_jecxz [of "\<lambda>_. 0xE3" 5 0] by simp

end
