(* ===== verification/X86_Disasm_Intel.thy ===== *)
theory X86_Disasm_Intel
  imports X86_Tag Printf
begin

text \<open>
  The x86 disassembler in Intel syntax, \<open>arch/x86/x86_disasm_intel.cpp\<close>: the names of registers
  and prefixes, the text of an operand, and the line, put together in a buffer of 32 bytes.
\<close>

section \<open>Names\<close>

definition byte_reg_names_intel :: "string list" where
  "byte_reg_names_intel = [''al'', ''cl'', ''dl'', ''bl'', ''ah'', ''ch'', ''dh'', ''bh'']"

definition word_reg_names_intel :: "string list" where
  "word_reg_names_intel = [''ax'', ''cx'', ''dx'', ''bx'', ''sp'', ''bp'', ''si'', ''di'']"

definition full_reg_names_intel :: "string list" where
  "full_reg_names_intel = [''eax'', ''ecx'', ''edx'', ''ebx'', ''esp'', ''ebp'', ''esi'', ''edi'']"

definition seg_reg_names_intel :: "string list" where
  "seg_reg_names_intel = [''es'', ''cs'', ''ss'', ''ds'', ''fs'', ''gs'']"

definition cr_reg_names_intel :: "string list" where
  "cr_reg_names_intel = [''cr0'', '''', ''cr2'', ''cr3'', ''cr4'', '''', '''', '''']"

definition dbg_reg_names_intel :: "string list" where
  "dbg_reg_names_intel = [''db0'', ''db1'', ''db2'', ''db3'', '''', '''', ''db6'', ''db7'']"

definition mem_reg_names_16_intel :: "string list" where
  "mem_reg_names_16_intel = [''bx+si'', ''bx+di'', ''bp+si'', ''bp+di'', ''si'', ''di'', ''bp'', ''bx'']"

definition mem_reg_names_32_intel :: "string list" where
  "mem_reg_names_32_intel = [''eax'', ''ecx'', ''edx'', ''ebx'', '''', ''ebp'', ''esi'', ''edi'']"

definition sib_reg_base_names_intel :: "string list" where
  "sib_reg_base_names_intel = [''eax+'', ''ecx+'', ''edx+'', ''ebx+'', ''esp+'', '''', ''esi+'', ''edi+'']"

definition sib_reg_idx_names_intel :: "string list" where
  "sib_reg_idx_names_intel = [''eax*'', ''ecx*'', ''edx*'', ''ebx*'', ''eiz*'', ''ebp*'', ''esi*'', ''edi*'']"

definition sib_scale_names_intel :: "string list" where
  "sib_scale_names_intel = [''1'', ''2'', ''4'', ''8'']"

definition seg_override_names_intel :: "string list" where
  "seg_override_names_intel = ['''', ''es:'', ''cs:'', ''ss:'', ''ds:'', ''fs:'', ''gs:'']"

definition lock_names_intel :: "string list" where
  "lock_names_intel = ['''', ''lock '']"

definition prefix_names_intel :: "string list" where
  "prefix_names_intel = ['''', ''repnz '', ''rep '']"


definition sign_to_str_intel :: "32 word \<Rightarrow> string" where
  "sign_to_str_intel n = (if 0 \<le> sint n then ''+'' else ''-'')"

definition to_reg_name_intel :: "x86_instr \<Rightarrow> byte \<Rightarrow> string res" where
  "to_reg_name_intel instr reg_num =
     (if has (i_flags instr) WIDTH_BYTE then nth_res byte_reg_names_intel (unat reg_num)
      else if has (i_flags instr) WIDTH_WORD then nth_res word_reg_names_intel (unat reg_num)
      else nth_res full_reg_names_intel (unat reg_num))"

definition to_mem_reg_name_intel :: "x86_instr \<Rightarrow> byte \<Rightarrow> string res" where
  "to_mem_reg_name_intel instr reg_num =
     (if addr_size_override instr \<noteq> 0 then nth_res mem_reg_names_16_intel (unat reg_num)
      else nth_res mem_reg_names_32_intel (unat reg_num))"

definition to_sib_base_name_intel :: "x86_instr \<Rightarrow> string res" where
  "to_sib_base_name_intel instr =
     (if i_mod instr = 0 \<and> i_base instr = 5 then Inr ''''
      else nth_res sib_reg_base_names_intel (unat (i_base instr)))"

definition to_seg_reg_name_intel :: "byte \<Rightarrow> string res" where
  "to_seg_reg_name_intel reg_num = nth_res seg_reg_names_intel (unat reg_num)"

definition to_cr_reg_name_intel :: "byte \<Rightarrow> string res" where
  "to_cr_reg_name_intel reg_num = nth_res cr_reg_names_intel (unat reg_num)"

definition to_dbg_reg_name_intel :: "byte \<Rightarrow> string res" where
  "to_dbg_reg_name_intel reg_num = nth_res dbg_reg_names_intel (unat reg_num)"

definition to_mnemonic_intel :: "x86_instr \<Rightarrow> string res" where
  "to_mnemonic_intel instr = nth_res mnemo_x86 (unat (i_opcode instr))"

section \<open>Operands\<close>

definition check_prefix_override :: "x86_instr \<Rightarrow> string option" where
  "check_prefix_override instr =
     (let opcode = i_opcode instr; two = is_two_byte_instr instr; byte = i_opcode_byte instr in
      if opcode \<in> set [X86_OPC_LES, X86_OPC_LDS] then
        (if two = 0 then Some ''FWORD PTR '' else None)
      else if opcode \<in> set [X86_OPC_LSS, X86_OPC_LFS, X86_OPC_LGS, X86_OPC_SGDTD, X86_OPC_SIDTD, X86_OPC_LGDTD,
                X86_OPC_LIDTD, X86_OPC_SGDTW, X86_OPC_SIDTW, X86_OPC_LGDTW, X86_OPC_LIDTW] then
        (if two = 1 then Some '''' else None)
      else if opcode \<in> set [X86_OPC_LAR, X86_OPC_LSL] then
        (if two = 1 then Some ''WORD PTR '' else None)
      else if byte = 0xFF then
        (if two = 0 \<and> (i_reg_opc instr = 3 \<or> i_reg_opc instr = 5) then Some ''FWORD PTR '' else None)
      else if byte \<in> set [0xB6, 0xBE] then
        (if two = 1 then Some ''BYTE PTR '' else None)
      else if byte \<in> set [0xB7, 0xBF] then
        (if two = 1 then Some ''WORD PTR '' else None)
      else None)"

definition add_operand_prefix :: "x86_instr \<Rightarrow> string" where
  "add_operand_prefix instr =
     (case check_prefix_override instr of
        Some prefix \<Rightarrow> prefix
      | None \<Rightarrow>
          if has (i_flags instr) WIDTH_BYTE then ''BYTE PTR ''
          else if has (i_flags instr) WIDTH_WORD then ''WORD PTR ''
          else if has (i_flags instr) WIDTH_DWORD then ''DWORD PTR ''
          else ''QWORD PTR '')"

text \<open>The override of a segment, where the text has one: \<open>ds:\<close> stands in for none.\<close>

definition seg_or_ds :: "x86_instr \<Rightarrow> string res" where
  "seg_or_ds instr =
     (if seg_override instr \<noteq> 0 then nth_res seg_override_names_intel (unat (seg_override instr)) else Inr ''ds:'')"

definition print_operand_intel :: "addr \<Rightarrow> x86_instr \<Rightarrow> x86_operand \<Rightarrow> buf \<Rightarrow> buf res" where
  "print_operand_intel pc instr operand buf =
     (let out = (\<lambda>s. buf_put 32 s buf);
          seg = nth_res seg_override_names_intel (unat (seg_override instr)) in
      case o_type operand of
        OPTYPE_IMM \<Rightarrow> out (hex_0x (o_imm operand))
      | OPTYPE_FAR_PTR \<Rightarrow> out (hex_0x (ucast (o_seg_sel operand)) @ '':'' @ hex_0x (o_imm operand))
      | OPTYPE_REL \<Rightarrow> out (hex_0x (ucast (pc + i_nr_bytes instr + scast (o_imm operand))))
      | OPTYPE_REG \<Rightarrow> res_bind (to_reg_name_intel instr (o_reg operand)) out
      | OPTYPE_REG8 \<Rightarrow> res_bind (nth_res byte_reg_names_intel (unat (o_reg operand))) out
      | OPTYPE_SEG_REG \<Rightarrow> res_bind (to_seg_reg_name_intel (o_reg operand)) out
      | OPTYPE_CR_REG \<Rightarrow> res_bind (to_cr_reg_name_intel (o_reg operand)) out
      | OPTYPE_DBG_REG \<Rightarrow> res_bind (to_dbg_reg_name_intel (o_reg operand)) out
      | OPTYPE_MOFFSET \<Rightarrow>
          res_bind (seg_or_ds instr) (\<lambda>s.
          res_bind (abs_int (o_disp operand)) (\<lambda>d. out (s @ hex_0x d)))
      | OPTYPE_MEM \<Rightarrow>
          res_bind seg (\<lambda>s.
          res_bind (to_mem_reg_name_intel instr (o_reg operand)) (\<lambda>r.
          out (add_operand_prefix instr @ s @ ''['' @ r @ '']'')))
      | OPTYPE_MEM_DISP \<Rightarrow>
          if rm_key instr \<in> set [5, 65542] then
            res_bind (seg_or_ds instr) (\<lambda>s.
            res_bind (abs_int (o_disp operand)) (\<lambda>d. out (add_operand_prefix instr @ s @ hex_0x d)))
          else
            res_bind seg (\<lambda>s.
            res_bind (to_mem_reg_name_intel instr (o_reg operand)) (\<lambda>r.
            res_bind (abs_int (o_disp operand)) (\<lambda>d.
            out (add_operand_prefix instr @ s @ ''['' @ r @ sign_to_str_intel (o_disp operand) @ hex_0x d @ '']''))))
      | OPTYPE_SIB_MEM \<Rightarrow>
          res_bind seg (\<lambda>s.
          res_bind (nth_res sib_reg_base_names_intel (unat (i_base instr))) (\<lambda>b.
          res_bind (nth_res sib_reg_idx_names_intel (unat (i_idx instr))) (\<lambda>x.
          res_bind (nth_res sib_scale_names_intel (unat (i_scale instr))) (\<lambda>f.
          out (add_operand_prefix instr @ s @ ''['' @ b @ x @ f @ '']'')))))
      | OPTYPE_SIB_DISP \<Rightarrow>
          res_bind seg (\<lambda>s.
          res_bind (to_sib_base_name_intel instr) (\<lambda>b.
          res_bind (nth_res sib_reg_idx_names_intel (unat (i_idx instr))) (\<lambda>x.
          res_bind (nth_res sib_scale_names_intel (unat (i_scale instr))) (\<lambda>f.
          res_bind (abs_int (o_disp operand)) (\<lambda>d.
          out (add_operand_prefix instr @ s @ ''['' @ b @ x @ f @ sign_to_str_intel (o_disp operand) @ hex_0x d @ '']'')))))))"

section \<open>The line\<close>

definition operands_intel :: "addr \<Rightarrow> x86_instr \<Rightarrow> buf res" where
  "operands_intel pc instr =
     (let flags = i_flags instr in
      res_bind (if \<not> has flags DST_NONE then print_operand_intel pc instr (i_dst instr) (0, []) else Inr (0, [])) (\<lambda>b.
      res_bind (if \<not> has flags SRC_NONE \<and> \<not> has flags DST_NONE then buf_put 32 '','' b else Inr b) (\<lambda>b.
      res_bind (if \<not> has flags SRC_NONE then print_operand_intel pc instr (i_src instr) b else Inr b) (\<lambda>b.
      res_bind (if \<not> has flags SRC_NONE \<and> \<not> has flags OP3_NONE then buf_put 32 '','' b else Inr b) (\<lambda>b.
      if \<not> has flags OP3_NONE then print_operand_intel pc instr (i_third instr) b else Inr b)))))"

definition arch_x86_disasm_instr_intel :: "32 word \<Rightarrow> ram \<Rightarrow> addr \<Rightarrow> nat \<Rightarrow> (int \<times> string) res" where
  "arch_x86_disasm_instr_intel debug m pc max_line =
     (if use_intel debug \<noteq> 1 then Inl AssertFailure
      else case arch_x86_decode_instr m pc (use_intel debug) of
        None \<Rightarrow> Inl Diverges
      | Some r \<Rightarrow> res_bind r (\<lambda>(ret, instr).
          if ret \<noteq> 0 then Inl ExitFailure
          else
            res_bind (operands_intel pc instr) (\<lambda>(_, operands).
            res_bind (nth_res lock_names_intel (unat (lock_prefix instr))) (\<lambda>lock.
            res_bind (nth_res prefix_names_intel (unat (rep_prefix instr))) (\<lambda>prefix.
            res_bind (to_mnemonic_intel instr) (\<lambda>mnemonic.
            Inr (arch_x86_instr_length instr,
                 snprintf_text max_line (lock @ prefix @ mnemonic @ '' '' @ operands))))))))"

end
