(* ===== verification/X86_Disasm_Att.thy ===== *)
theory X86_Disasm_Att
  imports X86_Tag Printf
begin

text \<open>
  The x86 disassembler in AT&T syntax, \<open>arch/x86/x86_disasm_att.cpp\<close>: the operands come in
  the opposite order, and the width of the operation is a suffix of the mnemonic.
\<close>

section \<open>Names\<close>

definition byte_reg_names_att :: "string list" where
  "byte_reg_names_att = [''%al'', ''%cl'', ''%dl'', ''%bl'', ''%ah'', ''%ch'', ''%dh'', ''%bh'']"

definition word_reg_names_att :: "string list" where
  "word_reg_names_att = [''%ax'', ''%cx'', ''%dx'', ''%bx'', ''%sp'', ''%bp'', ''%si'', ''%di'']"

definition full_reg_names_att :: "string list" where
  "full_reg_names_att = [''%eax'', ''%ecx'', ''%edx'', ''%ebx'', ''%esp'', ''%ebp'', ''%esi'', ''%edi'']"

definition seg_reg_names_att :: "string list" where
  "seg_reg_names_att = [''%es'', ''%cs'', ''%ss'', ''%ds'', ''%fs'', ''%gs'']"

definition cr_reg_names_att :: "string list" where
  "cr_reg_names_att = [''%cr0'', '''', ''%cr2'', ''%cr3'', ''%cr4'', '''', '''', '''']"

definition dbg_reg_names_att :: "string list" where
  "dbg_reg_names_att = [''%db0'', ''%db1'', ''%db2'', ''%db3'', '''', '''', ''%db6'', ''%db7'']"

definition mem_reg_names_16_att :: "string list" where
  "mem_reg_names_16_att = [''%bx,%si'', ''%bx,%di'', ''%bp,%si'', ''%bp,%di'', ''%si'', ''%di'', ''%bp'', ''%bx'']"

definition mem_reg_names_32_att :: "string list" where
  "mem_reg_names_32_att = [''%eax'', ''%ecx'', ''%edx'', ''%ebx'', '''', ''%ebp'', ''%esi'', ''%edi'']"

definition sib_reg_base_names_att :: "string list" where
  "sib_reg_base_names_att = [''%eax'', ''%ecx'', ''%edx'', ''%ebx'', ''%esp'', '''', ''%esi'', ''%edi'']"

definition sib_reg_idx_names_att :: "string list" where
  "sib_reg_idx_names_att = [''%eax'', ''%ecx'', ''%edx'', ''%ebx'', ''%eiz'', ''%ebp'', ''%esi'', ''%edi'']"

definition sib_scale_names_att :: "string list" where
  "sib_scale_names_att = [''1'', ''2'', ''4'', ''8'']"

definition seg_override_names_att :: "string list" where
  "seg_override_names_att = ['''', ''%es:'', ''%cs:'', ''%ss:'', ''%ds:'', ''%fs:'', ''%gs:'']"

definition lock_names_att :: "string list" where
  "lock_names_att = ['''', ''lock '']"

definition prefix_names_att :: "string list" where
  "prefix_names_att = ['''', ''repnz '', ''rep '']"

definition sign_to_str_att :: "32 word \<Rightarrow> string" where
  "sign_to_str_att n = (if 0 \<le> sint n then '''' else ''-'')"

definition to_reg_name_att :: "x86_instr \<Rightarrow> byte \<Rightarrow> string res" where
  "to_reg_name_att instr reg_num =
     (if has (i_flags instr) WIDTH_BYTE then nth_res byte_reg_names_att (unat reg_num)
      else if has (i_flags instr) WIDTH_WORD then nth_res word_reg_names_att (unat reg_num)
      else nth_res full_reg_names_att (unat reg_num))"

definition to_mem_reg_name_att :: "x86_instr \<Rightarrow> byte \<Rightarrow> string res" where
  "to_mem_reg_name_att instr reg_num =
     (if addr_size_override instr \<noteq> 0 then nth_res mem_reg_names_16_att (unat reg_num)
      else nth_res mem_reg_names_32_att (unat reg_num))"

definition to_sib_base_name_att :: "x86_instr \<Rightarrow> string res" where
  "to_sib_base_name_att instr =
     (if i_mod instr = 0 \<and> i_base instr = 5 then Inr ''''
      else nth_res sib_reg_base_names_att (unat (i_base instr)))"

definition to_seg_reg_name_att :: "byte \<Rightarrow> string res" where
  "to_seg_reg_name_att reg_num = nth_res seg_reg_names_att (unat reg_num)"

definition to_cr_reg_name_att :: "byte \<Rightarrow> string res" where
  "to_cr_reg_name_att reg_num = nth_res cr_reg_names_att (unat reg_num)"

definition to_dbg_reg_name_att :: "byte \<Rightarrow> string res" where
  "to_dbg_reg_name_att reg_num = nth_res dbg_reg_names_att (unat reg_num)"

definition to_mnemonic_att :: "x86_instr \<Rightarrow> string res" where
  "to_mnemonic_att instr = nth_res mnemo_x86 (unat (i_opcode instr))"

section \<open>Suffix\<close>

definition check_suffix_override :: "x86_instr \<Rightarrow> bool" where
  "check_suffix_override instr \<longleftrightarrow>
     (let opcode = i_opcode instr; two = is_two_byte_instr instr in
      if opcode \<in> set [X86_OPC_ARPL, X86_OPC_RET, X86_OPC_ENTER, X86_OPC_LRET, X86_OPC_INT, X86_OPC_AAM, X86_OPC_AAD,
           X86_OPC_LOOPNE, X86_OPC_LOOPE, X86_OPC_LOOP, X86_OPC_JECXZ] then two = 0
      else if opcode \<in> set [X86_OPC_JO, X86_OPC_JNO, X86_OPC_JB, X86_OPC_JNB, X86_OPC_JZ, X86_OPC_JNE, X86_OPC_JBE,
           X86_OPC_JA, X86_OPC_JS, X86_OPC_JNS, X86_OPC_JPE, X86_OPC_JPO, X86_OPC_JL, X86_OPC_JGE, X86_OPC_JLE,
           X86_OPC_JG] then True
      else if opcode \<in> set [X86_OPC_LMSW, X86_OPC_INVLPG, X86_OPC_LLDT, X86_OPC_LTR, X86_OPC_VERR, X86_OPC_VERW,
           X86_OPC_SETO, X86_OPC_SETNO, X86_OPC_SETB, X86_OPC_SETNB, X86_OPC_SETZ, X86_OPC_SETNE, X86_OPC_SETBE,
           X86_OPC_SETA, X86_OPC_SETS, X86_OPC_SETNS, X86_OPC_SETPE, X86_OPC_SETPO, X86_OPC_SETL, X86_OPC_SETGE,
           X86_OPC_SETLE, X86_OPC_SETG, X86_OPC_CMPXCHG8B, X86_OPC_BSWAP] then two = 1
      else if i_opcode_byte instr = 0xEB then two = 0
      else False)"

definition add_instr_suffix :: "x86_instr \<Rightarrow> string" where
  "add_instr_suffix instr =
     (if check_suffix_override instr \<or> \<not> has (i_flags instr) (WIDTH_BYTE OR WIDTH_WORD OR WIDTH_DWORD OR WIDTH_QWORD)
      then ''''
      else if has (i_flags instr) WIDTH_BYTE then ''b''
      else if has (i_flags instr) WIDTH_WORD then ''w''
      else if has (i_flags instr) WIDTH_DWORD then ''l''
      else ''q'')"

section \<open>Operands\<close>

definition print_operand_att :: "addr \<Rightarrow> x86_instr \<Rightarrow> x86_operand \<Rightarrow> buf \<Rightarrow> buf res" where
  "print_operand_att pc instr operand buf =
     (let out = (\<lambda>s. buf_put 32 s buf);
          seg = nth_res seg_override_names_att (unat (seg_override instr)) in
      case o_type operand of
        OPTYPE_IMM \<Rightarrow> out (''$'' @ hex_0x (o_imm operand))
      | OPTYPE_FAR_PTR \<Rightarrow> out (''$'' @ hex_0x (ucast (o_seg_sel operand)) @ '',$'' @ hex_0x (o_imm operand))
      | OPTYPE_REL \<Rightarrow> out (hex_0x (ucast (pc + i_nr_bytes instr + scast (o_imm operand))))
      | OPTYPE_REG \<Rightarrow> res_bind (to_reg_name_att instr (o_reg operand)) out
      | OPTYPE_REG8 \<Rightarrow> res_bind (nth_res byte_reg_names_att (unat (o_reg operand))) out
      | OPTYPE_SEG_REG \<Rightarrow> res_bind (to_seg_reg_name_att (o_reg operand)) out
      | OPTYPE_CR_REG \<Rightarrow> res_bind (to_cr_reg_name_att (o_reg operand)) out
      | OPTYPE_DBG_REG \<Rightarrow> res_bind (to_dbg_reg_name_att (o_reg operand)) out
      | OPTYPE_MOFFSET \<Rightarrow>
          res_bind (abs_int (o_disp operand)) (\<lambda>d. out (sign_to_str_att (o_disp operand) @ hex_0x d))
      | OPTYPE_MEM \<Rightarrow>
          res_bind seg (\<lambda>s.
          res_bind (to_mem_reg_name_att instr (o_reg operand)) (\<lambda>r. out (s @ ''('' @ r @ '')'')))
      | OPTYPE_MEM_DISP \<Rightarrow>
          res_bind seg (\<lambda>s.
          res_bind (abs_int (o_disp operand)) (\<lambda>d.
          res_bind (out (s @ sign_to_str_att (o_disp operand) @ hex_0x d)) (\<lambda>buf.
          if rm_key instr \<in> set [5, 65542] then Inr buf
          else res_bind (to_mem_reg_name_att instr (o_reg operand)) (\<lambda>r. buf_put 32 (''('' @ r @ '')'') buf))))
      | OPTYPE_SIB_MEM \<Rightarrow>
          res_bind (nth_res sib_reg_base_names_att (unat (i_base instr))) (\<lambda>b.
          res_bind (nth_res sib_reg_idx_names_att (unat (i_idx instr))) (\<lambda>x.
          res_bind (nth_res sib_scale_names_att (unat (i_scale instr))) (\<lambda>f.
          out (''('' @ b @ '','' @ x @ '','' @ f @ '')''))))
      | OPTYPE_SIB_DISP \<Rightarrow>
          res_bind (abs_int (o_disp operand)) (\<lambda>d.
          res_bind (to_sib_base_name_att instr) (\<lambda>b.
          res_bind (nth_res sib_reg_idx_names_att (unat (i_idx instr))) (\<lambda>x.
          res_bind (nth_res sib_scale_names_att (unat (i_scale instr))) (\<lambda>f.
          out (sign_to_str_att (o_disp operand) @ hex_0x d @ ''('' @ b @ '','' @ x @ '','' @ f @ '')''))))))"

section \<open>The line\<close>

definition operands_att :: "addr \<Rightarrow> x86_instr \<Rightarrow> buf res" where
  "operands_att pc instr =
     (let flags = i_flags instr in
      res_bind (if \<not> has flags OP3_NONE then print_operand_att pc instr (i_third instr) (0, []) else Inr (0, [])) (\<lambda>b.
      res_bind (if \<not> has flags SRC_NONE \<and> \<not> has flags OP3_NONE then buf_put 32 '','' b else Inr b) (\<lambda>b.
      res_bind (if \<not> has flags SRC_NONE then print_operand_att pc instr (i_src instr) b else Inr b) (\<lambda>b.
      res_bind (if \<not> has flags SRC_NONE \<and> \<not> has flags DST_NONE then buf_put 32 '','' b else Inr b) (\<lambda>b.
      if \<not> has flags DST_NONE then print_operand_att pc instr (i_dst instr) b else Inr b)))))"

definition arch_x86_disasm_instr_att :: "32 word \<Rightarrow> ram \<Rightarrow> addr \<Rightarrow> nat \<Rightarrow> (int \<times> string) res" where
  "arch_x86_disasm_instr_att debug m pc max_line =
     (if use_intel debug \<noteq> 0 then Inl AssertFailure
      else case arch_x86_decode_instr m pc (use_intel debug) of
        None \<Rightarrow> Inl Diverges
      | Some r \<Rightarrow> res_bind r (\<lambda>(ret, instr).
          if ret \<noteq> 0 then Inl ExitFailure
          else
            res_bind (operands_att pc instr) (\<lambda>(_, operands).
            res_bind (nth_res lock_names_att (unat (lock_prefix instr))) (\<lambda>lock.
            res_bind (nth_res prefix_names_att (unat (rep_prefix instr))) (\<lambda>prefix.
            res_bind (to_mnemonic_att instr) (\<lambda>mnemonic.
            Inr (arch_x86_instr_length instr,
                 snprintf_text max_line (lock @ prefix @ pad_right CHR '' '' (length mnemonic) mnemonic @
                   add_instr_suffix instr @ '' '' @ operands))))))))"

end
