(* ===== verification/X86_Printable.thy ===== *)
theory X86_Printable
  imports X86_Flow
begin

text \<open>
  The bounds the disassemblers need: every field of a decoded instruction that indexes a table of
  names is as wide as the bits of the ModRM or SIB byte it is taken from.
\<close>

section \<open>Register fields\<close>

text \<open>The fields of the ModRM and SIB bytes are as wide as in the bytes, whatever the flags say.\<close>

definition fields_lt :: "x86_instr \<Rightarrow> bool" where
  "fields_lt i \<longleftrightarrow> unat (i_mod i) < 4 \<and> unat (i_rm i) < 8 \<and> unat (i_reg_opc i) < 8 \<and>
     unat (i_base i) < 8 \<and> unat (i_idx i) < 8 \<and> unat (i_scale i) < 4 \<and>
     unat (o_reg (i_src i)) < 8 \<and> unat (o_reg (i_dst i)) < 8 \<and> unat (o_reg (i_third i)) < 8"

lemma field_bounds:
  fixes b :: byte
  shows "unat (b AND 7) < 8" "unat (drop_bit 3 (b AND 0x38)) < 8" "unat (drop_bit 6 (b AND 0xc0)) < 4"
proof -
  have "drop_bit 3 (b AND 0x38) = drop_bit 3 b AND mask 3" "b AND 7 = b AND mask 3"
    by (simp_all add: mask_eq_exp_minus_1)
  then show "unat (b AND 7) < 8" "unat (drop_bit 3 (b AND 0x38)) < 8"
    using small_word_iff [of "drop_bit 3 (b AND 0x38)" 3] small_word_iff [of "b AND 7" 3] by (auto simp: bit_simps)
  show "unat (drop_bit 6 (b AND 0xc0)) < 4" by (rule drop_bit_mask_lt)
qed

lemma fields_lt_update:
  "fields_lt i \<Longrightarrow> unat x < 4 \<Longrightarrow> unat y < 8 \<Longrightarrow> unat z < 8 \<Longrightarrow> fields_lt (i\<lparr>i_mod := x, i_reg_opc := y, i_rm := z\<rparr>)"
  "fields_lt i \<Longrightarrow> unat x < 4 \<Longrightarrow> unat y < 8 \<Longrightarrow> unat z < 8 \<Longrightarrow> fields_lt (i\<lparr>i_scale := x, i_idx := y, i_base := z\<rparr>)"
  by (simp_all add: fields_lt_def)

lemma fields_lt_modrm: "fields_lt i \<Longrightarrow> fields_lt (decode_modrm_fields i b)"
  unfolding decode_modrm_fields_def by (rule fields_lt_update(1) field_bounds | assumption)+

lemma fields_lt_frame [simp]:
  "fields_lt (i\<lparr>i_flags := f\<rparr>) = fields_lt i" "fields_lt (i\<lparr>i_opcode_byte := b\<rparr>) = fields_lt i"
  "fields_lt (i\<lparr>i_opcode := x\<rparr>) = fields_lt i" "fields_lt (i\<lparr>i_disp := d\<rparr>) = fields_lt i"
  "fields_lt (i\<lparr>i_imm0 := d\<rparr>) = fields_lt i" "fields_lt (i\<lparr>i_imm1 := d\<rparr>) = fields_lt i"
  "fields_lt (i\<lparr>i_prefix_values := v\<rparr>) = fields_lt i" "fields_lt (i\<lparr>i_nr_bytes := n\<rparr>) = fields_lt i"
  by (simp_all add: fields_lt_def)

lemma fields_lt_step:
  assumes "fields_lt i" and "opcode_step m ui i p = Inr (Decoded i' g b e opcode q)"
  shows "fields_lt i'"
proof -
  have leaf: "fields_lt i'" if "fields_lt i" "leaf_step ui i g b e q = Inr (Decoded i' g' b' e' opcode q')" for i i' g b e q g' b' e' opcode q'
    using that by (auto simp: leaf_step_def diff_syntax_def Let_def res_bind_Inr_iff split: if_splits)
  have table: "fields_lt i'" if "fields_lt i" "table_step m ui i g b q = Inr (Decoded i' g' b' e' opcode q')" for i i' g b q g' b' e' opcode q'
    using that(2) leaf [of i] leaf [of "decode_modrm_fields (i\<lparr>i_opcode_byte := b, i_flags := decode_tables ! g ! unat b\<rparr>) (m q)"] that(1)
    by (auto simp: table_step_def Let_def fields_lt_modrm split: if_splits)
  show ?thesis using assms by (auto simp: opcode_step_def dest!: table [rotated] split: if_splits)
qed

lemma fields_lt_addr_modes: "decode_modrm_addr_modes i = Inr j \<Longrightarrow> fields_lt i \<Longrightarrow> fields_lt j"
  unfolding decode_modrm_addr_modes_def Let_def by (auto simp only: res_bind_Inr_iff fields_lt_frame sum.inject split: if_splits)

lemma fields_lt_flags:
  assumes "decode_flags m i g b e q = Inr (j, q')" and "fields_lt i"
  shows "fields_lt j"
  using assms
  by (auto simp: decode_flags_def Let_def res_bind_Inr_iff fields_lt_modrm dest!: fields_lt_addr_modes split: if_splits)

lemma fields_lt_sib: "decode_sib_byte i b = Inr j \<Longrightarrow> fields_lt i \<Longrightarrow> fields_lt j"
proof -
  assume d: "decode_sib_byte i b = Inr j" and i: "fields_lt i"
  have "fields_lt (i\<lparr>i_scale := drop_bit 6 (b AND 0xc0), i_idx := drop_bit 3 (b AND 0x38), i_base := b AND 7\<rparr>)"
    by (rule fields_lt_update(2) field_bounds i)+
  with d show "fields_lt j" unfolding decode_sib_byte_def Let_def
    by (auto simp only: res_bind_Inr_iff fields_lt_frame sum.inject split: if_splits)
qed


lemma fields_lt_tail:
  "fields_lt (fst (decode_disp m s)) = fields_lt (fst s)" "fields_lt (fst (decode_moffset m s)) = fields_lt (fst s)"
  "fields_lt (fst (decode_imm m s)) = fields_lt (fst s)" "fields_lt (fst (decode_rel m s)) = fields_lt (fst s)"
  by (simp_all add: decode_disp_def decode_moffset_def decode_imm_def decode_rel_def read_s32_def read_s16_def read_s8_def
    read_u32_def read_u16_def read_u8_def Let_def split: prod.split)

lemma fields_lt_fields:
  assumes "decode_fields m (i, q) = Inr (j, q')" and "fields_lt i"
  shows "fields_lt j"
proof -
  from assms(1) obtain s where
      s: "(if has (i_flags i) SIB then res_bind (decode_sib_byte i (m q)) (\<lambda>i. Inr (i, q + 1)) else Inr (i, q)) = Inr s" and
      j: "(j, q') = tail_fields m (if has (i_flags (fst s)) MEM_DISP_MASK then decode_disp m s else s)"
    unfolding decode_fields_split by (elim res_bind_InrE) simp
  have "fields_lt (fst s)"
    using s assms(2) by (cases "has (i_flags i) SIB") (auto simp: res_bind_Inr_iff dest: fields_lt_sib)
  moreover have "fields_lt (fst (tail_fields m s))" if "fields_lt (fst s)" for s
    using that unfolding tail_fields_def Let_def by (simp add: fields_lt_tail)
  from this [of "if has (i_flags (fst s)) MEM_DISP_MASK then decode_disp m s else s"] calculation show ?thesis
    unfolding j [symmetric] by (simp add: fields_lt_tail split: if_splits)
qed

text \<open>Operands: every register number but a segment register's has three bits.\<close>

definition operand_lt :: "x86_operand \<Rightarrow> bool" where
  "operand_lt operand \<longleftrightarrow> o_type operand = OPTYPE_SEG_REG \<or> unat (o_reg operand) < 8"

lemma operand_lt_if:
  "operand_lt (i_src x) \<Longrightarrow> operand_lt (i_src y) \<Longrightarrow> operand_lt (i_src (if b then x else y))"
  "operand_lt (i_dst x) \<Longrightarrow> operand_lt (i_dst y) \<Longrightarrow> operand_lt (i_dst (if b then x else y))"
  "operand_lt (i_third x) \<Longrightarrow> operand_lt (i_third y) \<Longrightarrow> operand_lt (i_third (if b then x else y))"
  by simp_all

lemma decoded_register:
  assumes "unat (i_rm i) < 8" and "unat (i_reg_opc i) < 8"
  shows "unat (decode_src_reg i) < 8" "unat (decode_dst_reg i) < 8" "unat (decode_src_mem i) < 8" "unat (decode_dst_mem i) < 8"
  using assms field_bounds(1) [of "i_opcode_byte i"]
  by (simp_all add: decode_src_reg_def decode_dst_reg_def decode_src_mem_def decode_dst_mem_def)

lemma operand_lt_decoded:
  assumes "unat (i_rm i) < 8" and "unat (i_reg_opc i) < 8"
  shows "unat (o_reg (i_src i)) < 8 \<Longrightarrow> operand_lt (i_src (decode_src_operand i))"
    and "unat (o_reg (i_dst i)) < 8 \<Longrightarrow> operand_lt (i_dst (decode_dst_operand i))"
    and "unat (o_reg (i_third i)) < 8 \<Longrightarrow> operand_lt (i_third (decode_third_operand i))"
  unfolding decode_src_operand_def decode_dst_operand_def decode_third_operand_def Let_def
  using decoded_register [OF assms] assms
  by (intro operand_lt_if; simp add: operand_lt_def)+

lemma fill_operands_lt:
  assumes "fields_lt i"
  shows "operand_lt (i_src (fill_operands i))" "operand_lt (i_dst (fill_operands i))" "operand_lt (i_third (fill_operands i))"
proof -
  have i: "unat (i_rm i) < 8" "unat (i_reg_opc i) < 8" "unat (o_reg (i_src i)) < 8" "unat (o_reg (i_dst i)) < 8"
    "unat (o_reg (i_third i)) < 8"
    using assms by (simp_all add: fields_lt_def)
  obtain s where s: "decode_src_operand i = i\<lparr>i_src := s\<rparr>" using decode_operand_only(1) unfolding only_src_def by blast
  obtain d where d: "decode_dst_operand (i\<lparr>i_src := s\<rparr>) = i\<lparr>i_src := s, i_dst := d\<rparr>"
    using decode_operand_only(2) [of "i\<lparr>i_src := s\<rparr>"] unfolding only_dst_def by auto
  obtain t where t: "decode_third_operand (i\<lparr>i_src := s, i_dst := d\<rparr>) = i\<lparr>i_src := s, i_dst := d, i_third := t\<rparr>"
    using decode_operand_only(3) [of "i\<lparr>i_src := s, i_dst := d\<rparr>"] unfolding only_third_def by auto
  have fill: "fill_operands i = i\<lparr>i_src := s, i_dst := d, i_third := t\<rparr>" by (simp add: fill_operands_def s d t)
  show "operand_lt (i_src (fill_operands i))" using operand_lt_decoded(1) [OF i(1,2)] i by (simp add: fill s)
  show "operand_lt (i_dst (fill_operands i))"
    using operand_lt_decoded(2) [of "i\<lparr>i_src := s\<rparr>", unfolded d] i by (simp add: fill)
  show "operand_lt (i_third (fill_operands i))"
    using operand_lt_decoded(3) [of "i\<lparr>i_src := s, i_dst := d\<rparr>", unfolded t] i by (simp add: fill)
qed

text \<open>What the disassemblers rely on of a decoded instruction.\<close>

definition printable :: "x86_instr \<Rightarrow> bool" where
  "printable i \<longleftrightarrow> unat (i_base i) < 8 \<and> unat (i_idx i) < 8 \<and> unat (i_scale i) < 4 \<and>
     operand_lt (i_src i) \<and> operand_lt (i_dst i) \<and> operand_lt (i_third i) \<and>
     wf_prefixes (i_prefix_values i) \<and> unat (i_opcode i) < 218"

lemma decoded_printable:
  assumes run: "prefix_run m pc n" and ui: "ui \<in> {0, 1}"
    and dec: "arch_x86_decode_instr m pc ui = Some (Inr (0, i))"
  shows "printable i"
  using run ui
proof (cases rule: decode_run)
  case (no i')
  with dec show ?thesis by simp
next
  case (yes F j k i' g b e q)
  have i: "i = (fill_operands j)\<lparr>i_nr_bytes := of_nat (n + k)\<rparr>" using dec yes(2) by simp
  have vals: "wf_prefixes (i_prefix_values i)" using yes(3,4) by (auto simp: layout_def Let_def i fill_operands_frame)
  define i0 where "i0 = zero_instr\<lparr>i_prefix_values := prefix_values m pc n (replicate 6 0)\<rparr>"
  have "fields_lt i0" by (simp add: i0_def fields_lt_def zero_instr_def zero_operand_def)
  from fields_lt_step [OF this yes(5) [folded i0_def]] have i': "fields_lt i'" .
  have "decode_rest m pc i' g b e (i_opcode j) q = Inr i"
    using dec yes(5) [folded i0_def] loop_from_start [OF run, of ui, folded i0_def]
    by (simp add: arch_x86_decode_instr_def res_bind_Inr_iff)
  then obtain j' q1 q2 i1 where "decode_flags m (i'\<lparr>i_opcode := i_opcode j\<rparr>) g b e q = Inr (i1, q1)"
      "decode_fields m (apply_op_size i1, q1) = Inr (j', q2)" and j': "i = (fill_operands j')\<lparr>i_nr_bytes := q2 - pc\<rparr>"
    by (auto simp: decode_rest_def res_bind_Inr_iff fill_operands_def)
  then have "fields_lt j'"
    using fields_lt_flags [of m "i'\<lparr>i_opcode := i_opcode j\<rparr>"] fields_lt_fields [of m "apply_op_size i1"] i'
    by (auto simp: apply_op_size_def split: if_splits)
  moreover have "unat (i_opcode i) < 218"
    using decoded_flow(1) [OF run ui dec] unfolding flow_class_def uint_nat by linarith
  ultimately show ?thesis
    using vals fill_operands_lt [of j'] by (simp add: printable_def j' fill_operands_frame fields_lt_def)
qed

end
