(* ===== verification/X86_Disasm.thy ===== *)
theory X86_Disasm
  imports X86_Disasm_Intel X86_Disasm_Att X86_Printable
begin

text \<open>
  The x86 disassembler, \<open>arch/x86/x86_disasm.cpp\<close>: the choice of the syntax, and what holds of the
  two disassemblers behind it.
\<close>

section \<open>Dispatch\<close>

definition arch_x86_disasm_func :: "(32 word \<Rightarrow> ram \<Rightarrow> addr \<Rightarrow> nat \<Rightarrow> (int \<times> string) res) list" where
  "arch_x86_disasm_func = [arch_x86_disasm_instr_att, arch_x86_disasm_instr_intel]"

definition arch_x86_disasm_instr :: "32 word \<Rightarrow> ram \<Rightarrow> addr \<Rightarrow> nat \<Rightarrow> (int \<times> string) res" where
  "arch_x86_disasm_instr debug m pc max_line =
     res_bind (nth_res arch_x86_disasm_func (unat (use_intel debug))) (\<lambda>f. f debug m pc max_line)"

text \<open>What follows the decoding, in either syntax.\<close>

definition operands_text :: "32 word \<Rightarrow> addr \<Rightarrow> x86_instr \<Rightarrow> buf res" where
  "operands_text debug pc i = (if use_intel debug = 1 then operands_intel pc i else operands_att pc i)"

definition mnemonic_text :: "32 word \<Rightarrow> x86_instr \<Rightarrow> string" where
  "mnemonic_text debug i = ['''', ''lock ''] ! unat (lock_prefix i) @ ['''', ''repnz '', ''rep ''] ! unat (rep_prefix i) @
     mnemo_x86 ! unat (i_opcode i) @ (if use_intel debug = 1 then '''' else add_instr_suffix i)"

lemma mnemo_x86_length: "length mnemo_x86 = 218"
  by (simp add: mnemo_x86_def mnemo_x86_lo_def mnemo_x86_hi_def)

lemma wf_prefixes_lt:
  assumes "wf_prefixes v"
  shows "unat (v ! 0) < 7" "unat (v ! 1) < 3" "unat (v ! 2) < 2"
proof -
  have le: "v ! k \<le> [6, 2, 1, 1, 1, 1] ! k" if "k < 6" for k
    using assms that by (auto simp: wf_prefixes_def list_all2_conv_all_nth)
  from le [of 0] le [of 1] le [of 2] have "v ! 0 \<le> 6" "v ! 1 \<le> 2" "v ! 2 \<le> 1" by simp_all
  then show "unat (v ! 0) < 7" "unat (v ! 1) < 3" "unat (v ! 2) < 2" by (simp_all add: word_le_nat_alt)
qed

lemma disasm_decoded:
  assumes "arch_x86_decode_instr m pc (use_intel debug) = Some (Inr (0, i))" and "printable i"
  shows "arch_x86_disasm_instr debug m pc max_line =
    res_bind (operands_text debug pc i) (\<lambda>(_, operands).
    Inr (arch_x86_instr_length i, snprintf_text max_line (mnemonic_text debug i @ '' '' @ operands)))"
proof -
  have b: "unat (rep_prefix i) < 3" "unat (lock_prefix i) < 2" "unat (i_opcode i) < 218"
    using assms(2) wf_prefixes_lt by (auto simp: printable_def)
  from use_intel_bit [of debug] consider "use_intel debug = 0" | "use_intel debug = 1" by blast
  then show ?thesis
  proof cases
    case 1
    then show ?thesis using assms(1) b
      by (simp add: arch_x86_disasm_instr_def arch_x86_disasm_func_def arch_x86_disasm_instr_att_def operands_text_def mnemonic_text_def
        lock_names_att_def prefix_names_att_def to_mnemonic_att_def mnemo_x86_length pad_right_def)
  next
    case 2
    then show ?thesis using assms(1) b
      by (simp add: arch_x86_disasm_instr_def arch_x86_disasm_func_def arch_x86_disasm_instr_intel_def operands_text_def mnemonic_text_def
        lock_names_intel_def prefix_names_intel_def to_mnemonic_intel_def mnemo_x86_length)
  qed
qed

lemma disasm_undecoded:
  "arch_x86_decode_instr m pc (use_intel debug) = None \<Longrightarrow> arch_x86_disasm_instr debug m pc max_line = Inl Diverges"
  "arch_x86_decode_instr m pc (use_intel debug) = Some (Inr (- 1, i)) \<Longrightarrow> arch_x86_disasm_instr debug m pc max_line = Inl ExitFailure"
  using use_intel_bit [of debug]
  by (auto simp: arch_x86_disasm_instr_def arch_x86_disasm_func_def arch_x86_disasm_instr_att_def arch_x86_disasm_instr_intel_def)


section \<open>Operands\<close>

text \<open>
  The two values the disassembler cannot print: a segment register number beyond the table of
  names, and the displacement whose absolute value is no \<open>int\<close>.
\<close>

definition operand_safe :: "x86_operand \<Rightarrow> bool" where
  "operand_safe operand \<longleftrightarrow>
     (o_type operand = OPTYPE_SEG_REG \<longrightarrow> unat (o_reg operand) < 6) \<and>
     (o_type operand \<in> {OPTYPE_MOFFSET, OPTYPE_MEM_DISP, OPTYPE_SIB_DISP} \<longrightarrow> o_disp operand \<noteq> 0x80000000)"

lemmas names_intel = byte_reg_names_intel_def word_reg_names_intel_def full_reg_names_intel_def seg_reg_names_intel_def
  cr_reg_names_intel_def dbg_reg_names_intel_def mem_reg_names_16_intel_def mem_reg_names_32_intel_def
  sib_reg_base_names_intel_def sib_reg_idx_names_intel_def sib_scale_names_intel_def seg_override_names_intel_def

lemmas names_att = byte_reg_names_att_def word_reg_names_att_def full_reg_names_att_def seg_reg_names_att_def
  cr_reg_names_att_def dbg_reg_names_att_def mem_reg_names_16_att_def mem_reg_names_32_att_def
  sib_reg_base_names_att_def sib_reg_idx_names_att_def sib_scale_names_att_def seg_override_names_att_def

lemmas print_intel = print_operand_intel_def to_reg_name_intel_def to_mem_reg_name_intel_def to_sib_base_name_intel_def
  to_seg_reg_name_intel_def to_cr_reg_name_intel_def to_dbg_reg_name_intel_def seg_or_ds_def abs_int_def

lemmas print_att = print_operand_att_def to_reg_name_att_def to_mem_reg_name_att_def to_sib_base_name_att_def
  to_seg_reg_name_att_def to_cr_reg_name_att_def to_dbg_reg_name_att_def abs_int_def

lemma name_lengths:
  "length byte_reg_names_intel = 8" "length word_reg_names_intel = 8" "length full_reg_names_intel = 8"
  "length seg_reg_names_intel = 6" "length cr_reg_names_intel = 8" "length dbg_reg_names_intel = 8"
  "length mem_reg_names_16_intel = 8" "length mem_reg_names_32_intel = 8" "length sib_reg_base_names_intel = 8"
  "length sib_reg_idx_names_intel = 8" "length sib_scale_names_intel = 4" "length seg_override_names_intel = 7"
  "length byte_reg_names_att = 8" "length word_reg_names_att = 8" "length full_reg_names_att = 8"
  "length seg_reg_names_att = 6" "length cr_reg_names_att = 8" "length dbg_reg_names_att = 8"
  "length mem_reg_names_16_att = 8" "length mem_reg_names_32_att = 8" "length sib_reg_base_names_att = 8"
  "length sib_reg_idx_names_att = 8" "length sib_scale_names_att = 4" "length seg_override_names_att = 7"
  by (simp_all add: names_intel names_att)

text \<open>\<open>writes p\<close>: the printer \<open>p\<close> writes fixed texts one after the other.\<close>

definition writes :: "(buf \<Rightarrow> buf res) \<Rightarrow> bool" where
  "writes p \<longleftrightarrow> (\<exists>s. \<forall>b. p b = buf_put 32 s b) \<or> (\<exists>s t. \<forall>b. p b = res_bind (buf_put 32 s b) (buf_put 32 t))"

lemma writes_put: "writes (buf_put 32 s)"
  unfolding writes_def by blast

lemma print_intel_writes:
  assumes "printable i" and "operand_lt operand" and "operand_safe operand"
  shows "\<exists>s. print_operand_intel pc i operand = buf_put 32 s"
proof -
  have v: "unat (seg_override i) < 7" "unat (i_base i) < 8" "unat (i_idx i) < 8" "unat (i_scale i) < 4"
    using assms(1) wf_prefixes_lt by (auto simp: printable_def)
  have d: "o_disp operand \<noteq> 0x80000000" if "o_type operand \<in> {OPTYPE_MOFFSET, OPTYPE_MEM_DISP, OPTYPE_SIB_DISP}"
    using assms(3) that unfolding operand_safe_def by blast
  show ?thesis
    using assms(2,3) v d unfolding operand_lt_def operand_safe_def
    by (cases "o_type operand"; cases "rm_key i \<in> set [5, 65542]")
      (force simp: print_intel name_lengths Let_def fun_eq_iff)+
qed

lemma writes_two: "writes (\<lambda>b. res_bind (buf_put 32 s b) (buf_put 32 t))" "writes (\<lambda>b. res_bind (buf_put 32 s b) Inr)"
proof -
  have "res_bind (buf_put 32 s b) Inr = buf_put 32 s b" for b by (cases "buf_put 32 s b") simp_all
  then show "writes (\<lambda>b. res_bind (buf_put 32 s b) Inr)" unfolding writes_def by auto
qed (auto simp: writes_def)

lemma print_att_writes:
  assumes "printable i" and "operand_lt operand" and "operand_safe operand"
  shows "writes (print_operand_att pc i operand)"
proof -
  have v: "unat (seg_override i) < 7" "unat (i_base i) < 8" "unat (i_idx i) < 8" "unat (i_scale i) < 4"
    using assms(1) wf_prefixes_lt by (auto simp: printable_def)
  have d: "o_disp operand \<noteq> 0x80000000" if "o_type operand \<in> {OPTYPE_MOFFSET, OPTYPE_MEM_DISP, OPTYPE_SIB_DISP}"
    using assms(3) that unfolding operand_safe_def by blast
  show ?thesis
    using assms(2,3) v d unfolding operand_lt_def operand_safe_def print_operand_att_def [abs_def]
    by (cases "o_type operand"; cases "rm_key i = 5 \<or> rm_key i = 65542"; cases "addr_size_override i = 0";
        simp add: print_att name_lengths Let_def writes_put writes_two)
qed

lemma put_outcome: "buf_put 32 s b = Inl BufferOverflow \<or> (\<exists>b'. buf_put 32 s b = Inr b')"
  by (cases b) (simp add: buf_put_def)

lemma writes_bind:
  assumes "m = Inl BufferOverflow \<or> (\<exists>b. m = Inr b)" and "\<And>b. f b = Inl BufferOverflow \<or> (\<exists>b'. f b = Inr b')"
  shows "res_bind m f = Inl BufferOverflow \<or> (\<exists>b'. res_bind m f = Inr b')"
  using assms by (cases m) auto

lemma writes_outcome: "writes p \<Longrightarrow> p b = Inl BufferOverflow \<or> (\<exists>b'. p b = Inr b')"
  unfolding writes_def using put_outcome by (metis writes_bind)

definition printed_safe :: "x86_instr \<Rightarrow> bool" where
  "printed_safe i \<longleftrightarrow>
     (has (i_flags i) DST_NONE \<or> operand_safe (i_dst i)) \<and> (has (i_flags i) SRC_NONE \<or> operand_safe (i_src i)) \<and>
     (has (i_flags i) OP3_NONE \<or> operand_safe (i_third i))"

lemma operands_outcome:
  assumes "printable i" and "printed_safe i"
  shows "operands_text debug pc i = Inl BufferOverflow \<or> (\<exists>b. operands_text debug pc i = Inr b)"
proof -
  have intel: "writes (print_operand_intel pc i x)" if "operand_lt x" "operand_safe x" for x
    using print_intel_writes [OF assms(1) that] writes_put by metis
  have lt: "operand_lt (i_src i)" "operand_lt (i_dst i)" "operand_lt (i_third i)" using assms(1) by (simp_all add: printable_def)
  note p = intel [THEN writes_outcome] print_att_writes [OF assms(1), THEN writes_outcome] put_outcome
  have safe: "\<not> has (i_flags i) DST_NONE \<Longrightarrow> operand_safe (i_dst i)" "\<not> has (i_flags i) SRC_NONE \<Longrightarrow> operand_safe (i_src i)"
    "\<not> has (i_flags i) OP3_NONE \<Longrightarrow> operand_safe (i_third i)"
    using assms(2) by (auto simp: printed_safe_def)
  have "operands_intel pc i = Inl BufferOverflow \<or> (\<exists>b. operands_intel pc i = Inr b)"
    unfolding operands_intel_def Let_def by (intro writes_bind) (use p lt safe in auto)
  moreover have "operands_att pc i = Inl BufferOverflow \<or> (\<exists>b. operands_att pc i = Inr b)"
    unfolding operands_att_def Let_def by (intro writes_bind) (use p lt safe in auto)
  ultimately show ?thesis by (simp add: operands_text_def)
qed

section \<open>Texts that fit\<close>

text \<open>\<open>whole w\<close>: the buffer holds as much of the text \<open>w\<close> as fits, and its offset is the length of \<open>w\<close>.\<close>

definition whole :: "string \<Rightarrow> buf" where
  "whole w = (length w, take 31 w)"

lemma whole_Nil: "(0, []) = whole []"
  by (simp add: whole_def)

lemma put_whole: "length w \<le> 32 \<Longrightarrow> buf_put 32 s (whole w) = Inr (whole (w @ s))"
  by (cases "length w = 32") (simp_all add: whole_def buf_put_def)

text \<open>Operands that take at most ten characters.\<close>

definition small_operand :: "x86_operand \<Rightarrow> bool" where
  "small_operand operand \<longleftrightarrow>
     o_type operand \<in> {OPTYPE_IMM, OPTYPE_REL, OPTYPE_REG, OPTYPE_REG8, OPTYPE_SEG_REG, OPTYPE_CR_REG, OPTYPE_DBG_REG}"

lemma hex_0x_length: "length (hex_0x w) \<le> 10"
proof -
  have "unat w < 16 ^ 8" using unsigned_less [of w] by simp
  then have "length (digits_of 16 (unat w)) \<le> 8" by (intro length_digits_of_bound) simp_all
  then show ?thesis by (simp add: hex_0x_def hex_lower_def)
qed

lemma reg_name_lengths:
  "list_all (\<lambda>s. length s \<le> 10) byte_reg_names_intel" "list_all (\<lambda>s. length s \<le> 10) word_reg_names_intel"
  "list_all (\<lambda>s. length s \<le> 10) full_reg_names_intel" "list_all (\<lambda>s. length s \<le> 10) seg_reg_names_intel"
  "list_all (\<lambda>s. length s \<le> 10) cr_reg_names_intel" "list_all (\<lambda>s. length s \<le> 10) dbg_reg_names_intel"
  by (simp_all add: names_intel)

lemma small_text:
  assumes "printable i" and "operand_lt operand" and "operand_safe operand" and "small_operand operand"
  shows "\<exists>s. length s \<le> 10 \<and> print_operand_intel pc i operand = buf_put 32 s"
proof -
  have short: "\<exists>s. length s \<le> 10 \<and> buf_put 32 x = buf_put 32 s" if "length x \<le> 10" for x
    using that by blast
  have name: "length (xs ! k) \<le> 10" if "list_all (\<lambda>s. length s \<le> 10) xs" "k < length xs" for xs :: "string list" and k
    using that by (simp add: list_all_length)
  have "unat (o_reg operand) < 8" using assms(2,3) unfolding operand_lt_def operand_safe_def by auto
  with assms(3,4) show ?thesis
    unfolding operand_safe_def small_operand_def print_operand_intel_def [abs_def]
    by (cases "o_type operand"; simp add: print_intel name_lengths Let_def short hex_0x_length name reg_name_lengths)
qed

lemma print_text:
  assumes "printable i" and "operand_lt operand"
  shows "\<exists>s. operand_safe operand \<longrightarrow>
    print_operand_intel pc i operand = buf_put 32 s \<and> (small_operand operand \<longrightarrow> length s \<le> 10)"
  using small_text [OF assms] print_intel_writes [OF assms] by metis

section \<open>Lines\<close>

lemma decode_direct:
  assumes "\<not> legacy_prefix (m pc)"
  shows "arch_x86_decode_instr m pc ui =
    Some (res_bind (opcode_step m ui (zero_instr\<lparr>i_prefix_values := replicate 6 0\<rparr>) pc) (\<lambda>x. case x of
      Undecodable i \<Rightarrow> Inr (-1, i)
    | Decoded i g b e opcode q \<Rightarrow> res_bind (decode_rest m pc i g b e opcode q) (\<lambda>i. Inr (0, i))))"
  using assms loop_from_start [of m pc 0 ui] by (simp add: arch_x86_decode_instr_def)

text \<open>The faults of printing: none of them leaves the process or runs forever.\<close>

definition print_faults :: "'a res \<Rightarrow> bool" where
  "print_faults r \<longleftrightarrow> (\<forall>e. r = Inl e \<longrightarrow> e \<in> {OutOfBounds, SignedOverflow, BufferOverflow})"

lemma print_faults_rules:
  "print_faults (Inr x)" "print_faults (Inl SignedOverflow)" "print_faults (nth_res xs k)" "print_faults (abs_int d)" "print_faults (buf_put cap s b)"
  "print_faults r \<Longrightarrow> (\<And>x. print_faults (f x)) \<Longrightarrow> print_faults (res_bind r f)"
  "print_faults r \<Longrightarrow> print_faults r' \<Longrightarrow> print_faults (if c then r else r')"
  unfolding print_faults_def
  by (cases b; cases r; auto simp: nth_res_def abs_int_def buf_put_def)+

lemma print_operand_faults: "print_faults (print_operand_intel pc i operand b)" "print_faults (print_operand_att pc i operand b)"
  by (cases "o_type operand"; simp only: print_intel print_att Let_def x86_operand_type.case; intro print_faults_rules)+

lemma operands_faults: "print_faults (operands_text debug pc i)"
  unfolding operands_text_def operands_intel_def operands_att_def Let_def
  by (intro print_faults_rules print_operand_faults)

lemma disasm_outcome:
  assumes "prefix_run m pc n"
  obtains (no) i where "arch_x86_decode_instr m pc (use_intel debug) = Some (Inr (- 1, i))"
      and "arch_x86_tag_instr debug m pc = Inr (- 1, no_vars)"
  | (yes) i v where "arch_x86_decode_instr m pc (use_intel debug) = Some (Inr (0, i))" and "printable i"
      and "arch_x86_tag_instr debug m pc = Inr (arch_x86_instr_length i, v)" and "tag_contract v" and "x86_code m pc"
proof (cases "decodable m (pc + of_nat n)")
  case True
  from assms use_intel_bit [of debug] obtain i where i: "arch_x86_decode_instr m pc (use_intel debug) = Some (Inr (0, i))"
    using True by (cases rule: decode_run) auto
  obtain t new where "tag_switch i (pc + word_of_int (arch_x86_instr_length i) + scast (i_imm0 i)) = (t, new)" by fastforce
  from tag_instr_decoded [OF i this] obtain v where v: "arch_x86_tag_instr debug m pc = Inr (arch_x86_instr_length i, v)" by blast
  with tag_instr_outcome [OF assms, of debug] True have "tag_contract v" by simp
  with yes i v decoded_printable [OF assms use_intel_bit i] assms True show thesis by (auto simp: x86_code_def)
next
  case False
  from assms use_intel_bit [of debug] obtain i where i: "arch_x86_decode_instr m pc (use_intel debug) = Some (Inr (- 1, i))"
    using False by (cases rule: decode_run) auto
  then show thesis by (intro no) (simp_all add: arch_x86_tag_instr_def)
qed

section \<open>Properties\<close>

text \<open>
  C32. The disassembler and the tagger agree: where the one prints a line, the other tags the
  instruction, and both give it the same length; the disassembler leaves the process exactly where
  the tagger reports an instruction it cannot decode.
\<close>

theorem x86_disasm_agrees:
  "case arch_x86_disasm_instr debug m pc max_line of
     Inr (len, line) \<Rightarrow> \<exists>v. arch_x86_tag_instr debug m pc = Inr (len, v) \<and> tag_contract v
   | Inl e \<Rightarrow> (e = ExitFailure \<longleftrightarrow> arch_x86_tag_instr debug m pc = Inr (- 1, no_vars)) \<and>
       (e = Diverges \<longleftrightarrow> arch_x86_tag_instr debug m pc = Inl Diverges)"
proof (cases "\<exists>n. prefix_run m pc n")
  case False
  then have "legacy_prefix (m (pc + of_nat n))" for n
    using prefix_run_exists [where m = m and pc = pc and n = n] by blast
  from decode_diverges [where m = m and pc = pc, OF this] show ?thesis
    by (simp add: disasm_undecoded(1) arch_x86_tag_instr_def)
next
  case True
  then obtain n where "prefix_run m pc n" ..
  then show ?thesis
  proof (cases rule: disasm_outcome [where debug = debug])
    case (no i)
    then show ?thesis by (simp add: disasm_undecoded(2))
  next
    case (yes i v)
    from \<open>tag_contract v\<close> have "v \<noteq> no_vars" by (auto simp: tag_contract_def no_vars_def)
    then show ?thesis
      using yes operands_faults [of debug pc i] unfolding disasm_decoded [OF yes(1,2)] print_faults_def
      by (cases "operands_text debug pc i") auto
  qed
qed

text \<open>
  C33. For an instruction that decodes, in either syntax, only three things can go wrong, each of
  them undefined behaviour: a segment register number of 6 or 7, a displacement of \<open>INT_MIN\<close>, or
  an operand text longer than the buffer. Without the first two only the third remains.
\<close>

theorem x86_disasm_faults:
  assumes "arch_x86_decode_instr m pc (use_intel debug) = Some (Inr (0, i))" and "x86_code m pc"
  shows "case arch_x86_disasm_instr debug m pc max_line of
     Inr (len, line) \<Rightarrow> len = arch_x86_instr_length i
   | Inl e \<Rightarrow> e \<in> (if printed_safe i then {BufferOverflow} else {OutOfBounds, SignedOverflow, BufferOverflow})"
proof -
  obtain n where "prefix_run m pc n" using assms(2) by (auto simp: x86_code_def)
  note p = decoded_printable [OF this use_intel_bit assms(1)]
  show ?thesis
    using operands_faults [of debug pc i] operands_outcome [OF p, of debug pc]
    unfolding disasm_decoded [OF assms(1) p] print_faults_def
    by (cases "operands_text debug pc i") auto
qed


definition mov_sib :: ram where
  "mov_sib a = [0x89, 0x84, 0x91, 0x78, 0x56, 0x34, 0x12] ! unat a"

lemma mov_sib_decoded:
  "\<exists>i. arch_x86_decode_instr mov_sib 0 1 = Some (Inr (0, i)) \<and> i_flags i = ADDRMOD_REG_RM OR WIDTH_DWORD OR DST_MEM_DISP_DWORD OR SIB \<and>
     i_opcode i = X86_OPC_MOV \<and> i_opcode_byte i = 0x89 \<and> i_mod i = 2 \<and> i_base i = 1 \<and> i_idx i = 2 \<and> i_scale i = 2 \<and>
     i_prefix_values i = replicate 6 0 \<and> o_type (i_dst i) = OPTYPE_SIB_DISP \<and> o_disp (i_dst i) = 0x12345678 \<and>
     o_type (i_src i) = OPTYPE_REG \<and> o_reg (i_src i) = 0"
proof -
  have "\<not> legacy_prefix (mov_sib 0)" by (simp add: mov_sib_def legacy_prefix_def legacy_prefixes_def)
  from decode_direct [where m = mov_sib and pc = 0 and ui = 1, OF this] show ?thesis
    by (simp add: mov_sib_def decode_eval entry_89 decode_src_operand_def decode_dst_operand_def decode_third_operand_def
      decode_src_reg_def decode_dst_reg_def)
qed



lemma mov_sib_code: "x86_code mov_sib 0"
proof -
  have "prefix_run mov_sib 0 0" by (simp add: mov_sib_def legacy_prefix_def legacy_prefixes_def)
  moreover have "decodable mov_sib 0"
    by (simp add: decodable_def opcode_entry_def mov_sib_def entry_89 is_leaf_entry_def is_group_entry_def GET_FIELD_def)
  ultimately show ?thesis unfolding x86_code_def by (intro exI [of _ 0]) simp
qed

lemma intel_flag: "use_intel CPU_DEBUG_INTEL_SYNTAX = 1"
  by (simp add: use_intel_def)


definition mov_ebp :: ram where
  "mov_ebp a = [0x8B, 0x44, 0x8D, 0x08] ! unat a"

lemma entry_8B: "decode_table_one ! 0x8B = X86_OPC_MOV OR ADDRMOD_RM_REG OR WIDTH_DWORD"
  by (simp add: decode_table_one_def decode_table_one_lo_def decode_table_one_hi_def nth_append)

lemma mov_ebp_decoded:
  assumes "ui = 0 \<or> ui = 1"
  shows "\<exists>i. arch_x86_decode_instr mov_ebp 0 ui = Some (Inr (0, i)) \<and> i_flags i = ADDRMOD_RM_REG OR WIDTH_DWORD OR SRC_MEM_DISP_BYTE OR SIB \<and>
     i_opcode i = X86_OPC_MOV \<and> i_opcode_byte i = 0x8B \<and> i_mod i = 1 \<and> i_base i = 5 \<and> i_idx i = 1 \<and> i_scale i = 2 \<and>
     i_prefix_values i = replicate 6 0 \<and> i_nr_bytes i = 4 \<and> o_type (i_src i) = OPTYPE_SIB_DISP \<and> o_disp (i_src i) = 8 \<and>
     o_type (i_dst i) = OPTYPE_REG \<and> o_reg (i_dst i) = 0"
proof -
  have "\<not> legacy_prefix (mov_ebp 0)" by (simp add: mov_ebp_def legacy_prefix_def legacy_prefixes_def)
  from decode_direct [where m = mov_ebp and pc = 0 and ui = ui, OF this] show ?thesis
    by (simp add: mov_ebp_def decode_eval entry_8B decode_src_operand_def decode_dst_operand_def decode_third_operand_def
      decode_src_reg_def decode_dst_reg_def)
qed

lemma mov_ebp_run: "prefix_run mov_ebp 0 0"
  by (simp add: mov_ebp_def legacy_prefix_def legacy_prefixes_def)


section \<open>Witnesses\<close>

lemma mov_ebp_code: "x86_code mov_ebp 0"
proof -
  have "decodable mov_ebp 0"
    by (simp add: decodable_def opcode_entry_def mov_ebp_def entry_8B is_leaf_entry_def is_group_entry_def GET_FIELD_def)
  then show ?thesis using mov_ebp_run unfolding x86_code_def by (intro exI [of _ 0]) simp
qed

theorem x86_disasm_faults_witness:
  "case arch_x86_disasm_instr CPU_DEBUG_INTEL_SYNTAX mov_sib 0 80 of Inr _ \<Rightarrow> True | Inl e \<Rightarrow> e = BufferOverflow"
proof -
  obtain i where i: "arch_x86_decode_instr mov_sib 0 (use_intel CPU_DEBUG_INTEL_SYNTAX) = Some (Inr (0, i))"
      "i_flags i = ADDRMOD_REG_RM OR WIDTH_DWORD OR DST_MEM_DISP_DWORD OR SIB" 
      "o_type (i_dst i) = OPTYPE_SIB_DISP" "o_disp (i_dst i) = 0x12345678" "o_type (i_src i) = OPTYPE_REG"
    using mov_sib_decoded intel_flag by auto
  then have "printed_safe i" by (simp add: printed_safe_def operand_safe_def has_def)
  with x86_disasm_faults [OF i(1) mov_sib_code, of 80] show ?thesis by (auto split: sum.splits)
qed


end
