(* ===== verification/Spec2Isabelle.thy ===== *)
theory Spec2Isabelle
  imports Stepping M6502_Typed Fapra_Single X86_Disasm
begin

text \<open>
  libcpu: a library that runs foreign machine code by translating it.
\<close>

section \<open>Properties that span components\<close>

text \<open>
  C21. The 6502 frontend decodes every byte, so code discovery on 6502 code never faults: from
  a state with nothing tagged it ends, in a state whose code is exactly what the flow of the
  program reaches inside the code area.
\<close>

theorem m6502_search:
  assumes "wf_tags c" and "full_search c" and "code_set c = {}"
  shows "res_ok (\<lambda>d. code_set d = {a \<in> flow_reach (arch_6502_tag_instr m) c pc. is_inside_code_area c a})
    (tag_recursive (arch_6502_tag_instr m) level pc c)"
proof -
  have "code_closed (arch_6502_tag_instr m) c" using assms(3) by (simp add: code_closed_def)
  from tag_recursive_code [OF assms(1) m6502.decodes_everywhere assms(2) this]
  show ?thesis by (rule res_ok_mono) (simp_all add: assms(3))
qed

theorem m6502_search_witness:
  "res_ok (\<lambda>d. 2 \<in> code_set d) (tag_recursive (arch_6502_tag_instr (\<lambda>_. 0x60)) 0 2 (area_cpu 4 (\<lambda>_. 0x60)))"
  by (rule res_ok_mono [OF m6502_search [OF area_cpu_wf area_cpu_closed(2) area_cpu_code]]) simp

text \<open>
  C30. On x86 code whose control flow stays within what the decoder accepts, code discovery ends
  without a fault, in a state whose code is exactly what the flow reaches inside the code area.
\<close>

theorem x86_search:
  assumes "wf_tags c" and "full_search c" and "code_set c = {}"
    and "\<not> has (flags_hint c) CPU_HINT_TRAP_RETURNS_TWICE"
    and "\<And>a. a \<in> flow_reach (arch_x86_tag_instr debug m) c pc \<Longrightarrow> is_inside_code_area c a \<Longrightarrow> x86_code m a"
  shows "res_ok (\<lambda>d. code_set d = {a \<in> flow_reach (arch_x86_tag_instr debug m) c pc. is_inside_code_area c a})
    (tag_recursive (arch_x86_tag_instr debug m) level pc c)"
proof -
  have "code_closed (arch_x86_tag_instr debug m) c" using assms(3) by (simp add: code_closed_def)
  moreover have "decodes_from (arch_x86_tag_instr debug m) c pc"
    using assms(5,4) by (rule x86.decodes_reached)
  ultimately have "res_ok (\<lambda>d. code_set d = code_set c \<union>
      {a \<in> flow_reach (arch_x86_tag_instr debug m) c pc. is_inside_code_area c a} \<and>
      code_closed (arch_x86_tag_instr debug m) d) (tag_recursive (arch_x86_tag_instr debug m) level pc c)"
    by (intro tag_recursive_code assms(1,2))
  then show ?thesis by (rule res_ok_mono) (simp add: assms(3))
qed

theorem x86_search_witness:
  "res_ok (\<lambda>d. 2 \<in> code_set d) (tag_recursive (arch_x86_tag_instr 0 (\<lambda>_. 0x89)) 0 2 (area_cpu 4 (\<lambda>_. 0x89)))"
proof -
  have "x86_code (\<lambda>_. 0x89) a" for a
    unfolding x86_code_def using run_89 decodable_89 by (intro exI [of _ 0] conjI) auto
  from x86_search [OF area_cpu_wf area_cpu_closed(2) area_cpu_code _ this, of 4 "\<lambda>_. 0x89" 0 2 0]
  show ?thesis by (rule res_ok_mono) simp_all
qed

text \<open>
  C31. On x86 bytes the decoder rejects, the search reads the tag the frontend has not written; on
  memory that holds nothing but prefix bytes it never returns.
\<close>

theorem x86_search_undecodable:
  assumes "is_inside_code_area c pc" and "is_code c pc = Inr False" and "\<not> limit_reached c level"
    and "\<not> x86_code m pc"
  shows "tag_recursive (arch_x86_tag_instr debug m) level pc c =
    Inl (if \<exists>n. \<not> legacy_prefix (m (pc + of_nat n)) then Indeterminate else Diverges)"
proof (cases "\<exists>n. prefix_run m pc n")
  case True
  then obtain n where n: "prefix_run m pc n" ..
  with assms(4) have "\<not> decodable m (pc + of_nat n)" by (auto simp: x86_code_def)
  with tag_instr_outcome [OF n] have "arch_x86_tag_instr debug m pc = Inr (- 1, no_vars)"
    by (auto elim!: res_okE)
  then have "tag_loop (arch_x86_tag_instr debug m) level no_vars pc c = Inl Indeterminate"
    using assms(1,2) by (simp add: tag_loop.simps [of _ level no_vars pc c] assign_outs_def) (simp add: no_vars_def)
  then show ?thesis using assms(3) prefix_run_end [OF n] by (auto simp: tag_recursive_def)
next
  case False
  then have p: "legacy_prefix (m (pc + of_nat n))" for n using prefix_run_exists [where m = m and pc = pc and n = n] by blast
  with decode_diverges [where m = m and pc = pc, OF p] have "arch_x86_tag_instr debug m pc = Inl Diverges"
    by (simp add: arch_x86_tag_instr_def)
  then show ?thesis using assms(1-3) p by (simp add: tag_recursive_def tag_loop.simps [of _ level no_vars pc c])
qed

theorem x86_search_undecodable_witness:
  "tag_recursive (arch_x86_tag_instr 0 (\<lambda>_. 0x66)) 0 2 (area_cpu 4 (\<lambda>_. 0x66)) = Inl Diverges"
proof -
  have p: "legacy_prefix 0x66" by (simp add: legacy_prefix_def legacy_prefixes_def)
  have "\<not> prefix_run (\<lambda>_. 0x66) pc n" for pc n
    using prefix_run_end [of "\<lambda>_. 0x66" pc n] p by blast
  then have "\<not> x86_code (\<lambda>_. 0x66) 2" by (simp add: x86_code_def)
  from x86_search_undecodable [OF _ _ _ this, of "area_cpu 4 (\<lambda>_. 0x66)" 0 0] show ?thesis
    using p by (simp add: is_code_def get_tag_def limit_reached_def nth_res_def)
qed

text \<open>
  C38. On FAPRA code whose control flow stays within the instructions the frontend knows, code
  discovery ends without a fault, in a state whose code is exactly what the flow reaches inside
  the code area. The flow ends at \<open>jmp\<close>, which is tagged as a return.
\<close>

theorem fapra_search:
  assumes "wf_tags c" and "full_search c" and "code_set c = {}"
    and "\<And>a. a \<in> flow_reach (arch_fapra_tag_instr m) c pc \<Longrightarrow> is_inside_code_area c a \<Longrightarrow> fapra_code m a"
  shows "res_ok (\<lambda>d. code_set d = {a \<in> flow_reach (arch_fapra_tag_instr m) c pc. is_inside_code_area c a})
    (tag_recursive (arch_fapra_tag_instr m) level pc c)"
proof -
  have "frontend_ok (arch_fapra_tag_instr m) (flags_hint c) a" if "fapra_code m a" for a
    using arch_fapra_contract [OF that] unfolding frontend_ok_def trap_twice_def
    by (rule res_ok_mono) (auto simp: arch_fapra_tag_instr_def bits split: option.splits if_splits)
  then have "decodes_from (arch_fapra_tag_instr m) c pc" using assms(4) by (simp add: decodes_from_def)
  moreover have "code_closed (arch_fapra_tag_instr m) c" using assms(3) by (simp add: code_closed_def)
  ultimately have "res_ok (\<lambda>d. code_set d = code_set c \<union>
      {a \<in> flow_reach (arch_fapra_tag_instr m) c pc. is_inside_code_area c a} \<and>
      code_closed (arch_fapra_tag_instr m) d) (tag_recursive (arch_fapra_tag_instr m) level pc c)"
    by (intro tag_recursive_code assms(1,2))
  then show ?thesis by (rule res_ok_mono) (simp add: assms(3))
qed

theorem fapra_search_witness:
  "res_ok (\<lambda>d. 2 \<in> code_set d) (tag_recursive (arch_fapra_tag_instr (\<lambda>_. 0)) 0 2 (area_cpu 4 (\<lambda>_. 0)))"
proof -
  have "fapra_code (\<lambda>_. 0) a" for a by (simp add: fapra_code_def zero_ins)
  from fapra_search [OF area_cpu_wf area_cpu_closed(2) area_cpu_code this, of 4 "\<lambda>_. 0" 2 0]
  show ?thesis by (rule res_ok_mono) simp_all
qed

end
